(* ===== verification/Prelude.thy ===== *)
theory Prelude
  imports Complex_Main
    "HOL-Library.List_Lexorder" "HOL-Library.Char_ord" "HOL-Library.Product_Lexorder"
begin

text \<open>
  Shared vocabulary of the development: the JavaScript string and number primitives the
  TypeScript sources call (\<open>trim\<close>, \<open>startsWith\<close>, \<open>includes\<close>,
  \<open>toLowerCase\<close>, \<open>padStart(2, "0")\<close>, \<open>parseInt(_, 10)\<close>,
  \<open>Number.prototype.toString\<close>, \<open>split(c)[0]\<close>), the bind of the result type
  \<open>'e + 'a\<close> (an exception thrown by an \<open>await\<close> is \<open>Inl\<close>) and of the
  state-and-exception actions \<open>'s \<Rightarrow> 's \<times> ('e + 'a)\<close> that thread the browser
  through the portal automation, and the generic lemmas on them.

  Strings are \<^typ>\<open>string\<close> (lists of 8-bit characters); the portal's text is ASCII in
  every place the code inspects it, and the whitespace class \<open>\s\<close> of JavaScript regular
  expressions and of \<open>trim\<close> is modelled by its ASCII members (tab, line feed, vertical
  tab, form feed, carriage return, space).
\<close>

named_theorems js_simps "evaluation rules of the modelled JavaScript primitives"
named_theorems act_simps "unfolding rules of the state-and-exception actions"

type_synonym url = string

section \<open>Characters and decimal numerals\<close>

definition js_space :: "char \<Rightarrow> bool" where
  "js_space c \<longleftrightarrow> of_char c \<in> {9, 10, 11, 12, 13, 32 :: nat}"

definition is_digit :: "char \<Rightarrow> bool" where
  "is_digit c \<longleftrightarrow> CHR ''0'' \<le> c \<and> c \<le> CHR ''9''"

definition digit_val :: "char \<Rightarrow> nat" where
  "digit_val c = of_char c - 48"

definition digit_char :: "nat \<Rightarrow> char" where
  "digit_char d = ''0123456789'' ! d"

text \<open>\<open>n.toString()\<close> for a non-negative integer \<open>n\<close>.\<close>

fun show_nat :: "nat \<Rightarrow> string" where
  "show_nat n =
     (if n < 10 then [digit_char n] else show_nat (n div 10) @ [digit_char (n mod 10)])"

declare show_nat.simps [simp del]

text \<open>
  \<open>parseInt(s, 10)\<close> on a string of decimal digits (the only strings the code passes
  to it are matched by \<open>\d\<close> groups of a regular expression).
\<close>

definition digits_value :: "string \<Rightarrow> nat" where
  "digits_value s = foldl (\<lambda>acc c. 10 * acc + digit_val c) 0 s"

definition all_digits :: "string \<Rightarrow> bool" where
  "all_digits s \<longleftrightarrow> (\<forall>c \<in> set s. is_digit c)"

section \<open>String primitives\<close>

text \<open>\<open>s.trim()\<close>\<close>

definition js_trim :: "string \<Rightarrow> string" where
  "js_trim s = rev (dropWhile js_space (rev (dropWhile js_space s)))"

text \<open>\<open>s.startsWith(p)\<close>\<close>

fun starts_with :: "string \<Rightarrow> string \<Rightarrow> bool" where
  "starts_with s [] = True"
| "starts_with [] (p # ps) = False"
| "starts_with (c # cs) (p # ps) = (c = p \<and> starts_with cs ps)"

text \<open>\<open>s.includes(t)\<close>\<close>

fun str_includes :: "string \<Rightarrow> string \<Rightarrow> bool" where
  "str_includes [] t = (t = [])"
| "str_includes (c # cs) t = (starts_with (c # cs) t \<or> str_includes cs t)"

text \<open>\<open>s.toLowerCase()\<close> and \<open>s.toUpperCase()\<close> on ASCII letters.\<close>

definition lower_char :: "char \<Rightarrow> char" where
  "lower_char c =
     (if CHR ''A'' \<le> c \<and> c \<le> CHR ''Z'' then ''abcdefghijklmnopqrstuvwxyz'' ! (of_char c - 65)
      else c)"

definition js_lower :: "string \<Rightarrow> string" where
  "js_lower s = map lower_char s"

text \<open>\<open>s.padStart(2, "0")\<close>\<close>

definition pad2 :: "string \<Rightarrow> string" where
  "pad2 s = replicate (2 - length s) (CHR ''0'') @ s"

text \<open>\<open>s.split(c)[0]\<close>: the part before the first \<open>c\<close>.\<close>

definition before_char :: "char \<Rightarrow> string \<Rightarrow> string" where
  "before_char c s = takeWhile (\<lambda>x. x \<noteq> c) s"

section \<open>Results and actions\<close>

text \<open>Sequencing of fallible computations: the first \<open>Inl\<close> is propagated, as a throw.\<close>

definition ebind :: "'e + 'a \<Rightarrow> ('a \<Rightarrow> 'e + 'b) \<Rightarrow> 'e + 'b" where
  "ebind r f = (case r of Inl e \<Rightarrow> Inl e | Inr a \<Rightarrow> f a)"

type_synonym ('s, 'e, 'a) act = "'s \<Rightarrow> 's \<times> ('e + 'a)"

definition areturn :: "'a \<Rightarrow> ('s, 'e, 'a) act" where
  "areturn a s = (s, Inr a)"

definition athrow :: "'e \<Rightarrow> ('s, 'e, 'a) act" where
  "athrow e s = (s, Inl e)"

text \<open>\<open>await m; k\<close>: a throw in \<open>m\<close> skips \<open>k\<close> but keeps the state \<open>m\<close> reached.\<close>

definition abind :: "('s, 'e, 'a) act \<Rightarrow> ('a \<Rightarrow> ('s, 'e, 'b) act) \<Rightarrow> ('s, 'e, 'b) act" where
  "abind m k s = (case m s of (s', Inl e) \<Rightarrow> (s', Inl e) | (s', Inr a) \<Rightarrow> k a s')"

text \<open>\<open>await m.catch(h)\<close>\<close>

definition acatch :: "('s, 'e, 'a) act \<Rightarrow> ('e \<Rightarrow> ('s, 'e, 'a) act) \<Rightarrow> ('s, 'e, 'a) act" where
  "acatch m h s = (case m s of (s', Inl e) \<Rightarrow> h e s' | (s', Inr a) \<Rightarrow> (s', Inr a))"

text \<open>
  A property of the state kept by every action of a sequence is kept by the sequence:
  the frame rule the teardown and log lemmas of the components use.
\<close>

text \<open>
  \<open>try { m } finally { c }\<close>: the cleanup runs on every path; an exception it throws
  replaces the result, else the result of \<open>m\<close> stands.
\<close>

definition afinally :: "('s, 'e, 'a) act \<Rightarrow> ('s, 'e, unit) act \<Rightarrow> ('s, 'e, 'a) act" where
  "afinally m c s =
     (case m s of (s1, r) \<Rightarrow> (case c s1 of (s2, Inl e) \<Rightarrow> (s2, Inl e) | (s2, Inr _) \<Rightarrow> (s2, r)))"

definition keeps :: "('s \<Rightarrow> bool) \<Rightarrow> ('s, 'e, 'a) act \<Rightarrow> bool" where
  "keeps P m \<longleftrightarrow> (\<forall>s. P s \<longrightarrow> P (fst (m s)))"

text \<open>Every normal result of an action satisfies \<open>Q\<close> (a throw promises nothing).\<close>

definition yields :: "('s, 'e, 'a) act \<Rightarrow> ('a \<Rightarrow> bool) \<Rightarrow> bool" where
  "yields m Q \<longleftrightarrow> (\<forall>s s' a. m s = (s', Inr a) \<longrightarrow> Q a)"

text \<open>
  An action that only appends to a log of the state (\<open>lg\<close>: the navigations of a
  browser), at most \<open>k\<close> entries, whatever happens: the cost bound of an operation.
\<close>

definition log_bound :: "('s \<Rightarrow> 'x list) \<Rightarrow> nat \<Rightarrow> ('s, 'e, 'a) act \<Rightarrow> bool" where
  "log_bound lg k m \<longleftrightarrow> (\<forall>s. \<exists>new. lg (fst (m s)) = lg s @ new \<and> length new \<le> k)"

section \<open>Lemmas on results and actions\<close>

lemma ebind_simps [simp, js_simps]:
  "ebind (Inl e) f = Inl e"
  "ebind (Inr a) f = f a"
  by (simp_all add: ebind_def)

lemma ebind_Inr_iff:
  "ebind r f = Inr b \<longleftrightarrow> (\<exists>a. r = Inr a \<and> f a = Inr b)"
  by (cases r) simp_all

lemma areturn_apply [simp, act_simps]: "areturn a s = (s, Inr a)"
  by (simp add: areturn_def)

lemma athrow_apply [simp, act_simps]: "athrow e s = (s, Inl e)"
  by (simp add: athrow_def)

lemma abind_areturn [simp, act_simps]: "abind (areturn a) k = k a"
  by (rule ext) (simp add: abind_def)

lemma abind_athrow [simp, act_simps]: "abind (athrow e) k = athrow e"
  by (rule ext) (simp add: abind_def)

lemma abind_apply [act_simps]:
  "abind m k s = (case m s of (s', Inl e) \<Rightarrow> (s', Inl e) | (s', Inr a) \<Rightarrow> k a s')"
  by (simp add: abind_def)

lemma acatch_apply [act_simps]:
  "acatch m h s = (case m s of (s', Inl e) \<Rightarrow> h e s' | (s', Inr a) \<Rightarrow> (s', Inr a))"
  by (simp add: acatch_def)

lemma abind_result:
  "abind m k s = (s', r) \<longleftrightarrow>
     (\<exists>e. m s = (s', Inl e) \<and> r = Inl e) \<or> (\<exists>s1 a. m s = (s1, Inr a) \<and> k a s1 = (s', r))"
  by (auto simp: abind_def split: prod.splits sum.splits)

lemma afinally_state: "fst (afinally m c s) = fst (c (fst (m s)))"
  by (simp add: afinally_def split: prod.splits sum.splits)

lemma afinally_result:
  "snd (c (fst (m s))) = Inr u \<Longrightarrow> snd (afinally m c s) = snd (m s)"
  by (cases "m s", cases "c (fst (m s))") (auto simp: afinally_def split: sum.splits)

lemma keeps_areturn [intro, simp]: "keeps P (areturn a)"
  by (simp add: keeps_def)

lemma keeps_athrow [intro, simp]: "keeps P (athrow e)"
  by (simp add: keeps_def)

lemma keeps_abind [intro]:
  "keeps P m \<Longrightarrow> (\<And>a. keeps P (k a)) \<Longrightarrow> keeps P (abind m k)"
  unfolding keeps_def abind_def by (auto split: prod.splits sum.splits)

lemma keeps_acatch [intro]:
  "keeps P m \<Longrightarrow> (\<And>e. keeps P (h e)) \<Longrightarrow> keeps P (acatch m h)"
  unfolding keeps_def acatch_def by (auto split: prod.splits sum.splits)

lemma keeps_if [intro]:
  "keeps P m \<Longrightarrow> keeps P n \<Longrightarrow> keeps P (if b then m else n)"
  by simp

lemma yields_areturn [intro]: "Q a \<Longrightarrow> yields (areturn a) Q"
  by (simp add: yields_def)

lemma yields_athrow [intro, simp]: "yields (athrow e) Q"
  by (simp add: yields_def)

lemma yields_abind [intro]:
  "yields m P \<Longrightarrow> (\<And>a. P a \<Longrightarrow> yields (k a) Q) \<Longrightarrow> yields (abind m k) Q"
  unfolding yields_def abind_def by (fastforce split: prod.splits sum.splits)

lemma yields_abind_any [intro]:
  "(\<And>a. yields (k a) Q) \<Longrightarrow> yields (abind m k) Q"
  unfolding yields_def abind_def by (fastforce split: prod.splits sum.splits)

lemma yields_acatch [intro]:
  "yields m Q \<Longrightarrow> (\<And>e. yields (h e) Q) \<Longrightarrow> yields (acatch m h) Q"
  unfolding yields_def acatch_def by (fastforce split: prod.splits sum.splits)

lemma yields_if [intro]: "yields m Q \<Longrightarrow> yields n Q \<Longrightarrow> yields (if c then m else n) Q"
  by simp

lemma yieldsD: "yields m Q \<Longrightarrow> m s = (s', Inr a) \<Longrightarrow> Q a"
  unfolding yields_def by blast

lemma keepsD: "keeps P m \<Longrightarrow> P s \<Longrightarrow> m s = (s', r) \<Longrightarrow> P s'"
  unfolding keeps_def by (metis fst_conv)

lemma log_bound_areturn [intro, simp]: "log_bound lg k (areturn a)"
  by (simp add: log_bound_def)

lemma log_bound_athrow [intro, simp]: "log_bound lg k (athrow e)"
  by (simp add: log_bound_def)

lemma log_bound_return [simp]: "log_bound lg k (\<lambda>s. (s, Inr a))"
  by (simp add: log_bound_def)

lemma log_bound_mono: "log_bound lg k m \<Longrightarrow> k \<le> l \<Longrightarrow> log_bound lg l m"
  unfolding log_bound_def by (meson order_trans)

lemma log_bound_if [intro]: "log_bound lg k m \<Longrightarrow> log_bound lg k n \<Longrightarrow> log_bound lg k (if c then m else n)"
  by simp

lemma log_bound_abind [intro]:
  assumes "log_bound lg k m" "\<And>a. log_bound lg l (f a)" "k + l \<le> n"
  shows "log_bound lg n (abind m f)"
  unfolding log_bound_def
proof
  fix s
  obtain s1 r where m: "m s = (s1, r)" by (cases "m s")
  obtain new where n1: "lg s1 = lg s @ new" "length new \<le> k"
    using assms(1) m unfolding log_bound_def by (metis fst_conv)
  show "\<exists>new. lg (fst (abind m f s)) = lg s @ new \<and> length new \<le> n"
  proof (cases r)
    case (Inl e)
    with m n1 assms(3) show ?thesis by (auto simp: abind_def)
  next
    case (Inr a)
    obtain new' where "lg (fst (f a s1)) = lg s1 @ new'" "length new' \<le> l"
      using assms(2) unfolding log_bound_def by blast
    with m n1 Inr assms(3) show ?thesis by (auto simp: abind_def intro!: exI [of _ "new @ new'"])
  qed
qed

lemma log_bound_abind0:
  "log_bound lg 0 m \<Longrightarrow> (\<And>a. log_bound lg n (f a)) \<Longrightarrow> log_bound lg n (abind m f)"
  by (rule log_bound_abind) auto

lemma log_bound_acatch:
  assumes "log_bound lg k m" "\<And>e. log_bound lg l (h e)" "k + l \<le> n"
  shows "log_bound lg n (acatch m h)"
  unfolding log_bound_def
proof
  fix s
  obtain s1 r where m: "m s = (s1, r)" by (cases "m s")
  obtain new where n1: "lg s1 = lg s @ new" "length new \<le> k"
    using assms(1) m unfolding log_bound_def by (metis fst_conv)
  show "\<exists>new. lg (fst (acatch m h s)) = lg s @ new \<and> length new \<le> n"
  proof (cases r)
    case (Inl e)
    obtain new' where "lg (fst (h e s1)) = lg s1 @ new'" "length new' \<le> l"
      using assms(2) unfolding log_bound_def by blast
    with m n1 Inl assms(3) show ?thesis by (auto simp: acatch_def intro!: exI [of _ "new @ new'"])
  next
    case (Inr a)
    with m n1 assms(3) show ?thesis by (auto simp: acatch_def)
  qed
qed

lemma log_bound_afinally:
  assumes "log_bound lg k m" "log_bound lg l c" "k + l \<le> n"
  shows "log_bound lg n (afinally m c)"
  unfolding log_bound_def
proof
  fix s
  obtain new where m: "lg (fst (m s)) = lg s @ new" "length new \<le> k"
    using assms(1) unfolding log_bound_def by blast
  obtain new' where c: "lg (fst (c (fst (m s)))) = lg (fst (m s)) @ new'" "length new' \<le> l"
    using assms(2) unfolding log_bound_def by blast
  show "\<exists>new. lg (fst (afinally m c s)) = lg s @ new \<and> length new \<le> n"
    using m c assms(3) by (auto simp: afinally_state intro!: exI [of _ "new @ new'"])
qed

section \<open>Lemmas on the string primitives\<close>

lemma js_lower_meridiem [simp, js_simps]:
  "js_lower ''AM'' = ''am''" "js_lower ''PM'' = ''pm''"
  "js_lower ''am'' = ''am''" "js_lower ''pm'' = ''pm''"
  by code_simp+

lemma is_digit_iff: "is_digit c \<longleftrightarrow> 48 \<le> (of_char c :: nat) \<and> (of_char c :: nat) \<le> 57"
  by (simp add: is_digit_def less_eq_char_def)

lemma is_digit_not_space: "is_digit c \<Longrightarrow> \<not> js_space c"
  by (simp add: is_digit_iff js_space_def)

lemma colon_not_digit [simp]: "\<not> is_digit CHR '':''"
  by (simp add: is_digit_def less_eq_char_def)

lemma all_digits_takeWhile [simp]:
  "all_digits xs \<Longrightarrow> takeWhile is_digit (xs @ CHR '':'' # ys) = xs"
  by (simp add: all_digits_def takeWhile_append2)

lemma all_digits_dropWhile [simp]:
  "all_digits xs \<Longrightarrow> dropWhile is_digit (xs @ CHR '':'' # ys) = CHR '':'' # ys"
  by (simp add: all_digits_def dropWhile_append2)

lemma before_char_colon [simp]:
  "all_digits xs \<Longrightarrow> before_char CHR '':'' (xs @ CHR '':'' # ys) = xs"
  unfolding before_char_def all_digits_def
  by (subst takeWhile_append2) auto

lemma before_char_digits [simp]:
  "all_digits xs \<Longrightarrow> before_char CHR '':'' xs = xs"
  unfolding before_char_def all_digits_def
  by (auto simp: takeWhile_eq_all_conv)


lemma digit_char_is_digit: "d < 10 \<Longrightarrow> is_digit (digit_char d)"
  by (auto simp: digit_char_def is_digit_def less_Suc_eq numeral_eq_Suc)

lemma digit_val_digit_char [simp]: "d < 10 \<Longrightarrow> digit_val (digit_char d) = d"
  by (auto simp: digit_char_def digit_val_def less_Suc_eq numeral_eq_Suc)

lemma show_nat_nonempty [simp]: "show_nat n \<noteq> []"
  by (subst show_nat.simps) simp

lemma show_nat_small [js_simps]: "n < 10 \<Longrightarrow> show_nat n = [digit_char n]"
  by (subst show_nat.simps) simp

lemma show_nat_large [js_simps]:
  "\<not> n < 10 \<Longrightarrow> show_nat n = show_nat (n div 10) @ [digit_char (n mod 10)]"
  by (subst show_nat.simps) simp

lemma all_digits_append [simp]: "all_digits (xs @ ys) \<longleftrightarrow> all_digits xs \<and> all_digits ys"
  by (auto simp: all_digits_def)

lemma all_digits_Cons [simp]: "all_digits (c # cs) \<longleftrightarrow> is_digit c \<and> all_digits cs"
  by (simp add: all_digits_def)

lemma all_digits_Nil [simp]: "all_digits []"
  by (simp add: all_digits_def)

lemma all_digits_show_nat: "all_digits (show_nat n)"
proof (induction n rule: show_nat.induct)
  case (1 n)
  then show ?case
    by (cases "n < 10") (simp_all add: show_nat_small show_nat_large digit_char_is_digit)
qed

lemma digits_value_snoc [simp]:
  "digits_value (s @ [c]) = 10 * digits_value s + digit_val c"
  by (simp add: digits_value_def)

lemma digits_value_show_nat [simp]: "digits_value (show_nat n) = n"
proof (induction n rule: show_nat.induct)
  case (1 n)
  show ?case
  proof (cases "n < 10")
    case True
    then show ?thesis by (simp add: show_nat_small digits_value_def)
  next
    case False
    with "1.IH" show ?thesis by (simp add: show_nat_large)
  qed
qed

lemma length_show_nat_le: "n < 10 ^ k \<Longrightarrow> 0 < k \<Longrightarrow> length (show_nat n) \<le> k"
proof (induction n arbitrary: k rule: show_nat.induct)
  case (1 n)
  show ?case
  proof (cases "n < 10")
    case True
    then show ?thesis using "1.prems" by (simp add: show_nat_small)
  next
    case False
    have "k \<noteq> 1" using False "1.prems"(1) by auto
    then obtain j where k: "k = Suc j" and j: "0 < j"
      using "1.prems"(2) by (cases k) auto
    have "n div 10 < 10 ^ j"
      using "1.prems"(1) k by (simp add: div_less_iff_less_mult mult.commute)
    with "1.IH" False j have "length (show_nat (n div 10)) \<le> j" by simp
    with False k show ?thesis by (simp add: show_nat_large)
  qed
qed

lemma length_pad2: "length s \<le> 2 \<Longrightarrow> length (pad2 s) = 2"
  by (simp add: pad2_def)

lemma all_digits_pad2: "all_digits s \<Longrightarrow> all_digits (pad2 s)"
  by (auto simp: pad2_def all_digits_def is_digit_def set_replicate_conv_if)

lemma digits_value_replicate_zero [simp]:
  "digits_value (replicate k (CHR ''0'') @ s) = digits_value s"
proof (induction k)
  case 0
  then show ?case by simp
next
  case (Suc k)
  have "foldl (\<lambda>acc c. 10 * acc + digit_val c) 0 (replicate (Suc k) (CHR ''0'') @ s) =
        foldl (\<lambda>acc c. 10 * acc + digit_val c) 0 (replicate k (CHR ''0'') @ s)"
    by (simp add: digit_val_def)
  with Suc show ?case by (simp add: digits_value_def)
qed

lemma digits_value_pad2 [simp]: "digits_value (pad2 s) = digits_value s"
  by (simp add: pad2_def)

lemma starts_with_append [simp]: "starts_with (p @ s) p"
  by (induction p) simp_all

lemma starts_with_iff: "starts_with s p \<longleftrightarrow> (\<exists>r. s = p @ r)"
  by (induction s p rule: starts_with.induct) auto

lemma includes_iff: "str_includes s t \<longleftrightarrow> (\<exists>a b. s = a @ t @ b)"
proof (induction s)
  case Nil
  then show ?case by simp
next
  case (Cons c cs)
  show ?case
  proof
    assume "str_includes (c # cs) t"
    then consider (here) "starts_with (c # cs) t" | (later) "str_includes cs t"
      by auto
    then show "\<exists>a b. c # cs = a @ t @ b"
    proof cases
      case here
      then obtain r where "c # cs = t @ r" by (auto simp: starts_with_iff)
      then show ?thesis by (metis append_Nil)
    next
      case later
      with Cons.IH obtain a b where "cs = a @ t @ b" by blast
      then show ?thesis by (metis append_Cons)
    qed
  next
    assume "\<exists>a b. c # cs = a @ t @ b"
    then obtain a b where ab: "c # cs = a @ t @ b" by blast
    show "str_includes (c # cs) t"
    proof (cases a)
      case Nil
      with ab have "starts_with (c # cs) t" by (auto simp: starts_with_iff)
      then show ?thesis by simp
    next
      case (Cons a' as)
      with ab Cons.IH show ?thesis by auto
    qed
  qed
qed

lemma includes_self [simp]: "str_includes s s"
  by (simp add: includes_iff) (metis append.left_neutral append_Nil2)

lemma hd_show_nat_digit: "is_digit (hd (show_nat n))"
  using all_digits_show_nat [of n] show_nat_nonempty [of n]
  by (cases "show_nat n") auto

lemma length_pad2_show_nat: "n < 100 \<Longrightarrow> length (pad2 (show_nat n)) = 2"
  using length_show_nat_le [of n 2] by (simp add: length_pad2)

lemma length_show_nat_ge: "1 \<le> length (show_nat n)"
  using show_nat_nonempty [of n] by (cases "show_nat n") auto

lemma dropWhile_hd_not: "xs = [] \<or> \<not> P (hd xs) \<Longrightarrow> dropWhile P xs = xs"
  by (cases xs) auto

lemma js_trim_no_space [js_simps]:
  assumes "s = [] \<or> (\<not> js_space (hd s) \<and> \<not> js_space (last s))"
  shows "js_trim s = s"
proof -
  have front: "dropWhile js_space s = s"
    using assms by (intro dropWhile_hd_not) auto
  have "rev s = [] \<or> \<not> js_space (hd (rev s))"
    using assms by (auto simp: hd_rev)
  then have "dropWhile js_space (rev s) = rev s" by (rule dropWhile_hd_not)
  with front show ?thesis by (simp add: js_trim_def)
qed

end
