(* ===== verification/Clock.thy ===== *)
theory Clock
  imports Prelude
begin

text \<open>
  Wall-clock strings of the portal and of the API (src/unnamed/part_003, the
  scheduler-parsing helpers of \<open>ubc.ts\<close>, and the 24h-to-12h conversion at the start of
  \<open>bookSlot\<close>; src/src/ubc.ts for the older \<open>parseTimeFromText\<close>):
  \<^item> \<open>to24h\<close>: \<open>"03:00 PM"\<close> to \<open>"15:00"\<close>, the anchored, case-insensitive
    regular expression \<open>^(\d{1,2}):(\d{2})\s*(AM|PM)$\<close> after \<open>trim\<close>;
  \<^item> \<open>durationMinutes\<close>: the difference of two \<open>"HH:MM"\<close> strings in minutes;
  \<^item> \<open>to12h_label\<close>: the label \<open>bookSlot\<close> searches for, \<open>"15:00"\<close> to
    \<open>"3:00 PM"\<close>;
  \<^item> \<open>match_range\<close>: the leftmost match of the unanchored, case-sensitive expression
    \<open>([0-9]{1,2}:[0-9]{2}\s*(?:AM|PM))\s*-\s*([0-9]{1,2}:[0-9]{2}\s*(?:AM|PM))\<close> on a
    slot's \<open>title\<close> attribute.
  Each regular expression is modelled by the deterministic scan it performs: at every
  start position at most one of its alternatives (one or two hour digits) can be
  followed by the colon, and no whitespace character is a letter, a digit or a dash, so
  backtracking never changes the outcome.
\<close>

section \<open>\<open>to24h\<close>\<close>

text \<open>
  The anchored match: one or two digits, a colon, exactly two digits, any whitespace and
  \<open>AM\<close> or \<open>PM\<close> in any case, then the end. The result is the two digit groups and
  whether the marker is \<open>PM\<close>.
\<close>

definition parse_h12 :: "string \<Rightarrow> (string \<times> string \<times> bool) option" where
  "parse_h12 s =
     (let hh = takeWhile is_digit s; r = dropWhile is_digit s in
      if length hh = 1 \<or> length hh = 2 then
        (case r of
          [] \<Rightarrow> None
        | c # r1 \<Rightarrow>
            if c = CHR '':'' \<and> 2 \<le> length r1 \<and> all_digits (take 2 r1) then
              (let mer = js_lower (dropWhile js_space (drop 2 r1)) in
               if mer = ''am'' then Some (hh, take 2 r1, False)
               else if mer = ''pm'' then Some (hh, take 2 r1, True)
               else None)
            else None)
      else None)"

text \<open>The hour rule of \<open>to24h\<close>: 12 AM is 0, 1 to 11 PM gain 12, anything else stays.\<close>

definition hour24 :: "nat \<Rightarrow> bool \<Rightarrow> nat" where
  "hour24 h is_pm = (if h = 12 \<and> \<not> is_pm then 0 else if h \<noteq> 12 \<and> is_pm then h + 12 else h)"

definition to24h :: "string \<Rightarrow> string option" where
  "to24h time12 =
     (case parse_h12 (js_trim time12) of
       None \<Rightarrow> None
     | Some (hh, mm, is_pm) \<Rightarrow>
         Some (pad2 (show_nat (hour24 (digits_value hh) is_pm)) @ '':'' @ mm))"

section \<open>\<open>durationMinutes\<close> and the hour of a 24-hour string\<close>

text \<open>
  \<open>s.split(":").map(Number)\<close>, destructured as \<open>[h, m]\<close>: the parts before the
  first colon and between the first and the second. The code applies it only to
  strings \<open>to24h\<close> produced (digits, a colon, two digits; lemma \<open>to24h_shape\<close>),
  on which \<open>Number\<close> is the decimal value.
\<close>

definition hm_fields :: "string \<Rightarrow> nat \<times> nat" where
  "hm_fields s =
     (let hs = before_char CHR '':'' s;
          ms = before_char CHR '':'' (drop (Suc (length hs)) s)
      in (digits_value hs, digits_value ms))"

definition durationMinutes :: "string \<Rightarrow> string \<Rightarrow> int" where
  "durationMinutes start24 end24 =
     (let (sh, sm) = hm_fields start24; (eh, em) = hm_fields end24
      in (int eh * 60 + int em) - (int sh * 60 + int sm))"

text \<open>\<open>parseInt(start24.split(":")[0], 10)\<close>, the hour the preference filter reads.\<close>

definition start_hour_of :: "string \<Rightarrow> nat" where
  "start_hour_of s = digits_value (before_char CHR '':'' s)"

section \<open>The 12-hour label of \<open>bookSlot\<close>\<close>

definition to12h_label :: "string \<Rightarrow> string" where
  "to12h_label time24 =
     (let (hour, minute) = hm_fields time24;
          hour12 = (if hour = 0 then 12 else if 12 < hour then hour - 12 else hour);
          ampm = (if 12 \<le> hour then ''PM'' else ''AM'')
      in show_nat hour12 @ '':'' @ pad2 (show_nat minute) @ '' '' @ ampm)"

section \<open>The time range in a slot's title\<close>

text \<open>
  \<open>[0-9]{1,2}:\<close> at the start of the string: two digits and a colon, or one digit
  and a colon. Returns the hour digits and what follows the colon.
\<close>

fun hour_part :: "string \<Rightarrow> (string \<times> string) option" where
  "hour_part (a # b # c # r) =
     (if is_digit a \<and> is_digit b \<and> c = CHR '':'' then Some ([a, b], r)
      else if is_digit a \<and> b = CHR '':'' then Some ([a], c # r)
      else None)"
| "hour_part [a, b] = (if is_digit a \<and> b = CHR '':'' then Some ([a], []) else None)"
| "hour_part _ = None"

text \<open>
  \<open>(AM|PM)\<close> at the start of the string, case-sensitive (the title expression has no
  \<open>i\<close> flag) or case-insensitive (the older \<open>parseTimeFromText\<close>).
\<close>

definition meridiem_part :: "bool \<Rightarrow> string \<Rightarrow> (string \<times> string) option" where
  "meridiem_part ci s =
     (let m = take 2 s; m' = (if ci then js_lower m else m) in
      if m' = (if ci then ''am'' else ''AM'') \<or> m' = (if ci then ''pm'' else ''PM'')
      then Some (m, drop 2 s) else None)"

text \<open>
  \<open>[0-9]{1,2}:[0-9]{2}\s*(AM|PM)\<close> at the start of the string: the matched text and
  the rest.
\<close>

definition time12_at :: "bool \<Rightarrow> string \<Rightarrow> (string \<times> string) option" where
  "time12_at ci s =
     (case hour_part s of
       None \<Rightarrow> None
     | Some (hh, r) \<Rightarrow>
         if 2 \<le> length r \<and> all_digits (take 2 r) then
           (let sp = takeWhile js_space (drop 2 r) in
            case meridiem_part ci (dropWhile js_space (drop 2 r)) of
              None \<Rightarrow> None
            | Some (ap, rest) \<Rightarrow> Some (hh @ '':'' @ take 2 r @ sp @ ap, rest))
         else None)"

text \<open>The whole range expression at the start of the string: the two groups.\<close>

definition range_at :: "string \<Rightarrow> (string \<times> string) option" where
  "range_at s =
     (case time12_at False s of
       None \<Rightarrow> None
     | Some (g1, r) \<Rightarrow>
         (case dropWhile js_space r of
           c # r2 \<Rightarrow>
             if c = CHR ''-'' then
               (case time12_at False (dropWhile js_space r2) of
                 None \<Rightarrow> None
               | Some (g2, _) \<Rightarrow> Some (g1, g2))
             else None
         | [] \<Rightarrow> None))"

text \<open>\<open>title.match(re)\<close>: the match at the leftmost start position where there is one.\<close>

fun match_range :: "string \<Rightarrow> (string \<times> string) option" where
  "match_range [] = None"
| "match_range (c # cs) = (case range_at (c # cs) of Some m \<Rightarrow> Some m | None \<Rightarrow> match_range cs)"

section \<open>\<open>parseTimeFromText\<close> of the older scanner\<close>

text \<open>
  src/src/ubc.ts: the first match of the unanchored, case-insensitive
  \<open>(\d{1,2}):(\d{2})\s*(AM|PM)\<close> in the trimmed cell text, converted with the same
  hour rule; \<open>null\<close> for an empty text or no match.
\<close>

fun find_time12 :: "string \<Rightarrow> (string \<times> string \<times> bool) option" where
  "find_time12 [] = None"
| "find_time12 (c # cs) =
     (case time12_at True (c # cs) of
       Some (g, _) \<Rightarrow>
         (let hh = takeWhile is_digit g; mm = take 2 (drop (Suc (length hh)) g) in
          Some (hh, mm, js_lower (drop (length g - 2) g) = ''pm''))
     | None \<Rightarrow> find_time12 cs)"

definition parseTimeFromText :: "string \<Rightarrow> string option" where
  "parseTimeFromText raw =
     (let text = js_trim raw in
      if text = [] then None
      else case find_time12 text of
        None \<Rightarrow> None
      | Some (hh, mm, is_pm) \<Rightarrow>
          Some (pad2 (show_nat (hour24 (digits_value hh) is_pm)) @ '':'' @ mm))"

section \<open>Specification vocabulary\<close>

text \<open>
  The clock labels the portal writes: the meridiem markers the anchored expression of
  \<open>to24h\<close> accepts, and the zero-padded \<open>HH:MM\<close> form of the API's
  \<open>time_24h\<close> strings.
\<close>

definition meridiems :: "string set" where
  "meridiems = {''AM'', ''PM'', ''am'', ''pm''}"

definition is_pm :: "string \<Rightarrow> bool" where
  "is_pm ap \<longleftrightarrow> js_lower ap = ''pm''"

definition hhmm :: "nat \<Rightarrow> nat \<Rightarrow> string" where
  "hhmm h m = pad2 (show_nat h) @ '':'' @ pad2 (show_nat m)"


section \<open>Lemmas\<close>

lemma meridiem_cases: "ap \<in> meridiems \<Longrightarrow> ap = ''AM'' \<or> ap = ''PM'' \<or> ap = ''am'' \<or> ap = ''pm''"
  by (auto simp: meridiems_def)

lemma meridiem_not_space: "ap \<in> meridiems \<Longrightarrow> ap \<noteq> [] \<and> \<not> js_space (hd ap) \<and> \<not> js_space (last ap)"
  by (auto simp: meridiems_def js_space_def)

lemma meridiem_lower: "ap \<in> meridiems \<Longrightarrow> js_lower ap = ''am'' \<or> js_lower ap = ''pm''"
  by (auto simp: meridiems_def)

lemma meridiem_length: "ap \<in> meridiems \<Longrightarrow> length ap = 2"
  by (auto simp: meridiems_def)

lemma parse_h12_label:
  assumes hs: "all_digits hs" "length hs = 1 \<or> length hs = 2"
    and ms: "all_digits ms" "length ms = 2"
    and sp: "\<forall>c \<in> set sp. js_space c"
    and ap: "ap \<in> meridiems"
  shows "parse_h12 (hs @ CHR '':'' # ms @ sp @ ap) = Some (hs, ms, is_pm ap)"
proof -
  have "dropWhile js_space (sp @ ap) = ap"
    using sp meridiem_not_space [OF ap] by (simp add: dropWhile_append3 dropWhile_hd_not)
  then show ?thesis
    using assms meridiem_lower [OF ap]
    by (auto simp: parse_h12_def is_pm_def Let_def)
qed
lemma hm_fields_colon [simp]:
  "all_digits a \<Longrightarrow> all_digits b \<Longrightarrow> hm_fields (a @ CHR '':'' # b) = (digits_value a, digits_value b)"
  by (simp add: hm_fields_def Let_def)

lemma start_hour_of_colon [simp]:
  "all_digits a \<Longrightarrow> start_hour_of (a @ CHR '':'' # b) = digits_value a"
  by (simp add: start_hour_of_def)

lemma clock_digits:
  assumes "h < 100" "hs = show_nat h \<or> hs = pad2 (show_nat h)"
  shows "all_digits hs \<and> (length hs = 1 \<or> length hs = 2) \<and> digits_value hs = h \<and> is_digit (hd hs)"
proof -
  have len: "length (show_nat h) \<le> 2" using length_show_nat_le [of h 2] assms(1) by simp
  have ge: "1 \<le> length (show_nat h)" by (rule length_show_nat_ge)
  show ?thesis
    using assms(2)
  proof
    assume hs: "hs = show_nat h"
    with len ge show ?thesis by (auto simp: all_digits_show_nat hd_show_nat_digit)
  next
    assume hs: "hs = pad2 (show_nat h)"
    have "all_digits (pad2 (show_nat h))" by (simp add: all_digits_pad2 all_digits_show_nat)
    moreover have "length (pad2 (show_nat h)) = 2" using len by (rule length_pad2)
    moreover have "is_digit (hd (pad2 (show_nat h)))"
      using calculation by (cases "pad2 (show_nat h)") (auto)
    ultimately show ?thesis using hs by simp
  qed
qed

lemma to24h_label:
  assumes hs: "all_digits hs" "length hs = 1 \<or> length hs = 2" "is_digit (hd hs)"
    and ms: "all_digits ms" "length ms = 2"
    and sp: "\<forall>c \<in> set sp. js_space c"
    and ap: "ap \<in> meridiems"
  shows "to24h (hs @ CHR '':'' # ms @ sp @ ap) =
         Some (pad2 (show_nat (hour24 (digits_value hs) (is_pm ap))) @ CHR '':'' # ms)"
proof -
  have "js_trim (hs @ CHR '':'' # ms @ sp @ ap) = hs @ CHR '':'' # ms @ sp @ ap"
  proof (rule js_trim_no_space)
    have "hs \<noteq> []" using hs(2) by auto
    then show "hs @ CHR '':'' # ms @ sp @ ap = [] \<or>
      \<not> js_space (hd (hs @ CHR '':'' # ms @ sp @ ap)) \<and> \<not> js_space (last (hs @ CHR '':'' # ms @ sp @ ap))"
      using meridiem_not_space [OF ap] is_digit_not_space [OF hs(3)] by (simp add: hd_append2)
  qed
  then show ?thesis
    using parse_h12_label [OF hs(1,2) ms sp ap] by (simp add: to24h_def)
qed

lemma hour24_clock: "1 \<le> h \<Longrightarrow> h \<le> 12 \<Longrightarrow> hour24 h pm = h mod 12 + (if pm then 12 else 0)"
  by (auto simp: hour24_def)

text \<open>C20: \<open>to24h\<close> converts every 12-hour clock label to its 24-hour form: an
  hour from 1 to 12, written with or without a leading zero, a colon, two minute digits,
  optional whitespace and AM or PM (either case) give the zero-padded hour
  \<open>h mod 12\<close>, plus 12 for PM, and the same minutes; 12 AM is 00 and 12 PM is 12.\<close>

theorem to24h_12h_clock:
  assumes h: "1 \<le> h" "h \<le> 12" and m: "m < 60"
    and hs: "hs = show_nat h \<or> hs = pad2 (show_nat h)"
    and sp: "\<forall>c \<in> set sp. js_space c" and ap: "ap \<in> meridiems"
  shows "to24h (hs @ '':'' @ pad2 (show_nat m) @ sp @ ap) =
         Some (pad2 (show_nat (h mod 12 + (if is_pm ap then 12 else 0))) @ '':'' @ pad2 (show_nat m))"
proof -
  have d: "all_digits hs" "length hs = 1 \<or> length hs = 2" "digits_value hs = h" "is_digit (hd hs)"
    using clock_digits [OF _ hs] h by auto
  have "all_digits (pad2 (show_nat m))" "length (pad2 (show_nat m)) = 2"
    using m by (simp_all add: all_digits_pad2 all_digits_show_nat length_pad2_show_nat)
  from to24h_label [OF d(1,2,4) this sp ap] d(3) h show ?thesis
    by (simp add: hour24_clock)
qed

lemma to24h_12h_clock_witness:
  "to24h (''1'' @ '':'' @ pad2 (show_nat 0) @ '' '' @ ''PM'') = Some ''13:00''"
proof -
  have "to24h (show_nat 1 @ '':'' @ pad2 (show_nat 0) @ '' '' @ ''PM'') =
         Some (pad2 (show_nat (1 mod 12 + (if is_pm ''PM'' then 12 else 0))) @ '':'' @ pad2 (show_nat 0))"
    by (rule to24h_12h_clock) (auto simp: meridiems_def js_space_def)
  then show ?thesis by code_simp
qed
lemma to12h_label_fields:
  "all_digits a \<Longrightarrow> all_digits b \<Longrightarrow>
   to12h_label (a @ CHR '':'' # b) =
   (let hour = digits_value a; minute = digits_value b;
        hour12 = (if hour = 0 then 12 else if 12 < hour then hour - 12 else hour)
    in show_nat hour12 @ '':'' @ pad2 (show_nat minute) @ '' '' @ (if 12 \<le> hour then ''PM'' else ''AM''))"
  by (simp add: to12h_label_def Let_def)

lemma clock_time_digits:
  "m < 100 \<Longrightarrow> all_digits (pad2 (show_nat m)) \<and> length (pad2 (show_nat m)) = 2 \<and>
     digits_value (pad2 (show_nat m)) = m"
  by (simp add: all_digits_pad2 all_digits_show_nat length_pad2_show_nat)

lemma hour12_of_clock:
  assumes "1 \<le> h" "h \<le> (12::nat)"
  shows "(let H = h mod 12 + (if pm then 12 else 0) in
          if H = 0 then 12 else if 12 < H then H - 12 else H) = h"
    and "(12 \<le> h mod 12 + (if pm then 12 else 0)) \<longleftrightarrow> pm"
  using assms by (cases "h = 12"; simp add: Let_def)+

lemma to12h_label_to24h_clock:
  assumes h: "1 \<le> h" "h \<le> 12" and m: "m < 60"
    and hs: "hs = show_nat h \<or> hs = pad2 (show_nat h)"
    and sp: "\<forall>c \<in> set sp. js_space c" and ap: "ap \<in> meridiems"
  shows "map_option to12h_label (to24h (hs @ '':'' @ pad2 (show_nat m) @ sp @ ap)) =
         Some (show_nat h @ '':'' @ pad2 (show_nat m) @ '' '' @ (if is_pm ap then ''PM'' else ''AM''))"
proof -
  let ?H = "h mod 12 + (if is_pm ap then 12 else 0)"
  have "h mod 12 < 12" by simp
  then have H: "?H < 100" by auto
  have "to24h (hs @ '':'' @ pad2 (show_nat m) @ sp @ ap) = Some (pad2 (show_nat ?H) @ '':'' @ pad2 (show_nat m))"
    using h m hs sp ap by (rule to24h_12h_clock)
  moreover have "to12h_label (pad2 (show_nat ?H) @ CHR '':'' # pad2 (show_nat m)) =
      show_nat h @ '':'' @ pad2 (show_nat m) @ '' '' @ (if is_pm ap then ''PM'' else ''AM'')"
    using H m clock_time_digits [of ?H] clock_time_digits [of m] hour12_of_clock [OF h, of "is_pm ap"]
    by (simp add: to12h_label_fields Let_def)
  ultimately show ?thesis by simp
qed

text \<open>C21: Round trip from the portal's 12-hour label: converting a valid clock label
  with \<open>to24h\<close> and back with the label \<open>bookSlot\<close> builds gives the same
  wall-clock time, written with an unpadded hour, a space and upper-case AM/PM.\<close>

theorem to12h_label_to24h:
  assumes h: "1 \<le> h" "h \<le> 12" and m: "m < 60"
    and hs: "hs = show_nat h \<or> hs = pad2 (show_nat h)"
    and sp: "\<forall>c \<in> set sp. js_space c" and ap: "ap \<in> meridiems"
  shows "map_option to12h_label (to24h (hs @ '':'' @ pad2 (show_nat m) @ sp @ ap)) =
         Some (show_nat h @ '':'' @ pad2 (show_nat m) @ '' '' @ (if is_pm ap then ''PM'' else ''AM''))"
  using h m hs sp ap by (rule to12h_label_to24h_clock)

text \<open>C22: Round trip from a 24-hour time: for every \<open>HH:MM\<close> with hour below 24 and
  minute below 60, the 12-hour label \<open>bookSlot\<close> searches for converts back with
  \<open>to24h\<close> to the same \<open>HH:MM\<close>.\<close>

theorem to24h_to12h_label:
  assumes "hour < 24" "m < 60"
  shows "to24h (to12h_label (pad2 (show_nat hour) @ '':'' @ pad2 (show_nat m))) =
         Some (pad2 (show_nat hour) @ '':'' @ pad2 (show_nat m))"
proof -
  let ?h12 = "if hour = 0 then 12 else if 12 < hour then hour - 12 else hour"
  let ?ap = "if 12 \<le> hour then ''PM'' else ''AM''"
  have lbl: "to12h_label (pad2 (show_nat hour) @ '':'' @ pad2 (show_nat m)) =
      show_nat ?h12 @ '':'' @ pad2 (show_nat m) @ '' '' @ ?ap"
    using assms clock_time_digits [of hour] clock_time_digits [of m]
    by (simp add: to12h_label_fields Let_def)
  have ap: "?ap \<in> meridiems" by (simp add: meridiems_def)
  have sp: "\<forall>c \<in> set '' ''. js_space c" by (simp add: js_space_def)
  have "to24h (show_nat ?h12 @ '':'' @ pad2 (show_nat m) @ '' '' @ ?ap) =
    Some (pad2 (show_nat (?h12 mod 12 + (if is_pm ?ap then 12 else 0))) @ '':'' @ pad2 (show_nat m))"
    using assms by (intro to24h_12h_clock [OF _ _ _ _ sp ap]) auto
  moreover have "?h12 mod 12 + (if is_pm ?ap then 12 else 0) = hour"
    using assms(1) by (auto simp: is_pm_def)
  ultimately show ?thesis using lbl by simp
qed

lemma parse_h12_Some:
  assumes "parse_h12 s = Some (hh, mm, p)"
  shows "all_digits hh \<and> 1 \<le> length hh \<and> length hh \<le> 2 \<and> all_digits mm \<and> length mm = 2"
proof -
  have "all_digits (takeWhile is_digit s)"
    by (auto simp: all_digits_def dest: set_takeWhileD)
  with assms show ?thesis
    by (auto simp: parse_h12_def Let_def split: list.splits if_splits)
qed

lemma to24h_shape:
  assumes "to24h s = Some t"
  shows "\<exists>hh mm is_pm. t = pad2 (show_nat (hour24 (digits_value hh) is_pm)) @ CHR '':'' # mm \<and>
           all_digits hh \<and> 1 \<le> length hh \<and> length hh \<le> 2 \<and> all_digits mm \<and> length mm = 2"
proof -
  obtain hh mm p where p: "parse_h12 (js_trim s) = Some (hh, mm, p)"
    and t: "t = pad2 (show_nat (hour24 (digits_value hh) p)) @ CHR '':'' # mm"
    using assms by (auto simp: to24h_def split: option.splits)
  from parse_h12_Some [OF p] t show ?thesis by blast
qed

lemma digits_value_bound: "all_digits s \<Longrightarrow> digits_value s < 10 ^ length s"
proof (induction s rule: rev_induct)
  case Nil
  then show ?case by (simp add: digits_value_def)
next
  case (snoc c s)
  then have "digit_val c < 10" by (auto simp: digit_val_def is_digit_iff)
  with snoc show ?case by simp
qed

lemma of_char_digit_char: "d < 10 \<Longrightarrow> (of_char (digit_char d) :: nat) = 48 + d"
  by (auto simp: digit_char_def less_Suc_eq numeral_eq_Suc)

lemma digit_char_less_iff: "a < 10 \<Longrightarrow> b < 10 \<Longrightarrow> digit_char a < digit_char b \<longleftrightarrow> a < b"
  by (simp add: less_char_def of_char_digit_char)

lemma digit_char_inj: "a < 10 \<Longrightarrow> b < 10 \<Longrightarrow> digit_char a = digit_char b \<longleftrightarrow> a = b"
  by (metis of_char_digit_char add_left_cancel)

lemma pad2_show_nat_digits:
  "n < 100 \<Longrightarrow> pad2 (show_nat n) = [digit_char (n div 10), digit_char (n mod 10)]"
proof (cases "n < 10")
  case True
  then show ?thesis by (simp add: show_nat_small pad2_def digit_char_def)
next
  case False
  moreover assume "n < 100"
  ultimately have "n div 10 < 10" by simp
  with False show ?thesis by (simp add: show_nat_large show_nat_small pad2_def)
qed

lemma lex10:
  "q < 10 \<Longrightarrow> s < 10 \<Longrightarrow> (10 * p + q < 10 * r + (s::nat)) \<longleftrightarrow> p < r \<or> (p = r \<and> q < s)"
  by arith

lemma pad2_show_nat_less_iff:
  assumes "a < 100" "b < 100"
  shows "pad2 (show_nat a) @ xs < pad2 (show_nat b) @ ys \<longleftrightarrow> a < b \<or> (a = b \<and> xs < ys)"
proof -
  have "a div 10 < 10" "b div 10 < 10" using assms by simp_all
  moreover have "a < b \<longleftrightarrow> a div 10 < b div 10 \<or> (a div 10 = b div 10 \<and> a mod 10 < b mod 10)"
    using lex10 [of "a mod 10" "b mod 10" "a div 10" "b div 10"] by simp
  moreover have "a = b \<longleftrightarrow> a div 10 = b div 10 \<and> a mod 10 = b mod 10"
    by (metis div_mult_mod_eq)
  ultimately show ?thesis
    using assms by (auto simp: pad2_show_nat_digits digit_char_less_iff digit_char_inj)
qed

lemma hhmm_less_iff:
  assumes "h1 < 100" "h2 < 100" "m1 < 100" "m2 < 100"
  shows "hhmm h1 m1 < hhmm h2 m2 \<longleftrightarrow> h1 < h2 \<or> (h1 = h2 \<and> m1 < m2)"
  using assms pad2_show_nat_less_iff [of m1 m2 "[]" "[]"]
  by (simp add: hhmm_def pad2_show_nat_less_iff)

lemma hhmm_fields [simp]: "h < 100 \<Longrightarrow> m < 100 \<Longrightarrow> hm_fields (hhmm h m) = (h, m)"
  by (simp add: hhmm_def clock_time_digits)

text \<open>For two zero-padded 24-hour times on one day with the start before the end
  in string order, \<open>durationMinutes\<close> is the number of minutes between them, and it
  is positive.\<close>

theorem durationMinutes_positive:
  assumes "h1 < 24" "h2 < 24" "m1 < 60" "m2 < 60" "hhmm h1 m1 < hhmm h2 m2"
  shows "durationMinutes (hhmm h1 m1) (hhmm h2 m2) = int (h2 * 60 + m2) - int (h1 * 60 + m1)
         \<and> 0 < durationMinutes (hhmm h1 m1) (hhmm h2 m2)"
proof -
  have "h1 < h2 \<or> (h1 = h2 \<and> m1 < m2)" using assms hhmm_less_iff [of h1 h2 m1 m2] by simp
  then have "h1 * 60 + m1 < h2 * 60 + m2" using assms(3) by auto
  then show ?thesis using assms by (simp add: durationMinutes_def)
qed

lemma durationMinutes_positive_witness:
  "(19::nat) < 24 \<and> (20::nat) < 24 \<and> (0::nat) < 60 \<and> (0::nat) < 60 \<and> hhmm 19 0 < hhmm 20 0 \<and>
   durationMinutes (hhmm 19 0) (hhmm 20 0) = 60"
proof -
  have lt: "hhmm 19 0 < hhmm 20 0" by (simp add: hhmm_less_iff)
  from durationMinutes_positive [OF _ _ _ _ lt] show ?thesis using lt by simp
qed

lemma to12h_label_to24h_witness:
  "map_option to12h_label (to24h (''03'' @ '':'' @ pad2 (show_nat 0) @ '' '' @ ''PM'')) = Some ''3:00 PM''"
proof -
  have "map_option to12h_label (to24h (pad2 (show_nat 3) @ '':'' @ pad2 (show_nat 0) @ '' '' @ ''PM'')) =
    Some (show_nat 3 @ '':'' @ pad2 (show_nat 0) @ '' '' @ (if is_pm ''PM'' then ''PM'' else ''AM''))"
    by (rule to12h_label_to24h) (auto simp: meridiems_def js_space_def)
  then show ?thesis by code_simp
qed

lemma to24h_to12h_label_witness:
  "to24h (to12h_label (pad2 (show_nat 0) @ '':'' @ pad2 (show_nat 30))) = Some ''00:30''"
proof -
  have "to24h (to12h_label (pad2 (show_nat 0) @ '':'' @ pad2 (show_nat 30))) =
    Some (pad2 (show_nat 0) @ '':'' @ pad2 (show_nat 30))"
    by (rule to24h_to12h_label) simp_all
  then show ?thesis by code_simp
qed

text \<open>\<open>to24h\<close> does not check the hour range: \<open>"13:00 PM"\<close> becomes
  \<open>"25:00"\<close>, \<open>"0:15 AM"\<close> becomes \<open>"00:15"\<close> and \<open>"99:00 PM"\<close> becomes
  the three-digit \<open>"111:00"\<close>, none of them a valid 24-hour time.\<close>

lemma to24h_out_of_range_hours:
  "to24h ''13:00 PM'' = Some ''25:00'' \<and> to24h ''0:15 AM'' = Some ''00:15''
   \<and> to24h ''99:00 PM'' = Some ''111:00''"
  by code_simp

section \<open>The older parser's result\<close>

lemma hour_part_Some:
  "hour_part s = Some (hh, r) \<Longrightarrow> hh \<noteq> [] \<and> all_digits hh \<and> s = hh @ CHR '':'' # r"
  by (induction s rule: hour_part.induct) (auto split: if_splits)

lemma find_time12_Some:
  "find_time12 s = Some (hh, mm, p) \<Longrightarrow> all_digits mm \<and> length mm = 2"
proof (induction s rule: find_time12.induct)
  case 1 then show ?case by simp
next
  case (2 c cs)
  show ?case
  proof (cases "time12_at True (c # cs)")
    case None with 2 show ?thesis by simp
  next
    case (Some gr)
    then obtain g rest where gr: "gr = (g, rest)" by (cases gr)
    from Some gr obtain h0 r where hp: "hour_part (c # cs) = Some (h0, r)"
        and r2: "2 \<le> length r" "all_digits (take 2 r)"
        and g: "\<exists>sp ap. g = h0 @ '':'' @ take 2 r @ sp @ ap"
      by (auto simp: time12_at_def Let_def split: option.splits if_splits prod.splits)
    from hour_part_Some [OF hp] have d: "all_digits h0" by simp
    then have tw: "takeWhile is_digit g = h0" using g
      by (auto simp: all_digits_def takeWhile_append2 takeWhile_tail)
    from 2(2) Some gr have "mm = take 2 (drop (Suc (length h0)) g)"
      by (auto simp: tw Let_def)
    with g r2 show ?thesis by auto
  qed
qed


lemma parseTimeFromText_Some:
  "parseTimeFromText raw = Some t \<Longrightarrow>
   \<exists>h mm. t = pad2 (show_nat h) @ CHR '':'' # mm \<and> all_digits mm \<and> length mm = 2"
  by (auto simp: parseTimeFromText_def Let_def split: if_splits option.splits dest!: find_time12_Some)

text \<open>The groups of the title's range are substrings of the title.\<close>

lemma hour_part_split: "hour_part s = Some (hh, r) \<Longrightarrow> s = hh @ CHR '':'' # r"
  by (induction s rule: hour_part.induct) (auto split: if_splits)

lemma meridiem_part_split: "meridiem_part ci s = Some (ap, rest) \<Longrightarrow> s = ap @ rest"
proof -
  assume "meridiem_part ci s = Some (ap, rest)"
  then have "ap = take 2 s \<and> rest = drop 2 s" by (auto simp: meridiem_part_def Let_def split: if_splits)
  then show ?thesis by simp
qed

lemma time12_at_split: "time12_at ci s = Some (g, rest) \<Longrightarrow> s = g @ rest"
proof -
  assume t: "time12_at ci s = Some (g, rest)"
  then obtain hh r where h: "hour_part s = Some (hh, r)"
    by (auto simp: time12_at_def split: option.splits)
  obtain ap where m: "meridiem_part ci (dropWhile js_space (drop 2 r)) = Some (ap, rest)"
    and g: "g = hh @ '':'' @ take 2 r @ takeWhile js_space (drop 2 r) @ ap"
    using t h by (auto simp: time12_at_def Let_def split: option.splits if_splits)
  have "r = take 2 r @ takeWhile js_space (drop 2 r) @ dropWhile js_space (drop 2 r)" by simp
  then show "s = g @ rest" using hour_part_split [OF h] meridiem_part_split [OF m] g by simp
qed

lemma range_at_prefix: "range_at s = Some (g1, g2) \<Longrightarrow> \<exists>r. s = g1 @ r"
  by (auto simp: range_at_def split: option.splits list.splits if_splits dest!: time12_at_split)

lemma match_range_infix: "match_range t = Some (g1, g2) \<Longrightarrow> str_includes t g1"
proof (induction t)
  case Nil
  then show ?case by simp
next
  case (Cons c cs)
  show ?case
  proof (cases "range_at (c # cs)")
    case None
    with Cons have "str_includes cs g1" by simp
    then obtain a b where "cs = a @ g1 @ b" by (auto simp: includes_iff)
    then have "c # cs = (c # a) @ g1 @ b" by simp
    then show ?thesis unfolding includes_iff by blast
  next
    case (Some m)
    with Cons.prems have "range_at (c # cs) = Some (g1, g2)" by simp
    from range_at_prefix [OF this] show ?thesis by (auto simp: includes_iff intro: exI [of _ "[]"])
  qed
qed

end
