(* ===== verification/Portal.thy ===== *)
theory Portal
  imports Prelude
begin

text \<open>
  The program's data types (the exported types of \<open>ubc.ts\<close>, src/unnamed/part_003 lines
  171 to 205) and what the code observes of the portal's rendered pages.

  JavaScript numbers that come from JSON requests (\<open>Preferences\<close>) are \<^typ>\<open>real\<close>:
  the schema admits any number in range, not only integers. A \<open>Slot\<close>'s
  \<open>minutes\<close> is \<^typ>\<open>real\<close> too, because the placeholder slot copies
  \<open>prefs.min_minutes\<close> into it. An optional field (\<open>x?: T\<close>, \<open>T | null\<close>) is
  an \<^typ>\<open>'a option\<close>.

  Record fields are global names in HOL, so the fields of the booking records carry a
  prefix where a name is shared (\<open>req_time_24h\<close> for \<open>BookingRequest.time_24h\<close>).

  The portal is outside the program: a page is the record of the answers the code's
  locators get from it (visibility, texts, attributes, computed styles). A scan or a
  booking is then a function of these answers, and every theorem holds for all of them.
\<close>

section \<open>Data types of \<open>ubc.ts\<close>\<close>

record preferences =
  days_ahead :: "real option"
  start_hour :: "real option"
  end_hour :: "real option"
  min_minutes :: "real option"
  indoor_only :: "bool option"
  locations :: "string list option"
  dates :: "string list option"

record slot =
  date_iso :: string
  time_24h :: string
  minutes :: real
  location :: string
  deep_link :: "url option"

record booking_request =
  facility_url :: url
  req_time_24h :: string
  duration_hours :: nat
  num_people :: nat

record booked_slot =
  bs_time :: string
  bs_duration :: nat
  bs_location :: string

record booking_result =
  success :: bool
  confirmation_number :: "string option"
  message :: string
  booked_slot :: "booked_slot option"

text \<open>The preferences with no field set: no filter at all.\<close>

definition no_preferences :: preferences where
  "no_preferences =
     \<lparr>days_ahead = None, start_hour = None, end_hour = None, min_minutes = None,
      indoor_only = None, locations = None, dates = None\<rparr>"

section \<open>What the scheduler page shows\<close>

text \<open>
  The element \<open>closest('.facility-booking-slot, .k-event-template, [class*="event"]')\<close>
  of a slot marker, as the \<open>evaluate\<close> callback of \<open>extractSlotsFromScheduler\<close> reads
  it: its \<open>className\<close>, its computed \<open>display\<close>, \<open>visibility\<close>,
  \<open>opacity\<close> (as \<open>parseFloat\<close> reads it) and \<open>pointerEvents\<close>, whether it
  has a \<open>disabled\<close> attribute, and its \<open>aria-disabled\<close> attribute.
\<close>

record slot_parent =
  pa_class :: string
  pa_display :: string
  pa_visibility :: string
  pa_opacity :: real
  pa_pointer_events :: string
  pa_disabled_attr :: bool
  pa_aria_disabled :: "string option"

text \<open>
  One \<open><span>\<close> under \<open>#scheduler .k-event-template.facility-booking-slot\<close>:
  whether \<open>isVisible()\<close> holds, its text, the ancestor above (\<open>None\<close> when
  \<open>closest\<close> finds none), its \<open>title\<close> attribute, and the \<open>data-date\<close>
  attribute of its closest \<open>[data-date]\<close> ancestor. The text the locator's
  \<open>hasText\<close> filter tests and the \<open>innerText\<close> the loop reads are one string.
\<close>

record span =
  sp_visible :: bool
  sp_text :: string
  sp_parent :: "slot_parent option"
  sp_title :: "string option"
  sp_data_date :: "string option"


section \<open>Pages, the portal and the browser\<close>

text \<open>
  A court's \<open>Choose\<close> button on the court list
  (\<open>a.pm-confirm-button.desktop-details:has-text("Choose")\<close>): the trimmed-or-not
  text of the \<open>.facility-details h2\<close> heading of its \<open>facility-item\<close> card when
  both are visible, its \<open>href\<close> attribute, and where a click on it navigates
  (\<open>None\<close>: \<open>waitForNavigation\<close> times out).
\<close>

record court_button =
  cb_heading :: "string option"
  cb_href :: "string option"
  cb_click_url :: "url option"

text \<open>
  A loaded page: its URL after redirects, whether a visible \<open>Login\<close> link or button
  is in its header, the court buttons, the visible \<open>h1.facility-name\<close>, and the
  scheduler's spans.
\<close>

record page =
  pg_url :: url
  pg_login_visible :: bool
  pg_courts :: "court_button list"
  pg_facility_name :: "string option"
  pg_spans :: "span list"

text \<open>
  What the login affordances of a page do, as \<open>ensureLoggedIn\<close> observes them: where
  a click on its \<open>Login\<close> link leads (in a new tab or the same one; \<open>None\<close>: the
  click opens nothing), its four \<open>CWL Login\<close> candidates in the code's order (whether
  each is visible and where a click on it leads), whether the username and password
  fields appear within the wait, whether a submit button is there, and where the
  redirect chain after submitting settles (\<open>None\<close>: the network never goes idle).
\<close>

record login_ui =
  lu_login_target :: "url option"
  lu_cwl_candidates :: "(bool \<times> url option) list"
  lu_username_field :: bool
  lu_password_field :: bool
  lu_submit_button :: bool
  lu_after_submit :: "url option"

text \<open>
  The portal answers a navigation to a URL with a page, or with nothing: a network error
  or a timeout, which \<open>page.goto\<close> throws. Its login pages are described by URL;
  a page not listed has no login affordance at all.
\<close>

text \<open>
  What a click does to the page: nothing that the code waits for (\<open>Stays\<close>), a load of
  a URL, or a load that never reaches the state the code waits for (\<open>Hangs\<close>).
\<close>

datatype outcome = Stays | Loads url | Hangs

text \<open>
  A row \<open>tr.bm-selectable-row\<close> of the attendee table: the text of its \<open>label\<close>
  (\<open>None\<close>: no label element), its \<open>class\<close> attribute, whether its inline style
  hides it, and its enabled \<open>IsParticipating\<close> checkbox with whether it is checked
  (\<open>None\<close>: there is none).
\<close>

record attendee =
  at_label :: "string option"
  at_class :: string
  at_hidden :: bool
  at_checkbox :: "bool option"

text \<open>
  What the booking pipeline observes of a page: for each button it looks for, whether it
  is visible (\<open>None\<close>: not within the wait) and what a click on it does; the texts of the
  \<open>.error, .alert, .validation-error\<close> element of the booking summary and of the
  \<open>.error, .alert-danger, .validation-error, [class*="error-message"]\<close> element of the
  order result (empty: none), the attendee rows, whether a stored card is offered, the
  text of \<open>body\<close> and the confirmation number element.
\<close>

record booking_ui =
  bu_reserve :: "outcome option"
  bu_alt_book :: "outcome option"
  bu_alert_text :: string
  bu_cwl :: "outcome option"
  bu_username_field :: bool
  bu_login_submit :: "outcome option"
  bu_attendees :: "attendee list"
  bu_next :: "outcome option"
  bu_card_option :: bool
  bu_place_order :: "outcome option"
  bu_body_text :: string
  bu_error_text :: string
  bu_confirmation_number :: "string option"

record portal =
  site :: "(url \<times> page) list"
  login_uis :: "(url \<times> login_ui) list"
  booking_uis :: "(url \<times> booking_ui) list"

text \<open>
  The browser of one operation: whether it is open (launched and not yet closed), the
  page the active tab shows, the log of navigations it performed, in order, and the log
  of the clicks on the booking pipeline's buttons, in order.
\<close>

record browser =
  br_open :: bool
  br_page :: page
  br_navs :: "url list"
  br_clicks :: "string list"

text \<open>
  The variables of \<open>process.env\<close> that \<open>ubc.ts\<close> reads: \<open>UBC_BASE_URL\<close>,
  \<open>UBC_USER\<close>, \<open>UBC_PASS\<close> (\<open>None\<close>: unset).
\<close>

record environment =
  env_base_url :: "url option"
  env_user :: "string option"
  env_pass :: "string option"

text \<open>What the automation can throw.\<close>

datatype failure =
    Navigation_failed url
  | Click_navigation_timeout
  | Locator_timeout string
  | Credentials_missing
  | Settle_timeout
  | Uri_malformed

type_synonym 'a step = "(browser, failure, 'a) act"

definition blank_page :: page where
  "blank_page = \<lparr>pg_url = ''about:blank'', pg_login_visible = False, pg_courts = [],
     pg_facility_name = None, pg_spans = []\<rparr>"

text \<open>
  \<open>page.goto(u)\<close>: the navigation is logged whether or not it succeeds; on success
  the tab shows the portal's page for \<open>u\<close>.
\<close>

definition goto :: "portal \<Rightarrow> url \<Rightarrow> unit step" where
  "goto P u b =
     (case map_of (site P) u of
       None \<Rightarrow> (b\<lparr>br_navs := br_navs b @ [u]\<rparr>, Inl (Navigation_failed u))
     | Some pg \<Rightarrow> (b\<lparr>br_page := pg, br_navs := br_navs b @ [u]\<rparr>, Inr ()))"

text \<open>Reading the current page never changes the browser.\<close>

definition current_page :: "page step" where
  "current_page b = (b, Inr (br_page b))"

text \<open>
  An action that only appends to the navigation log, at most \<open>k\<close> entries, whatever
  the portal answers: the bound on the page loads an operation costs.
\<close>

abbreviation nav_bound :: "nat \<Rightarrow> 'a step \<Rightarrow> bool" where
  "nav_bound \<equiv> log_bound br_navs"

text \<open>A property of the browser that navigations do not change.\<close>

definition nav_invariant :: "(browser \<Rightarrow> bool) \<Rightarrow> bool" where
  "nav_invariant I \<longleftrightarrow> (\<forall>b pg. I (b\<lparr>br_page := pg\<rparr>) = I b) \<and> (\<forall>b ns. I (b\<lparr>br_navs := ns\<rparr>) = I b)"

section \<open>URLs\<close>

text \<open>
  \<open>BASE_URL = process.env.UBC_BASE_URL ?? DEFAULT\<close> (src/unnamed/part_003 lines 207
  to 209): the court list.
\<close>

definition DEFAULT_BASE_URL :: url where
  "DEFAULT_BASE_URL = ''https://ubc.perfectmind.com/24063/Clients/BookMe4FacilityList/List?calendarId=e65c1527-c4f8-4316-b6d6-3b174041f00e&widgetId=c7c36ee3-2494-4de2-b2cb-d50a86487656&embed=False&singleCalendarWidget=true''"

definition BASE_URL :: "url option \<Rightarrow> url" where
  "BASE_URL env_base = (case env_base of Some u \<Rightarrow> u | None \<Rightarrow> DEFAULT_BASE_URL)"

text \<open>
  \<open>new URL(href, base).toString()\<close> for the three forms of \<open>href\<close> a portal link
  takes: absolute (\<open>http://\<close>, \<open>https://\<close>), host-relative (\<open>/path\<close>), and
  relative to the base's directory. Dot segments and percent-encoding are not
  normalised.
\<close>

fun after_scheme :: "string \<Rightarrow> nat \<Rightarrow> nat option" where
  "after_scheme [] i = None"
| "after_scheme (c # cs) i = (if starts_with (c # cs) ''://'' then Some (i + 3) else after_scheme cs (Suc i))"

definition url_origin :: "url \<Rightarrow> url" where
  "url_origin base =
     (case after_scheme base 0 of
       None \<Rightarrow> []
     | Some k \<Rightarrow> take k base @ takeWhile (\<lambda>c. c \<noteq> CHR ''/'') (drop k base))"

definition url_directory :: "url \<Rightarrow> url" where
  "url_directory base =
     (let path = before_char CHR ''?'' base in
      rev (dropWhile (\<lambda>c. c \<noteq> CHR ''/'') (rev path)))"

definition resolve_url :: "url \<Rightarrow> string \<Rightarrow> url" where
  "resolve_url base href =
     (if starts_with href ''http://'' \<or> starts_with href ''https://'' then href
      else if starts_with href ''/'' then url_origin base @ href
      else url_directory base @ href)"

section \<open>Lemmas on the browser\<close>

lemma goto_open [simp]: "br_open (fst (goto P u b)) = br_open b"
  by (simp add: goto_def split: option.splits)

lemma goto_navs [simp]: "br_navs (fst (goto P u b)) = br_navs b @ [u]"
  by (simp add: goto_def split: option.splits)

lemma goto_keeps [intro]: "nav_invariant I \<Longrightarrow> keeps I (goto P u)"
  by (auto simp: keeps_def goto_def nav_invariant_def split: option.splits)

lemma nav_invariant_open [simp]: "nav_invariant (\<lambda>b. br_open b = x)"
  by (simp add: nav_invariant_def)

lemma nav_invariant_clicks [simp]: "nav_invariant (\<lambda>b. br_clicks b = x)"
  by (simp add: nav_invariant_def)

lemma goto_keeps_open [intro]: "keeps (\<lambda>b. br_open b = x) (goto P u)"
  by (simp add: keeps_def)

lemma current_page_keeps [intro]: "keeps P current_page"
  by (simp add: keeps_def current_page_def)

lemma abind_current_page: "abind current_page k b = k (br_page b) b"
  by (simp add: abind_def current_page_def)

lemma nav_bound_current_page [intro, simp]: "nav_bound k current_page"
  by (simp add: log_bound_def current_page_def)

lemma nav_bound_goto [intro]: "1 \<le> k \<Longrightarrow> nav_bound k (goto P u)"
  by (simp add: log_bound_def)

lemma goto_Inr:
  "goto P u b = (b', Inr r) \<longleftrightarrow>
     (\<exists>pg. map_of (site P) u = Some pg \<and> b' = b\<lparr>br_page := pg, br_navs := br_navs b @ [u]\<rparr>)"
  by (auto simp: goto_def split: option.splits)

end
