(* ===== verification/Scheduler.thy ===== *)
theory Scheduler
  imports Clock Portal
begin

text \<open>
  \<open>extractSlotsFromScheduler\<close> (src/unnamed/part_003 lines 344 to 479): on one court's
  facility page, every \<open>Book Now\<close> span of the scheduler is examined in order and
  either skipped, at the first \<open>continue\<close> of the loop body that applies, or turned
  into a \<open>Slot\<close>. The verdict of one span is \<open>span_verdict\<close>, a value of
  \<open>verdict\<close> with one constructor per \<open>continue\<close> and one for the pushed slot;
  the loop is \<open>extract_loop\<close>.
\<close>

section \<open>Checks of one span\<close>

text \<open>\<open>/^book\s+now$/i.test(innerText.trim())\<close>\<close>

definition is_book_now :: "string \<Rightarrow> bool" where
  "is_book_now t =
     (let l = js_lower (js_trim t); r = drop 4 l in
      take 4 l = ''book'' \<and> r \<noteq> [] \<and> js_space (hd r) \<and> dropWhile js_space r = ''now'')"

text \<open>The locator's \<open>.filter({ hasText: /Book Now/i })\<close>\<close>

definition has_book_now :: "span \<Rightarrow> bool" where
  "has_book_now sp \<longleftrightarrow> str_includes (js_lower (sp_text sp)) ''book now''"

text \<open>\<open>/unavailable|disabled|booked|reserved|full|past|expired/i.test(classes)\<close>\<close>

definition unavailable_class :: "string \<Rightarrow> bool" where
  "unavailable_class c =
     (let l = js_lower c in
      list_ex (str_includes l)
        [''unavailable'', ''disabled'', ''booked'', ''reserved'', ''full'', ''past'', ''expired''])"

text \<open>The \<open>evaluate\<close> callback: no ancestor means available.\<close>

definition parent_available :: "slot_parent option \<Rightarrow> bool" where
  "parent_available po =
     (case po of
       None \<Rightarrow> True
     | Some pa \<Rightarrow>
         (let hasUnavailable = unavailable_class (pa_class pa);
              isHidden = (pa_display pa = ''none'' \<or> pa_visibility pa = ''hidden''
                          \<or> pa_opacity pa < 1 / 10);
              hasNoPointerEvents = (pa_pointer_events pa = ''none'');
              isDisabled = (pa_disabled_attr pa \<or> pa_aria_disabled pa = Some ''true'')
          in \<not> hasUnavailable \<and> \<not> isHidden \<and> \<not> hasNoPointerEvents \<and> \<not> isDisabled))"

text \<open>\<open>/^\d{4}-\d{2}-\d{2}$/.test(raw)\<close>\<close>

definition is_iso_date :: "string \<Rightarrow> bool" where
  "is_iso_date s \<longleftrightarrow>
     length s = 10 \<and> all_digits (take 4 s) \<and> s ! 4 = CHR ''-'' \<and>
     all_digits (take 2 (drop 5 s)) \<and> s ! 7 = CHR ''-'' \<and> all_digits (drop 8 s)"

text \<open>The date of a slot: the structured \<open>data-date\<close> if it is an ISO date, else today.\<close>

definition slot_date :: "string \<Rightarrow> string option \<Rightarrow> string" where
  "slot_date today raw =
     (let d = (case raw of Some r \<Rightarrow> if is_iso_date r then r else [] | None \<Rightarrow> [])
      in if d \<noteq> [] \<and> is_iso_date d then d else today)"

section \<open>The verdict on one span\<close>

datatype verdict =
    Not_visible
  | Text_mismatch
  | Unavailable
  | Unparsable_title
  | Bad_conversion
  | Before_start_hour
  | After_end_hour
  | Too_short
  | Accepted slot

text \<open>
  The loop body, in the code's order: visibility, text, availability, the title's time
  range, the two conversions, the three preference filters, then the slot. The
  preference filters compare the start hour (an integer) and the duration with the
  optional real-valued bounds.
\<close>

definition span_verdict :: "preferences \<Rightarrow> string \<Rightarrow> url \<Rightarrow> string \<Rightarrow> span \<Rightarrow> verdict" where
  "span_verdict prefs today page_url courtLabel sp =
     (if \<not> sp_visible sp then Not_visible
      else if \<not> is_book_now (sp_text sp) then Text_mismatch
      else if \<not> parent_available (sp_parent sp) then Unavailable
      else
        (case match_range (case sp_title sp of Some t \<Rightarrow> t | None \<Rightarrow> []) of
          None \<Rightarrow> Unparsable_title
        | Some (g1, g2) \<Rightarrow>
            (case (to24h g1, to24h g2) of
              (Some start24, Some end24) \<Rightarrow>
                (let mins = durationMinutes start24 end24;
                     h = start_hour_of start24 in
                 if (case start_hour prefs of Some b \<Rightarrow> real h < b | None \<Rightarrow> False)
                 then Before_start_hour
                 else if (case end_hour prefs of Some b \<Rightarrow> b \<le> real h | None \<Rightarrow> False)
                 then After_end_hour
                 else if (case min_minutes prefs of Some b \<Rightarrow> real_of_int mins < b | None \<Rightarrow> False)
                 then Too_short
                 else Accepted
                   \<lparr>date_iso = slot_date today (sp_data_date sp), time_24h = start24,
                    minutes = real_of_int mins, location = courtLabel,
                    deep_link = Some page_url\<rparr>)
            | _ \<Rightarrow> Bad_conversion)))"

section \<open>The loop\<close>

text \<open>The slot a verdict pushes, if any.\<close>

fun verdict_slot :: "verdict \<Rightarrow> slot option" where
  "verdict_slot (Accepted s) = Some s"
| "verdict_slot _ = None"

fun extract_loop ::
  "preferences \<Rightarrow> string \<Rightarrow> url \<Rightarrow> string \<Rightarrow> span list \<Rightarrow> slot list" where
  "extract_loop prefs today page_url courtLabel [] = []"
| "extract_loop prefs today page_url courtLabel (sp # sps) =
     (case verdict_slot (span_verdict prefs today page_url courtLabel sp) of
       Some s \<Rightarrow> s # extract_loop prefs today page_url courtLabel sps
     | None \<Rightarrow> extract_loop prefs today page_url courtLabel sps)"

text \<open>
  \<open>extractSlotsFromScheduler(page, prefs, courtLabel)\<close>: the spans of the page that
  pass the locator's text filter, examined in document order. \<open>today\<close> is
  \<open>new Date().toISOString().slice(0, 10)\<close>, read when a span has no usable date.
\<close>

definition extractSlotsFromScheduler ::
  "preferences \<Rightarrow> string \<Rightarrow> url \<Rightarrow> string \<Rightarrow> span list \<Rightarrow> slot list" where
  "extractSlotsFromScheduler prefs today page_url courtLabel spans =
     extract_loop prefs today page_url courtLabel (filter has_book_now spans)"

section \<open>Specification vocabulary\<close>

text \<open>
  What the preferences promise of a slot (spec section 4.3: start hour at least
  \<open>start_hour\<close>, below \<open>end_hour\<close>, duration at least \<open>min_minutes\<close>;
  an unset field is no test), and when one set of preferences is wider than another.
\<close>

definition prefs_pass :: "preferences \<Rightarrow> slot \<Rightarrow> bool" where
  "prefs_pass prefs s \<longleftrightarrow>
     (case start_hour prefs of Some b \<Rightarrow> b \<le> real (start_hour_of (time_24h s)) | None \<Rightarrow> True) \<and>
     (case end_hour prefs of Some b \<Rightarrow> real (start_hour_of (time_24h s)) < b | None \<Rightarrow> True) \<and>
     (case min_minutes prefs of Some b \<Rightarrow> b \<le> minutes s | None \<Rightarrow> True)"

definition wider_prefs :: "preferences \<Rightarrow> preferences \<Rightarrow> bool" where
  "wider_prefs p' p \<longleftrightarrow>
     (case start_hour p' of None \<Rightarrow> True | Some b' \<Rightarrow> (\<exists>b. start_hour p = Some b \<and> b' \<le> b)) \<and>
     (case end_hour p' of None \<Rightarrow> True | Some b' \<Rightarrow> (\<exists>b. end_hour p = Some b \<and> b \<le> b')) \<and>
     (case min_minutes p' of None \<Rightarrow> True | Some b' \<Rightarrow> (\<exists>b. min_minutes p = Some b \<and> b' \<le> b))"

section \<open>Lemmas\<close>

lemma verdict_slot_prefs:
  "verdict_slot (span_verdict prefs today u l sp) =
     (case verdict_slot (span_verdict no_preferences today u l sp) of
       Some s \<Rightarrow> if prefs_pass prefs s then Some s else None
     | None \<Rightarrow> None)"
proof (cases "sp_visible sp \<and> is_book_now (sp_text sp) \<and> parent_available (sp_parent sp)")
  case False
  then show ?thesis by (auto simp: span_verdict_def)
next
  case ok: True
  show ?thesis
  proof (cases "match_range (case sp_title sp of Some t \<Rightarrow> t | None \<Rightarrow> [])")
    case None
    with ok show ?thesis by (simp add: span_verdict_def)
  next
    case (Some g)
    obtain g1 g2 where g: "g = (g1, g2)" by (cases g)
    show ?thesis
    proof (cases "\<exists>a b. to24h g1 = Some a \<and> to24h g2 = Some b")
      case False
      with ok Some g show ?thesis
        by (auto simp: span_verdict_def split: option.splits)
    next
      case True
      then obtain a b where a: "to24h g1 = Some a" and b: "to24h g2 = Some b" by blast
      from ok Some g a b show ?thesis
        by (simp add: span_verdict_def Let_def prefs_pass_def no_preferences_def not_less
            split: option.splits)
    qed
  qed
qed

lemma extract_loop_prefs:
  "extract_loop prefs today u l sps = filter (prefs_pass prefs) (extract_loop no_preferences today u l sps)"
proof (induction sps)
  case Nil
  then show ?case by simp
next
  case (Cons sp sps)
  then show ?case
    by (simp add: verdict_slot_prefs [of prefs] split: option.splits)
qed

text \<open>C3: The preference filter is applied per interval after extraction: the slots
  extracted under any preferences are exactly those extracted with no preference that
  pass the start-hour, end-hour and minimum-duration tests, in the same order.\<close>

theorem extract_filters_unfiltered_scan:
  "extractSlotsFromScheduler prefs today u l spans =
   filter (prefs_pass prefs) (extractSlotsFromScheduler no_preferences today u l spans)"
  unfolding extractSlotsFromScheduler_def by (rule extract_loop_prefs)

lemma prefs_pass_wider: "wider_prefs p' p \<Longrightarrow> prefs_pass p s \<Longrightarrow> prefs_pass p' s"
  by (auto simp: wider_prefs_def prefs_pass_def split: option.splits)

text \<open>C4: Preference filtering is monotonic: widening the hour window or lowering the
  minimum duration (an unset bound being the widest) never removes a slot that was
  extracted under the narrower preferences.\<close>

theorem extract_monotone_in_prefs:
  assumes "wider_prefs p' p"
  shows "set (extractSlotsFromScheduler p today u l spans) \<subseteq> set (extractSlotsFromScheduler p' today u l spans)"
  unfolding extractSlotsFromScheduler_def
  using assms prefs_pass_wider
  by (subst (1 2) extract_loop_prefs) auto

lemma verdict_slot_Some:
  assumes "verdict_slot (span_verdict prefs today u l sp) = Some s"
  shows "prefs_pass prefs s \<and> location s = l \<and> deep_link s = Some u \<and>
         (date_iso s = today \<or> is_iso_date (date_iso s)) \<and>
         date_iso s = slot_date today (sp_data_date sp) \<and>
         sp_visible sp \<and> is_book_now (sp_text sp) \<and> parent_available (sp_parent sp) \<and>
         (\<exists>g1 g2 e. match_range (case sp_title sp of Some t \<Rightarrow> t | None \<Rightarrow> []) = Some (g1, g2) \<and>
             to24h g1 = Some (time_24h s) \<and> to24h g2 = Some e \<and>
             minutes s = real_of_int (durationMinutes (time_24h s) e))"
  using assms
  by (auto simp: span_verdict_def prefs_pass_def Let_def slot_date_def not_less
           split: option.splits prod.splits if_splits)

lemma extract_loop_slots:
  "\<forall>s \<in> set (extract_loop prefs today u l sps). prefs_pass prefs s \<and> location s = l \<and> deep_link s = Some u \<and>
         (date_iso s = today \<or> is_iso_date (date_iso s)) \<and>
         (\<exists>sp \<in> set sps. date_iso s = slot_date today (sp_data_date sp) \<and> sp_visible sp \<and> is_book_now (sp_text sp) \<and> parent_available (sp_parent sp) \<and>
           (\<exists>g1 g2 e. match_range (case sp_title sp of Some t \<Rightarrow> t | None \<Rightarrow> []) = Some (g1, g2) \<and>
             to24h g1 = Some (time_24h s) \<and> to24h g2 = Some e \<and>
             minutes s = real_of_int (durationMinutes (time_24h s) e)))"
proof (induction sps)
  case Nil
  then show ?case by simp
next
  case (Cons sp sps)
  then show ?case
    by (auto split: option.splits dest!: verdict_slot_Some)
qed

lemma span_verdict_accepts:
  assumes "sp_visible sp" "is_book_now (sp_text sp)" "parent_available (sp_parent sp)"
    "match_range (case sp_title sp of Some t \<Rightarrow> t | None \<Rightarrow> []) = Some (g1, g2)"
    "to24h g1 = Some a" "to24h g2 = Some e"
    "s = \<lparr>date_iso = slot_date today (sp_data_date sp), time_24h = a,
          minutes = real_of_int (durationMinutes a e), location = l, deep_link = Some u\<rparr>"
    "prefs_pass prefs s"
  shows "verdict_slot (span_verdict prefs today u l sp) = Some s"
  using assms
  by (simp add: span_verdict_def prefs_pass_def Let_def not_less split: option.splits)

lemma extract_loop_complete:
  "verdict_slot (span_verdict prefs today u l sp) = Some s \<Longrightarrow> sp \<in> set sps \<Longrightarrow>
   s \<in> set (extract_loop prefs today u l sps)"
  by (induction sps) (auto split: option.splits)

lemma start_hour_of_hhmm: "h < 100 \<Longrightarrow> start_hour_of (hhmm h m) = h"
  by (simp add: hhmm_def clock_time_digits)

text \<open>C1: Every slot the scheduler extraction produces passes the preferences, carries
  the court's label and the page's URL, is dated today or by an ISO date of the page,
  and comes from a visible, available span of the page that the locator's filter keeps,
  whose text is exactly \<open>Book Now\<close>, whose date is the span's own \<open>data-date\<close>
  when that is an ISO date and today otherwise, and whose title holds a time range: its \<open>time_24h\<close> is the
  conversion of the range's start, its minutes the duration to the range's end.\<close>

theorem extract_slot_provenance:
  assumes "s \<in> set (extractSlotsFromScheduler prefs today u l spans)"
  shows "prefs_pass prefs s \<and> location s = l \<and> deep_link s = Some u \<and>
         (date_iso s = today \<or> is_iso_date (date_iso s)) \<and>
         (\<exists>sp \<in> set spans. has_book_now sp \<and> date_iso s = slot_date today (sp_data_date sp) \<and> sp_visible sp \<and> is_book_now (sp_text sp) \<and> parent_available (sp_parent sp) \<and>
           (\<exists>g1 g2 e. match_range (case sp_title sp of Some t \<Rightarrow> t | None \<Rightarrow> []) = Some (g1, g2) \<and>
             to24h g1 = Some (time_24h s) \<and> to24h g2 = Some e \<and>
             minutes s = real_of_int (durationMinutes (time_24h s) e)))"
proof -
  from extract_loop_slots [of prefs today u l "filter has_book_now spans"] assms show ?thesis
    by (force simp: extractSlotsFromScheduler_def)
qed
text \<open>C2: Completeness of the extraction: a span of the page that the locator keeps, that
  is visible, reads exactly \<open>Book Now\<close>, is available, and whose title's time range
  converts, yields its slot (dated by its \<open>data-date\<close> or today, at the range's start,
  with the duration to its end, on the court and page it was found on) whenever that slot
  passes the preferences. Spec scenario B is the instance below.\<close>

theorem extract_complete:
  assumes "sp \<in> set spans" "has_book_now sp" "sp_visible sp" "is_book_now (sp_text sp)"
    "parent_available (sp_parent sp)"
    "match_range (case sp_title sp of Some t \<Rightarrow> t | None \<Rightarrow> []) = Some (g1, g2)"
    "to24h g1 = Some a" "to24h g2 = Some e"
    "s = \<lparr>date_iso = slot_date today (sp_data_date sp), time_24h = a,
          minutes = real_of_int (durationMinutes a e), location = l, deep_link = Some u\<rparr>"
    "prefs_pass prefs s"
  shows "s \<in> set (extractSlotsFromScheduler prefs today u l spans)"
proof -
  have "verdict_slot (span_verdict prefs today u l sp) = Some s"
    using assms(3-10) by (simp add: span_verdict_accepts)
  moreover have "sp \<in> set (filter has_book_now spans)" using assms(1,2) by simp
  ultimately show ?thesis unfolding extractSlotsFromScheduler_def by (rule extract_loop_complete)
qed

text \<open>C5: An overnight range is kept with a negative duration: for a span whose title's
  range ends at an earlier clock time than it starts (\<open>"11:00 PM-12:00 AM"\<close>), when no
  minimum duration is requested and the start hour is in the window, the extraction
  yields a slot whose \<open>minutes\<close> is the negative difference of the two times. The
  spec's invariant that a slot's duration is positive does not hold.\<close>

theorem extract_overnight_negative_minutes:
  assumes "sp \<in> set spans" "has_book_now sp" "sp_visible sp" "is_book_now (sp_text sp)"
    "parent_available (sp_parent sp)"
    "match_range (case sp_title sp of Some t \<Rightarrow> t | None \<Rightarrow> []) = Some (g1, g2)"
    "to24h g1 = Some (hhmm h1 m1)" "to24h g2 = Some (hhmm h2 m2)"
    "h1 < 24" "h2 < 24" "m1 < 60" "m2 < 60" "hhmm h2 m2 < hhmm h1 m1"
    "case start_hour prefs of Some b \<Rightarrow> b \<le> real h1 | None \<Rightarrow> True"
    "case end_hour prefs of Some b \<Rightarrow> real h1 < b | None \<Rightarrow> True"
    "min_minutes prefs = None"
  shows "\<exists>s \<in> set (extractSlotsFromScheduler prefs today u l spans).
           time_24h s = hhmm h1 m1 \<and> minutes s = real (h2 * 60 + m2) - real (h1 * 60 + m1) \<and> minutes s < 0"
proof -
  let ?s = "\<lparr>date_iso = slot_date today (sp_data_date sp), time_24h = hhmm h1 m1,
          minutes = real_of_int (durationMinutes (hhmm h1 m1) (hhmm h2 m2)), location = l, deep_link = Some u\<rparr>"
  have lt: "h2 * 60 + m2 < h1 * 60 + m1"
    using assms(9-13) hhmm_less_iff [of h2 h1 m2 m1] by auto
  have d: "real_of_int (durationMinutes (hhmm h1 m1) (hhmm h2 m2)) = real (h2 * 60 + m2) - real (h1 * 60 + m1)"
    using assms(9-12) by (simp add: durationMinutes_def)
  have "start_hour_of (hhmm h1 m1) = h1" using assms(9) by (simp add: start_hour_of_hhmm)
  then have "prefs_pass prefs ?s"
    using assms(14-16) by (simp add: prefs_pass_def split: option.splits)
  then have "verdict_slot (span_verdict prefs today u l sp) = Some ?s"
    using assms(3-8) by (simp add: span_verdict_accepts)
  moreover have "sp \<in> set (filter has_book_now spans)" using assms(1,2) by simp
  ultimately have "?s \<in> set (extractSlotsFromScheduler prefs today u l spans)"
    unfolding extractSlotsFromScheduler_def by (rule extract_loop_complete)
  with d lt show ?thesis by (intro bexI [of _ ?s]) simp_all
qed

lemma extract_monotone_in_prefs_witness:
  "wider_prefs no_preferences (no_preferences\<lparr>start_hour := Some 18, end_hour := Some 22\<rparr>) \<and>
   extractSlotsFromScheduler (no_preferences\<lparr>start_hour := Some 18, end_hour := Some 22\<rparr>)
     ''2025-06-01'' ''u'' ''Court 01''
     [\<lparr>sp_visible = True, sp_text = ''Book Now'', sp_parent = None,
        sp_title = Some ''7:00 PM-8:00 PM'', sp_data_date = None\<rparr>] \<noteq> [] \<and>
   set (extractSlotsFromScheduler (no_preferences\<lparr>start_hour := Some 18, end_hour := Some 22\<rparr>)
     ''2025-06-01'' ''u'' ''Court 01''
     [\<lparr>sp_visible = True, sp_text = ''Book Now'', sp_parent = None,
        sp_title = Some ''7:00 PM-8:00 PM'', sp_data_date = None\<rparr>]) \<subseteq>
   set (extractSlotsFromScheduler no_preferences ''2025-06-01'' ''u'' ''Court 01''
     [\<lparr>sp_visible = True, sp_text = ''Book Now'', sp_parent = None,
        sp_title = Some ''7:00 PM-8:00 PM'', sp_data_date = None\<rparr>])"
proof -
  have w: "wider_prefs no_preferences (no_preferences\<lparr>start_hour := Some 18, end_hour := Some 22\<rparr>)"
    by (simp add: wider_prefs_def no_preferences_def)
  have n: "extractSlotsFromScheduler (no_preferences\<lparr>start_hour := Some 18, end_hour := Some 22\<rparr>)
     ''2025-06-01'' ''u'' ''Court 01''
     [\<lparr>sp_visible = True, sp_text = ''Book Now'', sp_parent = None,
        sp_title = Some ''7:00 PM-8:00 PM'', sp_data_date = None\<rparr>] \<noteq> []" by code_simp
  show ?thesis using w n extract_monotone_in_prefs [OF w] by blast
qed

lemma extract_slot_provenance_witness:
  "\<lparr>date_iso = ''2025-06-01'', time_24h = ''19:00'', minutes = 60, location = ''Court 01'', deep_link = Some ''u''\<rparr>
     \<in> set (extractSlotsFromScheduler no_preferences ''2025-06-01'' ''u'' ''Court 01''
     [\<lparr>sp_visible = True, sp_text = ''Book Now'', sp_parent = None,
        sp_title = Some ''7:00 PM-8:00 PM'', sp_data_date = None\<rparr>]) \<and>
   location \<lparr>date_iso = ''2025-06-01'', time_24h = ''19:00'', minutes = 60, location = ''Court 01'', deep_link = Some ''u''\<rparr> = ''Court 01''"
proof -
  have m: "\<lparr>date_iso = ''2025-06-01'', time_24h = ''19:00'', minutes = 60, location = ''Court 01'', deep_link = Some ''u''\<rparr>
     \<in> set (extractSlotsFromScheduler no_preferences ''2025-06-01'' ''u'' ''Court 01''
     [\<lparr>sp_visible = True, sp_text = ''Book Now'', sp_parent = None,
        sp_title = Some ''7:00 PM-8:00 PM'', sp_data_date = None\<rparr>])"
    by code_simp
  show ?thesis using m extract_slot_provenance [OF m] by simp
qed
text \<open>Spec scenario B: with \<open>start_hour = 18\<close> and \<open>end_hour = 22\<close> the 7 to 8 PM
  marker of a schedule that also has a 3 to 4 PM marker yields its slot at 19:00, of 60
  minutes.\<close>

lemma extract_complete_witness:
  "\<lparr>date_iso = ''2025-06-01'', time_24h = ''19:00'', minutes = 60, location = ''Court 01'',
     deep_link = Some ''https://portal/Facility''\<rparr> \<in>
   set (extractSlotsFromScheduler (no_preferences\<lparr>start_hour := Some 18, end_hour := Some 22\<rparr>)
     ''2025-06-01'' ''https://portal/Facility'' ''Court 01''
     [\<lparr>sp_visible = True, sp_text = ''Book Now'', sp_parent = None,
        sp_title = Some ''3:00 PM-4:00 PM'', sp_data_date = None\<rparr>,
      \<lparr>sp_visible = True, sp_text = ''Book Now'', sp_parent = None,
        sp_title = Some ''7:00 PM-8:00 PM'', sp_data_date = None\<rparr>])"
proof -
  let ?sp = "\<lparr>sp_visible = True, sp_text = ''Book Now'', sp_parent = None,
        sp_title = Some ''7:00 PM-8:00 PM'', sp_data_date = None\<rparr>"
  have r: "match_range (case sp_title ?sp of Some t \<Rightarrow> t | None \<Rightarrow> []) = Some (''7:00 PM'', ''8:00 PM'')"
    by code_simp
  have a: "to24h ''7:00 PM'' = Some ''19:00''" by code_simp
  have e: "to24h ''8:00 PM'' = Some ''20:00''" by code_simp
  have s: "\<lparr>date_iso = ''2025-06-01'', time_24h = ''19:00'', minutes = 60, location = ''Court 01'',
     deep_link = Some ''https://portal/Facility''\<rparr> =
     \<lparr>date_iso = slot_date ''2025-06-01'' (sp_data_date ?sp), time_24h = ''19:00'',
      minutes = real_of_int (durationMinutes ''19:00'' ''20:00''), location = ''Court 01'',
      deep_link = Some ''https://portal/Facility''\<rparr>" by code_simp
  have p: "prefs_pass (no_preferences\<lparr>start_hour := Some 18, end_hour := Some 22\<rparr>)
     \<lparr>date_iso = ''2025-06-01'', time_24h = ''19:00'', minutes = 60, location = ''Court 01'',
      deep_link = Some ''https://portal/Facility''\<rparr>" by code_simp
  have v: "has_book_now ?sp" "is_book_now (sp_text ?sp)" "parent_available (sp_parent ?sp)" by code_simp+
  show ?thesis by (rule extract_complete [OF _ v(1) _ v(2,3) r a e s p]) simp_all
qed

lemma extract_overnight_negative_minutes_witness:
  "\<exists>s \<in> set (extractSlotsFromScheduler no_preferences ''2025-06-01'' ''u'' ''Court 01''
     [\<lparr>sp_visible = True, sp_text = ''Book Now'', sp_parent = None,
        sp_title = Some ''11:00 PM-12:00 AM'', sp_data_date = None\<rparr>]).
     time_24h s = ''23:00'' \<and> minutes s = -1380"
proof -
  let ?sp = "\<lparr>sp_visible = True, sp_text = ''Book Now'', sp_parent = None,
        sp_title = Some ''11:00 PM-12:00 AM'', sp_data_date = None\<rparr>"
  have r: "match_range (case sp_title ?sp of Some t \<Rightarrow> t | None \<Rightarrow> []) = Some (''11:00 PM'', ''12:00 AM'')"
    by code_simp
  have a: "to24h ''11:00 PM'' = Some (hhmm 23 0)" by code_simp
  have e: "to24h ''12:00 AM'' = Some (hhmm 0 0)" by code_simp
  have lt: "hhmm 0 0 < hhmm 23 0" by (simp add: hhmm_less_iff)
  have v: "has_book_now ?sp" "is_book_now (sp_text ?sp)" "parent_available (sp_parent ?sp)" by code_simp+
  have h: "hhmm 23 0 = ''23:00''" by code_simp
  have "\<exists>s \<in> set (extractSlotsFromScheduler no_preferences ''2025-06-01'' ''u'' ''Court 01'' [?sp]).
           time_24h s = hhmm 23 0 \<and> minutes s = real (0 * 60 + 0) - real (23 * 60 + 0) \<and> minutes s < 0"
    by (rule extract_overnight_negative_minutes [OF _ v(1) _ v(2,3) r a e _ _ _ _ lt])
      (simp_all add: no_preferences_def)
  then show ?thesis unfolding h by fastforce
qed

end
