(* ===== verification/Scanner.thy ===== *)
theory Scanner
  imports Scheduler
begin

text \<open>
  \<open>scanCourtsAndSlots\<close> (src/unnamed/part_003 lines 483 to 584): on the court list,
  take the first \<open>min(count, 10)\<close> desktop \<open>Choose\<close> buttons; for each, work out a
  label, open the court's facility page, read the scheduler, and go back to the court
  list. The function has no \<open>try\<close> around the navigations: a failed \<open>goto\<close> ends
  the scan with the exception, and the slots collected so far are lost with it.

  The loop re-queries the buttons on the page it is on at each iteration, as
  \<open>chooseButtons.nth(i)\<close> does after the court list was reloaded; a button that is no
  longer there makes \<open>getAttribute\<close> time out.
\<close>

section \<open>One court\<close>

text \<open>
  The label before navigation: \<open>"Court " + (i + 1)\<close>, replaced by the trimmed
  heading of the court's card when that is visible and not empty (lines 501 to 515).
\<close>

definition card_label :: "nat \<Rightarrow> string option \<Rightarrow> string" where
  "card_label i heading =
     (case heading of
       Some t \<Rightarrow> if js_trim t \<noteq> [] then js_trim t else ''Court '' @ show_nat (Suc i)
     | None \<Rightarrow> ''Court '' @ show_nat (Suc i))"

text \<open>The label after navigation: the facility page's \<open>h1.facility-name\<close> wins (544 to 555).\<close>

definition facility_label :: "string option \<Rightarrow> string \<Rightarrow> string" where
  "facility_label name courtLabel =
     (case name of
       Some n \<Rightarrow> if js_trim n \<noteq> [] then js_trim n else courtLabel
     | None \<Rightarrow> courtLabel)"

text \<open>
  The facility URL (lines 521 to 536): the button's \<open>href\<close> resolved against
  \<open>BASE_URL\<close>, or, for a button without one, the URL the tab shows after clicking it
  and waiting for the navigation.
\<close>

definition facility_url_of :: "portal \<Rightarrow> url \<Rightarrow> court_button \<Rightarrow> url step" where
  "facility_url_of P base button =
     (case cb_href button of
       Some href \<Rightarrow>
         if href \<noteq> [] then areturn (resolve_url base href)
         else (case cb_click_url button of
                 None \<Rightarrow> athrow Click_navigation_timeout
               | Some u \<Rightarrow> abind (goto P u) (\<lambda>_. abind current_page (\<lambda>pg. areturn (pg_url pg))))
     | None \<Rightarrow>
         (case cb_click_url button of
           None \<Rightarrow> athrow Click_navigation_timeout
         | Some u \<Rightarrow> abind (goto P u) (\<lambda>_. abind current_page (\<lambda>pg. areturn (pg_url pg)))))"

text \<open>One iteration of the loop, for the button at index \<open>i\<close>.\<close>

definition scan_court ::
  "portal \<Rightarrow> url \<Rightarrow> preferences \<Rightarrow> string \<Rightarrow> nat \<Rightarrow> slot list step" where
  "scan_court P base prefs today i =
     abind current_page (\<lambda>listPage.
       if length (pg_courts listPage) \<le> i then athrow (Locator_timeout ''Choose button'')
       else
         (let button = pg_courts listPage ! i;
              courtLabel = card_label i (cb_heading button)
          in abind (facility_url_of P base button) (\<lambda>facilityUrl.
             abind (goto P facilityUrl) (\<lambda>_.
             abind current_page (\<lambda>facility.
               (let courtLabel' = facility_label (pg_facility_name facility) courtLabel;
                    slotsHere = extractSlotsFromScheduler prefs today (pg_url facility) courtLabel'
                                  (pg_spans facility)
                in abind (goto P base) (\<lambda>_. areturn slotsHere)))))))"

section \<open>The loop\<close>

text \<open>
  \<open>for (let i = 0; i < limit; i++)\<close> with the slots of each court appended to
  \<open>allSlots\<close>: \<open>i\<close> counts up, \<open>n\<close> is the number of iterations left.
\<close>

fun scan_loop ::
  "portal \<Rightarrow> url \<Rightarrow> preferences \<Rightarrow> string \<Rightarrow> nat \<Rightarrow> nat \<Rightarrow> slot list \<Rightarrow> slot list step" where
  "scan_loop P base prefs today i 0 allSlots = areturn allSlots"
| "scan_loop P base prefs today i (Suc n) allSlots =
     abind (scan_court P base prefs today i) (\<lambda>slotsHere.
       scan_loop P base prefs today (Suc i) n (allSlots @ slotsHere))"

text \<open>The sanity cap of the loop.\<close>

definition max_courts :: nat where
  "max_courts = 10"

definition scanCourtsAndSlots :: "portal \<Rightarrow> url \<Rightarrow> preferences \<Rightarrow> string \<Rightarrow> slot list step" where
  "scanCourtsAndSlots P base prefs today =
     abind current_page (\<lambda>listPage.
       scan_loop P base prefs today 0 (min (length (pg_courts listPage)) max_courts) [])"

section \<open>What a scan promises\<close>

text \<open>
  A slot a scan may report: it passes the preferences, names its court and links to the
  facility page it was read from.
\<close>

definition scan_slot_ok :: "preferences \<Rightarrow> slot \<Rightarrow> bool" where
  "scan_slot_ok prefs s \<longleftrightarrow> prefs_pass prefs s \<and> location s \<noteq> [] \<and> deep_link s \<noteq> None"

text \<open>
  The slots of the \<open>i\<close>-th court of a court list, read off the portal without running
  the browser: the extraction of the facility page its \<open>href\<close> resolves to.
\<close>

definition court_result ::
  "portal \<Rightarrow> url \<Rightarrow> preferences \<Rightarrow> string \<Rightarrow> nat \<Rightarrow> court_button \<Rightarrow> slot list" where
  "court_result P base prefs today i btn =
     (case cb_href btn of
       Some h \<Rightarrow>
         (case map_of (site P) (resolve_url base h) of
           Some fp \<Rightarrow> extractSlotsFromScheduler prefs today (pg_url fp)
                       (facility_label (pg_facility_name fp) (card_label i (cb_heading btn))) (pg_spans fp)
         | None \<Rightarrow> [])
     | None \<Rightarrow> [])"

text \<open>
  A portal on which the scan cannot fail: the court list \<open>L\<close> is what \<open>base\<close> loads,
  and each of its first \<open>max_courts\<close> buttons has a non-empty \<open>href\<close> to a page the
  portal serves.
\<close>

definition stable_court_list :: "portal \<Rightarrow> url \<Rightarrow> page \<Rightarrow> bool" where
  "stable_court_list P base L \<longleftrightarrow>
     map_of (site P) base = Some L \<and>
     list_all (\<lambda>btn. case cb_href btn of
                      Some h \<Rightarrow> h \<noteq> [] \<and> map_of (site P) (resolve_url base h) \<noteq> None
                    | None \<Rightarrow> False)
       (take max_courts (pg_courts L))"

section \<open>A sample portal\<close>

text \<open>One court list with one court whose schedule has one marker, 7 to 8 PM.\<close>

definition example_base :: url where
  "example_base = ''https://p.com/List?c=1''"

definition example_marker :: span where
  "example_marker = \<lparr>sp_visible = True, sp_text = ''Book Now'', sp_parent = None,
     sp_title = Some ''7:00 PM-8:00 PM'', sp_data_date = Some ''2025-06-02''\<rparr>"

definition example_facility :: page where
  "example_facility = \<lparr>pg_url = ''https://p.com/Fac/1'', pg_login_visible = False, pg_courts = [],
     pg_facility_name = Some ''Court 1'', pg_spans = [example_marker]\<rparr>"

definition example_list :: page where
  "example_list = \<lparr>pg_url = example_base, pg_login_visible = False,
     pg_courts = [\<lparr>cb_heading = Some '' Court A '', cb_href = Some ''/Fac/1'', cb_click_url = None\<rparr>],
     pg_facility_name = None, pg_spans = []\<rparr>"

definition example_portal :: portal where
  "example_portal = \<lparr>site = [(example_base, example_list), (''https://p.com/Fac/1'', example_facility)],
     login_uis = [], booking_uis = []\<rparr>"

text \<open>The same portal when the court list no longer loads.\<close>

definition example_portal_down :: portal where
  "example_portal_down = \<lparr>site = [(''https://p.com/Fac/1'', example_facility)],
     login_uis = [], booking_uis = []\<rparr>"

text \<open>The slot the scan finds there.\<close>

definition example_slot :: slot where
  "example_slot = \<lparr>date_iso = ''2025-06-02'', time_24h = ''19:00'', minutes = 60, location = ''Court 1'',
     deep_link = Some ''https://p.com/Fac/1''\<rparr>"

definition example_browser :: browser where
  "example_browser = \<lparr>br_open = True, br_page = example_list, br_navs = [], br_clicks = []\<rparr>"

section \<open>Lemmas\<close>

lemma card_label_nonempty: "card_label i h \<noteq> []"
  by (simp add: card_label_def split: option.splits)

lemma facility_label_nonempty: "l \<noteq> [] \<Longrightarrow> facility_label n l \<noteq> []"
  by (simp add: facility_label_def split: option.splits)

lemma extract_slots_ok:
  "l \<noteq> [] \<Longrightarrow> \<forall>s \<in> set (extractSlotsFromScheduler prefs today u l spans). scan_slot_ok prefs s"
  using extract_loop_slots [of prefs today u l "filter has_book_now spans"]
  by (auto simp: extractSlotsFromScheduler_def scan_slot_ok_def)

subsection \<open>Navigations\<close>

lemma click_navigation_nav_bound:
  "1 \<le> k \<Longrightarrow> nav_bound k (abind (goto P u) (\<lambda>_. abind current_page (\<lambda>pg. areturn (pg_url pg))))"
  by (rule log_bound_abind [where k = 1 and l = 0])
    (auto intro: log_bound_abind [where k = 0 and l = 0])

lemma facility_url_of_nav_bound: "nav_bound 1 (facility_url_of P base btn)"
  unfolding facility_url_of_def
  by (simp add: click_navigation_nav_bound split: option.splits)

lemma scan_court_nav_bound: "nav_bound 3 (scan_court P base prefs today i)"
  unfolding scan_court_def Let_def
  by (intro log_bound_abind [where k = 0 and l = 3] log_bound_if log_bound_athrow
        log_bound_abind [where k = 1 and l = 2, OF facility_url_of_nav_bound]
        log_bound_abind [where k = 1 and l = 1] log_bound_abind [where k = 0 and l = 1]
        log_bound_abind [where k = 1 and l = 0] nav_bound_goto nav_bound_current_page log_bound_areturn)
     simp_all

lemma scan_loop_nav_bound: "nav_bound (3 * n) (scan_loop P base prefs today i n acc)"
proof (induction n arbitrary: i acc)
  case 0
  then show ?case by simp
next
  case (Suc n)
  show ?case
    using scan_court_nav_bound Suc.IH by (auto intro: log_bound_abind [where k = 3 and l = "3 * n"])
qed

subsection \<open>The slots a scan yields\<close>

lemma scan_court_yields: "yields (scan_court P base prefs today i) (\<lambda>ss. \<forall>s \<in> set ss. scan_slot_ok prefs s)"
  unfolding scan_court_def Let_def
  by (intro yields_abind_any yields_if yields_athrow yields_areturn
        extract_slots_ok facility_label_nonempty card_label_nonempty)

lemma scan_loop_yields:
  "\<forall>s \<in> set acc. scan_slot_ok prefs s \<Longrightarrow>
   yields (scan_loop P base prefs today i n acc) (\<lambda>ss. \<forall>s \<in> set ss. scan_slot_ok prefs s)"
proof (induction n arbitrary: i acc)
  case 0
  then show ?case by (simp add: yields_def)
next
  case (Suc n)
  show ?case
    using Suc.prems by (auto intro!: yields_abind [OF scan_court_yields] Suc.IH)
qed

lemma scan_yields_ok: "yields (scanCourtsAndSlots P base prefs today) (\<lambda>ss. \<forall>s \<in> set ss. scan_slot_ok prefs s)"
  unfolding scanCourtsAndSlots_def by (rule yields_abind_any, rule scan_loop_yields) simp

subsection \<open>What the scan does not change\<close>

text \<open>The scan keeps every property navigations keep: the browser stays open, no click.\<close>

lemma facility_url_of_keeps: "nav_invariant I \<Longrightarrow> keeps I (facility_url_of P base btn)"
  unfolding facility_url_of_def by (auto intro!: keeps_abind goto_keeps split: option.splits)

lemma scan_court_keeps: "nav_invariant I \<Longrightarrow> keeps I (scan_court P base prefs today i)"
  unfolding scan_court_def Let_def
  by (auto intro!: keeps_abind facility_url_of_keeps goto_keeps)

lemma scan_loop_keeps: "nav_invariant I \<Longrightarrow> keeps I (scan_loop P base prefs today i n acc)"
  by (induction n arbitrary: i acc) (auto intro!: keeps_abind scan_court_keeps)

lemma scan_keeps: "nav_invariant I \<Longrightarrow> keeps I (scanCourtsAndSlots P base prefs today)"
  unfolding scanCourtsAndSlots_def by (auto intro!: keeps_abind scan_loop_keeps)

subsection \<open>A portal that does not fail\<close>

lemma stable_court_button:
  assumes "stable_court_list P base L" "i < min (length (pg_courts L)) max_courts"
  obtains h fp where "cb_href (pg_courts L ! i) = Some h" "h \<noteq> []"
    "map_of (site P) (resolve_url base h) = Some fp"
proof -
  have "i < length (take max_courts (pg_courts L))" using assms(2) by simp
  then have "take max_courts (pg_courts L) ! i \<in> set (take max_courts (pg_courts L))" by (rule nth_mem)
  with assms(2) have "pg_courts L ! i \<in> set (take max_courts (pg_courts L))" by simp
  with assms(1) have ok: "case cb_href (pg_courts L ! i) of
      Some h \<Rightarrow> h \<noteq> [] \<and> map_of (site P) (resolve_url base h) \<noteq> None | None \<Rightarrow> False"
    unfolding stable_court_list_def list_all_iff by blast
  show ?thesis
  proof (cases "cb_href (pg_courts L ! i)")
    case None
    with ok show ?thesis by simp
  next
    case (Some h)
    with ok that show ?thesis by auto
  qed
qed

lemma scan_court_stable:
  assumes "stable_court_list P base L" "br_page b = L" "i < min (length (pg_courts L)) max_courts"
  shows "\<exists>b'. scan_court P base prefs today i b = (b', Inr (court_result P base prefs today i (pg_courts L ! i)))
             \<and> br_page b' = L"
proof -
  obtain h fp where h: "cb_href (pg_courts L ! i) = Some h" "h \<noteq> []"
      "map_of (site P) (resolve_url base h) = Some fp"
    using stable_court_button [OF assms(1,3)] by blast
  have base: "map_of (site P) base = Some L" using assms(1) by (simp add: stable_court_list_def)
  show ?thesis
    using assms(2,3) h base
    by (simp add: scan_court_def Let_def facility_url_of_def court_result_def goto_def
        current_page_def abind_def)
qed

lemma scan_loop_stable:
  assumes "stable_court_list P base L" "br_page b = L" "i + n \<le> min (length (pg_courts L)) max_courts"
  shows "snd (scan_loop P base prefs today i n acc b) =
         Inr (acc @ concat (map (\<lambda>j. court_result P base prefs today j (pg_courts L ! j)) [i..<i + n]))"
  using assms(2,3)
proof (induction n arbitrary: i acc b)
  case 0
  then show ?case by simp
next
  case (Suc n)
  obtain b' where c: "scan_court P base prefs today i b = (b', Inr (court_result P base prefs today i (pg_courts L ! i)))"
    and b': "br_page b' = L"
  proof -
    have "i < min (length (pg_courts L)) max_courts" using Suc.prems(2) by simp
    then show thesis using scan_court_stable [OF assms(1) Suc.prems(1)] that by blast
  qed
  have u: "[i..<Suc (i + n)] = i # [Suc i..<Suc (i + n)]" by (simp add: upt_conv_Cons)
  have "Suc i + n \<le> min (length (pg_courts L)) max_courts" using Suc.prems(2) by simp
  from Suc.IH [OF b' this] c show ?case
    by (simp add: abind_def u del: upt_Suc)
qed

section \<open>Properties of the scan\<close>

text \<open>C6: Every slot a completed scan returns passes the preferences, carries a non-empty
  court label, and links to the facility page it was read from.
\<close>

theorem scan_slots_ok:
  assumes "scanCourtsAndSlots P base prefs today b = (b', Inr slots)"
  shows "\<forall>s \<in> set slots. prefs_pass prefs s \<and> location s \<noteq> [] \<and> deep_link s \<noteq> None"
  using yieldsD [OF scan_yields_ok assms] by (simp add: scan_slot_ok_def)

theorem scan_slots_ok_witness:
  "scanCourtsAndSlots example_portal example_base no_preferences ''2025-06-01'' example_browser =
     (example_browser\<lparr>br_navs := [''https://p.com/Fac/1'', example_base]\<rparr>, Inr [example_slot]) \<and>
   prefs_pass no_preferences example_slot \<and> location example_slot \<noteq> [] \<and> deep_link example_slot \<noteq> None"
proof -
  have e: "scanCourtsAndSlots example_portal example_base no_preferences ''2025-06-01'' example_browser =
     (example_browser\<lparr>br_navs := [''https://p.com/Fac/1'', example_base]\<rparr>, Inr [example_slot])"
    by code_simp
  have "prefs_pass no_preferences example_slot \<and> location example_slot \<noteq> [] \<and> deep_link example_slot \<noteq> None"
    using scan_slots_ok [OF e] by simp
  with e show ?thesis by (rule conjI)
qed

text \<open>C7: On a portal whose court list reloads unchanged and whose first ten courts all link
  to pages it serves, the scan returns, in court order, the extraction of each of the
  first \<open>min(count, 10)\<close> facility pages.
\<close>

theorem scan_stable_portal:
  assumes "stable_court_list P base L" "br_page b = L"
  shows "snd (scanCourtsAndSlots P base prefs today b) =
         Inr (concat (map (\<lambda>j. court_result P base prefs today j (pg_courts L ! j))
                [0..<min (length (pg_courts L)) max_courts]))"
proof -
  have "snd (scan_loop P base prefs today 0 (min (length (pg_courts L)) max_courts) [] b) =
        Inr ([] @ concat (map (\<lambda>j. court_result P base prefs today j (pg_courts L ! j))
                [0..<0 + min (length (pg_courts L)) max_courts]))"
    by (rule scan_loop_stable [OF assms]) simp
  with assms(2) show ?thesis by (simp add: scanCourtsAndSlots_def abind_def current_page_def)
qed

theorem scan_stable_portal_witness:
  "stable_court_list example_portal example_base example_list \<and> br_page example_browser = example_list \<and>
   snd (scanCourtsAndSlots example_portal example_base no_preferences ''2025-06-01'' example_browser) =
     Inr (concat (map (\<lambda>j. court_result example_portal example_base no_preferences ''2025-06-01'' j
                              (pg_courts example_list ! j))
            [0..<min (length (pg_courts example_list)) max_courts]))"
proof -
  have h1: "stable_court_list example_portal example_base example_list" by code_simp
  have h2: "br_page example_browser = example_list" by (simp add: example_browser_def)
  show ?thesis by (intro conjI h1 h2 scan_stable_portal [OF h1 h2])
qed

text \<open>A scan performs at most thirty navigations (three per court: the facility page, at
  most one click navigation, the return to the list), whatever the portal answers.
\<close>

theorem scan_navigation_bound: "nav_bound (3 * max_courts) (scanCourtsAndSlots P base prefs today)"
  unfolding scanCourtsAndSlots_def
  by (rule log_bound_abind [where k = 0 and l = "3 * max_courts"])
    (auto intro: log_bound_mono [OF scan_loop_nav_bound])

text \<open>C8: A failed navigation back to the court list ends the scan with the navigation
  error, for every portal: when the court list's URL is not served and its first court
  links to a page that is, the scan throws \<open>Navigation_failed\<close> of the list's URL
  after reading that court's schedule, and the slots it read are lost with it. The spec
  (section 4.3) asks the scan to end early and return the slots already collected.\<close>

theorem scan_return_failure_loses_slots:
  assumes "map_of (site P) base = None" "pg_courts (br_page b) = btn # rest"
    "cb_href btn = Some h" "h \<noteq> []" "map_of (site P) (resolve_url base h) = Some fp"
  shows "snd (scanCourtsAndSlots P base prefs today b) = Inl (Navigation_failed base)"
proof -
  obtain n where n: "min (length (pg_courts (br_page b))) max_courts = Suc n"
    using assms(2) by (cases "min (length (pg_courts (br_page b))) max_courts") (auto simp: max_courts_def)
  show ?thesis
    using assms n
    by (simp add: scanCourtsAndSlots_def scan_court_def Let_def facility_url_of_def
        goto_def current_page_def abind_def)
qed

theorem scan_return_failure_loses_slots_witness:
  "map_of (site example_portal_down) example_base = None \<and>
   court_result example_portal_down example_base no_preferences ''2025-06-01'' 0
      (hd (pg_courts example_list)) = [example_slot] \<and>
   snd (scanCourtsAndSlots example_portal_down example_base no_preferences ''2025-06-01'' example_browser) =
     Inl (Navigation_failed example_base)"
proof -
  have h1: "map_of (site example_portal_down) example_base = None" by code_simp
  have h2: "pg_courts (br_page example_browser) =
      \<lparr>cb_heading = Some '' Court A '', cb_href = Some ''/Fac/1'', cb_click_url = None\<rparr> # []"
    by (simp add: example_browser_def example_list_def)
  have h5: "map_of (site example_portal_down) (resolve_url example_base ''/Fac/1'') = Some example_facility"
    by code_simp
  have c: "court_result example_portal_down example_base no_preferences ''2025-06-01'' 0
      (hd (pg_courts example_list)) = [example_slot]" by code_simp
  show ?thesis using scan_return_failure_loses_slots [OF h1 h2 _ _ h5] h1 c by simp
qed

end
