(* ===== verification/Auth.thy ===== *)
theory Auth
  imports Portal
begin

text \<open>
  \<open>ensureLoggedIn\<close> (src/unnamed/part_003 lines 213 to 317): the login flow shared by
  the scan and the booking. Each phase of the code is one action on the browser: the
  probe for a visible \<open>Login\<close> link, the click on it, the click on the first visible
  \<open>CWL Login\<close> candidate, the credential check and the wait for the form fields,
  the click on submit, and the wait for the redirect chain followed by the return to the
  court list. The spec's state machine (section 4.2) is the relation \<open>auth_spec\<close>
  on pairs of a spec state and the active page, whose transitions are stated over the
  portal's pages and login affordances and the credentials, independently of the
  phases; every run of \<open>ensureLoggedIn\<close> is a path of it from
  \<open>CHECKING_LOGIN_STATE\<close> to a terminal state.
\<close>

section \<open>The phases of the flow\<close>

text \<open>A page the portal does not describe has no login affordance.\<close>

definition no_login_ui :: login_ui where
  "no_login_ui = \<lparr>lu_login_target = None, lu_cwl_candidates = [], lu_username_field = False,
     lu_password_field = False, lu_submit_button = False, lu_after_submit = None\<rparr>"

definition ui_of :: "portal \<Rightarrow> url \<Rightarrow> login_ui" where
  "ui_of P u = (case map_of (login_uis P) u of Some ui \<Rightarrow> ui | None \<Rightarrow> no_login_ui)"

text \<open>
  A click that may navigate (\<open>Promise.all([context.waitForEvent("page").catch(() =>
  null), el.click()])\<close> followed by \<open>waitForLoadState\<close>): the active page becomes the
  one the click loads, in whichever tab; a click that loads nothing leaves it as it is.
\<close>

definition click_to :: "portal \<Rightarrow> url option \<Rightarrow> unit step" where
  "click_to P target = (case target of None \<Rightarrow> areturn () | Some u \<Rightarrow> goto P u)"

text \<open>
  Lines 230 to 237: click \<open>Login\<close>; the page the click opens (or the same page) is
  \<open>authPage\<close>.
\<close>

definition click_login :: "portal \<Rightarrow> unit step" where
  "click_login P = abind current_page (\<lambda>pg. click_to P (lu_login_target (ui_of P (pg_url pg))))"

text \<open>
  Lines 242 to 256: the first candidate whose \<open>first()\<close> is visible, with where a click
  on it leads; \<open>None\<close> when no candidate is visible.
\<close>

fun first_visible :: "(bool \<times> url option) list \<Rightarrow> url option option" where
  "first_visible [] = None"
| "first_visible ((vis, target) # cands) = (if vis then Some target else first_visible cands)"

text \<open>Lines 258 to 270: click it if there is one, else continue on the same page.\<close>

definition click_cwl :: "portal \<Rightarrow> unit step" where
  "click_cwl P =
     abind current_page (\<lambda>pg.
       case first_visible (lu_cwl_candidates (ui_of P (pg_url pg))) of
         None \<Rightarrow> areturn ()
       | Some target \<Rightarrow> click_to P target)"

text \<open>\<open>process.env.X || ""\<close>\<close>

definition env_or_empty :: "string option \<Rightarrow> string" where
  "env_or_empty v = (case v of Some s \<Rightarrow> s | None \<Rightarrow> [])"

text \<open>
  Lines 273 to 293: both credentials must be non-empty, then the username field and the
  password field must appear (each \<open>waitFor\<close> times out after 60 s), then both are
  filled. Filling does not change what the model observes.
\<close>

definition fill_credentials :: "portal \<Rightarrow> environment \<Rightarrow> unit step" where
  "fill_credentials P E =
     (let user = env_or_empty (env_user E); pass = env_or_empty (env_pass E) in
      if user = [] \<or> pass = [] then athrow Credentials_missing
      else abind current_page (\<lambda>pg.
        let ui = ui_of P (pg_url pg) in
        if \<not> lu_username_field ui then athrow (Locator_timeout ''username'')
        else if \<not> lu_password_field ui then athrow (Locator_timeout ''password'')
        else areturn ()))"

text \<open>Lines 295 to 300: click the submit button; without one the click times out.\<close>

definition submit_credentials :: "portal \<Rightarrow> unit step" where
  "submit_credentials P =
     abind current_page (\<lambda>pg.
       if lu_submit_button (ui_of P (pg_url pg)) then areturn ()
       else athrow (Locator_timeout ''submit''))"

text \<open>
  Lines 302 to 316: wait for the redirect chain to settle (60 s), then, unless the URL
  starts with \<open>BASE_URL\<close> up to its query, navigate to \<open>BASE_URL\<close>; the page the
  tab then shows is returned. The URL is not checked again after that navigation.
\<close>

definition settle_redirects :: "portal \<Rightarrow> unit step" where
  "settle_redirects P =
     abind current_page (\<lambda>pg.
       case lu_after_submit (ui_of P (pg_url pg)) of
         None \<Rightarrow> athrow Settle_timeout
       | Some u \<Rightarrow> goto P u)"

definition return_to_list :: "portal \<Rightarrow> url \<Rightarrow> page step" where
  "return_to_list P base =
     abind current_page (\<lambda>pg.
       if starts_with (pg_url pg) (before_char CHR ''?'' base) then areturn pg
       else abind (goto P base) (\<lambda>_. current_page))"

definition await_landing :: "portal \<Rightarrow> url \<Rightarrow> page step" where
  "await_landing P base = abind (settle_redirects P) (\<lambda>_. return_to_list P base)"

section \<open>The flow\<close>

text \<open>Lines 230 to 316, run when the \<open>Login\<close> link is visible.\<close>

definition login_flow :: "portal \<Rightarrow> environment \<Rightarrow> url \<Rightarrow> page step" where
  "login_flow P E base =
     abind (click_login P) (\<lambda>_.
     abind (click_cwl P) (\<lambda>_.
     abind (fill_credentials P E) (\<lambda>_.
     abind (submit_credentials P) (\<lambda>_.
     await_landing P base))))"

text \<open>Lines 217 to 228: an already authenticated session returns the page as it is.\<close>

definition ensureLoggedIn :: "portal \<Rightarrow> environment \<Rightarrow> url \<Rightarrow> page step" where
  "ensureLoggedIn P E base =
     abind current_page (\<lambda>pg. if \<not> pg_login_visible pg then areturn pg else login_flow P E base)"

section \<open>The spec's state machine\<close>

datatype auth_state =
    UNKNOWN
  | CHECKING_LOGIN_STATE
  | ALREADY_AUTHENTICATED
  | AWAITING_PORTAL_REDIRECT
  | AWAITING_IDENTITY_PROVIDER_LINK
  | AWAITING_CREDENTIAL_FORM
  | SUBMITTING
  | AWAITING_REDIRECT_CHAIN
  | RETURNED_TO_KNOWN_PAGE
  | FAILED

definition auth_terminal :: "auth_state \<Rightarrow> bool" where
  "auth_terminal st \<longleftrightarrow> st \<in> {ALREADY_AUTHENTICATED, RETURNED_TO_KNOWN_PAGE, FAILED}"

text \<open>
  The spec's transitions, stated over what the portal shows: \<open>lands P t pg\<close> is the
  page that is active after a click on an affordance that leads to \<open>t\<close> (\<open>None\<close>:
  the same page; a URL the portal does not serve: no page, the navigation fails).
\<close>

definition lands :: "portal \<Rightarrow> url option \<Rightarrow> page \<Rightarrow> page option" where
  "lands P t pg = (case t of None \<Rightarrow> Some pg | Some u \<Rightarrow> map_of (site P) u)"

definition cwl_target :: "portal \<Rightarrow> page \<Rightarrow> url option" where
  "cwl_target P pg = (case first_visible (lu_cwl_candidates (ui_of P (pg_url pg))) of None \<Rightarrow> None | Some t \<Rightarrow> t)"

definition credentials_ready :: "portal \<Rightarrow> environment \<Rightarrow> page \<Rightarrow> bool" where
  "credentials_ready P E pg \<longleftrightarrow>
     env_or_empty (env_user E) \<noteq> [] \<and> env_or_empty (env_pass E) \<noteq> [] \<and>
     lu_username_field (ui_of P (pg_url pg)) \<and> lu_password_field (ui_of P (pg_url pg))"

text \<open>
  Section 4.2 as a relation on a spec state and the active page. Each wait either reaches
  the state the spec names next or, when the affordance it waits for is missing or the
  navigation it awaits fails, \<open>FAILED\<close>; the redirect chain ends on the landing view,
  reached directly or by a navigation to \<open>BASE_URL\<close>.
\<close>

inductive auth_spec :: "portal \<Rightarrow> environment \<Rightarrow> url \<Rightarrow> auth_state \<times> page \<Rightarrow> auth_state \<times> page \<Rightarrow> bool"
  for P E base where
  start: "auth_spec P E base (UNKNOWN, pg) (CHECKING_LOGIN_STATE, pg)"
| authenticated: "\<not> pg_login_visible pg \<Longrightarrow>
    auth_spec P E base (CHECKING_LOGIN_STATE, pg) (ALREADY_AUTHENTICATED, pg)"
| login_shown: "pg_login_visible pg \<Longrightarrow>
    auth_spec P E base (CHECKING_LOGIN_STATE, pg) (AWAITING_PORTAL_REDIRECT, pg)"
| portal_redirect: "lands P (lu_login_target (ui_of P (pg_url pg))) pg = Some pg' \<Longrightarrow>
    auth_spec P E base (AWAITING_PORTAL_REDIRECT, pg) (AWAITING_IDENTITY_PROVIDER_LINK, pg')"
| portal_redirect_failed: "lands P (lu_login_target (ui_of P (pg_url pg))) pg = None \<Longrightarrow>
    auth_spec P E base (AWAITING_PORTAL_REDIRECT, pg) (FAILED, pg)"
| provider_link: "lands P (cwl_target P pg) pg = Some pg' \<Longrightarrow>
    auth_spec P E base (AWAITING_IDENTITY_PROVIDER_LINK, pg) (AWAITING_CREDENTIAL_FORM, pg')"
| provider_link_failed: "lands P (cwl_target P pg) pg = None \<Longrightarrow>
    auth_spec P E base (AWAITING_IDENTITY_PROVIDER_LINK, pg) (FAILED, pg)"
| credential_form: "credentials_ready P E pg \<Longrightarrow>
    auth_spec P E base (AWAITING_CREDENTIAL_FORM, pg) (SUBMITTING, pg)"
| credential_form_failed: "\<not> credentials_ready P E pg \<Longrightarrow>
    auth_spec P E base (AWAITING_CREDENTIAL_FORM, pg) (FAILED, pg)"
| submitting: "lu_submit_button (ui_of P (pg_url pg)) \<Longrightarrow>
    auth_spec P E base (SUBMITTING, pg) (AWAITING_REDIRECT_CHAIN, pg)"
| submitting_failed: "\<not> lu_submit_button (ui_of P (pg_url pg)) \<Longrightarrow>
    auth_spec P E base (SUBMITTING, pg) (FAILED, pg)"
| on_landing: "lu_after_submit (ui_of P (pg_url pg)) = Some u \<Longrightarrow> map_of (site P) u = Some pg' \<Longrightarrow>
    starts_with (pg_url pg') (before_char CHR ''?'' base) \<Longrightarrow>
    auth_spec P E base (AWAITING_REDIRECT_CHAIN, pg) (RETURNED_TO_KNOWN_PAGE, pg')"
| returned: "lu_after_submit (ui_of P (pg_url pg)) = Some u \<Longrightarrow> map_of (site P) u = Some pg' \<Longrightarrow>
    \<not> starts_with (pg_url pg') (before_char CHR ''?'' base) \<Longrightarrow> map_of (site P) base = Some pg'' \<Longrightarrow>
    auth_spec P E base (AWAITING_REDIRECT_CHAIN, pg) (RETURNED_TO_KNOWN_PAGE, pg'')"
| chain_timeout: "lu_after_submit (ui_of P (pg_url pg)) = None \<Longrightarrow>
    auth_spec P E base (AWAITING_REDIRECT_CHAIN, pg) (FAILED, pg)"
| chain_failed: "lu_after_submit (ui_of P (pg_url pg)) = Some u \<Longrightarrow> map_of (site P) u = None \<Longrightarrow>
    auth_spec P E base (AWAITING_REDIRECT_CHAIN, pg) (FAILED, pg)"
| return_failed: "lu_after_submit (ui_of P (pg_url pg)) = Some u \<Longrightarrow> map_of (site P) u = Some pg' \<Longrightarrow>
    \<not> starts_with (pg_url pg') (before_char CHR ''?'' base) \<Longrightarrow> map_of (site P) base = None \<Longrightarrow>
    auth_spec P E base (AWAITING_REDIRECT_CHAIN, pg) (FAILED, pg')"

code_pred auth_spec .

section \<open>A sample portal\<close>

text \<open>
  A court list that shows \<open>Login\<close>; the link leads to a login portal whose second
  \<open>CWL\<close> candidate is visible and leads to the CWL form; submitting it settles on the
  court list without its query, logged in.
\<close>

definition example_login_list :: page where
  "example_login_list = \<lparr>pg_url = ''https://p.com/List?c=1'', pg_login_visible = True, pg_courts = [],
     pg_facility_name = None, pg_spans = []\<rparr>"

definition example_login_portal :: portal where
  "example_login_portal =
     \<lparr>site = [(''https://p.com/Login'', example_login_list\<lparr>pg_url := ''https://p.com/Login'', pg_login_visible := False\<rparr>),
              (''https://cwl.example/auth'', example_login_list\<lparr>pg_url := ''https://cwl.example/auth'', pg_login_visible := False\<rparr>),
              (''https://p.com/List'', example_login_list\<lparr>pg_url := ''https://p.com/List'', pg_login_visible := False\<rparr>)],
      login_uis =
        [(''https://p.com/List?c=1'', no_login_ui\<lparr>lu_login_target := Some ''https://p.com/Login''\<rparr>),
         (''https://p.com/Login'', no_login_ui\<lparr>lu_cwl_candidates := [(False, None), (True, Some ''https://cwl.example/auth'')]\<rparr>),
         (''https://cwl.example/auth'', no_login_ui\<lparr>lu_username_field := True, lu_password_field := True,
            lu_submit_button := True, lu_after_submit := Some ''https://p.com/List''\<rparr>)],
      booking_uis = []\<rparr>"

definition example_env :: environment where
  "example_env = \<lparr>env_base_url = None, env_user = Some ''student'', env_pass = Some ''secret''\<rparr>"

definition example_login_browser :: browser where
  "example_login_browser = \<lparr>br_open = True, br_page = example_login_list, br_navs = [], br_clicks = []\<rparr>"

definition example_landing :: page where
  "example_landing = example_login_list\<lparr>pg_url := ''https://p.com/List'', pg_login_visible := False\<rparr>"

definition example_logged_in :: browser where
  "example_logged_in = example_login_browser\<lparr>br_page := example_landing,
     br_navs := [''https://p.com/Login'', ''https://cwl.example/auth'', ''https://p.com/List'']\<rparr>"

text \<open>The same portal when single sign-on fails silently and the court list comes back logged out.\<close>

definition example_sso_denied :: portal where
  "example_sso_denied =
     example_login_portal\<lparr>site := [(''https://p.com/Login'', example_login_list\<lparr>pg_url := ''https://p.com/Login'', pg_login_visible := False\<rparr>),
       (''https://cwl.example/auth'', example_login_list\<lparr>pg_url := ''https://cwl.example/auth'', pg_login_visible := False\<rparr>),
       (''https://p.com/List'', example_login_list\<lparr>pg_url := ''https://p.com/List''\<rparr>)]\<rparr>"

section \<open>Lemmas\<close>

subsection \<open>The specification\<close>

lemma auth_terminal_no_step: "auth_terminal st \<Longrightarrow> \<not> auth_spec P E base (st, pg) c'"
  by (auto simp: auth_terminal_def elim: auth_spec.cases)

lemma auth_spec_deterministic: "auth_spec P E base c c1 \<Longrightarrow> auth_spec P E base c c2 \<Longrightarrow> c1 = c2"
  by (induction rule: auth_spec.induct) (auto elim: auth_spec.cases)










subsection \<open>Results of the phases\<close>

lemma ensureLoggedIn_authenticated:
  "\<not> pg_login_visible (br_page b) \<Longrightarrow> ensureLoggedIn P E base b = (b, Inr (br_page b))"
  by (simp add: ensureLoggedIn_def abind_current_page)

lemma return_to_list_result:
  assumes "return_to_list P base b = (b', Inr pg)"
  shows "pg = br_page b' \<and>
    (starts_with (pg_url pg) (before_char CHR ''?'' base) \<and> b' = b \<or>
     map_of (site P) base = Some pg \<and> br_navs b' = br_navs b @ [base])"
  using assms
  by (auto simp: return_to_list_def abind_current_page abind_result goto_Inr current_page_def
      split: if_splits)

lemma await_landing_result:
  assumes "await_landing P base b = (b', Inr pg)"
  shows "pg = br_page b' \<and>
    (starts_with (pg_url pg) (before_char CHR ''?'' base) \<or>
     map_of (site P) base = Some pg \<and> br_navs b' \<noteq> [] \<and> last (br_navs b') = base)"
  using assms unfolding await_landing_def abind_result
  by (auto dest!: return_to_list_result)

lemma ensureLoggedIn_cases:
  assumes "ensureLoggedIn P E base b = (b', r)"
  obtains "\<not> pg_login_visible (br_page b)" "b' = b" "r = Inr (br_page b)"
  | "pg_login_visible (br_page b)" "login_flow P E base b = (b', r)"
  using assms unfolding ensureLoggedIn_def abind_current_page
  by (cases "pg_login_visible (br_page b)") auto

lemma login_flow_landing:
  "login_flow P E base b = (b', Inr pg) \<Longrightarrow> \<exists>b4. await_landing P base b4 = (b', Inr pg)"
  by (auto simp: login_flow_def abind_result)

lemma click_to_error: "click_to P t b = (b', Inl e) \<Longrightarrow> \<exists>u. e = Navigation_failed u"
  by (auto simp: click_to_def goto_def split: option.splits)

lemma click_login_error: "click_login P b = (b', Inl e) \<Longrightarrow> \<exists>u. e = Navigation_failed u"
  by (auto simp: click_login_def abind_current_page dest: click_to_error)

lemma click_cwl_error: "click_cwl P b = (b', Inl e) \<Longrightarrow> \<exists>u. e = Navigation_failed u"
  by (auto simp: click_cwl_def abind_current_page dest: click_to_error split: option.splits)

lemma fill_credentials_missing:
  "env_or_empty (env_user E) = [] \<or> env_or_empty (env_pass E) = [] \<Longrightarrow>
   fill_credentials P E = athrow Credentials_missing"
  by (auto simp: fill_credentials_def Let_def)

lemma submit_credentials_error: "submit_credentials P b = (b', Inl e) \<Longrightarrow> e = Locator_timeout ''submit''"
  by (auto simp: submit_credentials_def abind_current_page split: if_splits)

lemma await_landing_error: "await_landing P base b = (b', Inl e) \<Longrightarrow> e = Settle_timeout \<or> (\<exists>u. e = Navigation_failed u)"
  by (auto simp: await_landing_def settle_redirects_def return_to_list_def abind_current_page abind_result
      goto_def current_page_def split: option.splits if_splits)

text \<open>Only the credential check throws \<open>Credentials_missing\<close>.\<close>

lemma ensureLoggedIn_credentials_missing:
  assumes "snd (ensureLoggedIn P E base b) = Inl Credentials_missing"
  shows "env_or_empty (env_user E) = [] \<or> env_or_empty (env_pass E) = []"
proof -
  obtain b' where run: "ensureLoggedIn P E base b = (b', Inl Credentials_missing)"
    using assms by (cases "ensureLoggedIn P E base b") simp
  then have "login_flow P E base b = (b', Inl Credentials_missing)"
    by (cases rule: ensureLoggedIn_cases) auto
  then have "\<exists>b1 b2. fill_credentials P E b1 = (b2, Inl Credentials_missing)"
    by (auto simp: login_flow_def abind_result dest: click_login_error click_cwl_error
        submit_credentials_error await_landing_error)
  then show ?thesis
    by (auto simp: fill_credentials_def Let_def abind_current_page split: if_splits)
qed

lemma ensureLoggedIn_page: "ensureLoggedIn P E base b = (b', Inr pg) \<Longrightarrow> pg = br_page b'"
  by (cases rule: ensureLoggedIn_cases) (auto dest!: login_flow_landing await_landing_result)

lemma click_to_nav_bound: "1 \<le> k \<Longrightarrow> nav_bound k (click_to P t)"
  by (auto simp: click_to_def split: option.splits)

lemma login_flow_nav_bound: "nav_bound 4 (login_flow P E base)"
proof -
  have login: "nav_bound 1 (click_login P)"
    unfolding click_login_def by (rule log_bound_abind [where k = 0 and l = 1]) (auto intro: click_to_nav_bound)
  have cwl: "nav_bound 1 (click_cwl P)"
    unfolding click_cwl_def
    by (rule log_bound_abind [where k = 0 and l = 1]) (auto intro: click_to_nav_bound split: option.splits)
  have fill: "nav_bound 0 (fill_credentials P E)"
    unfolding fill_credentials_def Let_def by (auto intro!: log_bound_abind [where k = 0 and l = 0])
  have submit: "nav_bound 0 (submit_credentials P)"
    unfolding submit_credentials_def by (auto intro!: log_bound_abind [where k = 0 and l = 0])
  have landing: "nav_bound 2 (await_landing P base)"
    unfolding await_landing_def settle_redirects_def return_to_list_def
    by (intro log_bound_abind [where k = 1 and l = 1] log_bound_abind [where k = 0 and l = 1]
        log_bound_if log_bound_abind [where k = 1 and l = 0] nav_bound_goto nav_bound_current_page
        log_bound_athrow log_bound_areturn) (auto split: option.splits)
  show ?thesis
    unfolding login_flow_def
    by (intro log_bound_abind [OF login _, where l = 3] log_bound_abind [OF cwl _, where l = 2]
        log_bound_abind [OF fill _, where l = 2] log_bound_abind [OF submit _, where l = 2] landing) simp_all
qed

lemma ensureLoggedIn_keeps: "nav_invariant I \<Longrightarrow> keeps I (ensureLoggedIn P E base)"
proof -
  assume I: "nav_invariant I"
  have click: "keeps I (click_to P t)" for t
    using I by (auto simp: click_to_def split: option.splits)
  show ?thesis
    unfolding ensureLoggedIn_def login_flow_def click_login_def click_cwl_def fill_credentials_def
      submit_credentials_def await_landing_def settle_redirects_def return_to_list_def Let_def
    using I by (auto intro!: keeps_abind click current_page_keeps goto_keeps split: option.splits)
qed

section \<open>Properties of the login flow\<close>



text \<open>C16: The flow is idempotent: once it has returned a page that shows no \<open>Login\<close>
  link, running it again returns the same page and changes nothing.\<close>

theorem ensureLoggedIn_idempotent:
  assumes "ensureLoggedIn P E base b = (b', Inr pg)" "\<not> pg_login_visible pg"
  shows "ensureLoggedIn P E base b' = (b', Inr pg)"
  using assms ensureLoggedIn_authenticated [of b' P E base] ensureLoggedIn_page [OF assms(1)] by simp

theorem ensureLoggedIn_idempotent_witness:
  "ensureLoggedIn example_login_portal example_env ''https://p.com/List?c=1'' example_login_browser =
     (example_logged_in, Inr example_landing) \<and> \<not> pg_login_visible example_landing \<and>
   ensureLoggedIn example_login_portal example_env ''https://p.com/List?c=1'' example_logged_in =
     (example_logged_in, Inr example_landing)"
proof -
  have e: "ensureLoggedIn example_login_portal example_env ''https://p.com/List?c=1'' example_login_browser =
     (example_logged_in, Inr example_landing)" by code_simp
  have v: "\<not> pg_login_visible example_landing" by (simp add: example_landing_def example_login_list_def)
  show ?thesis using ensureLoggedIn_idempotent [OF e v] e v by simp
qed

text \<open>C17: When the flow returns, the page it returns is the one the browser shows, and
  either the session was already authenticated and nothing happened, or the URL starts
  with \<open>BASE_URL\<close> up to its query, or the flow's last navigation went to
  \<open>BASE_URL\<close> and the page is what the portal serves there.\<close>

theorem ensureLoggedIn_landing:
  assumes "ensureLoggedIn P E base b = (b', Inr pg)"
  shows "pg = br_page b' \<and>
    (\<not> pg_login_visible (br_page b) \<and> b' = b \<or>
     starts_with (pg_url pg) (before_char CHR ''?'' base) \<or>
     map_of (site P) base = Some pg \<and> last (br_navs b') = base)"
  using assms by (cases rule: ensureLoggedIn_cases) (auto dest!: login_flow_landing await_landing_result)

theorem ensureLoggedIn_landing_witness:
  "ensureLoggedIn example_login_portal example_env ''https://p.com/List?c=1'' example_login_browser =
     (example_logged_in, Inr example_landing) \<and>
   starts_with (pg_url example_landing) (before_char CHR ''?'' ''https://p.com/List?c=1'')"
proof -
  have e: "ensureLoggedIn example_login_portal example_env ''https://p.com/List?c=1'' example_login_browser =
     (example_logged_in, Inr example_landing)" by code_simp
  have n: "map_of (site example_login_portal) ''https://p.com/List?c=1'' = None" by code_simp
  show ?thesis using ensureLoggedIn_landing [OF e] e n
    by (auto simp: example_login_browser_def example_logged_in_def example_login_list_def example_landing_def)
qed

text \<open>C18: Without credentials (\<open>UBC_USER\<close> or \<open>UBC_PASS\<close> unset or empty) a session that
  shows \<open>Login\<close> is never authenticated: the flow throws, with the missing-credentials
  error or with a failed navigation of a click before the check.\<close>

theorem ensureLoggedIn_needs_credentials:
  assumes "pg_login_visible (br_page b)"
    and "env_or_empty (env_user E) = [] \<or> env_or_empty (env_pass E) = []"
  shows "\<exists>e. snd (ensureLoggedIn P E base b) = Inl e \<and> (e = Credentials_missing \<or> (\<exists>u. e = Navigation_failed u))"
proof -
  obtain b' r where run: "ensureLoggedIn P E base b = (b', r)" by (cases "ensureLoggedIn P E base b")
  from run assms(1) have "login_flow P E base b = (b', r)" by (cases rule: ensureLoggedIn_cases) auto
  then have "\<exists>e. r = Inl e \<and> (e = Credentials_missing \<or> (\<exists>u. e = Navigation_failed u))"
    using assms(2)
    by (auto simp: login_flow_def abind_result fill_credentials_missing dest: click_login_error click_cwl_error)
  with run show ?thesis by simp
qed

theorem ensureLoggedIn_needs_credentials_witness:
  "pg_login_visible (br_page example_login_browser) \<and>
   env_or_empty (env_pass (example_env\<lparr>env_pass := None\<rparr>)) = [] \<and>
   snd (ensureLoggedIn example_login_portal (example_env\<lparr>env_pass := None\<rparr>) ''https://p.com/List?c=1''
     example_login_browser) = Inl Credentials_missing"
proof -
  have v: "pg_login_visible (br_page example_login_browser)"
    by (simp add: example_login_browser_def example_login_list_def)
  have c: "env_or_empty (env_user (example_env\<lparr>env_pass := None\<rparr>)) = [] \<or>
           env_or_empty (env_pass (example_env\<lparr>env_pass := None\<rparr>)) = []"
    by (simp add: env_or_empty_def)
  obtain e where "snd (ensureLoggedIn example_login_portal (example_env\<lparr>env_pass := None\<rparr>)
      ''https://p.com/List?c=1'' example_login_browser) = Inl e"
    using ensureLoggedIn_needs_credentials [OF v c] by blast
  moreover have "snd (ensureLoggedIn example_login_portal (example_env\<lparr>env_pass := None\<rparr>)
      ''https://p.com/List?c=1'' example_login_browser) = Inl Credentials_missing" by code_simp
  ultimately show ?thesis using v by (simp add: env_or_empty_def)
qed

text \<open>The flow performs at most four navigations: the \<open>Login\<close> click, the
  \<open>CWL\<close> click, the end of the redirect chain and the return to the court list.\<close>

theorem ensureLoggedIn_nav_bound: "nav_bound 4 (ensureLoggedIn P E base)"
  unfolding ensureLoggedIn_def
  by (rule log_bound_abind [where k = 0 and l = 4]) (auto intro: login_flow_nav_bound)

text \<open>The flow returns a page that still shows \<open>Login\<close> when single sign-on
  fails silently and the redirect chain ends on the court list: only the URL is checked,
  not that the session is authenticated.\<close>

theorem ensureLoggedIn_returns_logged_out:
  "snd (ensureLoggedIn example_sso_denied example_env ''https://p.com/List?c=1'' example_login_browser) =
     Inr (example_login_list\<lparr>pg_url := ''https://p.com/List''\<rparr>) \<and>
   pg_login_visible (example_login_list\<lparr>pg_url := ''https://p.com/List''\<rparr>)"
  by code_simp

end
