(* ===== verification/Availability.thy ===== *)
theory Availability
  imports Scanner Auth "HOL-Library.Multiset"
begin

text \<open>
  \<open>checkAvailability\<close> (src/unnamed/part_003 lines 588 to 630), the public read path:
  launch a browser, open \<open>BASE_URL\<close>, make sure the session is logged in, scan the
  courts, then either sort the slots found by date and time or, when there are none,
  return one placeholder slot; the browser is closed in a \<open>finally\<close> on every path.

  The comparator \<open>a.date_iso === b.date_iso ? a.time_24h.localeCompare(b.time_24h) :
  a.date_iso.localeCompare(b.date_iso)\<close> is the lexicographic order on the pair
  \<open>(date_iso, time_24h)\<close>; \<open>localeCompare\<close> is modelled by the character order, which
  agrees with it on ISO dates and on zero-padded \<open>HH:MM\<close> times (digits with the
  separators at the same positions). \<open>Array.prototype.sort\<close> is stable since
  ES2019, as \<^const>\<open>sort_key\<close> is.

  Strings are sequences of 8-bit characters: the en dash of the placeholder's location is
  written as its UTF-8 bytes.
\<close>

section \<open>The session\<close>

text \<open>\<open>chromium.launch()\<close>, \<open>browser.newContext()\<close>, \<open>context.newPage()\<close> (lines 591 to 593).\<close>

definition launch :: "unit step" where
  "launch b = (b\<lparr>br_open := True, br_page := blank_page\<rparr>, Inr ())"

text \<open>\<open>browser.close()\<close> (line 628).\<close>

definition close_browser :: "unit step" where
  "close_browser b = (b\<lparr>br_open := False\<rparr>, Inr ())"

section \<open>Sorting and the placeholder\<close>

definition slot_key :: "slot \<Rightarrow> string \<times> string" where
  "slot_key s = (date_iso s, time_24h s)"

text \<open>\<open>slots.sort(...)\<close> (lines 606 to 610).\<close>

definition sort_slots :: "slot list \<Rightarrow> slot list" where
  "sort_slots slots = sort_key slot_key slots"

definition en_dash :: string where
  "en_dash = [CHR 0xE2, CHR 0x80, CHR 0x93]"

text \<open>The placeholder returned when the scan found nothing (lines 615 to 626).\<close>

definition placeholder_slot :: "string \<Rightarrow> preferences \<Rightarrow> url \<Rightarrow> slot" where
  "placeholder_slot todayIso prefs base =
     \<lparr>date_iso = todayIso, time_24h = ''19:00'',
      minutes = (case min_minutes prefs of Some m \<Rightarrow> m | None \<Rightarrow> 60),
      location = ''UBC Tennis Centre '' @ en_dash @ '' (stubbed)'',
      deep_link = Some base\<rparr>"

section \<open>The operation\<close>

text \<open>The \<open>try\<close> block (lines 595 to 626).\<close>

definition availability_body ::
  "portal \<Rightarrow> environment \<Rightarrow> string \<Rightarrow> preferences \<Rightarrow> slot list step" where
  "availability_body P E today prefs =
     (let base = BASE_URL (env_base_url E) in
      abind (goto P base) (\<lambda>_.
      abind (ensureLoggedIn P E base) (\<lambda>_.
      abind (scanCourtsAndSlots P base prefs today) (\<lambda>slots.
        if slots \<noteq> [] then areturn (sort_slots slots)
        else areturn [placeholder_slot today prefs base]))))"

definition checkAvailability ::
  "portal \<Rightarrow> environment \<Rightarrow> string \<Rightarrow> preferences \<Rightarrow> slot list step" where
  "checkAvailability P E today prefs =
     abind launch (\<lambda>_. afinally (availability_body P E today prefs) close_browser)"

section \<open>Sample portals\<close>

text \<open>
  A court list without courts at the default \<open>BASE_URL\<close>, the default environment,
  a browser not yet launched, and a court list whose only court links to a page the
  portal does not serve.
\<close>

definition example_empty_list :: page where
  "example_empty_list = \<lparr>pg_url = DEFAULT_BASE_URL, pg_login_visible = False, pg_courts = [],
     pg_facility_name = None, pg_spans = []\<rparr>"

definition example_empty_portal :: portal where
  "example_empty_portal = \<lparr>site = [(DEFAULT_BASE_URL, example_empty_list)], login_uis = [], booking_uis = []\<rparr>"

definition example_default_env :: environment where
  "example_default_env = \<lparr>env_base_url = None, env_user = None, env_pass = None\<rparr>"

definition example_closed_browser :: browser where
  "example_closed_browser = \<lparr>br_open = False, br_page = blank_page, br_navs = [], br_clicks = []\<rparr>"

definition example_broken_portal :: portal where
  "example_broken_portal =
     \<lparr>site = [(DEFAULT_BASE_URL, example_empty_list\<lparr>pg_courts :=
        [\<lparr>cb_heading = None, cb_href = Some ''https://p.com/Fac/9'', cb_click_url = None\<rparr>]\<rparr>)],
      login_uis = [], booking_uis = []\<rparr>"

definition example_scan_env :: environment where
  "example_scan_env = \<lparr>env_base_url = Some example_base, env_user = None, env_pass = None\<rparr>"

section \<open>Lemmas\<close>

lemma launch_apply [simp]: "launch b = (b\<lparr>br_open := True, br_page := blank_page\<rparr>, Inr ())"
  by (simp add: launch_def)

lemma close_browser_apply [simp]: "close_browser b = (b\<lparr>br_open := False\<rparr>, Inr ())"
  by (simp add: close_browser_def)

lemma checkAvailability_run:
  "checkAvailability P E today prefs b =
     (let b1 = b\<lparr>br_open := True, br_page := blank_page\<rparr>; (b2, r) = availability_body P E today prefs b1
      in (b2\<lparr>br_open := False\<rparr>, r))"
  by (simp add: checkAvailability_def abind_def afinally_def split: prod.splits)

lemma sort_slots_nonempty: "raw \<noteq> [] \<Longrightarrow> sort_slots raw \<noteq> []"
  by (metis length_0_conv length_sort sort_slots_def)

lemma sort_slots_sorted: "sorted (map slot_key (sort_slots raw))"
  by (simp add: sort_slots_def sorted_sort_key)

lemma mset_sort_slots: "mset (sort_slots raw) = mset raw"
  by (simp add: sort_slots_def)

lemma availability_body_result:
  assumes "availability_body P E today prefs b = (b', Inr slots)"
  shows "slots = [placeholder_slot today prefs (BASE_URL (env_base_url E))] \<or>
         (\<exists>raw. raw \<noteq> [] \<and> (\<forall>s \<in> set raw. scan_slot_ok prefs s) \<and> slots = sort_slots raw)"
  using assms
  by (auto simp: availability_body_def Let_def abind_result split: if_splits dest: yieldsD [OF scan_yields_ok])

lemma launch_nav_bound: "nav_bound 0 launch"
  by (simp add: log_bound_def)

lemma close_browser_nav_bound: "nav_bound 0 close_browser"
  by (simp add: log_bound_def)

text \<open>\<open>checkAvailability\<close> clicks none of the booking pipeline's buttons.\<close>

lemma availability_body_keeps: "nav_invariant I \<Longrightarrow> keeps I (availability_body P E today prefs)"
  unfolding availability_body_def Let_def
  by (auto intro!: keeps_abind goto_keeps ensureLoggedIn_keeps scan_keeps)

lemma checkAvailability_clicks: "br_clicks (fst (checkAvailability P E today prefs b)) = br_clicks b"
proof -
  obtain b2 r where run: "availability_body P E today prefs (b\<lparr>br_open := True, br_page := blank_page\<rparr>) = (b2, r)"
    by (cases "availability_body P E today prefs (b\<lparr>br_open := True, br_page := blank_page\<rparr>)")
  have "br_clicks b2 = br_clicks b"
    using keepsD [OF availability_body_keeps [OF nav_invariant_clicks [of "br_clicks b"]] _ run] by simp
  with run show ?thesis by (simp add: checkAvailability_run)
qed

lemma availability_body_nav_bound: "nav_bound (1 + 4 + 3 * max_courts) (availability_body P E today prefs)"
  unfolding availability_body_def Let_def
  by (intro log_bound_abind [where k = 1 and l = "4 + 3 * max_courts"]
        log_bound_abind [where k = 4 and l = "3 * max_courts"]
        log_bound_abind [where k = "3 * max_courts" and l = 0]
        nav_bound_goto log_bound_if log_bound_areturn ensureLoggedIn_nav_bound scan_navigation_bound) simp_all

section \<open>Properties of \<open>checkAvailability\<close>\<close>

text \<open>The browser is closed when \<open>checkAvailability\<close> returns, on every path.\<close>

lemma checkAvailability_closes: "\<not> br_open (fst (checkAvailability P E today prefs b))"
  by (simp add: checkAvailability_run split: prod.splits)

text \<open>C10: End to end on a portal whose session is logged in and whose court list is
  stable: \<open>checkAvailability\<close> returns the slots of the first \<open>min(count, 10)\<close>
  courts, read off their facility pages, sorted by \<open>(date_iso, time_24h)\<close>; only when
  those courts have no slot at all does it return the placeholder.\<close>

theorem checkAvailability_result:
  assumes "stable_court_list P (BASE_URL (env_base_url E)) L" "\<not> pg_login_visible L"
  shows "snd (checkAvailability P E today prefs b) =
    Inr (let raw = concat (map (\<lambda>j. court_result P (BASE_URL (env_base_url E)) prefs today j (pg_courts L ! j))
                             [0..<min (length (pg_courts L)) max_courts])
         in if raw = [] then [placeholder_slot today prefs (BASE_URL (env_base_url E))] else sort_slots raw)"
proof -
  let ?base = "BASE_URL (env_base_url E)"
  let ?raw = "concat (map (\<lambda>j. court_result P ?base prefs today j (pg_courts L ! j))
                 [0..<min (length (pg_courts L)) max_courts])"
  let ?b2 = "b\<lparr>br_open := True, br_page := L, br_navs := br_navs b @ [?base]\<rparr>"
  have L: "map_of (site P) ?base = Some L" using assms(1) by (simp add: stable_court_list_def)
  have "snd (scan_loop P ?base prefs today 0 (min (length (pg_courts L)) max_courts) [] ?b2) =
        Inr ([] @ concat (map (\<lambda>j. court_result P ?base prefs today j (pg_courts L ! j))
                 [0..<0 + min (length (pg_courts L)) max_courts]))"
    by (rule scan_loop_stable [OF assms(1)]) simp_all
  then obtain b3 where scan: "scanCourtsAndSlots P ?base prefs today ?b2 = (b3, Inr ?raw)"
    by (simp add: scanCourtsAndSlots_def abind_def current_page_def) (metis prod.collapse)
  have "availability_body P E today prefs (b\<lparr>br_open := True, br_page := blank_page\<rparr>) =
        (b3, Inr (if ?raw \<noteq> [] then sort_slots ?raw else [placeholder_slot today prefs ?base]))"
    using L assms(2) scan
    by (simp add: availability_body_def Let_def goto_def abind_def ensureLoggedIn_authenticated)
  then show ?thesis by (simp add: checkAvailability_run Let_def)
qed

theorem checkAvailability_result_witness:
  "stable_court_list example_portal (BASE_URL (env_base_url example_scan_env)) example_list \<and>
   \<not> pg_login_visible example_list \<and>
   snd (checkAvailability example_portal example_scan_env ''2025-06-01'' no_preferences example_closed_browser) =
     Inr [example_slot]"
proof -
  have h1: "stable_court_list example_portal (BASE_URL (env_base_url example_scan_env)) example_list"
    by code_simp
  have h2: "\<not> pg_login_visible example_list" by (simp add: example_list_def)
  have r: "(let raw = concat (map (\<lambda>j. court_result example_portal (BASE_URL (env_base_url example_scan_env))
        no_preferences ''2025-06-01'' j (pg_courts example_list ! j)) [0..<min (length (pg_courts example_list)) max_courts])
     in if raw = [] then [placeholder_slot ''2025-06-01'' no_preferences (BASE_URL (env_base_url example_scan_env))]
        else sort_slots raw) = [example_slot]" by code_simp
  show ?thesis using checkAvailability_result [OF h1 h2] h1 h2 r by simp
qed

text \<open>C11: Spec section 4.3, output ordering and empty-result policy: the list
  \<open>checkAvailability\<close> returns is never empty and is sorted ascending by
  \<open>(date_iso, time_24h)\<close>.\<close>

theorem checkAvailability_sorted:
  assumes "checkAvailability P E today prefs b = (b', Inr slots)"
  shows "slots \<noteq> [] \<and> sorted (map slot_key slots)"
proof -
  obtain b2 where "availability_body P E today prefs (b\<lparr>br_open := True, br_page := blank_page\<rparr>) = (b2, Inr slots)"
    using assms by (auto simp: checkAvailability_run split: prod.splits)
  from availability_body_result [OF this] show ?thesis
    by (auto simp: sort_slots_sorted sort_slots_nonempty)
qed

theorem checkAvailability_sorted_witness:
  "checkAvailability example_portal example_scan_env ''2025-06-01'' no_preferences example_closed_browser =
     (fst (checkAvailability example_portal example_scan_env ''2025-06-01'' no_preferences example_closed_browser),
      Inr [example_slot]) \<and>
   [example_slot] \<noteq> [] \<and> sorted (map slot_key [example_slot])"
proof -
  have e: "checkAvailability example_portal example_scan_env ''2025-06-01'' no_preferences example_closed_browser =
     (fst (checkAvailability example_portal example_scan_env ''2025-06-01'' no_preferences example_closed_browser),
      Inr [example_slot])" by code_simp
  show ?thesis using checkAvailability_sorted [OF e] e by blast
qed

text \<open>C12: Spec scenario A: when the court list at \<open>BASE_URL\<close> shows no \<open>Login\<close>
  link and no court, \<open>checkAvailability\<close> returns exactly one placeholder slot, dated
  today.\<close>

theorem checkAvailability_empty_court_list:
  assumes "map_of (site P) (BASE_URL (env_base_url E)) = Some L" "\<not> pg_login_visible L" "pg_courts L = []"
  shows "snd (checkAvailability P E today prefs b) = Inr [placeholder_slot today prefs (BASE_URL (env_base_url E))]"
  using assms
  by (simp add: checkAvailability_run availability_body_def Let_def goto_def abind_def
      ensureLoggedIn_authenticated scanCourtsAndSlots_def current_page_def split: prod.splits)

theorem checkAvailability_empty_court_list_witness:
  "map_of (site example_empty_portal) (BASE_URL (env_base_url example_default_env)) = Some example_empty_list \<and>
   \<not> pg_login_visible example_empty_list \<and> pg_courts example_empty_list = [] \<and>
   snd (checkAvailability example_empty_portal example_default_env ''2025-06-01'' no_preferences example_closed_browser) =
     Inr [placeholder_slot ''2025-06-01'' no_preferences (BASE_URL (env_base_url example_default_env))]"
proof -
  have h1: "map_of (site example_empty_portal) (BASE_URL (env_base_url example_default_env)) = Some example_empty_list"
    by code_simp
  have h2: "\<not> pg_login_visible example_empty_list" by (simp add: example_empty_list_def)
  have h3: "pg_courts example_empty_list = []" by (simp add: example_empty_list_def)
  show ?thesis using checkAvailability_empty_court_list [OF h1 h2 h3] h1 h2 h3 by blast
qed

text \<open>C13: A call of \<open>checkAvailability\<close> performs at most 35 navigations: the court
  list, at most four for the login flow, and at most three for each of at most ten courts.\<close>

theorem checkAvailability_nav_bound:
  "nav_bound (1 + 4 + 3 * max_courts) (checkAvailability P E today prefs)"
  unfolding checkAvailability_def
  by (intro log_bound_abind [OF launch_nav_bound, where l = "1 + 4 + 3 * max_courts"]
        log_bound_afinally [OF availability_body_nav_bound close_browser_nav_bound]) simp_all

text \<open>The placeholder slot ignores the preferences: with \<open>start_hour = 20\<close> and a
  court list without courts, the result is one slot at 19:00, which the preferences reject.\<close>

theorem checkAvailability_placeholder_ignores_prefs:
  "snd (checkAvailability example_empty_portal example_default_env ''2025-06-01''
          (no_preferences\<lparr>start_hour := Some 20\<rparr>) example_closed_browser) =
     Inr [placeholder_slot ''2025-06-01'' (no_preferences\<lparr>start_hour := Some 20\<rparr>) DEFAULT_BASE_URL] \<and>
   \<not> prefs_pass (no_preferences\<lparr>start_hour := Some 20\<rparr>)
       (placeholder_slot ''2025-06-01'' (no_preferences\<lparr>start_hour := Some 20\<rparr>) DEFAULT_BASE_URL)"
  by code_simp

text \<open>C14: A failure inside the scan is not recovered, for every portal: when the
  logged-in court list's first court links to a page the portal does not serve,
  \<open>checkAvailability\<close> throws that navigation error (after closing the browser)
  instead of degrading to the placeholder, as the spec's propagation policy (section 7)
  asks.\<close>

theorem checkAvailability_scan_error_propagates:
  assumes "map_of (site P) (BASE_URL (env_base_url E)) = Some L" "\<not> pg_login_visible L"
    "pg_courts L = btn # rest" "cb_href btn = Some h" "h \<noteq> []"
    "map_of (site P) (resolve_url (BASE_URL (env_base_url E)) h) = None"
  shows "snd (checkAvailability P E today prefs b) = Inl (Navigation_failed (resolve_url (BASE_URL (env_base_url E)) h)) \<and>
         \<not> br_open (fst (checkAvailability P E today prefs b))"
proof -
  obtain n where n: "min (length (pg_courts L)) max_courts = Suc n"
    using assms(3) by (cases "min (length (pg_courts L)) max_courts") (auto simp: max_courts_def)
  have "snd (availability_body P E today prefs (b\<lparr>br_open := True, br_page := blank_page\<rparr>)) =
        Inl (Navigation_failed (resolve_url (BASE_URL (env_base_url E)) h))"
    using assms n
    by (simp add: availability_body_def Let_def goto_def abind_def ensureLoggedIn_authenticated
        scanCourtsAndSlots_def scan_court_def facility_url_of_def current_page_def split: prod.splits)
  then show ?thesis
    by (cases "availability_body P E today prefs (b\<lparr>br_open := True, br_page := blank_page\<rparr>)")
      (simp add: checkAvailability_run)
qed

theorem checkAvailability_scan_error_propagates_witness:
  "snd (checkAvailability example_broken_portal example_default_env ''2025-06-01'' no_preferences
          example_closed_browser) = Inl (Navigation_failed ''https://p.com/Fac/9'')"
proof -
  have h1: "map_of (site example_broken_portal) (BASE_URL (env_base_url example_default_env)) =
      Some (example_empty_list\<lparr>pg_courts :=
        [\<lparr>cb_heading = None, cb_href = Some ''https://p.com/Fac/9'', cb_click_url = None\<rparr>]\<rparr>)" by code_simp
  have h6: "map_of (site example_broken_portal)
      (resolve_url (BASE_URL (env_base_url example_default_env)) ''https://p.com/Fac/9'') = None" by code_simp
  have u: "resolve_url (BASE_URL (env_base_url example_default_env)) ''https://p.com/Fac/9'' = ''https://p.com/Fac/9''"
    by code_simp
  show ?thesis
    using checkAvailability_scan_error_propagates [OF h1 _ _ _ _ h6] u by (simp add: example_empty_list_def)
qed

end
