(* ===== verification/Booking.thy ===== *)
theory Booking
  imports Availability
begin

text \<open>
  \<open>bookSlot\<close> (src/unnamed/part_003 lines 634 to 1154), the write path: open the
  facility page, make sure the session is logged in, then the portal's reservation steps
  in order: click the \<open>Book Now\<close> marker whose title contains the requested start time
  (step 1), click \<open>Reserve\<close> (step 2), log in again if the portal asks for it, select an
  attendee and click \<open>Next\<close> (step 3), pick a stored card and place the order (steps 4
  and 5), and classify the result page. Every early \<open>return\<close> of the code is a failure
  result; every exception is caught and turned into one; the browser is closed in a
  \<open>finally\<close>.

  A step that ends in an early return yields \<open>Some\<close> result, a step that lets the
  pipeline go on yields \<open>None\<close>; \<open>or_return\<close> sequences them. Clicks on the
  pipeline's buttons are logged in \<open>br_clicks\<close>. The overlay removal, the attendee
  count written into the Kendo widget and the fixed \<open>waitForTimeout\<close> pauses change
  nothing the model observes and are not modelled.
\<close>

section \<open>Clicks and the booking page\<close>

definition no_booking_ui :: booking_ui where
  "no_booking_ui =
     \<lparr>bu_reserve = None, bu_alt_book = None, bu_alert_text = [], bu_cwl = None,
      bu_username_field = False, bu_login_submit = None, bu_attendees = [], bu_next = None,
      bu_card_option = False, bu_place_order = None, bu_body_text = [], bu_error_text = [],
      bu_confirmation_number = None\<rparr>"

definition bui_of :: "portal \<Rightarrow> url \<Rightarrow> booking_ui" where
  "bui_of P u = (case map_of (booking_uis P) u of Some ui \<Rightarrow> ui | None \<Rightarrow> no_booking_ui)"

definition current_ui :: "portal \<Rightarrow> booking_ui step" where
  "current_ui P = abind current_page (\<lambda>pg. areturn (bui_of P (pg_url pg)))"

text \<open>\<open>el.click()\<close> on one of the pipeline's buttons.\<close>

definition click_el :: "string \<Rightarrow> unit step" where
  "click_el name b = (b\<lparr>br_clicks := br_clicks b @ [name]\<rparr>, Inr ())"

text \<open>
  The wait after a click: a load of a URL is a navigation; a load that hangs makes the
  wait time out, which throws unless the code catches it (\<open>caught\<close>).
\<close>

definition follow :: "portal \<Rightarrow> bool \<Rightarrow> outcome \<Rightarrow> unit step" where
  "follow P caught oc =
     (case oc of
       Stays \<Rightarrow> areturn ()
     | Loads u \<Rightarrow> goto P u
     | Hangs \<Rightarrow> if caught then areturn () else athrow Settle_timeout)"

text \<open>A pipeline step that may end the pipeline with a result.\<close>

definition or_return ::
  "booking_result option step \<Rightarrow> booking_result step \<Rightarrow> booking_result step" where
  "or_return m k = abind m (\<lambda>r. case r of Some res \<Rightarrow> areturn res | None \<Rightarrow> k)"

definition fail_result :: "string \<Rightarrow> booking_result" where
  "fail_result msg = \<lparr>success = False, confirmation_number = None, message = msg, booked_slot = None\<rparr>"

section \<open>URLs of the re-authentication\<close>

definition hex_val :: "char \<Rightarrow> nat option" where
  "hex_val c =
     (let n = of_char c :: nat in
      if 48 \<le> n \<and> n \<le> 57 then Some (n - 48)
      else if 65 \<le> n \<and> n \<le> 70 then Some (n - 55)
      else if 97 \<le> n \<and> n \<le> 102 then Some (n - 87)
      else None)"

text \<open>
  \<open>decodeURIComponent\<close>: every \<open>%XX\<close> becomes the byte it names; a \<open>%\<close> not followed
  by two hexadecimal digits throws \<open>URIError: URI malformed\<close>.
\<close>

fun pct_decode :: "string \<Rightarrow> string option" where
  "pct_decode [] = Some []"
| "pct_decode (c # cs) =
     (if c = CHR ''%'' then
        (case cs of
          h1 # h2 # rest \<Rightarrow>
            (case (hex_val h1, hex_val h2) of
              (Some a, Some d) \<Rightarrow> map_option (\<lambda>r. char_of (16 * a + d) # r) (pct_decode rest)
            | _ \<Rightarrow> None)
        | _ \<Rightarrow> None)
      else map_option (\<lambda>r. c # r) (pct_decode cs))"

text \<open>
  The decoding of \<open>URLSearchParams\<close>: \<open>+\<close> is a space, \<open>%XX\<close> the byte it names,
  and a malformed \<open>%\<close> is kept as it is.
\<close>

fun form_decode :: "string \<Rightarrow> string" where
  "form_decode [] = []"
| "form_decode (c # cs) =
     (if c = CHR ''+'' then CHR '' '' # form_decode cs
      else if c = CHR ''%'' then
        (case cs of
          h1 # h2 # rest \<Rightarrow>
            (case (hex_val h1, hex_val h2) of
              (Some a, Some d) \<Rightarrow> char_of (16 * a + d) # form_decode rest
            | _ \<Rightarrow> c # form_decode cs)
        | _ \<Rightarrow> c # form_decode cs)
      else c # form_decode cs)"

fun split_on :: "char \<Rightarrow> string \<Rightarrow> string list" where
  "split_on c [] = [[]]"
| "split_on c (x # xs) =
     (if x = c then [] # split_on c xs
      else (case split_on c xs of p # ps \<Rightarrow> (x # p) # ps | [] \<Rightarrow> [[x]]))"

text \<open>
  \<open>new URL(u).searchParams.get(name)\<close>: the query is what follows the first \<open>?\<close> up
  to the fragment; its \<open>&\<close>-separated parts are \<open>name=value\<close> pairs, decoded; the
  first pair with the name gives the value.
\<close>

definition query_param :: "string \<Rightarrow> url \<Rightarrow> string option" where
  "query_param name u =
     (let q = before_char CHR ''#'' (drop 1 (dropWhile (\<lambda>c. c \<noteq> CHR ''?'') u));
          pairs = map (\<lambda>p. (form_decode (before_char CHR ''='' p),
                             form_decode (drop 1 (dropWhile (\<lambda>c. c \<noteq> CHR ''='') p))))
                    (filter (\<lambda>p. p \<noteq> []) (split_on CHR ''&'' q))
      in map_of pairs name)"

text \<open>The message of an exception, as the catch block reads \<open>error.message\<close>.\<close>

fun failure_message :: "failure \<Rightarrow> string" where
  "failure_message (Navigation_failed u) = ''page.goto: navigation to '' @ u @ '' failed''"
| "failure_message Click_navigation_timeout = ''Timeout exceeded while waiting for navigation''"
| "failure_message (Locator_timeout s) = ''Timeout exceeded while waiting for '' @ s"
| "failure_message Credentials_missing = ''UBC_USER and UBC_PASS must be set in environment''"
| "failure_message Settle_timeout = ''Timeout exceeded while waiting for load state''"
| "failure_message Uri_malformed = ''URI malformed''"

section \<open>Opening the facility page\<close>

text \<open>
  Lines 647 to 656: open \<open>facility_url\<close>, run the login flow, and open the facility
  page again unless the page it returned is one.
\<close>

definition open_facility :: "portal \<Rightarrow> environment \<Rightarrow> url \<Rightarrow> booking_request \<Rightarrow> unit step" where
  "open_facility P E base req =
     abind (goto P (facility_url req)) (\<lambda>_.
     abind (ensureLoggedIn P E base) (\<lambda>pg.
       if str_includes (pg_url pg) ''BookMe4LandingPages/Facility'' then areturn ()
       else goto P (facility_url req)))"

text \<open>Line 659: the court's name, or \<open>"Unknown Court"\<close>.\<close>

definition court_name :: "page \<Rightarrow> string" where
  "court_name pg = (case pg_facility_name pg of Some n \<Rightarrow> n | None \<Rightarrow> ''Unknown Court'')"

section \<open>Step 1: the slot\<close>

text \<open>
  Lines 676 to 694: the first \<open>Book Now\<close> span whose \<open>title\<close> (or the empty string)
  contains the 12-hour label, both lower-cased.
\<close>

definition title_matches :: "string \<Rightarrow> span \<Rightarrow> bool" where
  "title_matches time12h sp \<longleftrightarrow>
     str_includes (js_lower (case sp_title sp of Some t \<Rightarrow> t | None \<Rightarrow> [])) (js_lower time12h)"

definition find_target :: "string \<Rightarrow> span list \<Rightarrow> span option" where
  "find_target time12h spans = find (title_matches time12h) (filter has_book_now spans)"

text \<open>Lines 663 to 708: find the span and click it, or return the failure.\<close>

definition select_slot :: "booking_request \<Rightarrow> booking_result option step" where
  "select_slot req =
     abind current_page (\<lambda>pg.
       let time12h = to12h_label (req_time_24h req) in
       case find_target time12h (pg_spans pg) of
         None \<Rightarrow> areturn (Some (fail_result
                   (''Could not find available slot at '' @ req_time_24h req @ '' ('' @ time12h @ '')'')))
       | Some sp \<Rightarrow> abind (click_el ''Book Now'') (\<lambda>_. areturn None))"

section \<open>Step 2: \<open>Reserve\<close>\<close>

text \<open>
  Lines 804 to 816: a forced click on \<open>Reserve\<close>; the waits for the URL and for the
  network are both caught.
\<close>

definition reserve_click :: "portal \<Rightarrow> outcome \<Rightarrow> unit step" where
  "reserve_click P oc = abind (click_el ''Reserve'') (\<lambda>_. follow P True oc)"

text \<open>Line 823: the URL of a login boundary.\<close>

definition needs_reauth :: "url \<Rightarrow> bool" where
  "needs_reauth u \<longleftrightarrow> str_includes u ''portal.recreation.ubc.ca'' \<or> str_includes u ''Login''"

text \<open>
  Lines 823 to 873: the re-authentication inside the pipeline. The \<open>returnUrl\<close> query
  parameter of the login page is read first; the \<open>CWL\<close> link is clicked if visible
  (its load is awaited, uncaught); if the username field shows, the credentials are
  filled, whatever they are, and the submit button clicked (its absence makes the click
  time out) and the network awaited (uncaught); then, unless the page is already the
  attendee page, the tab goes to the decoded \<open>returnUrl\<close>.
\<close>

definition reauth :: "portal \<Rightarrow> unit step" where
  "reauth P =
     abind current_page (\<lambda>pg.
       let returnUrl = query_param ''returnUrl'' (pg_url pg) in
       abind (current_ui P) (\<lambda>ui.
       abind (case bu_cwl ui of
                None \<Rightarrow> areturn ()
              | Some oc \<Rightarrow> abind (click_el ''CWL'') (\<lambda>_. follow P False oc)) (\<lambda>_.
       abind (current_ui P) (\<lambda>ui2.
       abind (if bu_username_field ui2 then
                (case bu_login_submit ui2 of
                  None \<Rightarrow> athrow (Locator_timeout ''submit button'')
                | Some oc \<Rightarrow> abind (click_el ''Login'') (\<lambda>_. follow P False oc))
              else areturn ()) (\<lambda>_.
       abind current_page (\<lambda>pg2.
         case returnUrl of
           Some r \<Rightarrow>
             if r \<noteq> [] \<and> \<not> str_includes (pg_url pg2) ''BookMe4EventParticipants'' then
               (case pct_decode r of None \<Rightarrow> athrow Uri_malformed | Some d \<Rightarrow> goto P d)
             else areturn ()
         | None \<Rightarrow> areturn ()))))))"

text \<open>
  Lines 875 to 915: still on the facility page, \<open>Reserve\<close> is clicked a second time
  (the locator is resolved again; a missing button makes the click time out) and the
  summary's alternative button if visible; a page still on the facility ends the
  pipeline, with the summary's error text if there is one.
\<close>

definition retry_reserve :: "portal \<Rightarrow> booking_result option step" where
  "retry_reserve P =
     abind current_page (\<lambda>pg.
       if \<not> str_includes (pg_url pg) ''BookMe4LandingPages/Facility'' then areturn None
       else
         abind (current_ui P) (\<lambda>ui.
         abind (case bu_reserve ui of
                  None \<Rightarrow> athrow (Locator_timeout ''Reserve button'')
                | Some oc \<Rightarrow> reserve_click P oc) (\<lambda>_.
         abind (current_ui P) (\<lambda>ui2.
         abind (case bu_alt_book ui2 of
                  None \<Rightarrow> areturn ()
                | Some oc \<Rightarrow> abind (click_el ''Book'') (\<lambda>_. follow P True oc)) (\<lambda>_.
         abind current_page (\<lambda>pg3.
           if str_includes (pg_url pg3) ''BookMe4LandingPages/Facility'' then
             (let err = bu_alert_text (bui_of P (pg_url pg3)) in
              areturn (Some (fail_result
                (if err \<noteq> [] then ''Could not proceed with booking: '' @ err
                 else ''Reserve button click did not navigate to attendee selection page''))))
           else areturn None))))))"

text \<open>Lines 710 to 915.\<close>

definition reserve_step :: "portal \<Rightarrow> booking_result option step" where
  "reserve_step P =
     abind (current_ui P) (\<lambda>ui.
       case bu_reserve ui of
         None \<Rightarrow> areturn (Some (fail_result ''Reserve button not found after clicking Book Now''))
       | Some oc \<Rightarrow>
           abind (reserve_click P oc) (\<lambda>_.
           abind current_page (\<lambda>pg.
           abind (if needs_reauth (pg_url pg) then reauth P else areturn ()) (\<lambda>_.
           retry_reserve P))))"

section \<open>Step 3: the attendee and \<open>Next\<close>\<close>

definition label_text :: "string \<Rightarrow> string option \<Rightarrow> string" where
  "label_text dflt l = (case l of Some t \<Rightarrow> t | None \<Rightarrow> dflt)"

text \<open>
  Lines 940 to 982: the rows in order; a hidden row is skipped; a row whose label
  contains \<open>(You)\<close> sets the selected name, and then, unless its class says
  \<open>disabled\<close>, is selected and ends the loop. The result is the selected name and the
  row selected, if any.
\<close>

fun you_loop :: "attendee list \<Rightarrow> string \<Rightarrow> string \<times> attendee option" where
  "you_loop [] name = (name, None)"
| "you_loop (r # rs) name =
     (if at_hidden r then you_loop rs name
      else
        (let label = label_text [] (at_label r) in
         if str_includes label ''(You)'' then
           (if str_includes (at_class r) ''disabled'' then you_loop rs label else (label, Some r))
         else you_loop rs name))"

text \<open>
  Lines 984 to 1006: without a name, the first visible row not \<open>disabled\<close> that has an
  enabled checkbox, with its label or \<open>"Unknown"\<close>.
\<close>

fun fallback_loop :: "attendee list \<Rightarrow> (string \<times> attendee) option" where
  "fallback_loop [] = None"
| "fallback_loop (r # rs) =
     (if \<not> str_includes (at_class r) ''disabled'' \<and> \<not> at_hidden r \<and> at_checkbox r \<noteq> None
      then Some (label_text ''Unknown'' (at_label r), r)
      else fallback_loop rs)"

definition select_attendee :: "attendee list \<Rightarrow> string \<times> attendee option" where
  "select_attendee rows =
     (let (name, chosen) = you_loop rows [] in
      if name \<noteq> [] then (name, chosen)
      else (case fallback_loop rows of Some (n, r) \<Rightarrow> (n, Some r) | None \<Rightarrow> ([], None)))"

text \<open>The click on the selected row: on its checkbox unless already checked, or on the row.\<close>

definition attendee_click :: "attendee option \<Rightarrow> unit step" where
  "attendee_click chosen =
     (case chosen of
       Some r \<Rightarrow> if at_checkbox r = Some True then areturn () else click_el ''Attendee''
     | None \<Rightarrow> areturn ())"

text \<open>
  Lines 917 to 1067: select, fail without a name, then click the first visible
  \<open>Next\<close> button of the eight selectors and await the network (uncaught).
\<close>

definition attendee_step :: "portal \<Rightarrow> booking_result option step" where
  "attendee_step P =
     abind (current_ui P) (\<lambda>ui.
       (let (name, chosen) = select_attendee (bu_attendees ui) in
        abind (attendee_click chosen) (\<lambda>_.
          if name = [] then
            areturn (Some (fail_result ''Could not select any attendee - none available or all disabled''))
          else
            abind (current_ui P) (\<lambda>ui2.
              case bu_next ui2 of
                None \<Rightarrow> areturn (Some (fail_result ''Next button not found on attendee selection page''))
              | Some oc \<Rightarrow> abind (click_el ''Next'') (\<lambda>_. abind (follow P False oc) (\<lambda>_. areturn None))))))"

section \<open>Steps 4 and 5: payment and order\<close>

text \<open>
  Lines 1069 to 1105: click the stored card if offered, then \<open>Place My Order\<close> if
  visible and await the network (uncaught).
\<close>

definition payment_step :: "portal \<Rightarrow> booking_result option step" where
  "payment_step P =
     abind (current_ui P) (\<lambda>ui.
     abind (if bu_card_option ui then click_el ''Card'' else areturn ()) (\<lambda>_.
       case bu_place_order ui of
         None \<Rightarrow> areturn (Some (fail_result ''Place My Order button not found''))
       | Some oc \<Rightarrow> abind (click_el ''Place My Order'') (\<lambda>_. abind (follow P False oc) (\<lambda>_. areturn None))))"

section \<open>The result page\<close>

text \<open>
  \<open>/a.*b/\<close> on a lower-cased text: an occurrence of \<open>a\<close> followed by \<open>b\<close> on the same
  line.
\<close>

definition in_line_after :: "string \<Rightarrow> string \<Rightarrow> string \<Rightarrow> bool" where
  "in_line_after a c s \<longleftrightarrow>
     list_ex (\<lambda>i. starts_with (drop i s) a \<and>
                 str_includes (takeWhile (\<lambda>x. x \<noteq> CHR 0x0A \<and> x \<noteq> CHR 0x0D) (drop (i + length a) s)) c)
       [0..<Suc (length s)]"

text \<open>Line 1114: \<open>/confirmation|thank you|order.*complete|booking.*confirmed|receipt/i\<close>.\<close>

definition has_confirmation :: "string \<Rightarrow> bool" where
  "has_confirmation text \<longleftrightarrow>
     (let l = js_lower text in
      str_includes l ''confirmation'' \<or> str_includes l ''thank you'' \<or>
      in_line_after ''order'' ''complete'' l \<or> in_line_after ''booking'' ''confirmed'' l \<or>
      str_includes l ''receipt'')"

text \<open>
  Lines 1107 to 1143: an error text without confirmation language is a failure; anything
  else is reported as a success.
\<close>

definition classify :: "portal \<Rightarrow> booking_request \<Rightarrow> string \<Rightarrow> booking_result step" where
  "classify P req courtName =
     abind (current_ui P) (\<lambda>ui.
       if bu_error_text ui \<noteq> [] \<and> \<not> has_confirmation (bu_body_text ui)
       then areturn (fail_result (''Booking failed: '' @ bu_error_text ui))
       else areturn
         \<lparr>success = True, confirmation_number = bu_confirmation_number ui,
          message = ''Booking completed successfully'',
          booked_slot = Some \<lparr>bs_time = req_time_24h req, bs_duration = duration_hours req * 60,
                              bs_location = js_trim courtName\<rparr>\<rparr>)"

section \<open>The operation\<close>

text \<open>The \<open>try\<close> block (lines 641 to 1143).\<close>

definition book_body :: "portal \<Rightarrow> environment \<Rightarrow> booking_request \<Rightarrow> booking_result step" where
  "book_body P E req =
     (let base = BASE_URL (env_base_url E) in
      abind (open_facility P E base req) (\<lambda>_.
      abind current_page (\<lambda>pg.
        or_return (select_slot req) (
        or_return (reserve_step P) (
        or_return (attendee_step P) (
        or_return (payment_step P) (
        classify P req (court_name pg))))))))"

text \<open>The \<open>catch\<close> block (lines 1145 to 1150).\<close>

definition booking_failure :: "failure \<Rightarrow> booking_result" where
  "booking_failure e = fail_result (''Booking failed: '' @ failure_message e)"

definition bookSlot :: "portal \<Rightarrow> environment \<Rightarrow> booking_request \<Rightarrow> booking_result step" where
  "bookSlot P E req =
     abind launch (\<lambda>_.
       afinally (acatch (book_body P E req) (\<lambda>e. areturn (booking_failure e))) close_browser)"

section \<open>A sample portal\<close>

text \<open>
  A facility page with one marker, 7 to 8 PM, whose \<open>Reserve\<close> button leads to the
  attendee page; the attendee page lists the user, marked \<open>(You)\<close>; the payment page
  offers a stored card; the order ends on a receipt page with a confirmation number.
\<close>

definition example_facility_url :: url where
  "example_facility_url = ''https://p.com/BookMe4LandingPages/Facility?id=1''"

definition example_booking_page :: "url \<Rightarrow> page" where
  "example_booking_page u =
     \<lparr>pg_url = u, pg_login_visible = False, pg_courts = [], pg_facility_name = None, pg_spans = []\<rparr>"

definition example_marker_at :: "string \<Rightarrow> span" where
  "example_marker_at title =
     \<lparr>sp_visible = True, sp_text = ''Book Now'', sp_parent = None, sp_title = Some title, sp_data_date = None\<rparr>"

definition example_court_page :: page where
  "example_court_page = (example_booking_page example_facility_url)\<lparr>pg_facility_name := Some '' Court 3 '',
     pg_spans := [example_marker_at ''7:00 PM-8:00 PM'']\<rparr>"

definition example_attendee_url :: url where
  "example_attendee_url = ''https://p.com/Contacts/BookMe4EventParticipants''"

definition example_you :: attendee where
  "example_you = \<lparr>at_label = Some ''Jane Doe (You)'', at_class = [], at_hidden = False, at_checkbox = Some False\<rparr>"

definition example_booking_portal :: portal where
  "example_booking_portal =
    \<lparr>site = [(example_facility_url, example_court_page),
             (example_attendee_url, example_booking_page example_attendee_url),
             (''https://p.com/Payment'', example_booking_page ''https://p.com/Payment''),
             (''https://p.com/Receipt'', example_booking_page ''https://p.com/Receipt'')],
     login_uis = [],
     booking_uis =
       [(example_facility_url, no_booking_ui\<lparr>bu_reserve := Some (Loads example_attendee_url)\<rparr>),
        (example_attendee_url, no_booking_ui\<lparr>bu_attendees := [example_you],
           bu_next := Some (Loads ''https://p.com/Payment'')\<rparr>),
        (''https://p.com/Payment'', no_booking_ui\<lparr>bu_card_option := True,
           bu_place_order := Some (Loads ''https://p.com/Receipt'')\<rparr>),
        (''https://p.com/Receipt'', no_booking_ui\<lparr>bu_body_text := ''Thank you! Your order is complete.'',
           bu_confirmation_number := Some ''R-123''\<rparr>)]\<rparr>"

definition example_request :: booking_request where
  "example_request = \<lparr>facility_url = example_facility_url, req_time_24h = ''19:00'', duration_hours = 1,
     num_people = 2\<rparr>"

definition example_booked :: booking_result where
  "example_booked = \<lparr>success = True, confirmation_number = Some ''R-123'',
     message = ''Booking completed successfully'',
     booked_slot = Some \<lparr>bs_time = ''19:00'', bs_duration = 60, bs_location = ''Court 3''\<rparr>\<rparr>"

text \<open>The sample portal with the booking page of one URL replaced.\<close>

definition example_variant :: "url \<Rightarrow> booking_ui \<Rightarrow> portal" where
  "example_variant u ui = example_booking_portal\<lparr>booking_uis := (u, ui) # booking_uis example_booking_portal\<rparr>"

end
