(* ===== verification/Config.thy ===== *)
theory Config
  imports Portal
begin

text \<open>
  The configuration of the server (src/config/env.ts, the version of
  src/unnamed/part_004): \<open>process.env\<close> is validated by a zod schema, the process
  exits when an issue is found, and the validated strings are normalised into the
  \<open>env\<close> object the request layer and the notifier read.

  \<open>process.env\<close> is an association list from variable name to value (every value
  of \<open>process.env\<close> is a string). \<open>safeParse\<close> collects the issues of every field,
  so the issue list is the concatenation of the fields' issues in the schema's order; an
  issue is the variable and the message zod attaches to it. \<open>Number(raw.PORT)\<close> and
  \<open>Number(raw.SMTP_PORT || 465)\<close> are kept as the strings they convert: the ports are
  only handed to the listener and the mail transport, which are not modelled.

  The e-mail check of \<open>z.string().email()\<close> is zod 3's pattern
  \<open>/^(?!\.)(?!.*\.\.)([A-Z0-9_'+\-\.]*)[A-Z0-9_+-]@([A-Z0-9][A-Z0-9\-]*\.)+[A-Z]{2,}$/i\<close>,
  written out as a function.
\<close>

section \<open>\<open>process.env\<close>\<close>

type_synonym process_env = "(string \<times> string) list"

definition env_get :: "process_env \<Rightarrow> string \<Rightarrow> string option" where
  "env_get penv k = map_of penv k"

text \<open>JavaScript truthiness of an optional string, and \<open>a || b\<close> on them.\<close>

definition truthy :: "string option \<Rightarrow> bool" where
  "truthy v = (case v of Some s \<Rightarrow> s \<noteq> [] | None \<Rightarrow> False)"

definition js_or :: "string option \<Rightarrow> string option \<Rightarrow> string option" where
  "js_or a b = (if truthy a then a else b)"

text \<open>The variables \<open>ubc.ts\<close> reads from \<open>process.env\<close> directly.\<close>

definition ubc_environment :: "process_env \<Rightarrow> environment" where
  "ubc_environment penv =
     \<lparr>env_base_url = env_get penv ''UBC_BASE_URL'', env_user = env_get penv ''UBC_USER'',
      env_pass = env_get penv ''UBC_PASS''\<rparr>"

section \<open>zod's e-mail pattern\<close>

definition is_alpha :: "char \<Rightarrow> bool" where
  "is_alpha c \<longleftrightarrow> (CHR ''a'' \<le> c \<and> c \<le> CHR ''z'') \<or> (CHR ''A'' \<le> c \<and> c \<le> CHR ''Z'')"

definition is_alnum :: "char \<Rightarrow> bool" where
  "is_alnum c \<longleftrightarrow> is_alpha c \<or> is_digit c"

text \<open>\<open>[A-Z0-9_'+\-\.]\<close> and \<open>[A-Z0-9_+-]\<close>, case-insensitive.\<close>

definition email_local_char :: "char \<Rightarrow> bool" where
  "email_local_char c \<longleftrightarrow> is_alnum c \<or> c \<in> set ''_+-.'' \<or> c = CHR 0x27"

definition email_last_char :: "char \<Rightarrow> bool" where
  "email_last_char c \<longleftrightarrow> is_alnum c \<or> c \<in> set ''_+-''"

fun split_dots :: "string \<Rightarrow> string list" where
  "split_dots [] = [[]]"
| "split_dots (c # cs) =
     (if c = CHR ''.'' then [] # split_dots cs
      else (case split_dots cs of l # ls \<Rightarrow> (c # l) # ls | [] \<Rightarrow> [[c]]))"

text \<open>\<open>[A-Z0-9][A-Z0-9\-]*\<close>: a label of the domain before its last dot.\<close>

definition domain_label :: "string \<Rightarrow> bool" where
  "domain_label l \<longleftrightarrow> l \<noteq> [] \<and> is_alnum (hd l) \<and> list_all (\<lambda>c. is_alnum c \<or> c = CHR ''-'') l"

definition email_domain :: "string \<Rightarrow> bool" where
  "email_domain d \<longleftrightarrow>
     (let ls = split_dots d in
      2 \<le> length ls \<and> list_all domain_label (butlast ls) \<and>
      2 \<le> length (last ls) \<and> list_all is_alpha (last ls))"

definition is_email :: "string \<Rightarrow> bool" where
  "is_email s \<longleftrightarrow>
     (let l = takeWhile (\<lambda>c. c \<noteq> CHR ''@'') s; d = drop (Suc (length l)) s in
      CHR ''@'' \<in> set s \<and> l \<noteq> [] \<and> hd l \<noteq> CHR ''.'' \<and> \<not> str_includes s ''..'' \<and>
      list_all email_local_char l \<and> email_last_char (last l) \<and> email_domain d)"

section \<open>\<open>EnvSchema.safeParse(process.env)\<close>\<close>

type_synonym env_issue = "string \<times> string"

text \<open>\<open>z.string().min(n, msg)\<close>: a missing variable is \<open>"Required"\<close>.\<close>

definition min_issues :: "string \<Rightarrow> nat \<Rightarrow> string \<Rightarrow> process_env \<Rightarrow> env_issue list" where
  "min_issues k n msg penv =
     (case env_get penv k of None \<Rightarrow> [(k, ''Required'')]
      | Some s \<Rightarrow> if length s < n then [(k, msg)] else [])"

text \<open>\<open>z.string().email().optional()\<close>.\<close>

definition email_issues :: "string \<Rightarrow> process_env \<Rightarrow> env_issue list" where
  "email_issues k penv =
     (case env_get penv k of None \<Rightarrow> []
      | Some s \<Rightarrow> if is_email s then [] else [(k, ''Invalid email'')])"

definition env_issues :: "process_env \<Rightarrow> env_issue list" where
  "env_issues penv =
     min_issues ''BOOKER_GPT_TOKEN'' 10 ''BOOKER_GPT_TOKEN is missing'' penv @
     min_issues ''UBC_USER'' 1 ''UBC_USER is missing'' penv @
     min_issues ''UBC_PASS'' 1 ''UBC_PASS is missing'' penv @
     email_issues ''EMAIL_FROM'' penv @ email_issues ''EMAIL_TO'' penv"

text \<open>\<open>parsed.data\<close>: the validated variables, \<open>PORT\<close> defaulted to \<open>"8080"\<close>.\<close>

record raw_env =
  raw_port :: string
  raw_token :: string
  raw_ubc_user :: string
  raw_ubc_pass :: string
  raw_ubc_base_url :: "string option"
  raw_email_from :: "string option"
  raw_email_to :: "string option"
  raw_smtp_host :: "string option"
  raw_smtp_port :: "string option"
  raw_smtp_user :: "string option"
  raw_smtp_pass :: "string option"
  raw_telegram_bot_token :: "string option"
  raw_telegram_chat_id :: "string option"

definition get_or :: "string \<Rightarrow> string option \<Rightarrow> string" where
  "get_or d v = (case v of Some s \<Rightarrow> s | None \<Rightarrow> d)"

definition env_data :: "process_env \<Rightarrow> raw_env" where
  "env_data penv =
     \<lparr>raw_port = get_or ''8080'' (env_get penv ''PORT''),
      raw_token = get_or [] (env_get penv ''BOOKER_GPT_TOKEN''),
      raw_ubc_user = get_or [] (env_get penv ''UBC_USER''),
      raw_ubc_pass = get_or [] (env_get penv ''UBC_PASS''),
      raw_ubc_base_url = env_get penv ''UBC_BASE_URL'',
      raw_email_from = env_get penv ''EMAIL_FROM'',
      raw_email_to = env_get penv ''EMAIL_TO'',
      raw_smtp_host = env_get penv ''SMTP_HOST'',
      raw_smtp_port = env_get penv ''SMTP_PORT'',
      raw_smtp_user = env_get penv ''SMTP_USER'',
      raw_smtp_pass = env_get penv ''SMTP_PASS'',
      raw_telegram_bot_token = env_get penv ''TELEGRAM_BOT_TOKEN'',
      raw_telegram_chat_id = env_get penv ''TELEGRAM_CHAT_ID''\<rparr>"

definition safe_parse_env :: "process_env \<Rightarrow> env_issue list + raw_env" where
  "safe_parse_env penv = (if env_issues penv \<noteq> [] then Inl (env_issues penv) else Inr (env_data penv))"

section \<open>The normalised \<open>env\<close>\<close>

text \<open>
  \<open>user\<close>, \<open>pass\<close> and \<open>from\<close> of \<open>smtp\<close> are written \<open>raw.SMTP_USER!\<close>: the
  non-null assertion is erased at run time, so they stay optional.
\<close>

record smtp_config =
  smtp_host :: string
  smtp_port :: string
  smtp_user :: "string option"
  smtp_pass :: "string option"
  smtp_from :: "string option"
  smtp_to :: "string option"

record telegram_config =
  tg_bot_token :: string
  tg_chat_id :: "string option"

record config =
  cfg_port :: string
  cfg_booker_token :: string
  cfg_ubc_user :: string
  cfg_ubc_pass :: string
  cfg_ubc_base_url :: "string option"
  cfg_smtp :: "smtp_config option"
  cfg_telegram :: "telegram_config option"

definition normalise_env :: "raw_env \<Rightarrow> config" where
  "normalise_env raw =
     \<lparr>cfg_port = raw_port raw, cfg_booker_token = raw_token raw,
      cfg_ubc_user = raw_ubc_user raw, cfg_ubc_pass = raw_ubc_pass raw,
      cfg_ubc_base_url = raw_ubc_base_url raw,
      cfg_smtp =
        (if truthy (raw_smtp_host raw)
         then Some \<lparr>smtp_host = get_or [] (raw_smtp_host raw),
                    smtp_port = get_or ''465'' (js_or (raw_smtp_port raw) None),
                    smtp_user = raw_smtp_user raw, smtp_pass = raw_smtp_pass raw,
                    smtp_from = raw_email_from raw,
                    smtp_to = js_or (raw_email_to raw) (js_or (raw_email_from raw) None)\<rparr>
         else None),
      cfg_telegram =
        (if truthy (raw_telegram_bot_token raw)
         then Some \<lparr>tg_bot_token = get_or [] (raw_telegram_bot_token raw),
                    tg_chat_id = js_or (raw_telegram_chat_id raw) None\<rparr>
         else None)\<rparr>"

text \<open>The module's top level: \<open>process.exit(1)\<close> on issues, else \<open>env\<close>.\<close>

definition load_env :: "process_env \<Rightarrow> env_issue list + config" where
  "load_env penv = (case safe_parse_env penv of Inl is \<Rightarrow> Inl is | Inr raw \<Rightarrow> Inr (normalise_env raw))"

section \<open>Lemmas\<close>

lemma min_issues_Nil:
  "min_issues k n msg penv = [] \<longleftrightarrow> (\<exists>s. env_get penv k = Some s \<and> n \<le> length s)"
  by (auto simp: min_issues_def split: option.splits)

lemma env_issues_Nil:
  "env_issues penv = [] \<longleftrightarrow>
     min_issues ''BOOKER_GPT_TOKEN'' 10 ''BOOKER_GPT_TOKEN is missing'' penv = [] \<and>
     min_issues ''UBC_USER'' 1 ''UBC_USER is missing'' penv = [] \<and>
     min_issues ''UBC_PASS'' 1 ''UBC_PASS is missing'' penv = [] \<and>
     email_issues ''EMAIL_FROM'' penv = [] \<and> email_issues ''EMAIL_TO'' penv = []"
  by (simp add: env_issues_def)

lemma load_env_Inr:
  "load_env penv = Inr cfg \<longleftrightarrow>
     env_issues penv = [] \<and>
     cfg = normalise_env (env_data penv)"
  by (auto simp: load_env_def safe_parse_env_def split: sum.splits if_splits)

text \<open>What a server that started knows of its variables.\<close>

lemma load_env_vars:
  assumes "load_env penv = Inr cfg"
  shows "env_get penv ''BOOKER_GPT_TOKEN'' = Some (cfg_booker_token cfg)"
    "10 \<le> length (cfg_booker_token cfg)"
    "env_get penv ''UBC_USER'' = Some (cfg_ubc_user cfg)" "cfg_ubc_user cfg \<noteq> []"
    "env_get penv ''UBC_PASS'' = Some (cfg_ubc_pass cfg)" "cfg_ubc_pass cfg \<noteq> []"
    "env_get penv ''UBC_BASE_URL'' = cfg_ubc_base_url cfg"
proof -
  from assms have i: "env_issues penv = []" and c: "cfg = normalise_env (env_data penv)"
    unfolding load_env_Inr by simp_all
  from i obtain t u p where "env_get penv ''BOOKER_GPT_TOKEN'' = Some t" "10 \<le> length t"
      "env_get penv ''UBC_USER'' = Some u" "1 \<le> length u"
      "env_get penv ''UBC_PASS'' = Some p" "1 \<le> length p"
    by (auto simp: env_issues_Nil min_issues_Nil)
  with i c show "env_get penv ''BOOKER_GPT_TOKEN'' = Some (cfg_booker_token cfg)"
    "10 \<le> length (cfg_booker_token cfg)"
    "env_get penv ''UBC_USER'' = Some (cfg_ubc_user cfg)" "cfg_ubc_user cfg \<noteq> []"
    "env_get penv ''UBC_PASS'' = Some (cfg_ubc_pass cfg)" "cfg_ubc_pass cfg \<noteq> []"
    "env_get penv ''UBC_BASE_URL'' = cfg_ubc_base_url cfg"
    by (auto simp: env_data_def normalise_env_def get_or_def)
qed

lemma ubc_environment_cfg:
  "load_env penv = Inr cfg \<Longrightarrow>
   ubc_environment penv = \<lparr>env_base_url = cfg_ubc_base_url cfg, env_user = Some (cfg_ubc_user cfg),
                            env_pass = Some (cfg_ubc_pass cfg)\<rparr>"
  using load_env_vars [of penv cfg] by (simp add: ubc_environment_def)

end
