(* ===== verification/Legacy_Scanner.thy ===== *)
theory Legacy_Scanner
  imports Availability Booking Config
begin

text \<open>
  The older scanner of src/src/ubc.ts (lines 137 to 411): it reads the schedule as an
  HTML table, one row per start time, and takes a row with a \<open>Book Now\<close> element as
  a slot. Its court loop catches the errors of each court, and \<open>checkAvailability\<close>
  falls back to the placeholder slot both when the scan is empty and when it throws.

  What this scanner observes of a page differs from what the current one does, so it has
  its own page record: the court list's \<open>Choose\<close> buttons (the text of the card
  around each, its \<open>href\<close>, and what a click on it does) and the page's tables (the
  text of each and, per row, the text of its first cell and the number of \<open>Book Now\<close>
  elements). A text the code reads with \<open>.catch(() => "")\<close> is \<open>None\<close> when the
  read fails.

  \<open>ensureLoggedIn\<close> of this file is modelled in \<open>Legacy_Login\<close>; here it is an argument
  of \<open>checkAvailability\<close>, so every property below holds for every login action, and
  the older server (\<open>Legacy_Server\<close>) passes it the modelled login. \<open>debugListClickable\<close> only logs and is
  omitted; \<open>getDesiredMinutes\<close> is never called.
\<close>

section \<open>Pages and the browser\<close>

record choose_button =
  ch_card_text :: "string option"
  ch_href :: "string option"
  ch_click :: outcome

record legacy_row =
  lr_first_cell :: "string option"
  lr_book_now :: nat

record legacy_table =
  lt_text :: "string option"
  lt_rows :: "legacy_row list"

record legacy_page =
  lp_url :: url
  lp_choose :: "choose_button list"
  lp_tables :: "legacy_table list"

type_synonym legacy_portal = "(url \<times> legacy_page) list"

record legacy_browser =
  lb_open :: bool
  lb_page :: legacy_page
  lb_navs :: "url list"

type_synonym 'a lstep = "(legacy_browser, failure, 'a) act"

definition legacy_blank :: legacy_page where
  "legacy_blank = \<lparr>lp_url = ''about:blank'', lp_choose = [], lp_tables = []\<rparr>"

definition lgoto :: "legacy_portal \<Rightarrow> url \<Rightarrow> unit lstep" where
  "lgoto L u b =
     (case map_of L u of
        None \<Rightarrow> (b\<lparr>lb_navs := lb_navs b @ [u]\<rparr>, Inl (Navigation_failed u))
      | Some pg \<Rightarrow> (b\<lparr>lb_page := pg, lb_navs := lb_navs b @ [u]\<rparr>, Inr ()))"

definition lcurrent :: "legacy_page lstep" where
  "lcurrent b = (b, Inr (lb_page b))"

text \<open>
  \<open>button.click()\<close> on a button without \<open>href\<close>: the click may load a page (logged as
  a navigation; a URL the portal does not serve leaves the page as it is) or time out.
\<close>

definition lclick :: "legacy_portal \<Rightarrow> outcome \<Rightarrow> unit lstep" where
  "lclick L oc b =
     (case oc of
        Stays \<Rightarrow> (b, Inr ())
      | Loads u \<Rightarrow>
          (case map_of L u of
             None \<Rightarrow> (b\<lparr>lb_navs := lb_navs b @ [u]\<rparr>, Inr ())
           | Some pg \<Rightarrow> (b\<lparr>lb_page := pg, lb_navs := lb_navs b @ [u]\<rparr>, Inr ()))
      | Hangs \<Rightarrow> (b, Inl (Locator_timeout ''Choose'')))"

definition llaunch :: "unit lstep" where
  "llaunch b = (b\<lparr>lb_open := True, lb_page := legacy_blank\<rparr>, Inr ())"

definition lclose :: "unit lstep" where
  "lclose b = (b\<lparr>lb_open := False\<rparr>, Inr ())"

section \<open>One court\<close>

text \<open>\<open>inferCourtName\<close> (lines 137 to 151): the first non-blank line of the card's text.\<close>

definition inferCourtName :: "string option \<Rightarrow> string" where
  "inferCourtName cardText =
     (case cardText of
        None \<Rightarrow> ''Unknown court''
      | Some t \<Rightarrow>
          (case filter (\<lambda>l. l \<noteq> []) (map js_trim (split_on (CHR 0x0A) (js_trim t))) of
             [] \<Rightarrow> ''Unknown court''
           | l # _ \<Rightarrow> l))"

text \<open>\<open>/8:00 AM|9:00 AM|10:00 PM|Bookable 24hrs in advance/i\<close> on the first 500 characters.\<close>

definition grid_marker :: "string \<Rightarrow> bool" where
  "grid_marker text =
     (let s = js_lower (take 500 text) in
      str_includes s ''8:00 am'' \<or> str_includes s ''9:00 am'' \<or> str_includes s ''10:00 pm'' \<or>
      str_includes s ''bookable 24hrs in advance'')"

definition grid_table :: "legacy_table list \<Rightarrow> legacy_table option" where
  "grid_table ts = find (\<lambda>t. grid_marker (get_or [] (lt_text t))) ts"

text \<open>\<open>prefs.start_hour ?? 0\<close> and \<open>prefs.end_hour ?? 24\<close> (lines 218 and 219).\<close>

definition start_of :: "preferences \<Rightarrow> real" where
  "start_of prefs = (case start_hour prefs of Some h \<Rightarrow> h | None \<Rightarrow> 0)"

definition end_of :: "preferences \<Rightarrow> real" where
  "end_of prefs = (case end_hour prefs of Some h \<Rightarrow> h | None \<Rightarrow> 24)"

text \<open>One row of the table (lines 222 to 260): its slot, if any.\<close>

definition row_slot ::
  "preferences \<Rightarrow> string \<Rightarrow> string \<Rightarrow> url \<Rightarrow> legacy_row \<Rightarrow> slot option" where
  "row_slot prefs todayIso courtName pageUrl row =
     (case parseTimeFromText (js_trim (get_or [] (lr_first_cell row))) of
        None \<Rightarrow> None
      | Some time24h \<Rightarrow>
          (let hh = digits_value (before_char CHR '':'' time24h)
           in if real hh < start_of prefs \<or> end_of prefs \<le> real hh then None
              else if lr_book_now row = 0 then None
              else Some \<lparr>date_iso = todayIso, time_24h = time24h,
                         minutes = (case min_minutes prefs of Some m \<Rightarrow> m | None \<Rightarrow> 60),
                         location = (if courtName \<noteq> [] then courtName
                                     else ''UBC Tennis Centre '' @ en_dash @ '' court''),
                         deep_link = Some pageUrl\<rparr>))"

text \<open>\<open>scanSingleCourtPage\<close> (lines 179 to 264); it reads the page and never throws.\<close>

definition scanSingleCourtPage :: "preferences \<Rightarrow> string \<Rightarrow> string \<Rightarrow> slot list lstep" where
  "scanSingleCourtPage prefs todayIso courtName =
     abind lcurrent (\<lambda>pg.
       case grid_table (lp_tables pg) of
         None \<Rightarrow> areturn []
       | Some t \<Rightarrow> areturn (List.map_filter (row_slot prefs todayIso courtName (lp_url pg)) (lt_rows t)))"

section \<open>The court loop\<close>

text \<open>
  The \<open>try\<close> of one court (lines 322 to 345): the \<open>i\<close>-th \<open>Choose\<close> button of the
  current page, by \<open>href\<close> or by a click, then its schedule. A button the page no longer
  has times out on \<open>getAttribute\<close>.
\<close>

definition scan_choose :: "legacy_portal \<Rightarrow> url \<Rightarrow> preferences \<Rightarrow> string \<Rightarrow> string \<Rightarrow> nat \<Rightarrow> slot list lstep" where
  "scan_choose L base prefs todayIso courtName i =
     abind lcurrent (\<lambda>pg.
       if length (lp_choose pg) \<le> i then athrow (Locator_timeout ''Choose'')
       else
         (let button = lp_choose pg ! i in
          abind (if truthy (ch_href button) then lgoto L (resolve_url base (get_or [] (ch_href button)))
                 else lclick L (ch_click button)) (\<lambda>_.
            scanSingleCourtPage prefs todayIso courtName)))"

text \<open>The court's name, read before the \<open>try\<close> (line 316).\<close>

definition choose_name :: "nat \<Rightarrow> legacy_page \<Rightarrow> string" where
  "choose_name i pg = inferCourtName (if i < length (lp_choose pg) then ch_card_text (lp_choose pg ! i) else None)"

text \<open>
  Lines 311 to 360: for each of the first \<open>maxCourts\<close> buttons, the court's slots are
  appended unless its \<open>try\<close> threw; a failure to return to the court list ends the loop
  (\<open>break\<close>) with the slots found so far. \<open>n\<close> is the number of iterations left.
\<close>

fun legacy_loop ::
  "legacy_portal \<Rightarrow> url \<Rightarrow> preferences \<Rightarrow> string \<Rightarrow> nat \<Rightarrow> nat \<Rightarrow> slot list \<Rightarrow> slot list lstep" where
  "legacy_loop L base prefs todayIso i 0 slots = areturn slots"
| "legacy_loop L base prefs todayIso i (Suc n) slots =
     abind lcurrent (\<lambda>pg.
       abind (acatch (scan_choose L base prefs todayIso (choose_name i pg) i) (\<lambda>_. areturn [])) (\<lambda>courtSlots.
       (\<lambda>b. case lgoto L base b of
               (b', Inl _) \<Rightarrow> (b', Inr (slots @ courtSlots))
             | (b', Inr _) \<Rightarrow> legacy_loop L base prefs todayIso (Suc i) n (slots @ courtSlots) b')))"

text \<open>\<open>scanCourtsAndSlots\<close> (lines 291 to 364).\<close>

definition legacy_scan :: "legacy_portal \<Rightarrow> url \<Rightarrow> preferences \<Rightarrow> string \<Rightarrow> slot list lstep" where
  "legacy_scan L base prefs todayIso =
     abind lcurrent (\<lambda>pg.
       if lp_choose pg = [] then areturn []
       else legacy_loop L base prefs todayIso 0 (min (length (lp_choose pg)) 10) [])"

section \<open>\<open>checkAvailability\<close>\<close>

text \<open>
  Lines 371 to 411, with the login of the file as the argument \<open>login\<close>: the scan's
  slots, or the placeholder when the scan is empty or throws.
\<close>

definition legacy_checkAvailability ::
  "legacy_portal \<Rightarrow> unit lstep \<Rightarrow> url \<Rightarrow> string \<Rightarrow> preferences \<Rightarrow> slot list lstep" where
  "legacy_checkAvailability L login base todayIso prefs =
     abind llaunch (\<lambda>_.
       afinally
         (abind (lgoto L base) (\<lambda>_.
          abind login (\<lambda>_.
          abind (acatch (abind (legacy_scan L base prefs todayIso) (\<lambda>realSlots.
                           areturn (if realSlots \<noteq> [] then Some realSlots else None)))
                        (\<lambda>_. areturn None)) (\<lambda>r.
            case r of
              Some realSlots \<Rightarrow> areturn realSlots
            | None \<Rightarrow> areturn [placeholder_slot todayIso prefs base]))))
         lclose)"

section \<open>A sample portal\<close>

definition example_legacy_list :: legacy_page where
  "example_legacy_list =
     \<lparr>lp_url = DEFAULT_BASE_URL,
      lp_choose = [\<lparr>ch_card_text = Some ''Indoor Court 1\<newline>Choose'', ch_href = Some ''/Fac/1'', ch_click = Stays\<rparr>],
      lp_tables = []\<rparr>"

definition example_legacy_court :: legacy_page where
  "example_legacy_court =
     \<lparr>lp_url = ''https://ubc.perfectmind.com/Fac/1'', lp_choose = [],
      lp_tables = [\<lparr>lt_text = Some ''8:00 AM Bookable 24hrs in advance'',
                     lt_rows = [\<lparr>lr_first_cell = Some ''7:00 PM'', lr_book_now = 1\<rparr>,
                                \<lparr>lr_first_cell = Some ''8:00 PM'', lr_book_now = 0\<rparr>]\<rparr>]\<rparr>"

definition example_legacy_portal :: legacy_portal where
  "example_legacy_portal =
     [(DEFAULT_BASE_URL, example_legacy_list), (''https://ubc.perfectmind.com/Fac/1'', example_legacy_court)]"

text \<open>The same court list, its court's page not served.\<close>

definition example_legacy_broken :: legacy_portal where
  "example_legacy_broken = [(DEFAULT_BASE_URL, example_legacy_list)]"

definition example_legacy_browser :: legacy_browser where
  "example_legacy_browser = \<lparr>lb_open = False, lb_page = legacy_blank, lb_navs = []\<rparr>"

section \<open>Lemmas\<close>

lemma row_slot_Some:
  assumes "row_slot prefs d c u r = Some s"
  shows "\<exists>h mm. time_24h s = pad2 (show_nat h) @ CHR '':'' # mm \<and> all_digits mm \<and> length mm = 2 \<and>
           start_of prefs \<le> real h \<and> real h < end_of prefs \<and> 0 < lr_book_now r \<and>
           date_iso s = d \<and> deep_link s = Some u \<and> location s \<noteq> []"
proof -
  from assms obtain t where t: "parseTimeFromText (js_trim (get_or [] (lr_first_cell r))) = Some t"
    by (auto simp: row_slot_def split: option.splits)
  from parseTimeFromText_Some [OF t] obtain h mm where
    tm: "t = pad2 (show_nat h) @ CHR '':'' # mm" "all_digits mm" "length mm = 2" by blast
  have hh: "digits_value (before_char CHR '':'' t) = h"
    using tm(1) by (simp add: all_digits_pad2 all_digits_show_nat)
  from assms t hh tm show ?thesis
    by (intro exI [of _ h] exI [of _ mm])
       (auto simp: row_slot_def Let_def split: if_splits)
qed


lemma lcurrent_apply [simp]: "lcurrent b = (b, Inr (lb_page b))"
  by (simp add: lcurrent_def)

lemma set_map_filter: "x \<in> set (List.map_filter f xs) \<longleftrightarrow> (\<exists>y\<in>set xs. f y = Some x)"
  by (induction xs) (auto simp: List.map_filter_def)

lemma scanSingleCourtPage_yields:
  "yields (scanSingleCourtPage prefs d c) (list_all (\<lambda>x. \<exists>c u r. row_slot prefs d c u r = Some x))"
  by (fastforce simp: yields_def scanSingleCourtPage_def abind_def list_all_iff set_map_filter
      split: option.splits)

lemma scan_choose_yields:
  "yields (scan_choose L base prefs d c i) (list_all (\<lambda>x. \<exists>c u r. row_slot prefs d c u r = Some x))"
  unfolding scan_choose_def Let_def
  by (intro yields_abind_any yields_if yields_athrow scanSingleCourtPage_yields)

lemma lgoto_navs: "lgoto L u b = (b', r) \<Longrightarrow> lb_navs b' = lb_navs b @ [u]"
  by (auto simp: lgoto_def split: option.splits)

lemma lclick_navs: "lclick L oc b = (b', r) \<Longrightarrow> \<exists>ns. lb_navs b' = lb_navs b @ ns \<and> length ns \<le> 1"
  by (auto simp: lclick_def split: outcome.splits option.splits)

lemma scanSingleCourtPage_state: "fst (scanSingleCourtPage prefs d c b) = b"
  by (simp add: scanSingleCourtPage_def abind_def split: option.splits)

lemma scan_choose_navs:
  assumes "scan_choose L base prefs d c i b = (b', r)"
  shows "\<exists>ns. lb_navs b' = lb_navs b @ ns \<and> length ns \<le> 1"
proof (cases "length (lp_choose (lb_page b)) \<le> i")
  case True with assms show ?thesis by (simp add: scan_choose_def abind_def)
next
  case False
  let ?bt = "lp_choose (lb_page b) ! i"
  let ?m = "if truthy (ch_href ?bt) then lgoto L (resolve_url base (get_or [] (ch_href ?bt)))
            else lclick L (ch_click ?bt)"
  obtain b1 r1 where m: "?m b = (b1, r1)" by (cases "?m b")
  have n1: "\<exists>ns. lb_navs b1 = lb_navs b @ ns \<and> length ns \<le> 1"
    using m lgoto_navs lclick_navs by (cases "truthy (ch_href ?bt)") fastforce+
  have e: "scan_choose L base prefs d c i b = abind ?m (\<lambda>_. scanSingleCourtPage prefs d c) b"
    using False by (simp add: scan_choose_def abind_def Let_def)
  have "b' = b1"
  proof (cases r1)
    case (Inl x) with assms m show ?thesis by (simp add: e abind_def)
  next
    case (Inr x)
    with assms m have "scanSingleCourtPage prefs d c b1 = (b', r)" by (simp add: e abind_def)
    then show ?thesis using scanSingleCourtPage_state [of prefs d c b1] by simp
  qed
  with n1 show ?thesis by simp
qed

lemma legacy_loop_result:
  assumes "list_all Q slots" "\<And>c i. yields (scan_choose L base prefs d c i) (list_all Q)"
  shows "\<exists>b' ys ns. legacy_loop L base prefs d i n slots b = (b', Inr ys) \<and> list_all Q ys \<and>
           lb_navs b' = lb_navs b @ ns \<and> length ns \<le> 2 * n"
  using assms(1)
proof (induction n arbitrary: i slots b)
  case 0 then show ?case by simp
next
  case (Suc n)
  let ?sc = "acatch (scan_choose L base prefs d (choose_name i (lb_page b)) i) (\<lambda>_. areturn [])"
  obtain b1 r1 where sc: "scan_choose L base prefs d (choose_name i (lb_page b)) i b = (b1, r1)"
    by (cases "scan_choose L base prefs d (choose_name i (lb_page b)) i b")
  define cs where "cs = (case r1 of Inl _ \<Rightarrow> [] | Inr cs \<Rightarrow> cs)"
  have run1: "?sc b = (b1, Inr cs)" by (cases r1) (simp_all add: acatch_def sc cs_def)
  have q1: "list_all Q cs"
    using assms(2) sc by (cases r1) (auto simp: cs_def yields_def)
  obtain ns1 where n1: "lb_navs b1 = lb_navs b @ ns1" "length ns1 \<le> 1"
    using scan_choose_navs [OF sc] by blast
  obtain b2 r2 where g: "lgoto L base b1 = (b2, r2)" by (cases "lgoto L base b1")
  have n2: "lb_navs b2 = lb_navs b1 @ [base]" using lgoto_navs [OF g] .
  have q: "list_all Q (slots @ cs)" using Suc.prems q1 by simp
  show ?case
  proof (cases r2)
    case (Inl e)
    with g run1 q n1 n2 show ?thesis
      by (intro exI [of _ b2] exI [of _ "slots @ cs"] exI [of _ "ns1 @ [base]"])
         (simp add: abind_def)
  next
    case (Inr u)
    obtain b3 ys ns where ih: "legacy_loop L base prefs d (Suc i) n (slots @ cs) b2 = (b3, Inr ys)"
        "list_all Q ys" "lb_navs b3 = lb_navs b2 @ ns" "length ns \<le> 2 * n"
      using Suc.IH [OF q] by blast
    with g Inr run1 n1 n2 show ?thesis
      by (intro exI [of _ b3] exI [of _ ys] exI [of _ "ns1 @ [base] @ ns"]) (simp add: abind_def)
  qed
qed

lemma legacy_scan_run:
  "\<exists>b' ys. legacy_scan L base prefs d b = (b', Inr ys) \<and>
     list_all (\<lambda>x. \<exists>c u r. row_slot prefs d c u r = Some x) ys"
proof (cases "lp_choose (lb_page b) = []")
  case True then show ?thesis by (simp add: legacy_scan_def abind_def)
next
  case False
  obtain b' ys ns where
    "legacy_loop L base prefs d 0 (min (length (lp_choose (lb_page b))) 10) [] b = (b', Inr ys)"
    "list_all (\<lambda>x. \<exists>c u r. row_slot prefs d c u r = Some x) ys"
    using legacy_loop_result [OF _ scan_choose_yields, where slots = "[]" and b = b and i = 0] by fastforce
  with False show ?thesis by (simp add: legacy_scan_def abind_def)
qed

section \<open>Properties of the older scanner\<close>

text \<open>C35: The older court loop always returns: \<open>scanCourtsAndSlots\<close> of src/src/ubc.ts
  never throws, whatever the portal answers, and performs at most twenty navigations (a
  court page and the court list for each of at most ten courts).\<close>

theorem legacy_scan_bounded:
  "\<exists>b' ys ns. legacy_scan L base prefs d b = (b', Inr ys) \<and>
     list_all (\<lambda>x. \<exists>c u r. row_slot prefs d c u r = Some x) ys \<and>
     lb_navs b' = lb_navs b @ ns \<and> length ns \<le> 20"
proof (cases "lp_choose (lb_page b) = []")
  case True then show ?thesis by (simp add: legacy_scan_def abind_def)
next
  case False
  obtain b' ys ns where
    "legacy_loop L base prefs d 0 (min (length (lp_choose (lb_page b))) 10) [] b = (b', Inr ys)"
    "list_all (\<lambda>x. \<exists>c u r. row_slot prefs d c u r = Some x) ys" "lb_navs b' = lb_navs b @ ns"
    "length ns \<le> 2 * min (length (lp_choose (lb_page b))) 10"
    using legacy_loop_result [OF _ scan_choose_yields, where slots = "[]" and b = b and i = 0] by fastforce
  with False show ?thesis by (intro exI [of _ b'] exI [of _ ys] exI [of _ ns]) (simp add: legacy_scan_def abind_def)
qed

text \<open>C36: The older \<open>checkAvailability\<close> degrades as the spec's propagation policy
  asks: once the court list loads and the login returns, it returns a non-empty list,
  the scanned slots or the placeholder, whether the scan found nothing or failed, and the
  browser is closed.\<close>

theorem legacy_checkAvailability_degrades:
  assumes "map_of L base = Some pg" "\<And>s. snd (login s) = Inr ()"
  shows "\<exists>xs. snd (legacy_checkAvailability L login base d prefs b) = Inr xs \<and> xs \<noteq> [] \<and>
           list_all (\<lambda>x. x = placeholder_slot d prefs base \<or> (\<exists>c u r. row_slot prefs d c u r = Some x)) xs \<and>
           \<not> lb_open (fst (legacy_checkAvailability L login base d prefs b))"
proof -
  let ?b1 = "b\<lparr>lb_open := True, lb_page := legacy_blank\<rparr>"
  obtain b2 where g: "lgoto L base ?b1 = (b2, Inr ())" using assms(1) by (simp add: lgoto_def)
  obtain b3 where l: "login b2 = (b3, Inr ())" using assms(2) [of b2] by (cases "login b2") simp
  obtain b4 ys where sc: "legacy_scan L base prefs d b3 = (b4, Inr ys)"
      "list_all (\<lambda>x. \<exists>c u r. row_slot prefs d c u r = Some x) ys"
    using legacy_scan_run by blast
  show ?thesis using g l sc
    by (auto simp: legacy_checkAvailability_def llaunch_def lclose_def afinally_def abind_def acatch_def
        list_all_iff)
qed

theorem legacy_checkAvailability_degrades_witness:
  "map_of example_legacy_broken DEFAULT_BASE_URL = Some example_legacy_list \<and>
   (\<exists>xs. snd (legacy_checkAvailability example_legacy_broken (areturn ()) DEFAULT_BASE_URL ''2025-01-01''
              no_preferences example_legacy_browser) = Inr xs \<and> xs \<noteq> [] \<and>
         list_all (\<lambda>x. x = placeholder_slot ''2025-01-01'' no_preferences DEFAULT_BASE_URL \<or>
                        (\<exists>c u r. row_slot no_preferences ''2025-01-01'' c u r = Some x)) xs \<and>
         \<not> lb_open (fst (legacy_checkAvailability example_legacy_broken (areturn ()) DEFAULT_BASE_URL
                          ''2025-01-01'' no_preferences example_legacy_browser)))"
proof -
  have m: "map_of example_legacy_broken DEFAULT_BASE_URL = Some example_legacy_list"
    by (simp add: example_legacy_broken_def)
  show ?thesis
    using legacy_checkAvailability_degrades [OF m, of "areturn ()" "''2025-01-01''" no_preferences
        example_legacy_browser] m by simp
qed

text \<open>
  On the sample portal the older scanner finds the 7:00 PM row of the court's table; when
  the court's page is not served, it answers the placeholder where the current
  \<open>checkAvailability\<close> throws.
\<close>

lemma legacy_example_scan:
  "snd (legacy_checkAvailability example_legacy_portal (areturn ()) DEFAULT_BASE_URL ''2025-01-01''
          no_preferences example_legacy_browser) =
   Inr [\<lparr>date_iso = ''2025-01-01'', time_24h = ''19:00'', minutes = 60, location = ''Indoor Court 1'',
         deep_link = Some ''https://ubc.perfectmind.com/Fac/1''\<rparr>]"
  by code_simp

lemma legacy_example_broken:
  "snd (legacy_checkAvailability example_legacy_broken (areturn ()) DEFAULT_BASE_URL ''2025-01-01''
          no_preferences example_legacy_browser) =
   Inr [placeholder_slot ''2025-01-01'' no_preferences DEFAULT_BASE_URL]"
  by code_simp

end
