(* ===== verification/Early_Scanner.thy ===== *)
theory Early_Scanner
  imports Legacy_Scanner
begin

text \<open>
  The earliest scanner, the first document of src/unnamed/part_002 (lines 137 to 360). On
  each court page it tries to select a duration radio and a players count, then takes
  every button or link whose text holds a clock time as a slot, whether or not it can be
  booked. Its court loop has no \<open>try\<close>: any error ends the scan, and
  \<open>checkAvailability\<close> falls back to the placeholder slot both for an empty scan and for
  a failed one. Its \<open>ensureLoggedIn\<close> (lines 30 to 133) is the code of src/src/ubc.ts,
  modelled in \<open>Legacy_Login\<close>; here it is an argument, and the properties hold for
  every login action. \<open>inferCourtName\<close> and the placeholder slot are those of
  \<open>Legacy_Scanner\<close> and \<open>Availability\<close> (the same code).

  What this scanner observes of a page: the court buttons (\<open>button\<close> with text
  \<open>/choose/i\<close>: the text of the enclosing \<open>div\<close>, \<open>None\<close> when reading it throws, and
  where a click on it navigates, \<open>None\<close> when \<open>waitForNavigation\<close> times out), the
  radios of the accessibility tree (name and visibility), the options of the first
  visible players select (value attribute and text), and the \<open>innerText\<close> of the
  \<open>button, a\<close> elements whose text holds a time. Selecting a radio or an option is
  recorded in the browser's input log and does not change what the scanner reads.
\<close>

section \<open>Pages and the browser\<close>

record early_choose =
  ec_card_text :: "string option"
  ec_click :: "url option"

record early_option =
  eo_value :: "string option"
  eo_text :: string

record early_page =
  ep_url :: url
  ep_choose :: "early_choose list"
  ep_radios :: "(string \<times> bool) list"
  ep_players :: "early_option list option"
  ep_time_labels :: "string list"

type_synonym early_portal = "(url \<times> early_page) list"

record early_browser =
  eb_open :: bool
  eb_page :: early_page
  eb_navs :: "url list"
  eb_inputs :: "string list"

type_synonym 'a estep = "(early_browser, failure, 'a) act"

definition early_blank :: early_page where
  "early_blank = \<lparr>ep_url = ''about:blank'', ep_choose = [], ep_radios = [], ep_players = None,
     ep_time_labels = []\<rparr>"

definition egoto :: "early_portal \<Rightarrow> url \<Rightarrow> unit estep" where
  "egoto L u b =
     (case map_of L u of
        None \<Rightarrow> (b\<lparr>eb_navs := eb_navs b @ [u]\<rparr>, Inl (Navigation_failed u))
      | Some pg \<Rightarrow> (b\<lparr>eb_page := pg, eb_navs := eb_navs b @ [u]\<rparr>, Inr ()))"

definition ecurrent :: "early_page estep" where
  "ecurrent b = (b, Inr (eb_page b))"

definition einput :: "string \<Rightarrow> unit estep" where
  "einput s b = (b\<lparr>eb_inputs := eb_inputs b @ [s]\<rparr>, Inr ())"

definition elaunch :: "unit estep" where
  "elaunch b = (b\<lparr>eb_open := True, eb_page := early_blank\<rparr>, Inr ())"

definition eclose :: "unit estep" where
  "eclose b = (b\<lparr>eb_open := False\<rparr>, Inr ())"

section \<open>One court\<close>

text \<open>\<open>getDesiredMinutes\<close> (lines 153 to 157).\<close>

definition getDesiredMinutes :: "preferences \<Rightarrow> real" where
  "getDesiredMinutes prefs =
     (let requested = (case min_minutes prefs of Some m \<Rightarrow> m | None \<Rightarrow> 60) in
      if requested \<le> 60 then 60 else 120)"

text \<open>
  \<open>p\s*w\<close> anywhere in the string (for a word \<open>w\<close> that starts with a letter, the
  greedy \<open>\s*\<close> never has to give back a space).
\<close>

fun contains_spaced :: "string \<Rightarrow> string \<Rightarrow> string \<Rightarrow> bool" where
  "contains_spaced p w [] = False"
| "contains_spaced p w (c # cs) =
     ((starts_with (c # cs) p \<and> starts_with (dropWhile js_space (drop (length p) (c # cs))) w)
      \<or> contains_spaced p w cs)"

text \<open>Lines 173 to 174: \<open>/2\s*hour|120\s*min/i\<close> or \<open>/1\s*hour|60\s*min/i\<close>.\<close>

definition duration_label :: "real \<Rightarrow> string \<Rightarrow> bool" where
  "duration_label desired name =
     (let n = js_lower name in
      if desired > 60 then contains_spaced ''2'' ''hour'' n \<or> contains_spaced ''120'' ''min'' n
      else contains_spaced ''1'' ''hour'' n \<or> contains_spaced ''60'' ''min'' n)"

text \<open>
  Lines 171 to 190: the first radio whose name matches, clicked when it is visible. The
  \<open>catch\<close> only logs.
\<close>

definition set_duration :: "real \<Rightarrow> unit estep" where
  "set_duration desired =
     abind ecurrent (\<lambda>pg.
       case find (\<lambda>(name, _). duration_label desired name) (ep_radios pg) of
         Some (name, True) \<Rightarrow> einput name
       | _ \<Rightarrow> areturn ())"

text \<open>
  \<open>select.selectOption(v)\<close>: the first option whose value (its text when it has no
  \<open>value\<close> attribute) or text is \<open>v\<close>; it throws when there is none.
\<close>

definition option_value :: "early_option \<Rightarrow> string" where
  "option_value opt = get_or (eo_text opt) (eo_value opt)"

definition select_option :: "early_option list \<Rightarrow> string \<Rightarrow> string option" where
  "select_option opts v =
     map_option option_value (find (\<lambda>opt. option_value opt = v \<or> eo_text opt = v) opts)"

text \<open>
  Lines 193 to 218: with a visible players select, select \<open>"2"\<close>; when that throws,
  take the first option whose text contains \<open>2\<close> and, when it has a non-empty
  \<open>value\<close> attribute, select that value.
\<close>

definition set_players :: "unit estep" where
  "set_players =
     abind ecurrent (\<lambda>pg.
       case ep_players pg of
         None \<Rightarrow> areturn ()
       | Some opts \<Rightarrow>
           (case select_option opts ''2'' of
              Some v \<Rightarrow> einput v
            | None \<Rightarrow>
                (case find (\<lambda>opt. CHR ''2'' \<in> set (eo_text opt)) opts of
                   Some opt \<Rightarrow>
                     if truthy (eo_value opt) then
                       (case select_option opts (get_or [] (eo_value opt)) of
                          Some v \<Rightarrow> einput v
                        | None \<Rightarrow> areturn ())
                     else areturn ()
                 | None \<Rightarrow> areturn ())))"

text \<open>
  \<open>/(\d{1,2}):(\d{2})\s*(am|pm)?/i\<close> at the first position where it matches: the hour
  digits, the minute digits and the meridiem in lower case, if any.
\<close>

fun find_time_opt :: "string \<Rightarrow> (string \<times> string \<times> string option) option" where
  "find_time_opt [] = None"
| "find_time_opt (c # cs) =
     (case hour_part (c # cs) of
        Some (hh, r) \<Rightarrow>
          if 2 \<le> length r \<and> all_digits (take 2 r) then
            Some (hh, take 2 r,
                  map_option (\<lambda>(ap, _). js_lower ap) (meridiem_part True (dropWhile js_space (drop 2 r))))
          else find_time_opt cs
      | None \<Rightarrow> find_time_opt cs)"

text \<open>Lines 236 to 264: one time button.\<close>

definition label_slot ::
  "preferences \<Rightarrow> string \<Rightarrow> string \<Rightarrow> url \<Rightarrow> real \<Rightarrow> string \<Rightarrow> slot option" where
  "label_slot prefs todayIso courtName url desired raw =
     (case find_time_opt (js_trim raw) of
        None \<Rightarrow> None
      | Some (hh, mm, ap) \<Rightarrow>
          (let hour = digits_value hh;
               hour24' = (case ap of Some m \<Rightarrow> hour24 hour (m = ''pm'') | None \<Rightarrow> hour) in
           if real hour24' < start_of prefs \<or> real hour24' \<ge> end_of prefs then None
           else Some \<lparr>date_iso = todayIso,
                      time_24h = pad2 (show_nat hour24') @ '':'' @ pad2 (show_nat (digits_value mm)),
                      minutes = desired, location = courtName, deep_link = Some url\<rparr>))"

text \<open>\<open>scanSingleCourtPage\<close> (lines 159 to 271).\<close>

definition early_scanSingleCourtPage :: "preferences \<Rightarrow> string \<Rightarrow> string \<Rightarrow> slot list estep" where
  "early_scanSingleCourtPage prefs todayIso courtName =
     (let desired = getDesiredMinutes prefs in
      abind (set_duration desired) (\<lambda>_.
      abind set_players (\<lambda>_.
      abind ecurrent (\<lambda>pg.
        areturn (List.map_filter (label_slot prefs todayIso courtName (ep_url pg) desired)
                                 (ep_time_labels pg))))))"

section \<open>The court loop and the entry point\<close>

text \<open>
  Lines 288 to 312: the \<open>i\<close>-th button of the page the tab shows now; a button that is
  gone makes \<open>inferCourtName\<close> return \<open>"Unknown court"\<close> and the click time out.
\<close>

definition eclick_choose :: "early_portal \<Rightarrow> early_choose \<Rightarrow> unit estep" where
  "eclick_choose L c = (case ec_click c of None \<Rightarrow> athrow Click_navigation_timeout | Some u \<Rightarrow> egoto L u)"

fun early_loop ::
  "early_portal \<Rightarrow> url \<Rightarrow> preferences \<Rightarrow> string \<Rightarrow> nat \<Rightarrow> nat \<Rightarrow> slot list \<Rightarrow> slot list estep" where
  "early_loop L base prefs todayIso i 0 slots = areturn slots"
| "early_loop L base prefs todayIso i (Suc k) slots =
     abind ecurrent (\<lambda>pg.
       if i < length (ep_choose pg) then
         (let button = ep_choose pg ! i in
          abind (eclick_choose L button) (\<lambda>_.
          abind (early_scanSingleCourtPage prefs todayIso (inferCourtName (ec_card_text button))) (\<lambda>courtSlots.
          abind (egoto L base) (\<lambda>_.
          early_loop L base prefs todayIso (Suc i) k (slots @ courtSlots)))))
       else athrow (Locator_timeout ''Choose''))"

text \<open>\<open>scanCourtsAndSlots\<close> (lines 273 to 316): at most ten courts.\<close>

definition early_scan :: "early_portal \<Rightarrow> url \<Rightarrow> preferences \<Rightarrow> string \<Rightarrow> slot list estep" where
  "early_scan L base prefs todayIso =
     abind ecurrent (\<lambda>pg. early_loop L base prefs todayIso 0 (min (length (ep_choose pg)) 10) [])"

text \<open>\<open>checkAvailability\<close> (lines 320 to 360).\<close>

definition early_checkAvailability ::
  "early_portal \<Rightarrow> unit estep \<Rightarrow> url \<Rightarrow> string \<Rightarrow> preferences \<Rightarrow> slot list estep" where
  "early_checkAvailability L login base todayIso prefs =
     abind elaunch (\<lambda>_.
       afinally
         (abind (egoto L base) (\<lambda>_.
          abind login (\<lambda>_.
          abind (acatch (abind (early_scan L base prefs todayIso) (\<lambda>realSlots.
                           areturn (if realSlots \<noteq> [] then Some realSlots else None)))
                        (\<lambda>_. areturn None)) (\<lambda>r.
            case r of
              Some realSlots \<Rightarrow> areturn realSlots
            | None \<Rightarrow> areturn [placeholder_slot todayIso prefs base]))))
         eclose)"

text \<open>The second document of part_002 (lines 375 to 384): a fixed slot.\<close>

definition stub_checkAvailability :: "string \<Rightarrow> preferences \<Rightarrow> slot list" where
  "stub_checkAvailability todayIso prefs =
     [\<lparr>date_iso = todayIso, time_24h = ''19:00'', minutes = 60,
       location = ''UBC Tennis Centre '' @ en_dash @ '' Indoor Court 3'', deep_link = None\<rparr>]"


section \<open>A sample portal\<close>

text \<open>
  A court list with two courts: the first court's page has a 2-hour radio, a players
  select without a \<open>"2"\<close> option, and three time buttons (one of them a booked
  slot, one without meridiem); a click on the second court times out.
\<close>

definition example_early_court :: early_page where
  "example_early_court =
     \<lparr>ep_url = ''https://ubc.perfectmind.com/Fac/1'', ep_choose = [],
      ep_radios = [(''1 Hour'', True), (''12 Hours'', True)],
      ep_players = Some [\<lparr>eo_value = Some ''p1'', eo_text = ''1 player''\<rparr>,
                         \<lparr>eo_value = Some ''p2'', eo_text = ''2 players''\<rparr>],
      ep_time_labels = [''7:00 PM'', ''Booked 8:00 PM'', ''7:30'']\<rparr>"

definition example_early_list :: early_page where
  "example_early_list =
     \<lparr>ep_url = DEFAULT_BASE_URL,
      ep_choose = [\<lparr>ec_card_text = Some ''Indoor Court 1\<newline>Choose'', ec_click = Some ''https://ubc.perfectmind.com/Fac/1''\<rparr>,
                   \<lparr>ec_card_text = Some ''Indoor Court 2\<newline>Choose'', ec_click = None\<rparr>],
      ep_radios = [], ep_players = None, ep_time_labels = []\<rparr>"

definition example_early_portal :: early_portal where
  "example_early_portal =
     [(DEFAULT_BASE_URL, example_early_list), (''https://ubc.perfectmind.com/Fac/1'', example_early_court)]"

text \<open>The same portal with the second court removed.\<close>

definition example_early_one :: early_portal where
  "example_early_one =
     [(DEFAULT_BASE_URL, example_early_list\<lparr>ep_choose := take 1 (ep_choose example_early_list)\<rparr>),
      (''https://ubc.perfectmind.com/Fac/1'', example_early_court)]"

definition example_early_browser :: early_browser where
  "example_early_browser = \<lparr>eb_open = False, eb_page = early_blank, eb_navs = [], eb_inputs = []\<rparr>"

section \<open>Lemmas\<close>

lemma ecurrent_apply [simp]: "ecurrent b = (b, Inr (eb_page b))"
  by (simp add: ecurrent_def)

lemma einput_apply [simp]: "einput v b = (b\<lparr>eb_inputs := eb_inputs b @ [v]\<rparr>, Inr ())"
  by (simp add: einput_def)

text \<open>The duration and players steps never throw and only add to the input log.\<close>

lemma set_duration_run:
  "\<exists>ins. set_duration m b = (b\<lparr>eb_inputs := eb_inputs b @ ins\<rparr>, Inr ()) \<and> length ins \<le> 1"
  by (auto simp: set_duration_def abind_def split: option.splits bool.splits prod.splits
           intro: exI [of _ "[]"])

lemma set_players_run:
  "\<exists>ins. set_players b = (b\<lparr>eb_inputs := eb_inputs b @ ins\<rparr>, Inr ()) \<and> length ins \<le> 1"
  by (auto simp: set_players_def abind_def split: option.splits intro: exI [of _ "[]"])

lemma early_scanSingleCourtPage_run:
  "\<exists>ins. early_scanSingleCourtPage prefs d c b =
     (b\<lparr>eb_inputs := eb_inputs b @ ins\<rparr>,
      Inr (List.map_filter (label_slot prefs d c (ep_url (eb_page b)) (getDesiredMinutes prefs))
                           (ep_time_labels (eb_page b))))"
proof -
  obtain i1 where 1: "set_duration (getDesiredMinutes prefs) b = (b\<lparr>eb_inputs := eb_inputs b @ i1\<rparr>, Inr ())"
    using set_duration_run by blast
  obtain i2 where 2: "set_players (b\<lparr>eb_inputs := eb_inputs b @ i1\<rparr>) =
      (b\<lparr>eb_inputs := eb_inputs b @ i1 @ i2\<rparr>, Inr ())"
    using set_players_run [of "b\<lparr>eb_inputs := eb_inputs b @ i1\<rparr>"] by auto
  show ?thesis using 1 2
    by (intro exI [of _ "i1 @ i2"]) (simp add: early_scanSingleCourtPage_def abind_def Let_def)
qed

lemma getDesiredMinutes_cases: "getDesiredMinutes prefs = 60 \<or> getDesiredMinutes prefs = 120"
  by (simp add: getDesiredMinutes_def Let_def)

text \<open>
  A slot taken from a time button carries the court, the page URL, today's date and the
  desired minutes, and its hour lies in the preference window.
\<close>

lemma label_slot_Some:
  assumes "label_slot prefs d c u m raw = Some s"
  shows "date_iso s = d \<and> location s = c \<and> deep_link s = Some u \<and> minutes s = m \<and>
    (\<exists>h mm. time_24h s = pad2 (show_nat h) @ '':'' @ mm \<and> start_of prefs \<le> real h \<and> real h < end_of prefs)"
  using assms by (fastforce simp: label_slot_def Let_def not_less split: option.splits prod.splits if_splits)

lemma early_loop_yields:
  assumes "list_all Q slots"
    and "\<And>c u l s. label_slot prefs d c u (getDesiredMinutes prefs) l = Some s \<Longrightarrow> Q s"
  shows "yields (early_loop L base prefs d i k slots) (list_all Q)"
  using assms(1)
proof (induction k arbitrary: i slots)
  case 0
  then show ?case by (simp add: yields_def)
next
  case (Suc k)
  have "yields (early_scanSingleCourtPage prefs d c) (list_all Q)" for c
    unfolding yields_def
  proof (intro allI impI)
    fix b b' ys assume "early_scanSingleCourtPage prefs d c b = (b', Inr ys)"
    then have "ys = List.map_filter (label_slot prefs d c (ep_url (eb_page b)) (getDesiredMinutes prefs))
        (ep_time_labels (eb_page b))"
      using early_scanSingleCourtPage_run [of prefs d c b] by auto
    then show "list_all Q ys" using assms(2) by (auto simp: list_all_iff set_map_filter)
  qed
  then have "yields (early_scanSingleCourtPage prefs d c) (\<lambda>cs. list_all Q (slots @ cs))" for c
    using Suc.prems by (simp add: yields_def)
  then show ?case unfolding early_loop.simps Let_def
    by (intro yields_abind_any yields_if yields_athrow yields_abind [where P = "\<lambda>cs. list_all Q (slots @ cs)"]
        Suc.IH) auto
qed


lemma log_bound_egoto [intro]: "1 \<le> k \<Longrightarrow> log_bound eb_navs k (egoto L u)"
  unfolding log_bound_def by (auto simp: egoto_def split: option.splits)

lemma log_bound_ecurrent [intro, simp]: "log_bound eb_navs k ecurrent"
  by (simp add: log_bound_def)

lemma early_scanSingleCourtPage_state:
  "\<exists>ins. fst (early_scanSingleCourtPage prefs d c b) = b\<lparr>eb_inputs := eb_inputs b @ ins\<rparr>"
  using early_scanSingleCourtPage_run [of prefs d c b] by force

lemma log_bound_early_scanSingleCourtPage [intro, simp]:
  "log_bound eb_navs k (early_scanSingleCourtPage prefs d c)"
  unfolding log_bound_def using early_scanSingleCourtPage_state by (metis append_Nil2 early_browser.select_convs(3)
    early_browser.surjective early_browser.update_convs(4) le0 list.size(3))

lemma log_bound_eclick_choose [intro]: "1 \<le> k \<Longrightarrow> log_bound eb_navs k (eclick_choose L c)"
  by (auto simp: eclick_choose_def split: option.splits)

text \<open>Two navigations per court: the click and the return to the court list.\<close>

lemma early_loop_nav_bound: "log_bound eb_navs (2 * k) (early_loop L base prefs d i k slots)"
proof (induction k arbitrary: i slots)
  case 0
  then show ?case by simp
next
  case (Suc k)
  show ?case unfolding early_loop.simps Let_def
    by (intro log_bound_abind [where k = 0 and l = "2 * Suc k"] log_bound_if
        log_bound_abind [where k = 1 and l = "1 + 2 * k"] log_bound_abind [where k = 0 and l = "1 + 2 * k"]
        log_bound_abind [where k = 1 and l = "2 * k"] Suc.IH) auto
qed

lemma early_scan_nav_bound: "log_bound eb_navs 20 (early_scan L base prefs d)"
  unfolding early_scan_def
  by (intro log_bound_abind [where k = 0 and l = 20] log_bound_mono [OF early_loop_nav_bound]) auto

lemma early_checkAvailability_nav_bound:
  assumes "log_bound eb_navs l login"
  shows "log_bound eb_navs (21 + l) (early_checkAvailability L login base d prefs)"
proof -
  have scan: "log_bound eb_navs 20 (acatch (abind (early_scan L base prefs d) (\<lambda>x. areturn (f x))) (\<lambda>_. areturn y))"
    for f y
    by (intro log_bound_acatch [where k = 20 and l = 0] log_bound_abind [where k = 20 and l = 0]
        early_scan_nav_bound) auto
  have body: "log_bound eb_navs (21 + l)
      (abind (egoto L base) (\<lambda>_. abind login (\<lambda>_.
         abind (acatch (abind (early_scan L base prefs d) (\<lambda>x. areturn (f x))) (\<lambda>_. areturn y)) k)))"
    if "\<And>r. log_bound eb_navs 0 (k r)" for f y k
    by (intro log_bound_abind [where k = 1 and l = "20 + l"] log_bound_abind [OF assms, where l = 20]
        log_bound_abind [OF scan, where l = 0] that) auto
  show ?thesis unfolding early_checkAvailability_def
    by (intro log_bound_abind [where k = 0 and l = "21 + l"] log_bound_afinally [where k = "21 + l" and l = 0]
        body) (auto simp: elaunch_def eclose_def log_bound_def split: option.splits)
qed

text \<open>
  Once the court list loads and the login returns, \<open>checkAvailability\<close> returns a
  non-empty list, whatever the court pages do, and closes the browser.
\<close>

lemma early_checkAvailability_returns:
  assumes "map_of L base = Some pg" "\<And>s. eb_page s = pg \<Longrightarrow> snd (login s) = Inr ()"
  shows "\<exists>b' xs. early_checkAvailability L login base d prefs b = (b', Inr xs) \<and> xs \<noteq> [] \<and> \<not> eb_open b'"
proof -
  let ?b1 = "b\<lparr>eb_open := True, eb_page := early_blank\<rparr>"
  obtain b2 where g: "egoto L base ?b1 = (b2, Inr ())" and p: "eb_page b2 = pg"
    using assms(1) by (simp add: egoto_def)
  obtain b3 where l: "login b2 = (b3, Inr ())" using assms(2) [OF p] by (cases "login b2") simp
  show ?thesis using g l
    by (cases "early_scan L base prefs d b3")
       (auto simp: early_checkAvailability_def elaunch_def eclose_def afinally_def abind_def acatch_def
             split: sum.splits)
qed

text \<open>
  One court whose click times out discards the slots of the courts scanned before it:
  the first court's three slots are lost and only the placeholder is returned.
\<close>

lemma early_failure_loses_slots:
  "snd (early_checkAvailability example_early_portal (areturn ()) DEFAULT_BASE_URL ''2025-01-01''
          no_preferences example_early_browser) =
   Inr [placeholder_slot ''2025-01-01'' no_preferences DEFAULT_BASE_URL]"
  by code_simp

text \<open>
  Every time button is a slot: a booked one, and one without meridiem read as a 24-hour
  time; with \<open>min_minutes = 90\<close> each slot claims 120 minutes, and the radio the
  2-hour expression selects is \<open>"12 Hours"\<close>.
\<close>

lemma early_takes_every_time_button:
  "early_checkAvailability example_early_one (areturn ()) DEFAULT_BASE_URL ''2025-01-01''
     (no_preferences\<lparr>min_minutes := Some 90\<rparr>) example_early_browser =
   (example_early_browser\<lparr>eb_page := example_early_list\<lparr>ep_choose := take 1 (ep_choose example_early_list)\<rparr>,
      eb_navs := [DEFAULT_BASE_URL, ''https://ubc.perfectmind.com/Fac/1'', DEFAULT_BASE_URL],
      eb_inputs := [''12 Hours'', ''p2'']\<rparr>,
    Inr [\<lparr>date_iso = ''2025-01-01'', time_24h = ''19:00'', minutes = 120, location = ''Indoor Court 1'',
          deep_link = Some ''https://ubc.perfectmind.com/Fac/1''\<rparr>,
         \<lparr>date_iso = ''2025-01-01'', time_24h = ''20:00'', minutes = 120, location = ''Indoor Court 1'',
          deep_link = Some ''https://ubc.perfectmind.com/Fac/1''\<rparr>,
         \<lparr>date_iso = ''2025-01-01'', time_24h = ''07:30'', minutes = 120, location = ''Indoor Court 1'',
          deep_link = Some ''https://ubc.perfectmind.com/Fac/1''\<rparr>])"
  by code_simp

text \<open>The stub of the second document ignores the preferences.\<close>

lemma stub_ignores_preferences:
  "map time_24h (stub_checkAvailability d (no_preferences\<lparr>start_hour := Some 20\<rparr>)) = [''19:00'']"
  by (simp add: stub_checkAvailability_def)

end
