(* ===== verification/Notify.thy ===== *)
theory Notify
  imports Config
begin

text \<open>
  The notifier (src/src/notify.ts): \<open>notify(payload)\<close> sends the text by Telegram when
  Telegram is configured and a chat id is known, else by e-mail when SMTP is configured
  and a recipient is known, else throws.

  The outside world is the record \<open>net\<close>: what the Telegram API answers to a
  \<open>sendMessage\<close> post and what the mail transport answers to \<open>sendMail\<close>. The
  state of an action is the outbox, the list of posts the notifier has made, in order.
  A thrown \<open>Error\<close> is its message.
\<close>

section \<open>Payloads and the outside world\<close>

record notify_target =
  nt_email :: "string option"
  nt_sms :: "string option"
  nt_telegram_chat_id :: "string option"

datatype priority = Info | Warn | Urgent

record notify_payload =
  np_notify :: "notify_target option"
  np_text :: string
  np_priority :: "priority option"

text \<open>A post to the Telegram API (bot token, chat id, text) or a mail (transport, to, text).\<close>

datatype delivery =
    Telegram_post string string string
  | Mail smtp_config string string

text \<open>
  What the Telegram API answers: \<open>resp.ok\<close>, a status and body otherwise, or a rejected
  \<open>fetch\<close>. \<open>sendMail\<close> resolves (\<open>None\<close>) or rejects with a message.
\<close>

datatype answer = Ok | Http_error nat string | Rejected string

record net =
  net_telegram :: "string \<Rightarrow> string \<Rightarrow> string \<Rightarrow> answer"
  net_mail :: "smtp_config \<Rightarrow> string \<Rightarrow> string \<Rightarrow> string option"

type_synonym 'a send = "(delivery list, string, 'a) act"

datatype notify_result = Via_telegram string | Via_email string

section \<open>The senders\<close>

text \<open>Posting records the post; a rejection or an error answer throws.\<close>

definition post :: "delivery \<Rightarrow> string option \<Rightarrow> unit send" where
  "post d err out = (out @ [d], case err of None \<Rightarrow> Inr () | Some m \<Rightarrow> Inl m)"

text \<open>Lines 30 to 33: the error a Telegram answer throws.\<close>

definition telegram_error :: "answer \<Rightarrow> string option" where
  "telegram_error a =
     (case a of Ok \<Rightarrow> None
      | Http_error st body \<Rightarrow> Some (''Telegram sendMessage failed: '' @ show_nat st @ '' '' @ body)
      | Rejected m \<Rightarrow> Some m)"

text \<open>Lines 16 to 34.\<close>

definition sendTelegram :: "net \<Rightarrow> config \<Rightarrow> string \<Rightarrow> string \<Rightarrow> unit send" where
  "sendTelegram N cfg text chatId =
     (case cfg_telegram cfg of
        None \<Rightarrow> athrow ''Telegram is not configured''
      | Some tg \<Rightarrow> post (Telegram_post (tg_bot_token tg) chatId text)
                       (telegram_error (net_telegram N (tg_bot_token tg) chatId text)))"

text \<open>Lines 36 to 56.\<close>

definition sendEmail :: "net \<Rightarrow> config \<Rightarrow> string \<Rightarrow> string \<Rightarrow> unit send" where
  "sendEmail N cfg to text =
     (case cfg_smtp cfg of
        None \<Rightarrow> athrow ''SMTP is not configured''
      | Some sm \<Rightarrow> post (Mail sm to text) (net_mail N sm to text))"

section \<open>\<open>notify\<close>\<close>

definition no_notifier :: string where
  "no_notifier =
     ''No notifier configured or no recipient provided (Telegram and SMTP both unavailable).''"

text \<open>
  Lines 66 to 76: \<open>notify?.telegram_chat_id?.trim() || env.telegram.chatId?.trim()\<close>;
  \<open>None\<close> falls through to the e-mail path.
\<close>

definition telegram_chat :: "config \<Rightarrow> notify_target option \<Rightarrow> string option" where
  "telegram_chat cfg nt =
     (case cfg_telegram cfg of
        None \<Rightarrow> None
      | Some tg \<Rightarrow>
          (let userChat = (case nt of None \<Rightarrow> None | Some t \<Rightarrow> map_option js_trim (nt_telegram_chat_id t));
               defaultChat = map_option js_trim (tg_chat_id tg);
               chatId = js_or userChat defaultChat
           in if truthy chatId then chatId else None))"

text \<open>Lines 79 to 85: \<open>(notify?.email || env.smtp.to || "").trim()\<close>.\<close>

definition email_to :: "config \<Rightarrow> notify_target option \<Rightarrow> string option" where
  "email_to cfg nt =
     (case cfg_smtp cfg of
        None \<Rightarrow> None
      | Some sm \<Rightarrow>
          (let to = js_trim (get_or [] (js_or (case nt of None \<Rightarrow> None | Some t \<Rightarrow> nt_email t) (smtp_to sm)))
           in if to \<noteq> [] then Some to else None))"

text \<open>Lines 63 to 91.\<close>

definition notify :: "net \<Rightarrow> config \<Rightarrow> notify_payload \<Rightarrow> notify_result send" where
  "notify N cfg payload =
     (let text = np_text payload; nt = np_notify payload in
      case telegram_chat cfg nt of
        Some chatId \<Rightarrow> abind (sendTelegram N cfg text chatId) (\<lambda>_. areturn (Via_telegram chatId))
      | None \<Rightarrow>
          (case email_to cfg nt of
             Some to \<Rightarrow> abind (sendEmail N cfg to text) (\<lambda>_. areturn (Via_email to))
           | None \<Rightarrow> athrow no_notifier))"

section \<open>A sample configuration\<close>

definition example_smtp :: smtp_config where
  "example_smtp =
     \<lparr>smtp_host = ''smtp.example.org'', smtp_port = ''465'', smtp_user = Some ''bot'', smtp_pass = Some ''pw'',
      smtp_from = Some ''bot@example.org'', smtp_to = Some ''me@example.org''\<rparr>"

definition example_notify_config :: config where
  "example_notify_config =
     \<lparr>cfg_port = ''8080'', cfg_booker_token = ''0123456789'', cfg_ubc_user = ''u'', cfg_ubc_pass = ''p'',
      cfg_ubc_base_url = None, cfg_smtp = Some example_smtp,
      cfg_telegram = Some \<lparr>tg_bot_token = ''T0K'', tg_chat_id = Some ''42''\<rparr>\<rparr>"

definition example_net_up :: net where
  "example_net_up = \<lparr>net_telegram = (\<lambda>_ _ _. Ok), net_mail = (\<lambda>_ _ _. None)\<rparr>"

definition example_net_down :: net where
  "example_net_down = \<lparr>net_telegram = (\<lambda>_ _ _. Http_error 500 ''down''), net_mail = (\<lambda>_ _ _. None)\<rparr>"

definition example_payload :: notify_payload where
  "example_payload =
     \<lparr>np_notify = Some \<lparr>nt_email = None, nt_sms = None, nt_telegram_chat_id = Some ''  ''\<rparr>,
      np_text = ''Court 3 free at 19:00'', np_priority = None\<rparr>"

section \<open>Lemmas\<close>

lemma telegram_chat_Some:
  "telegram_chat cfg nt = Some c \<Longrightarrow> \<exists>tg. cfg_telegram cfg = Some tg \<and> c \<noteq> []"
  by (auto simp: telegram_chat_def truthy_def Let_def split: option.splits if_splits)

lemma email_to_Some:
  "email_to cfg nt = Some to \<Longrightarrow> \<exists>sm. cfg_smtp cfg = Some sm \<and> to \<noteq> []"
  by (auto simp: email_to_def Let_def split: option.splits if_splits)

lemma post_apply [simp]:
  "post d err out = (out @ [d], case err of None \<Rightarrow> Inr () | Some m \<Rightarrow> Inl m)"
  by (simp add: post_def)

text \<open>The three paths of \<open>notify\<close>, each with the posts it makes.\<close>

lemma notify_telegram:
  assumes "telegram_chat cfg (np_notify p) = Some c"
  obtains tg where "cfg_telegram cfg = Some tg"
    "notify N cfg p out =
       (out @ [Telegram_post (tg_bot_token tg) c (np_text p)],
        case telegram_error (net_telegram N (tg_bot_token tg) c (np_text p)) of
          None \<Rightarrow> Inr (Via_telegram c) | Some m \<Rightarrow> Inl m)"
proof -
  from telegram_chat_Some [OF assms] obtain tg where "cfg_telegram cfg = Some tg" by blast
  with assms show ?thesis
    by (intro that) (auto simp: notify_def sendTelegram_def abind_def split: option.splits)
qed

lemma notify_email:
  assumes "telegram_chat cfg (np_notify p) = None" "email_to cfg (np_notify p) = Some to"
  obtains sm where "cfg_smtp cfg = Some sm"
    "notify N cfg p out =
       (out @ [Mail sm to (np_text p)],
        case net_mail N sm to (np_text p) of None \<Rightarrow> Inr (Via_email to) | Some m \<Rightarrow> Inl m)"
proof -
  from email_to_Some [OF assms(2)] obtain sm where "cfg_smtp cfg = Some sm" by blast
  with assms show ?thesis
    by (intro that) (auto simp: notify_def sendEmail_def abind_def split: option.splits)
qed

lemma notify_none:
  "telegram_chat cfg (np_notify p) = None \<Longrightarrow> email_to cfg (np_notify p) = None \<Longrightarrow>
   notify N cfg p out = (out, Inl no_notifier)"
  by (simp add: notify_def)

text \<open>A blank chat id of the request falls back to the configured one.\<close>

lemma telegram_chat_blank_user:
  "cfg_telegram cfg = Some tg \<Longrightarrow> js_trim u = [] \<Longrightarrow>
   telegram_chat cfg (Some (t\<lparr>nt_telegram_chat_id := Some u\<rparr>)) =
   telegram_chat cfg (Some (t\<lparr>nt_telegram_chat_id := None\<rparr>))"
  by (simp add: telegram_chat_def js_or_def truthy_def)

section \<open>Properties of \<open>notify\<close>\<close>

text \<open>C33: \<open>notify\<close> makes at most one post, and the channel it reports is the one it
  posted to, with the payload's text: a Telegram result went to the reported chat, an
  e-mail result to the reported recipient.\<close>

theorem notify_single_post:
  assumes "notify N cfg p out = (out', r)"
  shows "(\<exists>ds. out' = out @ ds \<and> length ds \<le> 1) \<and>
         (r = Inr (Via_telegram c) \<longrightarrow> (\<exists>tok. out' = out @ [Telegram_post tok c (np_text p)])) \<and>
         (r = Inr (Via_email to) \<longrightarrow> (\<exists>sm. out' = out @ [Mail sm to (np_text p)]))"
proof (cases "telegram_chat cfg (np_notify p)")
  case (Some c')
  obtain tg where "cfg_telegram cfg = Some tg" "notify N cfg p out =
       (out @ [Telegram_post (tg_bot_token tg) c' (np_text p)],
        case telegram_error (net_telegram N (tg_bot_token tg) c' (np_text p)) of
          None \<Rightarrow> Inr (Via_telegram c') | Some m \<Rightarrow> Inl m)"
    by (rule notify_telegram [OF Some, where N = N and out = out])
  with assms show ?thesis by (auto split: option.splits)
next
  case None
  show ?thesis
  proof (cases "email_to cfg (np_notify p)")
    case (Some to')
    obtain sm where "cfg_smtp cfg = Some sm" "notify N cfg p out =
       (out @ [Mail sm to' (np_text p)],
        case net_mail N sm to' (np_text p) of None \<Rightarrow> Inr (Via_email to') | Some m \<Rightarrow> Inl m)"
      by (rule notify_email [OF None Some, where N = N and out = out])
    with assms show ?thesis by (auto split: option.splits)
  next
    case None2: None
    with None assms show ?thesis by (auto simp: notify_none)
  qed
qed

theorem notify_single_post_witness:
  "notify example_net_up example_notify_config example_payload [] =
     ([Telegram_post ''T0K'' ''42'' ''Court 3 free at 19:00''], Inr (Via_telegram ''42'')) \<and>
   (\<exists>tok. [Telegram_post ''T0K'' ''42'' ''Court 3 free at 19:00''] =
          [] @ [Telegram_post tok ''42'' (np_text example_payload)])"
proof -
  have e: "notify example_net_up example_notify_config example_payload [] =
     ([Telegram_post ''T0K'' ''42'' ''Court 3 free at 19:00''], Inr (Via_telegram ''42''))"
    by code_simp
  show ?thesis
    using notify_single_post [OF e, of "''42''" "''me@example.org''"] e by simp
qed

text \<open>
  A failed Telegram post is not retried by e-mail, although SMTP is configured: the
  request fails with the Telegram error and only the Telegram post was made. (The blank
  chat id of the payload falls back to the configured one.)
\<close>

lemma notify_no_email_fallback:
  "notify example_net_down example_notify_config example_payload [] =
     ([Telegram_post ''T0K'' ''42'' ''Court 3 free at 19:00''], Inl ''Telegram sendMessage failed: 500 down'')"
  by code_simp

end
