(* ===== verification/Booking_Trace.thy ===== *)
theory Booking_Trace
  imports Booking
begin

text \<open>
  What \<open>bookSlot\<close> (src/unnamed/part_003 lines 634 to 1154) guarantees. The clicks of a
  run are reasoned about with triples in the style of a Hoare logic on the click log:
  \<open>clicks_within A m\<close> (every click of \<open>m\<close> is in \<open>A\<close>) and
  \<open>orders_at_most n m\<close> (at most \<open>n\<close> orders), closed under \<open>abind\<close>; the
  early results of the steps are failure results (\<open>early_fail\<close>); the result of the
  pipeline has the shape the spec requires (\<open>result_shape\<close>). The properties: the
  operation never throws and always closes the browser, never reports a half-filled
  result, places at most one order, reports success only after the five steps in order,
  and the spec's scenarios C and D; then what the code does that the spec does not
  want.
\<close>

section \<open>Specification vocabulary\<close>

text \<open>
  An action that only appends clicks, each of them in \<open>A\<close>, whatever the portal
  answers and however the action ends.
\<close>

definition clicks_within :: "string set \<Rightarrow> 'a step \<Rightarrow> bool" where
  "clicks_within A m \<longleftrightarrow> (\<forall>b. \<exists>cs. br_clicks (fst (m b)) = br_clicks b @ cs \<and> set cs \<subseteq> A)"

text \<open>The early result of a step is a failure result.\<close>

definition early_fail :: "booking_result option \<Rightarrow> bool" where
  "early_fail o' \<longleftrightarrow> (case o' of Some r \<Rightarrow> \<exists>m. r = fail_result m | None \<Rightarrow> True)"

text \<open>An action that clicks \<open>Place My Order\<close> at most \<open>n\<close> times.\<close>

definition orders_at_most :: "nat \<Rightarrow> 'a step \<Rightarrow> bool" where
  "orders_at_most n m \<longleftrightarrow>
     (\<forall>b. \<exists>cs. br_clicks (fst (m b)) = br_clicks b @ cs \<and> count_list cs ''Place My Order'' \<le> n)"

text \<open>
  The shape of a \<open>BookingResult\<close> the spec requires (section 3): a failure carries only a
  message; a success carries the booked slot of the request.
\<close>

definition result_shape :: "booking_request \<Rightarrow> booking_result \<Rightarrow> bool" where
  "result_shape req res \<longleftrightarrow>
     res = fail_result (message res) \<or>
     success res \<and> message res = ''Booking completed successfully'' \<and>
     (\<exists>loc. booked_slot res = Some \<lparr>bs_time = req_time_24h req, bs_duration = duration_hours req * 60,
                                     bs_location = loc\<rparr>)"

section \<open>Lemmas\<close>

lemma clicks_withinD:
  "clicks_within A m \<Longrightarrow> m b = (b', r) \<Longrightarrow> \<exists>cs. br_clicks b' = br_clicks b @ cs \<and> set cs \<subseteq> A"
  unfolding clicks_within_def by (metis fst_conv)

lemma within_keeps: "(\<And>x. keeps (\<lambda>b. br_clicks b = x) m) \<Longrightarrow> clicks_within A m"
  unfolding clicks_within_def keeps_def by (metis append_Nil2 empty_subsetI list.set(1))

lemma within_areturn [intro!]: "clicks_within A (areturn a)"
  by (simp add: clicks_within_def)

lemma within_return [intro!]: "clicks_within A (\<lambda>b. (b, r))"
  by (simp add: clicks_within_def)

lemma within_athrow [intro!]: "clicks_within A (athrow e)"
  by (simp add: clicks_within_def)

lemma within_current_page [intro!]: "clicks_within A current_page"
  by (simp add: clicks_within_def current_page_def)

lemma within_goto [intro!]: "clicks_within A (goto P u)"
  by (rule within_keeps) (simp add: goto_keeps)

lemma within_click_el [intro!]: "name \<in> A \<Longrightarrow> clicks_within A (click_el name)"
  by (simp add: clicks_within_def click_el_def)

lemma within_abind [intro!]:
  assumes "clicks_within A m" "\<And>a. clicks_within A (k a)"
  shows "clicks_within A (abind m k)"
  unfolding clicks_within_def
proof
  fix b
  obtain cs1 where 1: "br_clicks (fst (m b)) = br_clicks b @ cs1" "set cs1 \<subseteq> A"
    using assms(1) unfolding clicks_within_def by blast
  show "\<exists>cs. br_clicks (fst (abind m k b)) = br_clicks b @ cs \<and> set cs \<subseteq> A"
  proof (cases "snd (m b)")
    case (Inl e)
    with 1 show ?thesis by (auto simp: abind_def split: prod.splits)
  next
    case (Inr a)
    obtain cs2 where 2: "br_clicks (fst (k a (fst (m b)))) = br_clicks (fst (m b)) @ cs2" "set cs2 \<subseteq> A"
      using assms(2) unfolding clicks_within_def by blast
    from 1 2 Inr show ?thesis
      by (auto simp: abind_def split: prod.splits intro!: exI [of _ "cs1 @ cs2"])
  qed
qed

lemma within_if [intro!]: "clicks_within A m \<Longrightarrow> clicks_within A n \<Longrightarrow> clicks_within A (if c then m else n)"
  by simp

lemma within_follow [intro!]: "clicks_within A (follow P caught oc)"
  by (auto simp: follow_def split: outcome.splits)

lemma within_current_ui [intro!]: "clicks_within A (current_ui P)"
  by (auto simp: current_ui_def)

lemma within_mono: "clicks_within A m \<Longrightarrow> A \<subseteq> B \<Longrightarrow> clicks_within B m"
  unfolding clicks_within_def by blast

lemma reauth_within: "clicks_within {''CWL'', ''Login''} (reauth P)"
  unfolding reauth_def Let_def by (auto split: option.splits)

lemma retry_reserve_within: "clicks_within {''Reserve'', ''Book''} (retry_reserve P)"
  unfolding retry_reserve_def reserve_click_def Let_def by (auto split: option.splits)

lemma reserve_step_within: "clicks_within {''Reserve'', ''CWL'', ''Login'', ''Book''} (reserve_step P)"
  unfolding reserve_step_def reserve_click_def
  by (auto split: option.splits intro: within_mono [OF reauth_within] within_mono [OF retry_reserve_within])

lemma attendee_step_within: "clicks_within {''Attendee'', ''Next''} (attendee_step P)"
  unfolding attendee_step_def attendee_click_def
  by (auto split: option.splits prod.splits)

lemma select_slot_within: "clicks_within {''Book Now''} (select_slot req)"
  unfolding select_slot_def Let_def by (auto intro!: log_bound_abind0 split: option.splits)

lemma open_facility_within: "clicks_within {} (open_facility P E base req)"
  unfolding open_facility_def
  by (intro within_abind within_goto within_if within_areturn within_keeps ensureLoggedIn_keeps
      nav_invariant_clicks)

lemma click_el_result [simp]: "click_el n b = (b', r) \<longleftrightarrow> b' = b\<lparr>br_clicks := br_clicks b @ [n]\<rparr> \<and> r = Inr ()"
  by (auto simp: click_el_def)

lemma current_ui_result [simp]: "current_ui P b = (b', r) \<longleftrightarrow> b' = b \<and> r = Inr (bui_of P (pg_url (br_page b)))"
  by (auto simp: current_ui_def abind_current_page)

lemma current_page_result [simp]: "current_page b = (b', r) \<longleftrightarrow> b' = b \<and> r = Inr (br_page b)"
  by (auto simp: current_page_def)

lemma select_slot_clicks:
  assumes "select_slot req b = (b', r)"
  shows "(r = Inr None \<and> br_clicks b' = br_clicks b @ [''Book Now'']) \<or>
         (\<exists>m. r = Inr (Some (fail_result m)) \<and> b' = b)"
  using assms by (auto simp: select_slot_def abind_current_page Let_def abind_result split: option.splits)

lemma reserve_step_clicks:
  assumes "reserve_step P b = (b', Inr None)"
  shows "\<exists>cs. br_clicks b' = br_clicks b @ ''Reserve'' # cs \<and> set cs \<subseteq> {''Reserve'', ''CWL'', ''Login'', ''Book''}"
proof -
  obtain oc b1 b2 where r: "reserve_click P oc b = (b1, Inr ())"
    and rest: "abind current_page (\<lambda>pg. abind (if needs_reauth (pg_url pg) then reauth P else areturn ())
                 (\<lambda>_. retry_reserve P)) b1 = (b', Inr None)"
    using assms by (auto simp: reserve_step_def abind_result split: option.splits)
  from r have "\<exists>cs. br_clicks b1 = br_clicks b @ ''Reserve'' # cs \<and> set cs \<subseteq> {}"
    by (auto simp: reserve_click_def abind_result dest!: clicks_withinD [OF within_follow [where A = "{}"]])
  moreover have w: "clicks_within {''Reserve'', ''CWL'', ''Login'', ''Book''}
      (abind current_page (\<lambda>pg. abind (if needs_reauth (pg_url pg) then reauth P else areturn ())
                 (\<lambda>_. retry_reserve P)))"
    by (auto intro: within_mono [OF reauth_within] within_mono [OF retry_reserve_within])
  ultimately show ?thesis using clicks_withinD [OF w rest] by fastforce
qed

lemma attendee_click_clicks:
  "attendee_click c b = (b', r) \<Longrightarrow> r = Inr () \<and> (br_clicks b' = br_clicks b \<or> br_clicks b' = br_clicks b @ [''Attendee''])"
  by (auto simp: attendee_click_def split: option.splits if_splits)

lemma follow_clicks: "follow P c oc b = (b', r) \<Longrightarrow> br_clicks b' = br_clicks b"
  using clicks_withinD [OF within_follow [where A = "{}"]] by fastforce

lemma attendee_step_clicks:
  assumes "attendee_step P b = (b', Inr None)"
  shows "\<exists>cs. br_clicks b' = br_clicks b @ cs @ [''Next''] \<and> set cs \<subseteq> {''Attendee''}"
  using assms
  by (fastforce simp: attendee_step_def abind_result split: prod.splits option.splits if_splits
      dest!: attendee_click_clicks follow_clicks)

lemma payment_step_clicks:
  assumes "payment_step P b = (b', r)"
  shows "\<exists>cs. br_clicks b' = br_clicks b @ cs \<and> count_list cs ''Place My Order'' \<le> 1 \<and>
           (r = Inr None \<longrightarrow> (\<exists>pre. cs = pre @ [''Place My Order''] \<and> set pre \<subseteq> {''Card''}))"
  using assms
  by (fastforce simp: payment_step_def abind_result split: option.splits if_splits dest!: follow_clicks)

lemma early_fail_simps [simp]: "early_fail None" "early_fail (Some (fail_result m))"
  by (auto simp: early_fail_def)

lemma yields_return [intro!]: "Q a \<Longrightarrow> yields (\<lambda>b. (b, Inr a)) Q"
  by (simp add: yields_def)

lemma select_slot_early: "yields (select_slot req) early_fail"
  unfolding select_slot_def Let_def
  by (auto intro!: yields_abind_any yields_areturn split: option.splits)

lemma reserve_step_early: "yields (reserve_step P) early_fail"
  unfolding reserve_step_def retry_reserve_def Let_def
  by (auto intro!: yields_abind_any yields_areturn split: option.splits)

lemma attendee_step_early: "yields (attendee_step P) early_fail"
  unfolding attendee_step_def
  by (auto intro!: yields_abind_any yields_areturn split: option.splits prod.splits)

lemma payment_step_early: "yields (payment_step P) early_fail"
  unfolding payment_step_def
  by (auto intro!: yields_abind_any yields_areturn split: option.splits)

lemma classify_clicks: "classify P req n b = (b', r) \<Longrightarrow> b' = b"
  by (auto simp: classify_def abind_result split: if_splits)

lemma orders_at_mostD:
  "orders_at_most n m \<Longrightarrow> m b = (b', r) \<Longrightarrow> \<exists>cs. br_clicks b' = br_clicks b @ cs \<and> count_list cs ''Place My Order'' \<le> n"
  unfolding orders_at_most_def by (drule spec [of _ b]) simp

lemma count_list_0: "x \<notin> set xs \<Longrightarrow> count_list xs x = 0"
  by (induction xs) auto

lemma orders_within:
  assumes "clicks_within A m" "''Place My Order'' \<notin> A"
  shows "orders_at_most 0 m"
  unfolding orders_at_most_def
proof
  fix b
  obtain cs where "br_clicks (fst (m b)) = br_clicks b @ cs" "set cs \<subseteq> A"
    using assms(1) unfolding clicks_within_def by blast
  moreover from this(2) assms(2) have "count_list cs ''Place My Order'' = 0"
    by (intro count_list_0) blast
  ultimately show "\<exists>cs. br_clicks (fst (m b)) = br_clicks b @ cs \<and> count_list cs ''Place My Order'' \<le> 0"
    by auto
qed

lemma orders_abind:
  assumes "orders_at_most i m" "\<And>a. orders_at_most j (k a)" "i + j \<le> n"
  shows "orders_at_most n (abind m k)"
  unfolding orders_at_most_def
proof
  fix b
  obtain cs1 where 1: "br_clicks (fst (m b)) = br_clicks b @ cs1" "count_list cs1 ''Place My Order'' \<le> i"
    using assms(1) unfolding orders_at_most_def by blast
  show "\<exists>cs. br_clicks (fst (abind m k b)) = br_clicks b @ cs \<and> count_list cs ''Place My Order'' \<le> n"
  proof (cases "snd (m b)")
    case (Inl e)
    with 1 assms(3) show ?thesis by (auto simp: abind_def split: prod.splits)
  next
    case (Inr a)
    obtain cs2 where 2: "br_clicks (fst (k a (fst (m b)))) = br_clicks (fst (m b)) @ cs2"
        "count_list cs2 ''Place My Order'' \<le> j"
      using assms(2) unfolding orders_at_most_def by blast
    from 1 2 Inr assms(3) show ?thesis
      by (auto simp: abind_def split: prod.splits intro!: exI [of _ "cs1 @ cs2"])
  qed
qed

lemma orders_areturn: "orders_at_most n (areturn a)"
  by (simp add: orders_at_most_def)

lemma orders_or_return:
  "orders_at_most i m \<Longrightarrow> orders_at_most j k \<Longrightarrow> i + j \<le> n \<Longrightarrow> orders_at_most n (or_return m k)"
  unfolding or_return_def
  by (rule orders_abind) (auto split: option.splits intro: orders_within orders_areturn)

lemma payment_orders: "orders_at_most 1 (payment_step P)"
  unfolding orders_at_most_def
proof
  fix b
  obtain b' r where "payment_step P b = (b', r)" by (cases "payment_step P b")
  from payment_step_clicks [OF this] this
  show "\<exists>cs. br_clicks (fst (payment_step P b)) = br_clicks b @ cs \<and> count_list cs ''Place My Order'' \<le> 1"
    by auto
qed

lemma classify_orders: "orders_at_most 0 (classify P req n)"
  by (rule orders_within [where A = "{}"]) (auto simp: classify_def)

lemma book_body_orders: "orders_at_most 1 (book_body P E req)"
proof -
  have s: "orders_at_most 0 (select_slot req)" by (rule orders_within [OF select_slot_within]) simp
  have r: "orders_at_most 0 (reserve_step P)" by (rule orders_within [OF reserve_step_within]) simp
  have a: "orders_at_most 0 (attendee_step P)" by (rule orders_within [OF attendee_step_within]) simp
  have chain: "orders_at_most 1 (or_return (select_slot req) (or_return (reserve_step P)
      (or_return (attendee_step P) (or_return (payment_step P) (classify P req n)))))" for n
    by (intro orders_or_return [OF s, where j = 1] orders_or_return [OF r, where j = 1]
        orders_or_return [OF a, where j = 1] orders_or_return [OF payment_orders classify_orders]) simp_all
  show ?thesis
    unfolding book_body_def Let_def
    by (intro orders_abind [OF orders_within [OF open_facility_within], where j = 1]
        orders_abind [OF orders_within [OF within_current_page [where A = "{}"]], where j = 1] chain) simp_all
qed

lemma or_return_result:
  assumes "or_return m k b = (b', r)"
  obtains (go) b1 where "m b = (b1, Inr None)" "k b1 = (b', r)"
  | (stop) res where "m b = (b', Inr (Some res))" "r = Inr res"
  | (error) e where "m b = (b', Inl e)" "r = Inl e"
proof -
  from assms [unfolded or_return_def abind_result] show thesis
  proof (elim disjE exE conjE)
    fix e assume "m b = (b', Inl e)" "r = Inl e"
    then show thesis by (rule error)
  next
    fix b1 a assume m: "m b = (b1, Inr a)" and k: "(case a of None \<Rightarrow> k | Some x \<Rightarrow> areturn x) b1 = (b', r)"
    show thesis
    proof (cases a)
      case None with m k show thesis by (auto intro: go)
    next
      case (Some x) with m k show thesis by (auto intro: stop)
    qed
  qed
qed

lemma early_fail_success: "yields m early_fail \<Longrightarrow> m b = (b', Inr (Some res)) \<Longrightarrow> \<not> success res"
  by (auto dest!: yieldsD simp: early_fail_def fail_result_def)

lemma classify_success:
  assumes "classify P req n b = (b', Inr res)" "success res"
  shows "b' = b \<and> message res = ''Booking completed successfully'' \<and>
         booked_slot res = Some \<lparr>bs_time = req_time_24h req, bs_duration = duration_hours req * 60,
                                 bs_location = js_trim n\<rparr>"
  using assms by (auto simp: classify_def abind_result fail_result_def split: if_splits)

lemma book_body_success:
  assumes run: "book_body P E req b = (b', Inr res)" and ok: "success res"
  shows "\<exists>cs1 cs2 cs3 pg.
           br_clicks b' = br_clicks b @ [''Book Now''] @ (''Reserve'' # cs1) @ (cs2 @ [''Next'']) @
                          (cs3 @ [''Place My Order'']) \<and>
           set cs1 \<subseteq> {''Reserve'', ''CWL'', ''Login'', ''Book''} \<and> set cs2 \<subseteq> {''Attendee''} \<and>
           set cs3 \<subseteq> {''Card''} \<and> message res = ''Booking completed successfully'' \<and>
           booked_slot res = Some \<lparr>bs_time = req_time_24h req, bs_duration = duration_hours req * 60,
                                   bs_location = js_trim (court_name pg)\<rparr>"
proof -
  obtain b0 where o: "open_facility P E (BASE_URL (env_base_url E)) req b = (b0, Inr ())"
    and chain: "or_return (select_slot req) (or_return (reserve_step P) (or_return (attendee_step P)
       (or_return (payment_step P) (classify P req (court_name (br_page b0)))))) b0 = (b', Inr res)"
    using run by (auto simp: book_body_def Let_def abind_result abind_current_page)
  have c0: "br_clicks b0 = br_clicks b"
    using clicks_withinD [OF open_facility_within o] by simp
  from chain show ?thesis
  proof (cases rule: or_return_result)
    case (stop r) with ok early_fail_success [OF select_slot_early] show ?thesis by simp
  next
    case (error e) then show ?thesis by simp
  next
    case (go b1)
    then have c1: "br_clicks b1 = br_clicks b0 @ [''Book Now'']" using select_slot_clicks by fastforce
    from go(2) show ?thesis
    proof (cases rule: or_return_result)
      case (stop r) with ok early_fail_success [OF reserve_step_early] show ?thesis by simp
    next
      case (error e) then show ?thesis by simp
    next
      case (go b2)
      obtain cs1 where c2: "br_clicks b2 = br_clicks b1 @ ''Reserve'' # cs1"
          "set cs1 \<subseteq> {''Reserve'', ''CWL'', ''Login'', ''Book''}"
        using reserve_step_clicks [OF go(1)] by blast
      from go(2) show ?thesis
      proof (cases rule: or_return_result)
        case (stop r) with ok early_fail_success [OF attendee_step_early] show ?thesis by simp
      next
        case (error e) then show ?thesis by simp
      next
        case (go b3)
        obtain cs2 where c3: "br_clicks b3 = br_clicks b2 @ cs2 @ [''Next'']" "set cs2 \<subseteq> {''Attendee''}"
          using attendee_step_clicks [OF go(1)] by blast
        from go(2) show ?thesis
        proof (cases rule: or_return_result)
          case (stop r) with ok early_fail_success [OF payment_step_early] show ?thesis by simp
        next
          case (error e) then show ?thesis by simp
        next
          case (go b4)
          obtain cs3 where c4: "br_clicks b4 = br_clicks b3 @ cs3 @ [''Place My Order'']"
              "set cs3 \<subseteq> {''Card''}"
            using payment_step_clicks [OF go(1)] by auto
          from classify_success [OF go(2) ok] c0 c1 c2 c3 c4 show ?thesis by fastforce
        qed
      qed
    qed
  qed
qed

lemma bookSlot_run:
  "bookSlot P E req b =
     (case book_body P E req (b\<lparr>br_open := True, br_page := blank_page\<rparr>) of
       (b2, r) \<Rightarrow> (b2\<lparr>br_open := False\<rparr>, Inr (case r of Inl e \<Rightarrow> booking_failure e | Inr res \<Rightarrow> res)))"
  by (simp add: bookSlot_def abind_def afinally_def acatch_def split: prod.splits sum.splits)

lemma fail_result_shape [simp]: "result_shape req (fail_result m)"
  by (simp add: result_shape_def fail_result_def)

lemma yields_or_return:
  "yields m early_fail \<Longrightarrow> yields k (result_shape req) \<Longrightarrow> yields (or_return m k) (result_shape req)"
  unfolding or_return_def yields_def abind_def early_fail_def
  by (fastforce split: prod.splits sum.splits option.splits)

lemma classify_shape: "yields (classify P req n) (result_shape req)"
  unfolding classify_def by (auto intro!: yields_abind_any yields_areturn simp: result_shape_def fail_result_def)

lemma book_body_shape: "yields (book_body P E req) (result_shape req)"
  unfolding book_body_def Let_def
  by (intro yields_abind_any yields_or_return select_slot_early reserve_step_early attendee_step_early
      payment_step_early classify_shape)

lemma bookSlot_clicks:
  "br_clicks (fst (bookSlot P E req b)) = br_clicks (fst (book_body P E req (b\<lparr>br_open := True, br_page := blank_page\<rparr>)))"
  by (simp add: bookSlot_run split: prod.splits)

subsection \<open>Navigations\<close>

lemma nav_bound_click_el [intro, simp]: "nav_bound k (click_el n)"
  by (simp add: log_bound_def click_el_def)

lemma nav_bound_current_ui [intro, simp]: "nav_bound k (current_ui P)"
  by (simp add: log_bound_def current_ui_def current_page_def abind_def)

lemma nav_bound_follow [intro]: "1 \<le> k \<Longrightarrow> nav_bound k (follow P c oc)"
  by (auto simp: follow_def split: outcome.splits)

lemma open_facility_nav_bound: "nav_bound 6 (open_facility P E base req)"
  unfolding open_facility_def
  by (intro log_bound_abind [where k = 1 and l = 5] log_bound_abind [where k = 4 and l = 1] nav_bound_goto
      ensureLoggedIn_nav_bound log_bound_if log_bound_areturn) simp_all

lemma select_slot_nav_bound: "nav_bound 0 (select_slot req)"
  unfolding select_slot_def Let_def by (auto intro!: log_bound_abind0 split: option.splits)

text \<open>A click whose load is awaited: one navigation at most.\<close>

lemma click_load_nav_bound [intro]: "1 \<le> k \<Longrightarrow> nav_bound k (abind (click_el n) (\<lambda>_. follow P c oc))"
  by (rule log_bound_abind0) auto

lemma reauth_nav_bound: "nav_bound 3 (reauth P)"
proof -
  have cwl: "nav_bound 1 (case x of None \<Rightarrow> areturn () | Some oc \<Rightarrow> abind (click_el n) (\<lambda>_. follow P c oc))"
    for x n c by (auto split: option.splits)
  have login: "nav_bound 1 (if b then (case x of None \<Rightarrow> athrow e
      | Some oc \<Rightarrow> abind (click_el n) (\<lambda>_. follow P c oc)) else areturn ())" for b x e n c
    by (auto split: option.splits)
  have ret: "nav_bound 1 (abind current_page (\<lambda>pg2. case returnUrl of
      Some r \<Rightarrow> if g r pg2 then (case pct_decode r of None \<Rightarrow> athrow Uri_malformed | Some d \<Rightarrow> goto P d)
                else areturn ()
    | None \<Rightarrow> areturn ()))" for returnUrl g
    by (rule log_bound_abind0) (auto split: option.splits)
  show ?thesis unfolding reauth_def Let_def
    apply (rule log_bound_abind0, simp)
    apply (rule log_bound_abind0, simp)
    apply (rule log_bound_abind [OF cwl, where l = 2], rule log_bound_abind0, simp)
     apply (rule log_bound_abind [OF login ret])
    by simp_all
qed

lemma retry_reserve_nav_bound: "nav_bound 2 (retry_reserve P)"
proof -
  have rc: "nav_bound 1 (case x of None \<Rightarrow> athrow e | Some oc \<Rightarrow> reserve_click P oc)" for x e
    by (auto simp: reserve_click_def split: option.splits)
  have alt: "nav_bound 1 (case x of None \<Rightarrow> areturn () | Some oc \<Rightarrow> abind (click_el n) (\<lambda>_. follow P c oc))"
    for x n c by (auto split: option.splits)
  have tail: "nav_bound 0 (abind current_page k)" if "\<And>p. nav_bound 0 (k p)" for k :: "page \<Rightarrow> booking_result option step"
    using that by (rule log_bound_abind0 [OF nav_bound_current_page])
  show ?thesis unfolding retry_reserve_def Let_def
    apply (rule log_bound_abind0, simp)
    apply (rule log_bound_if, simp)
    apply (rule log_bound_abind0, simp)
    apply (rule log_bound_abind [OF rc, where l = 1], rule log_bound_abind0, simp)
     apply (rule log_bound_abind [OF alt, where l = 0], rule tail)
    by simp_all
qed

lemma reserve_step_nav_bound: "nav_bound 6 (reserve_step P)"
proof -
  have click: "nav_bound 1 (abind (click_el ''Reserve'') (\<lambda>_. follow P True oc))" for oc
    by (intro log_bound_abind0) auto
  have rest: "nav_bound 5 (abind current_page (\<lambda>pg.
      abind (if needs_reauth (pg_url pg) then reauth P else areturn ()) (\<lambda>_. retry_reserve P)))"
    by (intro log_bound_abind0 log_bound_abind [where k = 3 and l = 2] log_bound_if reauth_nav_bound
        retry_reserve_nav_bound) auto
  show ?thesis unfolding reserve_step_def reserve_click_def
    by (auto intro!: log_bound_abind0 log_bound_abind [OF click rest] split: option.splits)
qed

text \<open>A click whose load is awaited: one navigation at most.\<close>

lemma click_follow_nav_bound:
  "1 \<le> k \<Longrightarrow> nav_bound k (abind (click_el n) (\<lambda>_. abind (follow P c oc) (\<lambda>_. areturn x)))"
  by (intro log_bound_abind0 log_bound_abind [where k = 1 and l = 0]) auto

lemma attendee_step_nav_bound: "nav_bound 1 (attendee_step P)"
proof -
  have click: "nav_bound 0 (attendee_click c)" for c
    by (auto simp: attendee_click_def split: option.splits)
  have nxt: "nav_bound (Suc 0) (abind (current_ui P) (\<lambda>ui2. case bu_next ui2 of None \<Rightarrow> areturn x
      | Some oc \<Rightarrow> abind (click_el ''Next'') (\<lambda>_. abind (follow P False oc) (\<lambda>_. areturn None))))" for x
    by (intro log_bound_abind0) (auto intro: click_follow_nav_bound split: option.splits)
  show ?thesis unfolding attendee_step_def Let_def
    by (intro log_bound_abind0) (auto intro!: log_bound_abind0 [OF click] log_bound_if nxt split: prod.splits)
qed

lemma payment_step_nav_bound: "nav_bound 1 (payment_step P)"
  unfolding payment_step_def
  by (intro log_bound_abind0) (auto intro: click_follow_nav_bound split: option.splits)

lemma classify_nav_bound: "nav_bound 0 (classify P req n)"
  unfolding classify_def by (auto split: option.splits)

lemma or_return_nav_bound:
  "nav_bound k m \<Longrightarrow> nav_bound l c \<Longrightarrow> k + l \<le> n \<Longrightarrow> nav_bound n (or_return m c)"
  unfolding or_return_def by (rule log_bound_abind) (auto split: option.splits intro: log_bound_mono)

text \<open>
  A booking performs at most 14 navigations: six to open the facility page (with the login
  flow), six in step 2 (the \<open>Reserve\<close> click, the re-authentication and the retry), one
  after \<open>Next\<close> and one after \<open>Place My Order\<close>.
\<close>

lemma book_body_nav_bound: "nav_bound 14 (book_body P E req)"
  unfolding book_body_def Let_def
  by (intro log_bound_abind [OF open_facility_nav_bound, where l = 8] log_bound_abind0
      or_return_nav_bound [OF select_slot_nav_bound, where l = 8]
      or_return_nav_bound [OF reserve_step_nav_bound, where l = 2]
      or_return_nav_bound [OF attendee_step_nav_bound, where l = 1]
      or_return_nav_bound [OF payment_step_nav_bound classify_nav_bound]) simp_all

lemma bookSlot_nav_bound: "nav_bound 14 (bookSlot P E req)"
  unfolding bookSlot_def
  by (intro log_bound_abind0 log_bound_afinally [where k = 14 and l = 0] log_bound_acatch [where k = 14 and l = 0]
      book_body_nav_bound) (auto simp: log_bound_def)

subsection \<open>A run that reaches the payment page\<close>

lemma or_return_go: "m b = (b1, Inr None) \<Longrightarrow> or_return m k b = k b1"
  by (simp add: or_return_def abind_def)

lemma open_facility_direct:
  assumes "map_of (site P) (facility_url req) = Some F" "\<not> pg_login_visible F"
    "str_includes (pg_url F) ''BookMe4LandingPages/Facility''"
  shows "open_facility P E base req b = (b\<lparr>br_page := F, br_navs := br_navs b @ [facility_url req]\<rparr>, Inr ())"
  using assms by (simp add: open_facility_def goto_def abind_def ensureLoggedIn_authenticated)

lemma select_slot_found:
  "find_target (to12h_label (req_time_24h req)) (pg_spans (br_page b)) \<noteq> None \<Longrightarrow>
   select_slot req b = (b\<lparr>br_clicks := br_clicks b @ [''Book Now'']\<rparr>, Inr None)"
  by (auto simp: select_slot_def current_page_def Let_def abind_def click_el_def split: option.splits)

lemma reserve_step_direct:
  assumes "bu_reserve (bui_of P (pg_url (br_page b))) = Some (Loads a)" "map_of (site P) a = Some A"
    "\<not> needs_reauth (pg_url A)" "\<not> str_includes (pg_url A) ''BookMe4LandingPages/Facility''"
  shows "reserve_step P b =
    (b\<lparr>br_clicks := br_clicks b @ [''Reserve''], br_page := A, br_navs := br_navs b @ [a]\<rparr>, Inr None)"
  using assms
  by (simp add: reserve_step_def reserve_click_def follow_def goto_def retry_reserve_def abind_def
      current_ui_def current_page_def click_el_def)

lemma attendee_click_some:
  "\<exists>cs. attendee_click c b = (b\<lparr>br_clicks := br_clicks b @ cs\<rparr>, Inr ()) \<and> set cs \<subseteq> {''Attendee''}"
proof (cases "\<exists>r. c = Some r \<and> at_checkbox r \<noteq> Some True")
  case True
  then show ?thesis by (auto simp: attendee_click_def click_el_def)
next
  case False
  then have "attendee_click c b = (b, Inr ())"
    by (auto simp: attendee_click_def split: option.splits)
  then show ?thesis by (intro exI [of _ "[]"]) simp
qed

lemma attendee_step_next:
  assumes "fst (select_attendee (bu_attendees (bui_of P (pg_url (br_page b))))) \<noteq> []"
    "bu_next (bui_of P (pg_url (br_page b))) = Some (Loads p)" "map_of (site P) p = Some Pay"
  shows "\<exists>cs. attendee_step P b =
      (b\<lparr>br_clicks := br_clicks b @ cs @ [''Next''], br_page := Pay, br_navs := br_navs b @ [p]\<rparr>, Inr None) \<and>
      set cs \<subseteq> {''Attendee''}"
proof -
  obtain name chosen where sa: "select_attendee (bu_attendees (bui_of P (pg_url (br_page b)))) = (name, chosen)"
    by (cases "select_attendee (bu_attendees (bui_of P (pg_url (br_page b))))")
  obtain cs where c: "attendee_click chosen b = (b\<lparr>br_clicks := br_clicks b @ cs\<rparr>, Inr ())"
    and cs: "set cs \<subseteq> {''Attendee''}"
    using attendee_click_some by blast
  have "attendee_step P b =
      (b\<lparr>br_clicks := br_clicks b @ cs @ [''Next''], br_page := Pay, br_navs := br_navs b @ [p]\<rparr>, Inr None)"
    using assms sa c by (simp add: attendee_step_def abind_def current_ui_def current_page_def click_el_def
        follow_def goto_def)
  with cs show ?thesis by blast
qed

lemma payment_step_order:
  assumes "bu_place_order (bui_of P (pg_url (br_page b))) = Some (Loads r)" "map_of (site P) r = Some R"
  shows "\<exists>cs. payment_step P b =
      (b\<lparr>br_clicks := br_clicks b @ cs @ [''Place My Order''], br_page := R, br_navs := br_navs b @ [r]\<rparr>, Inr None) \<and>
      set cs \<subseteq> {''Card''}"
proof (cases "bu_card_option (bui_of P (pg_url (br_page b)))")
  case True
  with assms show ?thesis
    by (intro exI [of _ "[''Card'']"]) (simp add: payment_step_def abind_def current_ui_def current_page_def
        click_el_def follow_def goto_def)
next
  case False
  with assms show ?thesis
    by (intro exI [of _ "[]"]) (simp add: payment_step_def abind_def current_ui_def current_page_def
        click_el_def follow_def goto_def)
qed

text \<open>
  The first three steps on a portal where each of them goes through directly: the court
  page is served and logged in, it has the marker, \<open>Reserve\<close> leads to a page that is
  neither a login boundary nor the court page, that page offers an attendee and a
  \<open>Next\<close> button that leads to the payment page.
\<close>

lemma book_body_to_payment:
  assumes F: "map_of (site P) (facility_url req) = Some F" "\<not> pg_login_visible F"
    "str_includes (pg_url F) ''BookMe4LandingPages/Facility''"
    "find_target (to12h_label (req_time_24h req)) (pg_spans F) \<noteq> None"
    and A: "bu_reserve (bui_of P (pg_url F)) = Some (Loads a)" "map_of (site P) a = Some A"
    "\<not> needs_reauth (pg_url A)" "\<not> str_includes (pg_url A) ''BookMe4LandingPages/Facility''"
    and Pay: "fst (select_attendee (bu_attendees (bui_of P (pg_url A)))) \<noteq> []"
    "bu_next (bui_of P (pg_url A)) = Some (Loads p)" "map_of (site P) p = Some Pay"
  shows "\<exists>b4 cs. book_body P E req b = or_return (payment_step P) (classify P req (court_name F)) b4 \<and>
           br_page b4 = Pay \<and> br_clicks b4 = br_clicks b @ [''Book Now'', ''Reserve''] @ cs @ [''Next''] \<and>
           set cs \<subseteq> {''Attendee''}"
proof -
  let ?b0 = "b\<lparr>br_page := F, br_navs := br_navs b @ [facility_url req]\<rparr>"
  let ?b1 = "?b0\<lparr>br_clicks := br_clicks ?b0 @ [''Book Now'']\<rparr>"
  let ?b2 = "?b1\<lparr>br_clicks := br_clicks ?b1 @ [''Reserve''], br_page := A, br_navs := br_navs ?b1 @ [a]\<rparr>"
  have o: "open_facility P E (BASE_URL (env_base_url E)) req b = (?b0, Inr ())"
    using F(1-3) by (rule open_facility_direct)
  have s: "select_slot req ?b0 = (?b1, Inr None)" using F(4) by (intro select_slot_found) simp
  have r: "reserve_step P ?b1 = (?b2, Inr None)" using A by (intro reserve_step_direct) simp_all
  obtain cs where a: "attendee_step P ?b2 =
      (?b2\<lparr>br_clicks := br_clicks ?b2 @ cs @ [''Next''], br_page := Pay, br_navs := br_navs ?b2 @ [p]\<rparr>, Inr None)"
    and cs: "set cs \<subseteq> {''Attendee''}"
    using attendee_step_next [of P ?b2 p Pay] Pay by auto
  show ?thesis
    using o s r a cs
    by (intro exI [of _ "?b2\<lparr>br_clicks := br_clicks ?b2 @ cs @ [''Next''], br_page := Pay, br_navs := br_navs ?b2 @ [p]\<rparr>"]
          exI [of _ cs])
       (simp add: book_body_def Let_def abind_def current_page_def or_return_go)
qed

lemma payment_step_hangs:
  assumes "bu_place_order (bui_of P (pg_url (br_page b))) = Some Hangs"
  shows "\<exists>cs. payment_step P b =
      (b\<lparr>br_clicks := br_clicks b @ cs @ [''Place My Order'']\<rparr>, Inl Settle_timeout) \<and> set cs \<subseteq> {''Card''}"
proof (cases "bu_card_option (bui_of P (pg_url (br_page b)))")
  case True
  with assms show ?thesis
    by (intro exI [of _ "[''Card'']"]) (simp add: payment_step_def abind_def current_ui_def current_page_def
        click_el_def follow_def)
next
  case False
  with assms show ?thesis
    by (intro exI [of _ "[]"]) (simp add: payment_step_def abind_def current_ui_def current_page_def
        click_el_def follow_def)
qed

lemma within_or_return [intro!]: "clicks_within A m \<Longrightarrow> clicks_within A k \<Longrightarrow> clicks_within A (or_return m k)"
  unfolding or_return_def by (auto split: option.splits)

lemma payment_step_within: "clicks_within {''Card'', ''Place My Order''} (payment_step P)"
  unfolding payment_step_def by (auto split: option.splits)

lemma classify_within: "clicks_within A (classify P req n)"
  unfolding classify_def by auto

lemma steps_after_slot_within:
  "clicks_within UNIV (or_return (reserve_step P) (or_return (attendee_step P)
     (or_return (payment_step P) (classify P req n))))"
  by (intro within_or_return within_mono [OF reserve_step_within] within_mono [OF attendee_step_within]
      within_mono [OF payment_step_within] classify_within) simp_all

text \<open>The rows of the attendee table when every visible \<open>(You)\<close> row is disabled.\<close>

lemma you_loop_disabled:
  "\<forall>r \<in> set rows. \<not> at_hidden r \<and> str_includes (label_text [] (at_label r)) ''(You)'' \<longrightarrow>
     str_includes (at_class r) ''disabled'' \<Longrightarrow>
   str_includes name ''(You)'' \<or> (\<exists>r \<in> set rows. \<not> at_hidden r \<and> str_includes (label_text [] (at_label r)) ''(You)'') \<Longrightarrow>
   snd (you_loop rows name) = None \<and> str_includes (fst (you_loop rows name)) ''(You)''"
  by (induction rows name rule: you_loop.induct) (auto simp: Let_def)

lemma includes_nonempty: "str_includes s t \<Longrightarrow> t \<noteq> [] \<Longrightarrow> s \<noteq> []"
  by (auto simp: includes_iff)

lemma js_lower_append: "js_lower (a @ b) = js_lower a @ js_lower b"
  by (simp add: js_lower_def)

lemma includes_lower: "str_includes s t \<Longrightarrow> str_includes (js_lower s) (js_lower t)"
  unfolding includes_iff by (metis js_lower_append)

section \<open>Properties of \<open>bookSlot\<close>\<close>

text \<open>\<open>bookSlot\<close> never throws once the browser is launched: whatever the portal
  answers, it returns a \<open>BookingResult\<close>, and the browser is closed when it does.\<close>

lemma bookSlot_never_throws:
  "(\<exists>res. snd (bookSlot P E req b) = Inr res) \<and> \<not> br_open (fst (bookSlot P E req b))"
  by (simp add: bookSlot_run split: prod.splits)

text \<open>C23: A result of \<open>bookSlot\<close> is never partially filled: it is either a failure with
  only a message (no confirmation number, no booked slot) or a success with the message
  of success and the booked slot of the request, its duration the requested hours times
  60.\<close>

theorem bookSlot_result_shape:
  assumes "snd (bookSlot P E req b) = Inr res"
  shows "res = fail_result (message res) \<or>
     success res \<and> message res = ''Booking completed successfully'' \<and>
     (\<exists>loc. booked_slot res = Some \<lparr>bs_time = req_time_24h req, bs_duration = duration_hours req * 60,
                                     bs_location = loc\<rparr>)"
proof -
  have "result_shape req res"
  proof (cases "book_body P E req (b\<lparr>br_open := True, br_page := blank_page\<rparr>)")
    case (Pair b2 r)
    show ?thesis
    proof (cases r)
      case (Inl e) with Pair assms have "res = booking_failure e" by (simp add: bookSlot_run)
      then show ?thesis by (simp add: booking_failure_def)
    next
      case (Inr x) with Pair assms yieldsD [OF book_body_shape] show ?thesis by (simp add: bookSlot_run)
    qed
  qed
  then show ?thesis by (simp add: result_shape_def)
qed

theorem bookSlot_result_shape_witness:
  "snd (bookSlot example_booking_portal example_default_env example_request example_closed_browser) =
     Inr example_booked \<and> success example_booked \<and>
   message example_booked = ''Booking completed successfully'' \<and>
   (\<exists>loc. booked_slot example_booked = Some \<lparr>bs_time = ''19:00'', bs_duration = 60, bs_location = loc\<rparr>)"
proof -
  have e: "snd (bookSlot example_booking_portal example_default_env example_request example_closed_browser) =
     Inr example_booked" by code_simp
  have n: "example_booked \<noteq> fail_result (message example_booked)" by code_simp
  show ?thesis using bookSlot_result_shape [OF e] e n by (simp add: example_request_def)
qed

text \<open>C24: A run of \<open>bookSlot\<close> clicks \<open>Place My Order\<close> at most once, on every path.\<close>

theorem bookSlot_orders_at_most_once:
  "\<exists>cs. br_clicks (fst (bookSlot P E req b)) = br_clicks b @ cs \<and> count_list cs ''Place My Order'' \<le> 1"
  using orders_at_mostD [OF book_body_orders, of P E req "b\<lparr>br_open := True, br_page := blank_page\<rparr>"]
  by (simp add: bookSlot_clicks) (metis prod.collapse)

text \<open>C25: A reported success went through the five steps in order: the clicks of the run
  are \<open>Book Now\<close>, \<open>Reserve\<close>, then only clicks of the re-login and of the
  retried reservation, then attendee clicks, \<open>Next\<close>, then card clicks, and
  \<open>Place My Order\<close> as the last click of the run, the only order.\<close>

theorem bookSlot_success_steps:
  assumes "snd (bookSlot P E req b) = Inr res" "success res"
  shows "\<exists>cs1 cs2 cs3. br_clicks (fst (bookSlot P E req b)) =
           br_clicks b @ [''Book Now'', ''Reserve''] @ cs1 @ cs2 @ [''Next''] @ cs3 @ [''Place My Order''] \<and>
           set cs1 \<subseteq> {''Reserve'', ''CWL'', ''Login'', ''Book''} \<and> set cs2 \<subseteq> {''Attendee''} \<and>
           set cs3 \<subseteq> {''Card''}"
proof -
  obtain b2 where run: "book_body P E req (b\<lparr>br_open := True, br_page := blank_page\<rparr>) = (b2, Inr res)"
    using assms by (auto simp: bookSlot_run booking_failure_def fail_result_def split: prod.splits sum.splits)
  from book_body_success [OF run assms(2)] run show ?thesis by (auto simp: bookSlot_clicks)
qed

theorem bookSlot_success_steps_witness:
  "snd (bookSlot example_booking_portal example_default_env example_request example_closed_browser) =
     Inr example_booked \<and> success example_booked \<and>
   br_clicks (fst (bookSlot example_booking_portal example_default_env example_request example_closed_browser)) =
     [''Book Now'', ''Reserve'', ''Attendee'', ''Next'', ''Card'', ''Place My Order'']"
proof -
  have e: "snd (bookSlot example_booking_portal example_default_env example_request example_closed_browser) =
     Inr example_booked" by code_simp
  have s: "success example_booked" by (simp add: example_booked_def)
  have c: "br_clicks (fst (bookSlot example_booking_portal example_default_env example_request example_closed_browser)) =
     [''Book Now'', ''Reserve'', ''Attendee'', ''Next'', ''Card'', ''Place My Order'']" by code_simp
  have "\<exists>cs1 cs2 cs3. br_clicks (fst (bookSlot example_booking_portal example_default_env example_request
            example_closed_browser)) =
       br_clicks example_closed_browser @ [''Book Now'', ''Reserve''] @ cs1 @ cs2 @ [''Next''] @ cs3 @ [''Place My Order''] \<and>
       set cs1 \<subseteq> {''Reserve'', ''CWL'', ''Login'', ''Book''} \<and> set cs2 \<subseteq> {''Attendee''} \<and> set cs3 \<subseteq> {''Card''}"
    using e s by (rule bookSlot_success_steps)
  with e s c show ?thesis by simp
qed

text \<open>C26: Spec scenario C: on a facility page without a marker whose title contains the
  requested start time, \<open>bookSlot\<close> returns the failure \<open>"Could not find available
  slot at ..."\<close> and clicks nothing.\<close>

theorem bookSlot_no_matching_slot:
  assumes "map_of (site P) (facility_url req) = Some F" "\<not> pg_login_visible F"
    "str_includes (pg_url F) ''BookMe4LandingPages/Facility''"
    "find_target (to12h_label (req_time_24h req)) (pg_spans F) = None"
  shows "snd (bookSlot P E req b) =
    Inr (fail_result (''Could not find available slot at '' @ req_time_24h req @
                      '' ('' @ to12h_label (req_time_24h req) @ '')'')) \<and>
    br_clicks (fst (bookSlot P E req b)) = br_clicks b"
  using assms
  by (simp add: bookSlot_run book_body_def open_facility_def goto_def abind_def Let_def
      ensureLoggedIn_def current_page_def or_return_def select_slot_def split: prod.splits)

theorem bookSlot_no_matching_slot_witness:
  "map_of (site example_booking_portal) (facility_url (example_request\<lparr>req_time_24h := ''18:00''\<rparr>)) =
     Some example_court_page \<and> \<not> pg_login_visible example_court_page \<and>
   str_includes (pg_url example_court_page) ''BookMe4LandingPages/Facility'' \<and>
   find_target (to12h_label ''18:00'') (pg_spans example_court_page) = None \<and>
   snd (bookSlot example_booking_portal example_default_env (example_request\<lparr>req_time_24h := ''18:00''\<rparr>)
          example_closed_browser) =
     Inr (fail_result ''Could not find available slot at 18:00 (6:00 PM)'') \<and>
   br_clicks (fst (bookSlot example_booking_portal example_default_env (example_request\<lparr>req_time_24h := ''18:00''\<rparr>)
          example_closed_browser)) = []"
proof -
  have h1: "map_of (site example_booking_portal) (facility_url (example_request\<lparr>req_time_24h := ''18:00''\<rparr>)) =
     Some example_court_page" by code_simp
  have h2: "\<not> pg_login_visible example_court_page" by code_simp
  have h3: "str_includes (pg_url example_court_page) ''BookMe4LandingPages/Facility''" by code_simp
  have h4: "find_target (to12h_label (req_time_24h (example_request\<lparr>req_time_24h := ''18:00''\<rparr>)))
      (pg_spans example_court_page) = None" by code_simp
  have m: "''Could not find available slot at '' @ req_time_24h (example_request\<lparr>req_time_24h := ''18:00''\<rparr>) @
      '' ('' @ to12h_label (req_time_24h (example_request\<lparr>req_time_24h := ''18:00''\<rparr>)) @ '')'' =
      ''Could not find available slot at 18:00 (6:00 PM)''" by code_simp
  show ?thesis
    using bookSlot_no_matching_slot [OF h1 h2 h3 h4, of example_default_env example_closed_browser] h1 h2 h3 h4 m
    by (simp add: example_closed_browser_def)
qed

text \<open>C27: Spec scenario D, for every portal on which the five steps go through: the
  court page is served and logged in and has the marker, \<open>Reserve\<close> leads to a page
  that offers an attendee and a \<open>Next\<close> button to the payment page, whose
  \<open>Place My Order\<close> leads to a result page without an error element (or with
  confirmation language). Then \<open>bookSlot\<close> reports success with the result page's
  confirmation number and the booked slot: the requested time, the duration in hours
  times 60, and the trimmed name of the court page.\<close>

theorem bookSlot_scenario_D:
  assumes F: "map_of (site P) (facility_url req) = Some F" "\<not> pg_login_visible F"
    "str_includes (pg_url F) ''BookMe4LandingPages/Facility''"
    "find_target (to12h_label (req_time_24h req)) (pg_spans F) \<noteq> None"
    and A: "bu_reserve (bui_of P (pg_url F)) = Some (Loads a)" "map_of (site P) a = Some A"
    "\<not> needs_reauth (pg_url A)" "\<not> str_includes (pg_url A) ''BookMe4LandingPages/Facility''"
    and Pay: "fst (select_attendee (bu_attendees (bui_of P (pg_url A)))) \<noteq> []"
    "bu_next (bui_of P (pg_url A)) = Some (Loads p)" "map_of (site P) p = Some Pay"
    and R: "bu_place_order (bui_of P (pg_url Pay)) = Some (Loads r)" "map_of (site P) r = Some R"
    "bu_error_text (bui_of P (pg_url R)) = [] \<or> has_confirmation (bu_body_text (bui_of P (pg_url R)))"
  shows "snd (bookSlot P E req b) =
    Inr \<lparr>success = True, confirmation_number = bu_confirmation_number (bui_of P (pg_url R)),
         message = ''Booking completed successfully'',
         booked_slot = Some \<lparr>bs_time = req_time_24h req, bs_duration = duration_hours req * 60,
                             bs_location = js_trim (court_name F)\<rparr>\<rparr>"
proof -
  obtain b4 cs where run: "book_body P E req (b\<lparr>br_open := True, br_page := blank_page\<rparr>) =
      or_return (payment_step P) (classify P req (court_name F)) b4" and p4: "br_page b4 = Pay"
    using book_body_to_payment [OF F A Pay] by blast
  obtain cs3 where pay: "payment_step P b4 =
      (b4\<lparr>br_clicks := br_clicks b4 @ cs3 @ [''Place My Order''], br_page := R, br_navs := br_navs b4 @ [r]\<rparr>, Inr None)"
    using payment_step_order [of P b4 r R] R(1,2) p4 by auto
  show ?thesis
    using run pay R(3)
    by (auto simp: bookSlot_run or_return_go classify_def abind_def current_ui_def current_page_def
        split: prod.splits)
qed

theorem bookSlot_scenario_D_witness:
  "snd (bookSlot example_booking_portal example_default_env example_request example_closed_browser) =
     Inr example_booked"
proof -
  let ?P = example_booking_portal
  have F: "map_of (site ?P) (facility_url example_request) = Some example_court_page"
    "\<not> pg_login_visible example_court_page"
    "str_includes (pg_url example_court_page) ''BookMe4LandingPages/Facility''"
    "find_target (to12h_label (req_time_24h example_request)) (pg_spans example_court_page) \<noteq> None"
    by code_simp+
  have A: "bu_reserve (bui_of ?P (pg_url example_court_page)) = Some (Loads example_attendee_url)"
    "map_of (site ?P) example_attendee_url = Some (example_booking_page example_attendee_url)"
    "\<not> needs_reauth (pg_url (example_booking_page example_attendee_url))"
    "\<not> str_includes (pg_url (example_booking_page example_attendee_url)) ''BookMe4LandingPages/Facility''"
    by code_simp+
  have Pay: "fst (select_attendee (bu_attendees (bui_of ?P (pg_url (example_booking_page example_attendee_url))))) \<noteq> []"
    "bu_next (bui_of ?P (pg_url (example_booking_page example_attendee_url))) = Some (Loads ''https://p.com/Payment'')"
    "map_of (site ?P) ''https://p.com/Payment'' = Some (example_booking_page ''https://p.com/Payment'')"
    by code_simp+
  have R: "bu_place_order (bui_of ?P (pg_url (example_booking_page ''https://p.com/Payment''))) =
      Some (Loads ''https://p.com/Receipt'')"
    "map_of (site ?P) ''https://p.com/Receipt'' = Some (example_booking_page ''https://p.com/Receipt'')"
    "bu_error_text (bui_of ?P (pg_url (example_booking_page ''https://p.com/Receipt''))) = [] \<or>
     has_confirmation (bu_body_text (bui_of ?P (pg_url (example_booking_page ''https://p.com/Receipt''))))"
    by code_simp+
  have v: "\<lparr>success = True,
      confirmation_number = bu_confirmation_number (bui_of ?P (pg_url (example_booking_page ''https://p.com/Receipt''))),
      message = ''Booking completed successfully'',
      booked_slot = Some \<lparr>bs_time = req_time_24h example_request, bs_duration = duration_hours example_request * 60,
                          bs_location = js_trim (court_name example_court_page)\<rparr>\<rparr> = example_booked"
    by code_simp
  show ?thesis
    using bookSlot_scenario_D [OF F A Pay R, of example_default_env example_closed_browser] v by simp
qed

text \<open>C28: Step 1 matches the 12-hour label anywhere in a title, so a request for 1:mm or
  13:mm (the label \<open>"1:mm AM"\<close> or \<open>"1:mm PM"\<close>) selects a marker starting ten hours
  later (\<open>"11:mm AM"\<close> or \<open>"11:mm PM"\<close>), whose label contains it, whenever that
  marker comes first.\<close>

theorem bookSlot_matches_eleven:
  assumes "h = 1 \<or> h = 13" "m < 60" "has_book_now sp"
    "sp_title sp = Some (to12h_label (hhmm (h + 10) m) @ rest)"
  shows "find_target (to12h_label (hhmm h m)) (sp # sps) = Some sp"
proof -
  have "to12h_label (hhmm (h + 10) m) = CHR ''1'' # to12h_label (hhmm h m)"
    using assms(1,2)
    by (auto simp: to12h_label_def Let_def show_nat_small show_nat_large digit_char_def)
  moreover have "str_includes (CHR ''1'' # to12h_label (hhmm h m) @ rest) (to12h_label (hhmm h m))"
    unfolding includes_iff by (intro exI [of _ "[CHR ''1'']"] exI [of _ rest]) simp
  ultimately have "title_matches (to12h_label (hhmm h m)) sp"
    using assms(4) by (simp add: title_matches_def includes_lower)
  with assms(3) show ?thesis by (simp add: find_target_def)
qed

theorem bookSlot_matches_eleven_witness:
  "find_target (to12h_label ''13:00'') [example_marker_at ''11:00 PM-12:00 AM'', example_marker_at ''1:00 PM-2:00 PM''] =
     Some (example_marker_at ''11:00 PM-12:00 AM'')"
proof -
  have t: "sp_title (example_marker_at ''11:00 PM-12:00 AM'') = Some (to12h_label (hhmm (13 + 10) 0) @ ''-12:00 AM'')"
    by code_simp
  have b: "has_book_now (example_marker_at ''11:00 PM-12:00 AM'')" by code_simp
  have h: "hhmm 13 0 = ''13:00''" by code_simp
  show ?thesis using bookSlot_matches_eleven [OF _ _ b t] h by simp
qed

text \<open>A result page with neither confirmation language nor an error element is reported
  as a success.\<close>

lemma bookSlot_success_without_confirmation:
  "snd (bookSlot (example_variant ''https://p.com/Receipt'' no_booking_ui) example_default_env example_request
          example_closed_browser) = Inr (example_booked\<lparr>confirmation_number := None\<rparr>) \<and>
   \<not> has_confirmation (bu_body_text no_booking_ui)"
  by code_simp

text \<open>C29: When every visible attendee row marked \<open>(You)\<close> is disabled and there is one,
  step 3 selects no attendee at all, although the spec (section 4.4) asks for the first
  enabled attendee: the name is already set, so the fallback is skipped. No attendee is
  clicked, the step does not fail for want of an attendee, and it goes on to \<open>Next\<close>.\<close>

theorem bookSlot_disabled_you_not_replaced:
  assumes "bu_attendees (bui_of P (pg_url (br_page b))) = rows"
    "\<exists>r \<in> set rows. \<not> at_hidden r \<and> str_includes (label_text [] (at_label r)) ''(You)''"
    "\<forall>r \<in> set rows. \<not> at_hidden r \<and> str_includes (label_text [] (at_label r)) ''(You)'' \<longrightarrow>
       str_includes (at_class r) ''disabled''"
  shows "br_clicks (fst (attendee_step P b)) =
           br_clicks b @ (if bu_next (bui_of P (pg_url (br_page b))) = None then [] else [''Next'']) \<and>
         snd (attendee_step P b) \<noteq> Inr (Some (fail_result ''Could not select any attendee - none available or all disabled''))"
proof -
  have "snd (you_loop rows []) = None \<and> str_includes (fst (you_loop rows [])) ''(You)''"
    using you_loop_disabled [OF assms(3)] assms(2) by blast
  then obtain name where y: "you_loop rows [] = (name, None)" and n: "str_includes name ''(You)''"
    by (cases "you_loop rows []") auto
  have "name \<noteq> []" using includes_nonempty [OF n] by simp
  then have sa: "select_attendee rows = (name, None)" using y by (simp add: select_attendee_def)
  show ?thesis
  proof (cases "bu_next (bui_of P (pg_url (br_page b)))")
    case None
    then show ?thesis using assms(1) sa \<open>name \<noteq> []\<close>
      by (simp add: attendee_step_def abind_def current_ui_def current_page_def attendee_click_def fail_result_def)
  next
    case (Some oc)
    obtain b' r where f: "follow P False oc (b\<lparr>br_clicks := br_clicks b @ [''Next'']\<rparr>) = (b', r)"
      by (cases "follow P False oc (b\<lparr>br_clicks := br_clicks b @ [''Next'']\<rparr>)")
    have "br_clicks b' = br_clicks b @ [''Next'']" using follow_clicks [OF f] by simp
    then show ?thesis using assms(1) sa \<open>name \<noteq> []\<close> Some f
      by (auto simp: attendee_step_def abind_def current_ui_def current_page_def attendee_click_def click_el_def
          split: sum.splits)
  qed
qed

theorem bookSlot_disabled_you_not_replaced_witness:
  "br_clicks (fst (attendee_step (example_variant example_attendee_url (no_booking_ui\<lparr>bu_attendees :=
            [example_you\<lparr>at_class := ''bm-selectable-row disabled''\<rparr>, example_you\<lparr>at_label := Some ''John Doe''\<rparr>],
            bu_next := Some (Loads ''https://p.com/Payment'')\<rparr>))
       (example_closed_browser\<lparr>br_page := example_booking_page example_attendee_url\<rparr>))) = [''Next'']"
proof -
  let ?P = "example_variant example_attendee_url (no_booking_ui\<lparr>bu_attendees :=
            [example_you\<lparr>at_class := ''bm-selectable-row disabled''\<rparr>, example_you\<lparr>at_label := Some ''John Doe''\<rparr>],
            bu_next := Some (Loads ''https://p.com/Payment'')\<rparr>)"
  let ?b = "example_closed_browser\<lparr>br_page := example_booking_page example_attendee_url\<rparr>"
  have r: "bu_attendees (bui_of ?P (pg_url (br_page ?b))) =
      [example_you\<lparr>at_class := ''bm-selectable-row disabled''\<rparr>, example_you\<lparr>at_label := Some ''John Doe''\<rparr>]"
    by code_simp
  have e: "\<exists>r \<in> set [example_you\<lparr>at_class := ''bm-selectable-row disabled''\<rparr>, example_you\<lparr>at_label := Some ''John Doe''\<rparr>].
      \<not> at_hidden r \<and> str_includes (label_text [] (at_label r)) ''(You)''" by code_simp
  have d: "\<forall>r \<in> set [example_you\<lparr>at_class := ''bm-selectable-row disabled''\<rparr>, example_you\<lparr>at_label := Some ''John Doe''\<rparr>].
      \<not> at_hidden r \<and> str_includes (label_text [] (at_label r)) ''(You)'' \<longrightarrow> str_includes (at_class r) ''disabled''"
    by code_simp
  have nx: "bu_next (bui_of ?P (pg_url (br_page ?b))) = Some (Loads ''https://p.com/Payment'')" by code_simp
  show ?thesis
    using bookSlot_disabled_you_not_replaced [OF r e d] nx by (simp add: example_closed_browser_def)
qed

text \<open>C30: When the page after \<open>Place My Order\<close> never settles, on every portal where the
  first three steps go through, \<open>bookSlot\<close> reports a failure although the order was
  submitted: its click is in the run, exactly once.\<close>

theorem bookSlot_failure_after_order:
  assumes F: "map_of (site P) (facility_url req) = Some F" "\<not> pg_login_visible F"
    "str_includes (pg_url F) ''BookMe4LandingPages/Facility''"
    "find_target (to12h_label (req_time_24h req)) (pg_spans F) \<noteq> None"
    and A: "bu_reserve (bui_of P (pg_url F)) = Some (Loads a)" "map_of (site P) a = Some A"
    "\<not> needs_reauth (pg_url A)" "\<not> str_includes (pg_url A) ''BookMe4LandingPages/Facility''"
    and Pay: "fst (select_attendee (bu_attendees (bui_of P (pg_url A)))) \<noteq> []"
    "bu_next (bui_of P (pg_url A)) = Some (Loads p)" "map_of (site P) p = Some Pay"
    and hangs: "bu_place_order (bui_of P (pg_url Pay)) = Some Hangs"
  shows "snd (bookSlot P E req b) = Inr (fail_result ''Booking failed: Timeout exceeded while waiting for load state'') \<and>
         count_list (br_clicks (fst (bookSlot P E req b))) ''Place My Order'' =
           Suc (count_list (br_clicks b) ''Place My Order'')"
proof -
  obtain b4 cs where run: "book_body P E req (b\<lparr>br_open := True, br_page := blank_page\<rparr>) =
      or_return (payment_step P) (classify P req (court_name F)) b4" and p4: "br_page b4 = Pay"
    and c4: "br_clicks b4 = br_clicks b @ [''Book Now'', ''Reserve''] @ cs @ [''Next'']" and cs: "set cs \<subseteq> {''Attendee''}"
    using book_body_to_payment [OF F A Pay, where E = E and b = "b\<lparr>br_open := True, br_page := blank_page\<rparr>"]
    by auto
  obtain cs3 where pay: "payment_step P b4 = (b4\<lparr>br_clicks := br_clicks b4 @ cs3 @ [''Place My Order'']\<rparr>, Inl Settle_timeout)"
    and cs3: "set cs3 \<subseteq> {''Card''}"
    using payment_step_hangs [of P b4] hangs p4 by auto
  have n: "count_list cs ''Place My Order'' = 0" "count_list cs3 ''Place My Order'' = 0"
    using cs cs3 by (auto intro!: count_list_0)
  show ?thesis
    using run pay c4 n
    by (simp add: bookSlot_run or_return_def abind_def booking_failure_def)
qed

theorem bookSlot_failure_after_order_witness:
  "snd (bookSlot (example_variant ''https://p.com/Payment'' (no_booking_ui\<lparr>bu_card_option := True,
            bu_place_order := Some Hangs\<rparr>)) example_default_env example_request example_closed_browser) =
     Inr (fail_result ''Booking failed: Timeout exceeded while waiting for load state'')"
proof -
  let ?P = "example_variant ''https://p.com/Payment'' (no_booking_ui\<lparr>bu_card_option := True, bu_place_order := Some Hangs\<rparr>)"
  have F: "map_of (site ?P) (facility_url example_request) = Some example_court_page"
    "\<not> pg_login_visible example_court_page"
    "str_includes (pg_url example_court_page) ''BookMe4LandingPages/Facility''"
    "find_target (to12h_label (req_time_24h example_request)) (pg_spans example_court_page) \<noteq> None"
    by code_simp+
  have A: "bu_reserve (bui_of ?P (pg_url example_court_page)) = Some (Loads example_attendee_url)"
    "map_of (site ?P) example_attendee_url = Some (example_booking_page example_attendee_url)"
    "\<not> needs_reauth (pg_url (example_booking_page example_attendee_url))"
    "\<not> str_includes (pg_url (example_booking_page example_attendee_url)) ''BookMe4LandingPages/Facility''"
    by code_simp+
  have Pay: "fst (select_attendee (bu_attendees (bui_of ?P (pg_url (example_booking_page example_attendee_url))))) \<noteq> []"
    "bu_next (bui_of ?P (pg_url (example_booking_page example_attendee_url))) = Some (Loads ''https://p.com/Payment'')"
    "map_of (site ?P) ''https://p.com/Payment'' = Some (example_booking_page ''https://p.com/Payment'')"
    by code_simp+
  have h: "bu_place_order (bui_of ?P (pg_url (example_booking_page ''https://p.com/Payment''))) = Some Hangs"
    by code_simp
  show ?thesis using bookSlot_failure_after_order [OF F A Pay h, of example_default_env example_closed_browser] by simp
qed

text \<open>Step 2 is retried automatically: when the first \<open>Reserve\<close> click leaves the
  facility page in place, \<open>Reserve\<close> is clicked again, then the summary's alternative
  button, and the booking goes on.\<close>

theorem bookSlot_retries_reserve:
  "bookSlot (example_variant example_facility_url (no_booking_ui\<lparr>bu_reserve := Some Stays,
       bu_alt_book := Some (Loads example_attendee_url)\<rparr>)) example_default_env example_request
     example_closed_browser =
   (fst (bookSlot (example_variant example_facility_url (no_booking_ui\<lparr>bu_reserve := Some Stays,
       bu_alt_book := Some (Loads example_attendee_url)\<rparr>)) example_default_env example_request
     example_closed_browser), Inr example_booked) \<and>
   br_clicks (fst (bookSlot (example_variant example_facility_url (no_booking_ui\<lparr>bu_reserve := Some Stays,
       bu_alt_book := Some (Loads example_attendee_url)\<rparr>)) example_default_env example_request
     example_closed_browser)) =
     [''Book Now'', ''Reserve'', ''Reserve'', ''Book'', ''Attendee'', ''Next'', ''Card'', ''Place My Order'']"
  by code_simp

section \<open>From a scanned slot to its booking\<close>

text \<open>C9: The scanner and the booking pipeline agree on what a slot is: on a court page
  that is served and logged in and whose markers write their start time the way the portal
  labels it (\<open>"7:00 PM"\<close>: unpadded hour, one space, upper-case meridiem), a booking
  request built from a slot the extraction reported (its deep link and its
  \<open>time_24h\<close>) finds a marker at step 1: the first click of \<open>bookSlot\<close> is on
  \<open>Book Now\<close>, not the failure \<open>"Could not find available slot"\<close>.\<close>

theorem scanned_slot_reaches_booking:
  assumes s: "s \<in> set (extractSlotsFromScheduler prefs today (pg_url F) l (pg_spans F))"
    and F: "map_of (site P) (pg_url F) = Some F" "\<not> pg_login_visible F"
      "str_includes (pg_url F) ''BookMe4LandingPages/Facility''"
    and labels: "\<forall>sp \<in> set (pg_spans F). \<forall>g1 g2.
      match_range (case sp_title sp of Some t \<Rightarrow> t | None \<Rightarrow> []) = Some (g1, g2) \<longrightarrow>
      (\<exists>h m ap. 1 \<le> h \<and> h \<le> 12 \<and> m < 60 \<and> (ap = ''AM'' \<or> ap = ''PM'') \<and>
                g1 = show_nat h @ '':'' @ pad2 (show_nat m) @ '' '' @ ap)"
    and req: "deep_link s = Some (facility_url req)" "req_time_24h req = time_24h s"
  shows "\<exists>cs. br_clicks (fst (bookSlot P E req b)) = br_clicks b @ ''Book Now'' # cs"
proof -
  obtain sp g1 g2 e where sp: "sp \<in> set (filter has_book_now (pg_spans F))"
    and u: "deep_link s = Some (pg_url F)"
    and g: "match_range (case sp_title sp of Some t \<Rightarrow> t | None \<Rightarrow> []) = Some (g1, g2)"
    and t: "to24h g1 = Some (time_24h s)"
    using extract_loop_slots [of prefs today "pg_url F" l "filter has_book_now (pg_spans F)"] s
    unfolding extractSlotsFromScheduler_def by blast
  have url: "facility_url req = pg_url F" using u req(1) by simp
  obtain h m ap where hm: "1 \<le> h" "h \<le> 12" "m < 60" and ap: "ap = ''AM'' \<or> ap = ''PM''"
    and g1: "g1 = show_nat h @ '':'' @ pad2 (show_nat m) @ '' '' @ ap"
    using labels sp g by fastforce
  have "map_option to12h_label (to24h (show_nat h @ '':'' @ pad2 (show_nat m) @ '' '' @ ap)) =
      Some (show_nat h @ '':'' @ pad2 (show_nat m) @ '' '' @ (if is_pm ap then ''PM'' else ''AM''))"
    using hm ap by (intro to12h_label_to24h_clock) (auto simp: meridiems_def js_space_def)
  then have lbl: "to12h_label (req_time_24h req) = g1"
    using t g1 ap req(2) by (auto simp: is_pm_def)
  have "title_matches g1 sp"
    using includes_lower [OF match_range_infix [OF g]] by (simp add: title_matches_def)
  then have found: "find_target (to12h_label (req_time_24h req)) (pg_spans F) \<noteq> None"
    using sp lbl by (auto simp: find_target_def find_None_iff)
  let ?b0 = "b\<lparr>br_open := True, br_page := blank_page\<rparr>\<lparr>br_page := F, br_navs := br_navs b @ [facility_url req]\<rparr>"
  have o: "open_facility P E (BASE_URL (env_base_url E)) req (b\<lparr>br_open := True, br_page := blank_page\<rparr>) = (?b0, Inr ())"
    using F url open_facility_direct [where P = P and req = req and F = F and E = E
        and base = "BASE_URL (env_base_url E)" and b = "b\<lparr>br_open := True, br_page := blank_page\<rparr>"]
    by simp
  have sl: "select_slot req ?b0 = (?b0\<lparr>br_clicks := br_clicks ?b0 @ [''Book Now'']\<rparr>, Inr None)"
    using found by (intro select_slot_found) simp
  obtain b2 r where rest: "or_return (reserve_step P) (or_return (attendee_step P)
       (or_return (payment_step P) (classify P req (court_name F)))) (?b0\<lparr>br_clicks := br_clicks ?b0 @ [''Book Now'']\<rparr>) = (b2, r)"
    by (metis prod.collapse)
  obtain cs where "br_clicks b2 = br_clicks b @ [''Book Now''] @ cs"
    using clicks_withinD [OF steps_after_slot_within rest] by auto
  moreover have "book_body P E req (b\<lparr>br_open := True, br_page := blank_page\<rparr>) = (b2, r)"
    using o sl rest by (simp add: book_body_def Let_def abind_def current_page_def or_return_go)
  ultimately show ?thesis by (simp add: bookSlot_clicks)
qed

theorem scanned_slot_reaches_booking_witness:
  "\<exists>cs. br_clicks (fst (bookSlot example_booking_portal example_default_env example_request example_closed_browser)) =
     ''Book Now'' # cs"
proof -
  let ?s = "\<lparr>date_iso = ''2025-06-01'', time_24h = ''19:00'', minutes = 60, location = ''Court 3'',
            deep_link = Some example_facility_url\<rparr>"
  have s: "?s \<in> set (extractSlotsFromScheduler no_preferences ''2025-06-01'' (pg_url example_court_page) ''Court 3''
      (pg_spans example_court_page))" by code_simp
  have F: "map_of (site example_booking_portal) (pg_url example_court_page) = Some example_court_page"
    "\<not> pg_login_visible example_court_page"
    "str_includes (pg_url example_court_page) ''BookMe4LandingPages/Facility''"
    by code_simp+
  have r: "match_range ''7:00 PM-8:00 PM'' = Some (''7:00 PM'', ''8:00 PM'')" by code_simp
  have g: "''7:00 PM'' = show_nat 7 @ '':'' @ pad2 (show_nat 0) @ '' '' @ ''PM''" by code_simp
  have labels: "\<forall>sp \<in> set (pg_spans example_court_page). \<forall>g1 g2.
      match_range (case sp_title sp of Some t \<Rightarrow> t | None \<Rightarrow> []) = Some (g1, g2) \<longrightarrow>
      (\<exists>h m ap. 1 \<le> h \<and> h \<le> 12 \<and> m < 60 \<and> (ap = ''AM'' \<or> ap = ''PM'') \<and>
                g1 = show_nat h @ '':'' @ pad2 (show_nat m) @ '' '' @ ap)"
  proof (intro ballI allI impI)
    fix sp g1 g2
    assume "sp \<in> set (pg_spans example_court_page)"
      "match_range (case sp_title sp of Some t \<Rightarrow> t | None \<Rightarrow> []) = Some (g1, g2)"
    then have "g1 = ''7:00 PM''" using r by (simp add: example_court_page_def example_marker_at_def)
    then show "\<exists>h m ap. 1 \<le> h \<and> h \<le> 12 \<and> m < 60 \<and> (ap = ''AM'' \<or> ap = ''PM'') \<and>
                g1 = show_nat h @ '':'' @ pad2 (show_nat m) @ '' '' @ ap"
      using g by (intro exI [of _ 7] exI [of _ 0] exI [of _ "''PM''"]) simp
  qed
  have q: "deep_link ?s = Some (facility_url example_request)" "req_time_24h example_request = time_24h ?s"
    by (simp_all add: example_request_def)
  show ?thesis
    using scanned_slot_reaches_booking [OF s F labels q, of example_default_env example_closed_browser]
    by (simp add: example_closed_browser_def)
qed

section \<open>The re-authentication of step 2\<close>

lemma reauth_tail:
  assumes "reauth P b = (b', Inr ())"
  shows "\<exists>b4. (case query_param ''returnUrl'' (pg_url (br_page b)) of
              Some r \<Rightarrow>
                if r \<noteq> [] \<and> \<not> str_includes (pg_url (br_page b4)) ''BookMe4EventParticipants'' then
                  (case pct_decode r of None \<Rightarrow> athrow Uri_malformed | Some d \<Rightarrow> goto P d)
                else areturn ()
            | None \<Rightarrow> areturn ()) b4 = (b', Inr ())"
  using assms unfolding reauth_def Let_def abind_current_page
  by (auto simp: abind_result current_page_def)

text \<open>C38: Spec section 4.4, step 3: after the re-login inside the pipeline, the tab is on
  the page the login boundary's \<open>returnUrl\<close> names (decoded), reached by a navigation of
  its own, unless it is already on the attendee page; the portal's own post-login
  redirect is not trusted.\<close>

theorem reauth_returns_to_returnUrl:
  assumes run: "reauth P b = (b', Inr ())"
    and r: "query_param ''returnUrl'' (pg_url (br_page b)) = Some r" "r \<noteq> []"
  shows "str_includes (pg_url (br_page b')) ''BookMe4EventParticipants'' \<or>
         (\<exists>d. pct_decode r = Some d \<and> map_of (site P) d = Some (br_page b') \<and>
              br_navs b' \<noteq> [] \<and> last (br_navs b') = d)"
proof -
  obtain b4 where t: "(if \<not> str_includes (pg_url (br_page b4)) ''BookMe4EventParticipants'' then
        (case pct_decode r of None \<Rightarrow> athrow Uri_malformed | Some d \<Rightarrow> goto P d) else areturn ()) b4 = (b', Inr ())"
    using reauth_tail [OF run] r by auto
  show ?thesis
  proof (cases "str_includes (pg_url (br_page b4)) ''BookMe4EventParticipants''")
    case True
    with t show ?thesis by simp
  next
    case False
    with t show ?thesis by (auto simp: goto_def split: option.splits)
  qed
qed

theorem reauth_returns_to_returnUrl_witness:
  "br_page (fst (reauth (example_booking_portal\<lparr>site := (''https://p.com/Attend'', example_booking_page ''https://p.com/Attend'') #
       site example_booking_portal\<rparr>)
     (example_closed_browser\<lparr>br_page := example_booking_page ''https://p.com/Login?returnUrl=https%3A%2F%2Fp.com%2FAttend''\<rparr>))) =
   example_booking_page ''https://p.com/Attend''"
proof -
  let ?P = "example_booking_portal\<lparr>site := (''https://p.com/Attend'', example_booking_page ''https://p.com/Attend'') #
       site example_booking_portal\<rparr>"
  let ?b = "example_closed_browser\<lparr>br_page := example_booking_page ''https://p.com/Login?returnUrl=https%3A%2F%2Fp.com%2FAttend''\<rparr>"
  have run: "reauth ?P ?b = (fst (reauth ?P ?b), Inr ())" by code_simp
  have q: "query_param ''returnUrl'' (pg_url (br_page ?b)) = Some ''https://p.com/Attend''" by code_simp
  have n: "\<not> str_includes (pg_url (br_page (fst (reauth ?P ?b)))) ''BookMe4EventParticipants''" by code_simp
  have d: "pct_decode ''https://p.com/Attend'' = Some ''https://p.com/Attend''" by code_simp
  have m: "map_of (site ?P) ''https://p.com/Attend'' = Some (example_booking_page ''https://p.com/Attend'')" by code_simp
  show ?thesis using reauth_returns_to_returnUrl [OF run q] n d m by auto
qed

end
