(* ===== verification/Api.thy ===== *)
theory Api
  imports Notify Booking_Trace
begin

text \<open>
  The request layer (src/index.ts, the version of src/unnamed/part_001): an Express
  server whose routes \<open>/check_now\<close>, \<open>/notify\<close> and \<open>/book\<close> check a bearer
  token, validate the JSON body with zod, and call \<open>checkAvailability\<close>,
  \<open>notify\<close> and \<open>bookSlot\<close>.

  A body is the \<open>json\<close> value \<open>express.json()\<close> parsed (numbers are
  \<^typ>\<open>real\<close>; an object is its list of members, and \<open>JSON.parse\<close> keeps the last
  of duplicate keys). A zod schema is a function from a path and a value to the issues
  found or the parsed value; an object schema runs every field and concatenates their
  issues. An issue is its path and its code; the message text zod renders for it is not
  modelled, and neither is the text of \<open>String(err.message)\<close>: a response carries the
  issues or the thrown value itself.

  The server's state is the browser the operations drive and the outbox of the
  notifier; the world is the portal, today's date and what the network answers.
\<close>

section \<open>JSON values and zod issues\<close>

datatype json =
    JNull
  | JBool bool
  | JNum real
  | JStr string
  | JArr "json list"
  | JObj "(string \<times> json) list"

definition json_field :: "(string \<times> json) list \<Rightarrow> string \<Rightarrow> json option" where
  "json_field fs k = map_of (rev fs) k"

text \<open>zod's name of the type of a value (\<open>None\<close>: \<open>undefined\<close>).\<close>

fun json_type :: "json option \<Rightarrow> string" where
  "json_type None = ''undefined''"
| "json_type (Some JNull) = ''null''"
| "json_type (Some (JBool _)) = ''boolean''"
| "json_type (Some (JNum _)) = ''number''"
| "json_type (Some (JStr _)) = ''string''"
| "json_type (Some (JArr _)) = ''array''"
| "json_type (Some (JObj _)) = ''object''"

datatype path_elem = Key string | Idx nat

datatype issue_code =
    Invalid_type string string
  | Too_small real
  | Too_big real
  | Invalid_string string
  | Invalid_union
  | Invalid_enum

record issue =
  iss_path :: "path_elem list"
  iss_code :: issue_code

type_synonym 'a parsed = "issue list + 'a"

definition issue :: "path_elem list \<Rightarrow> issue_code \<Rightarrow> 'a parsed" where
  "issue p c = Inl [\<lparr>iss_path = p, iss_code = c\<rparr>]"

text \<open>Two fields of an object: both are checked, their issues concatenated.\<close>

definition zap :: "('a \<Rightarrow> 'b) parsed \<Rightarrow> 'a parsed \<Rightarrow> 'b parsed" where
  "zap f x =
     (case (f, x) of
        (Inr g, Inr a) \<Rightarrow> Inr (g a)
      | (Inl e1, Inl e2) \<Rightarrow> Inl (e1 @ e2)
      | (Inl e, Inr _) \<Rightarrow> Inl e
      | (Inr _, Inl e) \<Rightarrow> Inl e)"

section \<open>zod schemas\<close>

definition z_optional ::
  "(path_elem list \<Rightarrow> json \<Rightarrow> 'a parsed) \<Rightarrow> path_elem list \<Rightarrow> json option \<Rightarrow> 'a option parsed" where
  "z_optional f p v = (case v of None \<Rightarrow> Inr None | Some x \<Rightarrow> map_sum id Some (f p x))"

definition z_required ::
  "string \<Rightarrow> (path_elem list \<Rightarrow> json \<Rightarrow> 'a parsed) \<Rightarrow> path_elem list \<Rightarrow> json option \<Rightarrow> 'a parsed" where
  "z_required t f p v = (case v of None \<Rightarrow> issue p (Invalid_type t ''undefined'') | Some x \<Rightarrow> f p x)"

text \<open>\<open>z.number().min(lo).max(hi)\<close>\<close>

definition z_number :: "real \<Rightarrow> real \<Rightarrow> path_elem list \<Rightarrow> json \<Rightarrow> real parsed" where
  "z_number lo hi p v =
     (case v of
        JNum x \<Rightarrow> if x < lo then issue p (Too_small lo) else if hi < x then issue p (Too_big hi) else Inr x
      | _ \<Rightarrow> issue p (Invalid_type ''number'' (json_type (Some v))))"

definition z_boolean :: "path_elem list \<Rightarrow> json \<Rightarrow> bool parsed" where
  "z_boolean p v = (case v of JBool b \<Rightarrow> Inr b | _ \<Rightarrow> issue p (Invalid_type ''boolean'' (json_type (Some v))))"

definition z_string :: "path_elem list \<Rightarrow> json \<Rightarrow> string parsed" where
  "z_string p v = (case v of JStr s \<Rightarrow> Inr s | _ \<Rightarrow> issue p (Invalid_type ''string'' (json_type (Some v))))"

text \<open>A string with one check of \<open>z.string()\<close> (\<open>.email()\<close>, \<open>.url()\<close>, \<open>.regex()\<close>).\<close>

definition z_checked :: "string \<Rightarrow> (string \<Rightarrow> bool) \<Rightarrow> path_elem list \<Rightarrow> json \<Rightarrow> string parsed" where
  "z_checked name ok p v =
     (case z_string p v of Inr s \<Rightarrow> if ok s then Inr s else issue p (Invalid_string name) | Inl e \<Rightarrow> Inl e)"

fun z_strings :: "path_elem list \<Rightarrow> nat \<Rightarrow> json list \<Rightarrow> string list parsed" where
  "z_strings p i [] = Inr []"
| "z_strings p i (v # vs) = zap (zap (Inr Cons) (z_string (p @ [Idx i]) v)) (z_strings p (Suc i) vs)"

text \<open>\<open>z.array(z.string())\<close>\<close>

definition z_string_array :: "path_elem list \<Rightarrow> json \<Rightarrow> string list parsed" where
  "z_string_array p v =
     (case v of JArr vs \<Rightarrow> z_strings p 0 vs | _ \<Rightarrow> issue p (Invalid_type ''array'' (json_type (Some v))))"

text \<open>\<open>z.union([z.literal(n1), ...])\<close> over numbers\<close>

definition z_literals :: "nat list \<Rightarrow> path_elem list \<Rightarrow> json \<Rightarrow> nat parsed" where
  "z_literals ns p v =
     (case v of
        JNum x \<Rightarrow> (case find (\<lambda>n. x = real n) ns of Some n \<Rightarrow> Inr n | None \<Rightarrow> issue p Invalid_union)
      | _ \<Rightarrow> issue p Invalid_union)"

text \<open>\<open>z.object({...})\<close> applied to a value that is not an object.\<close>

definition not_object :: "path_elem list \<Rightarrow> json \<Rightarrow> 'a parsed" where
  "not_object p v = issue p (Invalid_type ''object'' (json_type (Some v)))"

section \<open>The URL check of \<open>z.string().url()\<close>\<close>

text \<open>
  zod accepts a URL when \<open>new URL(s)\<close> does not throw. Of the WHATWG parser the model
  keeps what decides acceptance for the URLs of this program: the scheme's syntax and,
  for the special schemes other than \<open>file\<close>, a non-empty host without forbidden
  characters and a decimal port. IPv6 literals, IDNA and the port's range are not
  modelled.
\<close>

definition url_scheme_char :: "char \<Rightarrow> bool" where
  "url_scheme_char c \<longleftrightarrow> is_alnum c \<or> c \<in> set ''+-.''"

definition special_scheme :: "string \<Rightarrow> bool" where
  "special_scheme sch \<longleftrightarrow> sch \<in> set [''http'', ''https'', ''ws'', ''wss'', ''ftp'']"

definition url_authority :: "string \<Rightarrow> string" where
  "url_authority rest =
     takeWhile (\<lambda>c. c \<notin> set ''/?#'' \<and> c \<noteq> CHR 0x5C)
       (dropWhile (\<lambda>c. c = CHR ''/'' \<or> c = CHR 0x5C) rest)"

definition url_host_port :: "string \<Rightarrow> string" where
  "url_host_port auth = rev (takeWhile (\<lambda>c. c \<noteq> CHR ''@'') (rev auth))"

definition forbidden_host_char :: "char \<Rightarrow> bool" where
  "forbidden_host_char c \<longleftrightarrow> c \<in> set '' #%/:<>?@[]^|'' \<or> c = CHR 0x5C"

definition valid_host_port :: "string \<Rightarrow> bool" where
  "valid_host_port hp \<longleftrightarrow>
     (let h = takeWhile (\<lambda>c. c \<noteq> CHR '':'') hp; port = drop (Suc (length h)) hp in
      h \<noteq> [] \<and> \<not> list_ex forbidden_host_char h \<and> all_digits port)"

definition is_url :: "string \<Rightarrow> bool" where
  "is_url s \<longleftrightarrow>
     (let t = js_trim s; sch = takeWhile (\<lambda>c. c \<noteq> CHR '':'') t; rest = drop (Suc (length sch)) t in
      CHR '':'' \<in> set t \<and> sch \<noteq> [] \<and> is_alpha (hd sch) \<and> list_all url_scheme_char sch \<and>
      (if special_scheme (js_lower sch) then valid_host_port (url_host_port (url_authority rest)) else True))"

section \<open>The request schemas\<close>

text \<open>\<open>PreferencesSchema\<close> (lines 34 to 42).\<close>

definition z_preferences :: "path_elem list \<Rightarrow> json \<Rightarrow> preferences parsed" where
  "z_preferences p v =
     (case v of
        JObj fs \<Rightarrow>
          zap (zap (zap (zap (zap (zap (zap
            (Inr (\<lambda>a b c d e f g. \<lparr>days_ahead = a, start_hour = b, end_hour = c, min_minutes = d,
                                     indoor_only = e, locations = f, dates = g\<rparr>))
            (z_optional (z_number 0 14) (p @ [Key ''days_ahead'']) (json_field fs ''days_ahead'')))
            (z_optional (z_number 0 23) (p @ [Key ''start_hour'']) (json_field fs ''start_hour'')))
            (z_optional (z_number 1 24) (p @ [Key ''end_hour'']) (json_field fs ''end_hour'')))
            (z_optional (z_number 30 120) (p @ [Key ''min_minutes'']) (json_field fs ''min_minutes'')))
            (z_optional z_boolean (p @ [Key ''indoor_only'']) (json_field fs ''indoor_only'')))
            (z_optional z_string_array (p @ [Key ''locations'']) (json_field fs ''locations'')))
            (z_optional z_string_array (p @ [Key ''dates'']) (json_field fs ''dates''))
      | _ \<Rightarrow> not_object p v)"

text \<open>\<open>z.object({ preferences: PreferencesSchema }).parse(req.body)\<close> (lines 59 to 63).\<close>

definition parse_check_now :: "json \<Rightarrow> preferences parsed" where
  "parse_check_now v =
     (case v of
        JObj fs \<Rightarrow> z_required ''object'' z_preferences [Key ''preferences''] (json_field fs ''preferences'')
      | _ \<Rightarrow> not_object [] v)"

text \<open>The \<open>notify\<close> member of \<open>NotifyRequestSchema\<close> (lines 45 to 51).\<close>

definition z_notify_target :: "path_elem list \<Rightarrow> json \<Rightarrow> notify_target parsed" where
  "z_notify_target p v =
     (case v of
        JObj fs \<Rightarrow>
          zap (zap (zap (Inr (\<lambda>a b c. \<lparr>nt_email = a, nt_sms = b, nt_telegram_chat_id = c\<rparr>))
            (z_optional (z_checked ''email'' is_email) (p @ [Key ''email'']) (json_field fs ''email'')))
            (z_optional z_string (p @ [Key ''sms'']) (json_field fs ''sms'')))
            (z_optional z_string (p @ [Key ''telegram_chat_id'']) (json_field fs ''telegram_chat_id''))
      | _ \<Rightarrow> not_object p v)"

text \<open>\<open>z.enum(["info", "warn", "urgent"])\<close>\<close>

definition z_priority :: "path_elem list \<Rightarrow> json \<Rightarrow> priority parsed" where
  "z_priority p v =
     (case v of
        JStr s \<Rightarrow> if s = ''info'' then Inr Info else if s = ''warn'' then Inr Warn
                  else if s = ''urgent'' then Inr Urgent else issue p Invalid_enum
      | _ \<Rightarrow> issue p (Invalid_type ''enum'' (json_type (Some v))))"

text \<open>\<open>NotifyRequestSchema.parse(req.body)\<close> (lines 44 to 54, 78).\<close>

definition parse_notify :: "json \<Rightarrow> notify_payload parsed" where
  "parse_notify v =
     (case v of
        JObj fs \<Rightarrow>
          zap (zap (zap (Inr (\<lambda>a b c. \<lparr>np_notify = a, np_text = b, np_priority = c\<rparr>))
            (z_optional z_notify_target [Key ''notify''] (json_field fs ''notify'')))
            (z_required ''string'' z_string [Key ''text''] (json_field fs ''text'')))
            (z_optional z_priority [Key ''priority''] (json_field fs ''priority''))
      | _ \<Rightarrow> not_object [] v)"

text \<open>\<open>/^\d{2}:\d{2}$/\<close>\<close>

definition hhmm_format :: "string \<Rightarrow> bool" where
  "hhmm_format s =
     (case s of [a, b, c, d, e] \<Rightarrow> is_digit a \<and> is_digit b \<and> c = CHR '':'' \<and> is_digit d \<and> is_digit e
      | _ \<Rightarrow> False)"

text \<open>\<open>BookingRequestSchema.parse(req.body)\<close> (lines 95 to 100, 105).\<close>

definition parse_book :: "json \<Rightarrow> booking_request parsed" where
  "parse_book v =
     (case v of
        JObj fs \<Rightarrow>
          zap (zap (zap (zap (Inr (\<lambda>a b c d. \<lparr>facility_url = a, req_time_24h = b, duration_hours = c,
                                                num_people = d\<rparr>))
            (z_required ''string'' (z_checked ''url'' is_url) [Key ''facility_url''] (json_field fs ''facility_url'')))
            (z_required ''string'' (z_checked ''regex'' hhmm_format) [Key ''time_24h''] (json_field fs ''time_24h'')))
            (z_required ''number'' (z_literals [1, 2]) [Key ''duration_hours''] (json_field fs ''duration_hours'')))
            (z_required ''number'' (z_literals [1, 2, 3, 4]) [Key ''num_people''] (json_field fs ''num_people''))
      | _ \<Rightarrow> not_object [] v)"

section \<open>Routes\<close>

text \<open>\<open>requireBearer\<close> (lines 12 to 20).\<close>

definition bearer_token :: "string option \<Rightarrow> string" where
  "bearer_token h = (let header = get_or [] h in if starts_with header ''Bearer '' then drop 7 header else [])"

definition require_bearer :: "config \<Rightarrow> string option \<Rightarrow> bool" where
  "require_bearer cfg h \<longleftrightarrow> (let token = bearer_token h in token \<noteq> [] \<and> token = cfg_booker_token cfg)"

record request =
  rq_authorization :: "string option"
  rq_body :: json

datatype error_detail = Schema_issues "issue list" | Portal_failure failure | Error_message string

datatype response_body =
    Unauthorized
  | Slots_body "slot list"
  | Invalid_request error_detail
  | Notified notify_result
  | Notify_failed error_detail
  | Booked booking_result
  | Not_booked string
  | Booking_failed error_detail
  | Error_text string
  | Acknowledged
  | Plain_text string
  | Health_body nat

record response =
  resp_status :: nat
  resp_body :: response_body

record server =
  srv_browser :: browser
  srv_outbox :: "delivery list"

record world =
  w_portal :: portal
  w_today :: string
  w_net :: net

type_synonym handler = "server \<Rightarrow> server \<times> response"

definition respond :: "nat \<Rightarrow> response_body \<Rightarrow> response" where
  "respond st b = \<lparr>resp_status = st, resp_body = b\<rparr>"

text \<open>\<open>/check_now\<close> (lines 57 to 73): the \<open>catch\<close> answers 400 to every error.\<close>

definition check_now :: "world \<Rightarrow> process_env \<Rightarrow> json \<Rightarrow> handler" where
  "check_now W penv body s =
     (case parse_check_now body of
        Inl is \<Rightarrow> (s, respond 400 (Invalid_request (Schema_issues is)))
      | Inr prefs \<Rightarrow>
          (case checkAvailability (w_portal W) (ubc_environment penv) (w_today W) prefs (srv_browser s) of
             (b', Inr slots) \<Rightarrow> (s\<lparr>srv_browser := b'\<rparr>, respond 200 (Slots_body slots))
           | (b', Inl e) \<Rightarrow> (s\<lparr>srv_browser := b'\<rparr>, respond 400 (Invalid_request (Portal_failure e)))))"

text \<open>\<open>/notify\<close> (lines 76 to 92): the \<open>catch\<close> answers 502 to every error.\<close>

definition notify_route :: "world \<Rightarrow> config \<Rightarrow> json \<Rightarrow> handler" where
  "notify_route W cfg body s =
     (case parse_notify body of
        Inl is \<Rightarrow> (s, respond 502 (Notify_failed (Schema_issues is)))
      | Inr payload \<Rightarrow>
          (case notify (w_net W) cfg payload (srv_outbox s) of
             (out', Inr r) \<Rightarrow> (s\<lparr>srv_outbox := out'\<rparr>, respond 200 (Notified r))
           | (out', Inl m) \<Rightarrow> (s\<lparr>srv_outbox := out'\<rparr>, respond 502 (Notify_failed (Error_message m)))))"

text \<open>\<open>/book\<close> (lines 103 to 128).\<close>

definition book :: "world \<Rightarrow> process_env \<Rightarrow> json \<Rightarrow> handler" where
  "book W penv body s =
     (case parse_book body of
        Inl is \<Rightarrow> (s, respond 400 (Booking_failed (Schema_issues is)))
      | Inr req \<Rightarrow>
          (case bookSlot (w_portal W) (ubc_environment penv) req (srv_browser s) of
             (b', Inr res) \<Rightarrow>
               (s\<lparr>srv_browser := b'\<rparr>,
                if success res then respond 200 (Booked res) else respond 400 (Not_booked (message res)))
           | (b', Inl e) \<Rightarrow> (s\<lparr>srv_browser := b'\<rparr>, respond 400 (Booking_failed (Portal_failure e)))))"

datatype route = Check_now | Notify_route | Book

text \<open>
  The routes without the bearer guard (lines 23 to 31): \<open>GET /\<close> answers a fixed text,
  \<open>GET /health\<close> the time of the request (\<open>Date.now()\<close>, an argument).
\<close>

datatype get_route = Get_root | Get_health

definition get_handle :: "nat \<Rightarrow> get_route \<Rightarrow> response" where
  "get_handle now r =
     (case r of
        Get_root \<Rightarrow> respond 200 (Plain_text ''UBC Tennis Booker API is running. Try GET /health'')
      | Get_health \<Rightarrow> respond 200 (Health_body now))"

text \<open>The routes behind \<open>requireBearer\<close>.\<close>

definition handle :: "world \<Rightarrow> process_env \<Rightarrow> config \<Rightarrow> route \<Rightarrow> request \<Rightarrow> handler" where
  "handle W penv cfg r rq s =
     (if \<not> require_bearer cfg (rq_authorization rq) then (s, respond 401 Unauthorized)
      else case r of
        Check_now \<Rightarrow> check_now W penv (rq_body rq) s
      | Notify_route \<Rightarrow> notify_route W cfg (rq_body rq) s
      | Book \<Rightarrow> book W penv (rq_body rq) s)"

section \<open>Preferences as a request sends them\<close>

text \<open>
  The bounds \<open>PreferencesSchema\<close> puts on the numbers, and the JSON object a client
  sends for a preferences value (an unset field is an absent member).
\<close>

definition in_range :: "real \<Rightarrow> real \<Rightarrow> real option \<Rightarrow> bool" where
  "in_range lo hi v = (case v of None \<Rightarrow> True | Some x \<Rightarrow> lo \<le> x \<and> x \<le> hi)"

definition prefs_ok :: "preferences \<Rightarrow> bool" where
  "prefs_ok p \<longleftrightarrow>
     in_range 0 14 (days_ahead p) \<and> in_range 0 23 (start_hour p) \<and>
     in_range 1 24 (end_hour p) \<and> in_range 30 120 (min_minutes p)"

fun members :: "(string \<times> json option) list \<Rightarrow> (string \<times> json) list" where
  "members [] = []"
| "members ((k, None) # kvs) = members kvs"
| "members ((k, Some x) # kvs) = (k, x) # members kvs"

definition prefs_json :: "preferences \<Rightarrow> json" where
  "prefs_json p =
     JObj (members
       [(''days_ahead'', map_option JNum (days_ahead p)), (''start_hour'', map_option JNum (start_hour p)),
        (''end_hour'', map_option JNum (end_hour p)), (''min_minutes'', map_option JNum (min_minutes p)),
        (''indoor_only'', map_option JBool (indoor_only p)),
        (''locations'', map_option (\<lambda>ss. JArr (map JStr ss)) (locations p)),
        (''dates'', map_option (\<lambda>ss. JArr (map JStr ss)) (dates p))])"

text \<open>The JSON object a client sends for a booking request.\<close>

definition book_json :: "booking_request \<Rightarrow> json" where
  "book_json req =
     JObj [(''facility_url'', JStr (facility_url req)), (''time_24h'', JStr (req_time_24h req)),
           (''duration_hours'', JNum (real (duration_hours req))), (''num_people'', JNum (real (num_people req)))]"

section \<open>A sample server\<close>

definition example_penv :: process_env where
  "example_penv = [(''BOOKER_GPT_TOKEN'', ''0123456789abcdef''), (''UBC_USER'', ''alice''),
                   (''UBC_PASS'', ''pw''), (''SMTP_HOST'', ''smtp.example.org''),
                   (''EMAIL_FROM'', ''bot@example.org'')]"

definition example_config :: config where
  "example_config =
     \<lparr>cfg_port = ''8080'', cfg_booker_token = ''0123456789abcdef'', cfg_ubc_user = ''alice'',
      cfg_ubc_pass = ''pw'', cfg_ubc_base_url = None,
      cfg_smtp = Some \<lparr>smtp_host = ''smtp.example.org'', smtp_port = ''465'', smtp_user = None,
                       smtp_pass = None, smtp_from = Some ''bot@example.org'',
                       smtp_to = Some ''bot@example.org''\<rparr>,
      cfg_telegram = None\<rparr>"

definition example_world :: world where
  "example_world =
     \<lparr>w_portal = example_booking_portal, w_today = ''2025-01-01'',
      w_net = \<lparr>net_telegram = (\<lambda>_ _ _. Ok), net_mail = (\<lambda>_ _ _. None)\<rparr>\<rparr>"

definition example_server :: server where
  "example_server = \<lparr>srv_browser = example_closed_browser, srv_outbox = []\<rparr>"

definition example_book_body :: json where
  "example_book_body =
     JObj [(''facility_url'', JStr example_facility_url), (''time_24h'', JStr ''19:00''),
           (''duration_hours'', JNum 1), (''num_people'', JNum 2)]"

section \<open>Lemmas\<close>

lemma members_keys: "fst ` set (members kvs) \<subseteq> fst ` set kvs"
  by (induction kvs rule: members.induct) auto

lemma map_of_members_None: "k \<notin> fst ` set kvs \<Longrightarrow> map_of (rev (members kvs)) k = None"
  using members_keys [of kvs] by (auto simp: map_of_eq_None_iff)

lemma json_field_members:
  "distinct (map fst kvs) \<Longrightarrow> json_field (members kvs) k = (case map_of kvs k of Some v \<Rightarrow> v | None \<Rightarrow> None)"
  unfolding json_field_def
proof (induction kvs rule: members.induct)
  case 1 then show ?case by simp
next
  case (2 k0 kvs) then show ?case
    by (cases "k = k0") (simp_all add: map_of_members_None)
next
  case (3 k0 x kvs) then show ?case
    by (cases "k = k0") (simp_all add: map_of_append map_add_def map_of_members_None split: option.splits)
qed

lemma json_field_single [simp]: "json_field [(k, v)] k = Some v"
  by (simp add: json_field_def)

lemma zap_Inr: "zap f x = Inr b \<longleftrightarrow> (\<exists>g a. f = Inr g \<and> x = Inr a \<and> b = g a)"
  by (auto simp: zap_def split: sum.splits)

lemma z_strings_JStr: "z_strings p i (map JStr ss) = Inr ss"
  by (induction ss arbitrary: i) (simp_all add: zap_def z_string_def)

lemma z_optional_number:
  "z_optional (z_number lo hi) p (map_option JNum v) = Inr w \<longleftrightarrow> in_range lo hi v \<and> w = v"
  by (cases v) (auto simp: z_optional_def z_number_def in_range_def issue_def)

lemma z_optional_boolean: "z_optional z_boolean p (map_option JBool v) = Inr v"
  by (cases v) (simp_all add: z_optional_def z_boolean_def)

lemma z_optional_strings:
  "z_optional z_string_array p (map_option (\<lambda>ss. JArr (map JStr ss)) v) = Inr v"
  by (cases v) (simp_all add: z_optional_def z_string_array_def z_strings_JStr)

lemma require_bearer_iff:
  "require_bearer cfg h \<longleftrightarrow> h = Some (''Bearer '' @ cfg_booker_token cfg) \<and> cfg_booker_token cfg \<noteq> []"
  by (cases h) (auto simp: require_bearer_def bearer_token_def get_or_def starts_with_iff)

lemma check_now_status: "resp_status (snd (check_now W penv b s)) \<in> {200, 400}"
  by (simp add: check_now_def respond_def split: sum.splits prod.splits)

lemma notify_route_status: "resp_status (snd (notify_route W cfg b s)) \<in> {200, 502}"
  by (simp add: notify_route_def respond_def split: sum.splits prod.splits)

lemma book_status: "resp_status (snd (book W penv b s)) \<in> {200, 400}"
  by (simp add: book_def respond_def split: sum.splits prod.splits)

lemma handle_authorized:
  "require_bearer cfg (rq_authorization rq) \<Longrightarrow> resp_status (snd (handle W penv cfg r rq s)) \<noteq> 401"
  using check_now_status [of W penv "rq_body rq" s] notify_route_status [of W cfg "rq_body rq" s]
    book_status [of W penv "rq_body rq" s]
  by (cases r) (auto simp: handle_def)

lemma example_config_loaded: "load_env example_penv = Inr example_config"
  by code_simp

lemma example_book_parsed: "parse_book example_book_body = Inr example_request"
  by code_simp

section \<open>Properties of the request layer\<close>

text \<open>C31: \<open>requireBearer\<close> guards every route: a request is answered 401 exactly when its
  \<open>Authorization\<close> header is not \<open>Bearer\<close> followed by the configured token, and a
  401 leaves the server untouched (no browser launched, nothing sent).\<close>

theorem handle_requires_bearer:
  "(resp_status (snd (handle W penv cfg r rq s)) = 401 \<longleftrightarrow>
      \<not> (rq_authorization rq = Some (''Bearer '' @ cfg_booker_token cfg) \<and> cfg_booker_token cfg \<noteq> [])) \<and>
   (resp_status (snd (handle W penv cfg r rq s)) = 401 \<longrightarrow> fst (handle W penv cfg r rq s) = s)"
proof (cases "require_bearer cfg (rq_authorization rq)")
  case True
  then show ?thesis using handle_authorized [OF True] by (simp add: require_bearer_iff)
next
  case False
  then show ?thesis by (simp add: handle_def respond_def require_bearer_iff)
qed

theorem handle_requires_bearer_witness:
  "resp_status (snd (handle example_world example_penv example_config Book
      \<lparr>rq_authorization = Some ''Bearer wrong'', rq_body = example_book_body\<rparr> example_server)) = 401 \<and>
   fst (handle example_world example_penv example_config Book
      \<lparr>rq_authorization = Some ''Bearer wrong'', rq_body = example_book_body\<rparr> example_server) = example_server"
  using handle_requires_bearer [of example_world example_penv example_config Book
      "\<lparr>rq_authorization = Some ''Bearer wrong'', rq_body = example_book_body\<rparr>" example_server]
  by (simp add: example_config_def)

text \<open>\<open>/book\<close> runs \<open>bookSlot\<close>: on an authorised request with a valid body, on a
  server whose configuration loaded, the booking runs with the configured UBC credentials,
  always returns a result (the \<open>catch\<close> of the route is never reached), and the route
  answers 200 with the result exactly when the booking succeeded, else 400 with its
  message.\<close>

lemma book_refines_bookSlot:
  assumes "load_env penv = Inr cfg" "require_bearer cfg (rq_authorization rq)"
    "parse_book (rq_body rq) = Inr req"
  shows "\<exists>res. snd (bookSlot (w_portal W) \<lparr>env_base_url = cfg_ubc_base_url cfg,
                   env_user = Some (cfg_ubc_user cfg), env_pass = Some (cfg_ubc_pass cfg)\<rparr> req (srv_browser s)) =
                 Inr res \<and>
         handle W penv cfg Book rq s =
           (s\<lparr>srv_browser := fst (bookSlot (w_portal W) (ubc_environment penv) req (srv_browser s))\<rparr>,
            if success res then respond 200 (Booked res) else respond 400 (Not_booked (message res)))"
proof -
  let ?E = "\<lparr>env_base_url = cfg_ubc_base_url cfg, env_user = Some (cfg_ubc_user cfg),
             env_pass = Some (cfg_ubc_pass cfg)\<rparr>"
  have E: "ubc_environment penv = ?E" using ubc_environment_cfg [OF assms(1)] .
  obtain b2 r where "book_body (w_portal W) ?E req (srv_browser s\<lparr>br_open := True, br_page := blank_page\<rparr>) = (b2, r)"
    by (cases "book_body (w_portal W) ?E req (srv_browser s\<lparr>br_open := True, br_page := blank_page\<rparr>)")
  then have run: "bookSlot (w_portal W) ?E req (srv_browser s) =
      (b2\<lparr>br_open := False\<rparr>, Inr (case r of Inl e \<Rightarrow> booking_failure e | Inr res \<Rightarrow> res))"
    by (simp add: bookSlot_run)
  show ?thesis using assms(2,3) by (simp add: E run handle_def book_def)
qed

lemma book_refines_bookSlot_example:
  "load_env example_penv = Inr example_config \<and>
   require_bearer example_config (Some ''Bearer 0123456789abcdef'') \<and>
   parse_book example_book_body = Inr example_request \<and>
   (\<exists>res. snd (bookSlot example_booking_portal \<lparr>env_base_url = None, env_user = Some ''alice'',
                  env_pass = Some ''pw''\<rparr> example_request example_closed_browser) = Inr res \<and>
         handle example_world example_penv example_config Book
           \<lparr>rq_authorization = Some ''Bearer 0123456789abcdef'', rq_body = example_book_body\<rparr> example_server =
           (example_server\<lparr>srv_browser := fst (bookSlot example_booking_portal
               (ubc_environment example_penv) example_request example_closed_browser)\<rparr>,
            if success res then respond 200 (Booked res) else respond 400 (Not_booked (message res))))"
proof -
  have b: "require_bearer example_config (Some ''Bearer 0123456789abcdef'')"
    by (simp add: require_bearer_iff example_config_def)
  show ?thesis
    using book_refines_bookSlot [OF example_config_loaded, of
        "\<lparr>rq_authorization = Some ''Bearer 0123456789abcdef'', rq_body = example_book_body\<rparr>" example_request
        example_world example_server] example_config_loaded b example_book_parsed
    by (simp add: example_config_def example_world_def example_server_def)
qed

lemma find_eq: "find ((=) n) ns = (if n \<in> set ns then Some n else None)"
  by (induction ns) auto

lemma z_literals_nat: "z_literals ns p (JNum (real n)) = (if n \<in> set ns then Inr n else issue p Invalid_union)"
  by (simp add: z_literals_def find_eq)

lemma z_checked_JStr: "z_checked name ok p (JStr x) = (if ok x then Inr x else issue p (Invalid_string name))"
  by (simp add: z_checked_def z_string_def)

text \<open>C32: \<open>BookingRequestSchema\<close> accepts exactly the requests within its enumerations and
  parses them back unchanged: the body a client sends for a request gives that request if
  and only if its \<open>facility_url\<close> is a URL, its \<open>time_24h\<close> has the form
  \<open>HH:MM\<close>, its duration is 1 or 2 hours and its number of people 1 to 4.\<close>

theorem book_request_roundtrip:
  "parse_book (book_json req) = Inr req \<longleftrightarrow>
   is_url (facility_url req) \<and> hhmm_format (req_time_24h req) \<and>
   duration_hours req \<in> {1, 2} \<and> num_people req \<in> {1, 2, 3, 4}"
  by (cases req) (auto simp: parse_book_def book_json_def json_field_def z_required_def z_checked_JStr
      z_literals_nat zap_Inr issue_def)

theorem book_request_roundtrip_example:
  "parse_book (book_json example_request) = Inr example_request"
  by code_simp

text \<open>C34: \<open>PreferencesSchema\<close> accepts exactly the preferences within its bounds, and
  parses them back unchanged: the body \<open>{"preferences": p}\<close> of \<open>/check_now\<close> gives
  \<open>p\<close> if and only if every number of \<open>p\<close> is within the schema's range.\<close>

theorem check_now_prefs_roundtrip:
  "parse_check_now (JObj [(''preferences'', prefs_json p)]) = Inr p \<longleftrightarrow> prefs_ok p"
  by (cases p) (simp add: parse_check_now_def z_required_def prefs_json_def z_preferences_def
      json_field_members zap_Inr z_optional_number z_optional_boolean z_optional_strings prefs_ok_def)

text \<open>C39: A server that started has a bearer token of at least ten characters, and no login
  it runs fails for want of credentials: \<open>ubc.ts\<close> reads the same non-empty
  \<open>UBC_USER\<close> and \<open>UBC_PASS\<close> the configuration checked, so \<open>ensureLoggedIn\<close> never
  throws \<open>Credentials_missing\<close>, on any portal and page.\<close>

theorem started_server_credentials:
  assumes "load_env penv = Inr cfg"
  shows "10 \<le> length (cfg_booker_token cfg) \<and>
         snd (ensureLoggedIn P (ubc_environment penv) base b) \<noteq> Inl Credentials_missing"
proof -
  have u: "cfg_ubc_user cfg \<noteq> []" "cfg_ubc_pass cfg \<noteq> []" "10 \<le> length (cfg_booker_token cfg)"
    using load_env_vars [OF assms] by simp_all
  have "env_or_empty (env_user (ubc_environment penv)) \<noteq> [] \<and> env_or_empty (env_pass (ubc_environment penv)) \<noteq> []"
    using u ubc_environment_cfg [OF assms] by (simp add: env_or_empty_def)
  then show ?thesis using u(3) ensureLoggedIn_credentials_missing [of P "ubc_environment penv" base b] by blast
qed

theorem started_server_credentials_witness:
  "10 \<le> length (cfg_booker_token example_config) \<and>
   snd (ensureLoggedIn example_login_portal (ubc_environment example_penv) ''https://p.com/List?c=1''
          example_login_browser) \<noteq> Inl Credentials_missing"
  using started_server_credentials [OF example_config_loaded] by blast

section \<open>Findings\<close>

text \<open>A failure of the portal during \<open>/check_now\<close> is answered as an invalid request.\<close>

lemma check_now_portal_failure_400:
  "parse_check_now body = Inr prefs \<Longrightarrow>
   snd (checkAvailability (w_portal W) (ubc_environment penv) (w_today W) prefs (srv_browser s)) = Inl e \<Longrightarrow>
   snd (check_now W penv body s) = respond 400 (Invalid_request (Portal_failure e))"
  by (cases "checkAvailability (w_portal W) (ubc_environment penv) (w_today W) prefs (srv_browser s)")
     (simp add: check_now_def)

text \<open>A body that fails \<open>NotifyRequestSchema\<close> is answered 502, not 400.\<close>

lemma notify_invalid_body_502:
  "snd (handle example_world example_penv example_config Notify_route
      \<lparr>rq_authorization = Some ''Bearer 0123456789abcdef'', rq_body = JObj []\<rparr> example_server) =
   respond 502 (Notify_failed (Schema_issues [\<lparr>iss_path = [Key ''text''], iss_code = Invalid_type ''string'' ''undefined''\<rparr>]))"
  by code_simp

text \<open>With \<open>SMTP_HOST\<close> alone the configuration loads, with no SMTP user, password or sender.\<close>

lemma smtp_host_alone_loads:
  "load_env [(''BOOKER_GPT_TOKEN'', ''0123456789''), (''UBC_USER'', ''u''), (''UBC_PASS'', ''p''),
             (''SMTP_HOST'', ''smtp.example.org'')] =
   Inr \<lparr>cfg_port = ''8080'', cfg_booker_token = ''0123456789'', cfg_ubc_user = ''u'', cfg_ubc_pass = ''p'',
        cfg_ubc_base_url = None,
        cfg_smtp = Some \<lparr>smtp_host = ''smtp.example.org'', smtp_port = ''465'', smtp_user = None,
                         smtp_pass = None, smtp_from = None, smtp_to = None\<rparr>,
        cfg_telegram = None\<rparr>"
  by code_simp

end
