(* ===== verification/Legacy_Login.thy ===== *)
theory Legacy_Login
  imports Legacy_Scanner Auth
begin

text \<open>
  The older \<open>ensureLoggedIn\<close> of src/src/ubc.ts (lines 30 to 133; src/unnamed/part_002
  holds the same function at the same lines) on the browser of the older scanner. Its
  phases are those of the current flow in \<open>Auth\<close>: the probe for a visible \<open>Login\<close>
  button or link, the click on it, the click on the first visible \<open>CWL Login\<close>
  candidate, the wait for the two form fields, the click on submit, the wait for the
  redirect chain and the return to the court list. It differs in one point: it fills
  \<open>env.ubc.user\<close> and \<open>env.ubc.pass\<close> without checking them (the older configuration
  rejects empty ones before the server starts). Filling a field does not change what the
  model observes, so the credentials are not an argument.

  The login affordances of the older pages are described by URL, with the record
  \<open>login_ui\<close> of the current model; a URL not described shows no \<open>Login\<close>.
\<close>

section \<open>The login affordances of the older pages\<close>

record legacy_auth_ui =
  la_login_visible :: bool
  la_ui :: login_ui

type_synonym legacy_auth = "(url \<times> legacy_auth_ui) list"

definition lui_of :: "legacy_auth \<Rightarrow> url \<Rightarrow> legacy_auth_ui" where
  "lui_of A u =
     (case map_of A u of Some a \<Rightarrow> a | None \<Rightarrow> \<lparr>la_login_visible = False, la_ui = no_login_ui\<rparr>)"

definition lui_here :: "legacy_auth \<Rightarrow> login_ui lstep" where
  "lui_here A = abind lcurrent (\<lambda>pg. areturn (la_ui (lui_of A (lp_url pg))))"

section \<open>The phases\<close>

text \<open>
  A click that may open a page, in a new tab or the same one (\<open>Promise.all([
  context.waitForEvent("page").catch(() => null), el.click()])\<close>, then
  \<open>waitForLoadState\<close>): the active page becomes the page loaded, if any.
\<close>

definition lclick_to :: "legacy_portal \<Rightarrow> url option \<Rightarrow> unit lstep" where
  "lclick_to L target = (case target of None \<Rightarrow> areturn () | Some u \<Rightarrow> lgoto L u)"

text \<open>Lines 48 to 57: click \<open>Login\<close>; \<open>authPage\<close> is the new tab or the same page.\<close>

definition legacy_click_login :: "legacy_portal \<Rightarrow> legacy_auth \<Rightarrow> unit lstep" where
  "legacy_click_login L A = abind (lui_here A) (\<lambda>ui. lclick_to L (lu_login_target ui))"

text \<open>
  Lines 59 to 89: the first visible of the four candidates; click it if there is one,
  else warn and continue on the same page.
\<close>

definition legacy_click_cwl :: "legacy_portal \<Rightarrow> legacy_auth \<Rightarrow> unit lstep" where
  "legacy_click_cwl L A =
     abind (lui_here A) (\<lambda>ui.
       case first_visible (lu_cwl_candidates ui) of
         None \<Rightarrow> areturn ()
       | Some target \<Rightarrow> lclick_to L target)"

text \<open>
  Lines 91 to 109: wait for the username field, then for the password field (60 s each),
  then fill both.
\<close>

definition legacy_fill :: "legacy_auth \<Rightarrow> unit lstep" where
  "legacy_fill A =
     abind (lui_here A) (\<lambda>ui.
       if \<not> lu_username_field ui then athrow (Locator_timeout ''username'')
       else if \<not> lu_password_field ui then athrow (Locator_timeout ''password'')
       else areturn ())"

text \<open>Lines 111 to 116: click the first \<open>login|sign in|submit\<close> button.\<close>

definition legacy_submit :: "legacy_auth \<Rightarrow> unit lstep" where
  "legacy_submit A =
     abind (lui_here A) (\<lambda>ui.
       if lu_submit_button ui then areturn () else athrow (Locator_timeout ''submit''))"

text \<open>Line 119: wait (60 s) for the network to go idle after the redirect chain.\<close>

definition legacy_settle :: "legacy_portal \<Rightarrow> legacy_auth \<Rightarrow> unit lstep" where
  "legacy_settle L A =
     abind (lui_here A) (\<lambda>ui.
       case lu_after_submit ui of None \<Rightarrow> athrow Settle_timeout | Some u \<Rightarrow> lgoto L u)"

text \<open>
  Lines 121 to 132: unless the URL starts with \<open>BASE_URL.split("?")[0]\<close>, go to
  \<open>BASE_URL\<close>; return the page of the tab.
\<close>

definition legacy_return_to_list :: "legacy_portal \<Rightarrow> url \<Rightarrow> legacy_page lstep" where
  "legacy_return_to_list L base =
     abind lcurrent (\<lambda>pg.
       if starts_with (lp_url pg) (before_char CHR ''?'' base) then areturn pg
       else abind (lgoto L base) (\<lambda>_. lcurrent))"

section \<open>The flow\<close>

definition legacy_login_flow :: "legacy_portal \<Rightarrow> legacy_auth \<Rightarrow> url \<Rightarrow> legacy_page lstep" where
  "legacy_login_flow L A base =
     abind (legacy_click_login L A) (\<lambda>_.
     abind (legacy_click_cwl L A) (\<lambda>_.
     abind (legacy_fill A) (\<lambda>_.
     abind (legacy_submit A) (\<lambda>_.
     abind (legacy_settle L A) (\<lambda>_.
     legacy_return_to_list L base)))))"

text \<open>Lines 36 to 46: without a visible \<open>Login\<close> the page is returned as it is.\<close>

definition legacy_ensureLoggedIn :: "legacy_portal \<Rightarrow> legacy_auth \<Rightarrow> url \<Rightarrow> legacy_page lstep" where
  "legacy_ensureLoggedIn L A base =
     abind lcurrent (\<lambda>pg.
       if \<not> la_login_visible (lui_of A (lp_url pg)) then areturn pg
       else legacy_login_flow L A base)"

section \<open>Navigation bounds on the older browser\<close>

abbreviation lnav_bound :: "nat \<Rightarrow> 'a lstep \<Rightarrow> bool" where
  "lnav_bound \<equiv> log_bound lb_navs"

section \<open>The older browser seen by the current model\<close>

text \<open>
  An older page as a page of \<open>Portal\<close> (its URL and whether it shows \<open>Login\<close>; it
  has no court buttons or spans the login flow would read), the older portal with its
  login description as a \<open>portal\<close>, and the older browser as a \<open>browser\<close>.
  \<open>lsim A f m m'\<close>: the current action \<open>m'\<close> does on the translated browser what
  the older action \<open>m\<close> does, its result translated by \<open>f\<close>.
\<close>

definition page_of :: "legacy_auth \<Rightarrow> legacy_page \<Rightarrow> page" where
  "page_of A pg = \<lparr>pg_url = lp_url pg, pg_login_visible = la_login_visible (lui_of A (lp_url pg)),
     pg_courts = [], pg_facility_name = None, pg_spans = []\<rparr>"

definition portal_of :: "legacy_portal \<Rightarrow> legacy_auth \<Rightarrow> portal" where
  "portal_of L A = \<lparr>site = map (\<lambda>(u, pg). (u, page_of A pg)) L,
     login_uis = map (\<lambda>(u, a). (u, la_ui a)) A, booking_uis = []\<rparr>"

definition browser_of :: "legacy_auth \<Rightarrow> legacy_browser \<Rightarrow> browser" where
  "browser_of A b = \<lparr>br_open = lb_open b, br_page = page_of A (lb_page b), br_navs = lb_navs b, br_clicks = []\<rparr>"

definition lsim :: "legacy_auth \<Rightarrow> ('a \<Rightarrow> 'b) \<Rightarrow> 'a lstep \<Rightarrow> 'b step \<Rightarrow> bool" where
  "lsim A f m m' \<longleftrightarrow> (\<forall>b. m' (browser_of A b) = (case m b of (b', r) \<Rightarrow> (browser_of A b', map_sum id f r)))"

section \<open>A sample login\<close>

text \<open>
  The court list of \<open>Legacy_Scanner\<close> shows \<open>Login\<close>; it leads to a portal page
  whose second \<open>CWL\<close> candidate is visible, then to the CWL form, whose redirect chain
  ends on the court list.
\<close>

definition example_idp :: url where
  "example_idp = ''https://ubc.perfectmind.com/24063/Menu/MemberLogin''"

definition example_cwl :: url where
  "example_cwl = ''https://authentication.ubc.ca/idp/login''"

definition example_legacy_auth :: legacy_auth where
  "example_legacy_auth =
     [(DEFAULT_BASE_URL, \<lparr>la_login_visible = True, la_ui = no_login_ui\<lparr>lu_login_target := Some example_idp\<rparr>\<rparr>),
      (example_idp, \<lparr>la_login_visible = False,
         la_ui = no_login_ui\<lparr>lu_cwl_candidates := [(False, None), (True, Some example_cwl)]\<rparr>\<rparr>),
      (example_cwl, \<lparr>la_login_visible = False,
         la_ui = no_login_ui\<lparr>lu_username_field := True, lu_password_field := True,
                              lu_submit_button := True, lu_after_submit := Some DEFAULT_BASE_URL\<rparr>\<rparr>)]"

definition example_legacy_login_portal :: legacy_portal where
  "example_legacy_login_portal =
     example_legacy_portal @
     [(example_idp, legacy_blank\<lparr>lp_url := example_idp\<rparr>),
      (example_cwl, legacy_blank\<lparr>lp_url := example_cwl\<rparr>)]"

definition example_legacy_on_list :: legacy_browser where
  "example_legacy_on_list = \<lparr>lb_open = True, lb_page = example_legacy_list, lb_navs = [DEFAULT_BASE_URL]\<rparr>"

section \<open>Lemmas\<close>

lemma lnav_bound_lcurrent [intro, simp]: "lnav_bound k lcurrent"
  by (simp add: log_bound_def lcurrent_def)

lemma lnav_bound_lgoto [intro]: "1 \<le> k \<Longrightarrow> lnav_bound k (lgoto L u)"
  unfolding log_bound_def by (auto simp: lgoto_def split: option.splits)

lemma lnav_bound_lui_here [intro, simp]: "lnav_bound k (lui_here A)"
  unfolding lui_here_def by (rule log_bound_abind [where k = 0 and l = 0]) auto

lemma lnav_bound_lclick_to [intro]: "1 \<le> k \<Longrightarrow> lnav_bound k (lclick_to L t)"
  by (auto simp: lclick_to_def split: option.splits)

lemma lui_here_apply [simp]: "lui_here A b = (b, Inr (la_ui (lui_of A (lp_url (lb_page b)))))"
  by (simp add: lui_here_def abind_def lcurrent_def)

lemma lclick_to_error: "lclick_to L t b = (b', Inl e) \<Longrightarrow> \<exists>u. e = Navigation_failed u"
  by (auto simp: lclick_to_def lgoto_def split: option.splits)

lemma lgoto_Inr: "lgoto L u b = (b', Inr r) \<Longrightarrow> map_of L u = Some (lb_page b')"
  by (auto simp: lgoto_def split: option.splits)

lemma lgoto_error: "lgoto L u b = (b', Inl e) \<Longrightarrow> e = Navigation_failed u"
  by (auto simp: lgoto_def split: option.splits)

lemma lsim_abind:
  assumes "lsim A f m m'" "\<And>a. lsim A g (k a) (k' (f a))"
  shows "lsim A g (abind m k) (abind m' k')"
  unfolding lsim_def
proof
  fix b
  obtain b1 r where m: "m b = (b1, r)" by (cases "m b")
  then have m': "m' (browser_of A b) = (browser_of A b1, map_sum id f r)"
    using assms(1) unfolding lsim_def by simp
  show "abind m' k' (browser_of A b) = (case abind m k b of (b', r) \<Rightarrow> (browser_of A b', map_sum id g r))"
    using assms(2) m m' by (cases r) (simp_all add: abind_def lsim_def)
qed

lemma lsim_areturn [simp]: "c = f a \<Longrightarrow> lsim A f (areturn a) (areturn c)"
  by (simp add: lsim_def)

lemma lsim_athrow [simp]: "lsim A f (athrow e) (athrow e)"
  by (simp add: lsim_def)

lemma lsim_return_apply [simp]: "c = f a \<Longrightarrow> lsim A f (\<lambda>s. (s, Inr a)) (\<lambda>s. (s, Inr c))"
  by (simp add: lsim_def)

lemma lsim_throw_apply [simp]: "lsim A f (\<lambda>s. (s, Inl e)) (\<lambda>s. (s, Inl e))"
  by (simp add: lsim_def)

lemma ui_of_portal_of: "ui_of (portal_of L A) u = la_ui (lui_of A u)"
  by (auto simp: ui_of_def portal_of_def lui_of_def map_of_map split: option.splits)

lemma lsim_lgoto: "lsim A (f :: unit \<Rightarrow> unit) (lgoto L u) (goto (portal_of L A) u)"
  by (auto simp: lsim_def lgoto_def goto_def portal_of_def browser_of_def map_of_map split: option.splits)

lemma lsim_lclick_to: "lsim A (f :: unit \<Rightarrow> unit) (lclick_to L t) (click_to (portal_of L A) t)"
  by (cases t) (simp_all add: lclick_to_def click_to_def lsim_lgoto)

lemma browser_of_page [simp]: "br_page (browser_of A b) = page_of A (lb_page b)"
  by (simp add: browser_of_def)

lemma page_of_url [simp]: "pg_url (page_of A pg) = lp_url pg"
  by (simp add: page_of_def)

lemma lsim_here:
  assumes "\<And>ui. lsim A f (k ui) (k' ui)"
  shows "lsim A f (abind (lui_here A) k) (abind current_page (\<lambda>pg. k' (ui_of (portal_of L A) (pg_url pg))))"
  using assms by (simp add: lsim_def abind_def current_page_def ui_of_portal_of)

lemma lsim_click_login: "lsim A id (legacy_click_login L A) (click_login (portal_of L A))"
  unfolding legacy_click_login_def click_login_def by (rule lsim_here) (rule lsim_lclick_to)

lemma lsim_click_cwl: "lsim A id (legacy_click_cwl L A) (click_cwl (portal_of L A))"
  unfolding legacy_click_cwl_def click_cwl_def
  by (rule lsim_here) (auto simp: lsim_lclick_to split: option.splits)

lemma lsim_fill:
  assumes "env_or_empty (env_user E) \<noteq> []" "env_or_empty (env_pass E) \<noteq> []"
  shows "lsim A id (legacy_fill A) (fill_credentials (portal_of L A) E)"
proof -
  have c: "\<not> (env_or_empty (env_user E) = [] \<or> env_or_empty (env_pass E) = [])" using assms by simp
  show ?thesis unfolding legacy_fill_def fill_credentials_def Let_def if_not_P [OF c]
    by (rule lsim_here) auto
qed

lemma lsim_submit: "lsim A id (legacy_submit A) (submit_credentials (portal_of L A))"
  unfolding legacy_submit_def submit_credentials_def
  by (rule lsim_here) auto

lemma lsim_settle: "lsim A id (legacy_settle L A) (settle_redirects (portal_of L A))"
  unfolding legacy_settle_def settle_redirects_def
  by (rule lsim_here) (auto simp: lsim_athrow lsim_lgoto split: option.splits)

lemma lsim_return_to_list:
  "lsim A (page_of A) (legacy_return_to_list L base) (return_to_list (portal_of L A) base)"
  unfolding lsim_def
proof
  fix b
  show "return_to_list (portal_of L A) base (browser_of A b) =
    (case legacy_return_to_list L base b of (b', r) \<Rightarrow> (browser_of A b', map_sum id (page_of A) r))"
    using lsim_lgoto [where A = A and L = L and u = base and f = id] unfolding lsim_def
    by (cases "lgoto L base b")
       (auto simp: return_to_list_def legacy_return_to_list_def abind_def current_page_def lcurrent_def
             split: sum.splits)
qed

lemma lsim_lcurrent: "lsim A (page_of A) lcurrent current_page"
  by (simp add: lsim_def lcurrent_def current_page_def)

lemma lsim_login_flow:
  assumes "env_or_empty (env_user E) \<noteq> []" "env_or_empty (env_pass E) \<noteq> []"
  shows "lsim A (page_of A) (legacy_login_flow L A base) (login_flow (portal_of L A) E base)"
  unfolding legacy_login_flow_def login_flow_def await_landing_def
  by (intro lsim_abind [OF lsim_click_login] lsim_abind [OF lsim_click_cwl] lsim_abind [OF lsim_fill [OF assms]]
      lsim_abind [OF lsim_submit] lsim_abind [OF lsim_settle] lsim_return_to_list)

lemma lsim_ensureLoggedIn:
  assumes "env_or_empty (env_user E) \<noteq> []" "env_or_empty (env_pass E) \<noteq> []"
  shows "lsim A (page_of A) (legacy_ensureLoggedIn L A base) (ensureLoggedIn (portal_of L A) E base)"
  unfolding legacy_ensureLoggedIn_def ensureLoggedIn_def
  by (rule lsim_abind [OF lsim_lcurrent]) (simp add: page_of_def lsim_login_flow [OF assms])

text \<open>With the UBC credentials set, the older \<open>ensureLoggedIn\<close> of src/src/ubc.ts and
  the current one of src/unnamed/part_003 do the same on every portal as the model
  observes it: the same navigations, the same failures, and the same page returned. The
  older role-based \<open>Login\<close> probe and its \<open>CWL\<close> candidates are given the
  observations of the current locators, so the two differ only where the credentials
  are checked.\<close>

lemma legacy_ensureLoggedIn_equiv:
  assumes "env_or_empty (env_user E) \<noteq> []" "env_or_empty (env_pass E) \<noteq> []"
  shows "ensureLoggedIn (portal_of L A) E base (browser_of A b) =
    (case legacy_ensureLoggedIn L A base b of (b', r) \<Rightarrow> (browser_of A b', map_sum id (page_of A) r))"
  using lsim_ensureLoggedIn [OF assms] unfolding lsim_def by blast

lemma legacy_example_login:
  "legacy_ensureLoggedIn example_legacy_login_portal example_legacy_auth DEFAULT_BASE_URL example_legacy_on_list =
     (example_legacy_on_list\<lparr>lb_navs := [DEFAULT_BASE_URL, example_idp, example_cwl, DEFAULT_BASE_URL]\<rparr>,
      Inr example_legacy_list)"
  by code_simp

lemma legacy_ensureLoggedIn_equiv_witness:
  "env_or_empty (env_user example_env) \<noteq> [] \<and> env_or_empty (env_pass example_env) \<noteq> [] \<and>
   ensureLoggedIn (portal_of example_legacy_login_portal example_legacy_auth) example_env DEFAULT_BASE_URL
     (browser_of example_legacy_auth example_legacy_on_list) =
   (browser_of example_legacy_auth
      (example_legacy_on_list\<lparr>lb_navs := [DEFAULT_BASE_URL, example_idp, example_cwl, DEFAULT_BASE_URL]\<rparr>),
    Inr (page_of example_legacy_auth example_legacy_list))"
proof -
  have u: "env_or_empty (env_user example_env) \<noteq> []" and p: "env_or_empty (env_pass example_env) \<noteq> []"
    by (simp_all add: example_env_def env_or_empty_def)
  show ?thesis using legacy_ensureLoggedIn_equiv [OF u p, where L = example_legacy_login_portal and
      A = example_legacy_auth and base = DEFAULT_BASE_URL and b = example_legacy_on_list] u p
    by (simp add: legacy_example_login)
qed

lemma legacy_ensureLoggedIn_authenticated:
  "\<not> la_login_visible (lui_of A (lp_url (lb_page b))) \<Longrightarrow> legacy_ensureLoggedIn L A base b = (b, Inr (lb_page b))"
  by (simp add: legacy_ensureLoggedIn_def abind_def lcurrent_def)

lemma legacy_login_flow_nav_bound: "lnav_bound 4 (legacy_login_flow L A base)"
proof -
  have c: "lnav_bound 1 (legacy_click_login L A)" "lnav_bound 1 (legacy_click_cwl L A)"
    unfolding legacy_click_login_def legacy_click_cwl_def
    by (auto intro!: log_bound_abind [where k = 0 and l = 1] lnav_bound_lclick_to split: option.splits)
  have f: "lnav_bound 0 (legacy_fill A)" "lnav_bound 0 (legacy_submit A)"
    unfolding legacy_fill_def legacy_submit_def by (auto intro!: log_bound_abind [where k = 0 and l = 0])
  have s: "lnav_bound 1 (legacy_settle L A)"
    unfolding legacy_settle_def by (auto intro!: log_bound_abind [where k = 0 and l = 1] lnav_bound_lgoto split: option.splits)
  have r: "lnav_bound 1 (legacy_return_to_list L base)"
    unfolding legacy_return_to_list_def
    by (intro log_bound_abind [where k = 0 and l = 1] log_bound_if log_bound_abind [where k = 1 and l = 0]
        lnav_bound_lgoto lnav_bound_lcurrent log_bound_areturn) simp_all
  show ?thesis unfolding legacy_login_flow_def
    by (intro log_bound_abind [OF c(1) _, where l = 3] log_bound_abind [OF c(2) _, where l = 2]
        log_bound_abind [OF f(1) _, where l = 2] log_bound_abind [OF f(2) _, where l = 2]
        log_bound_abind [OF s r]) simp_all
qed

lemma legacy_ensureLoggedIn_nav_bound: "lnav_bound 4 (legacy_ensureLoggedIn L A base)"
  unfolding legacy_ensureLoggedIn_def
  by (rule log_bound_abind [where k = 0 and l = 4]) (auto intro: legacy_login_flow_nav_bound)

end
