(* ===== verification/Legacy_Server.thy ===== *)
theory Legacy_Server
  imports Api Legacy_Login
begin

text \<open>
  The older server: the configuration of src/src/config/env.ts, the second document of
  src/src/index.ts (its \<open>/check_now\<close> calls the older scanner of src/src/ubc.ts, and
  its \<open>/notify\<close> sends by Telegram or e-mail itself, reading \<open>process.env\<close>), and
  \<open>notifyAny\<close>, the second document of src/unnamed/part_000. The JSON bodies, the zod
  schemas, the outbox and the network are those of \<open>Api\<close> and \<open>Notify\<close>.

  src/src/ubc.ts reads \<open>env.ubc.baseUrl\<close>, which this configuration does not define,
  so its \<open>BASE_URL\<close> is always \<open>DEFAULT_BASE_URL\<close>.
\<close>

section \<open>The older configuration\<close>

text \<open>\<open>EnvSchema\<close> (lines 8 to 29): the messages differ from the current schema.\<close>

definition env_issues_v1 :: "process_env \<Rightarrow> env_issue list" where
  "env_issues_v1 penv =
     min_issues ''BOOKER_GPT_TOKEN'' 10 ''BOOKER_GPT_TOKEN is missing'' penv @
     min_issues ''UBC_USER'' 1 ''UBC_USER missing'' penv @
     min_issues ''UBC_PASS'' 1 ''UBC_PASS missing'' penv @
     email_issues ''EMAIL_FROM'' penv @ email_issues ''EMAIL_TO'' penv"

text \<open>
  \<open>env\<close> (lines 47 to 78): no base URL, \<open>Number(raw.SMTP_PORT ?? 465)\<close>,
  \<open>to: raw.EMAIL_TO\<close> and \<open>chatId: raw.TELEGRAM_CHAT_ID\<close>.
\<close>

definition normalise_env_v1 :: "raw_env \<Rightarrow> config" where
  "normalise_env_v1 raw =
     \<lparr>cfg_port = raw_port raw, cfg_booker_token = raw_token raw,
      cfg_ubc_user = raw_ubc_user raw, cfg_ubc_pass = raw_ubc_pass raw,
      cfg_ubc_base_url = None,
      cfg_smtp =
        (if truthy (raw_smtp_host raw)
         then Some \<lparr>smtp_host = get_or [] (raw_smtp_host raw),
                    smtp_port = get_or ''465'' (raw_smtp_port raw),
                    smtp_user = raw_smtp_user raw, smtp_pass = raw_smtp_pass raw,
                    smtp_from = raw_email_from raw, smtp_to = raw_email_to raw\<rparr>
         else None),
      cfg_telegram =
        (if truthy (raw_telegram_bot_token raw)
         then Some \<lparr>tg_bot_token = get_or [] (raw_telegram_bot_token raw),
                    tg_chat_id = raw_telegram_chat_id raw\<rparr>
         else None)\<rparr>"

definition load_env_v1 :: "process_env \<Rightarrow> env_issue list + config" where
  "load_env_v1 penv =
     (if env_issues_v1 penv \<noteq> [] then Inl (env_issues_v1 penv) else Inr (normalise_env_v1 (env_data penv)))"

section \<open>The older routes\<close>

text \<open>\<open>requireBearer\<close> (lines 91 to 99), against \<open>process.env.BOOKER_GPT_TOKEN\<close>.\<close>

definition require_bearer_env :: "process_env \<Rightarrow> string option \<Rightarrow> bool" where
  "require_bearer_env penv h \<longleftrightarrow>
     (let token = bearer_token h in token \<noteq> [] \<and> Some token = env_get penv ''BOOKER_GPT_TOKEN'')"

text \<open>\<open>sendTelegramMessage\<close> (lines 149 to 169).\<close>

definition sendTelegramMessage :: "net \<Rightarrow> process_env \<Rightarrow> string \<Rightarrow> string \<Rightarrow> unit send" where
  "sendTelegramMessage N penv text chatId =
     (let token = env_get penv ''TELEGRAM_BOT_TOKEN'' in
      if \<not> truthy token then athrow ''TELEGRAM_BOT_TOKEN is not set''
      else post (Telegram_post (get_or [] token) chatId text)
                (telegram_error (net_telegram N (get_or [] token) chatId text)))"

text \<open>The transport \<open>sendEmailMessage\<close> builds from \<open>process.env\<close> (lines 172 to 184).\<close>

definition smtp_of_env :: "process_env \<Rightarrow> smtp_config" where
  "smtp_of_env penv =
     \<lparr>smtp_host = get_or [] (env_get penv ''SMTP_HOST''),
      smtp_port = get_or ''465'' (js_or (env_get penv ''SMTP_PORT'') None),
      smtp_user = env_get penv ''SMTP_USER'', smtp_pass = env_get penv ''SMTP_PASS'',
      smtp_from = env_get penv ''EMAIL_FROM'', smtp_to = None\<rparr>"

text \<open>\<open>sendEmailMessage\<close> (lines 171 to 192).\<close>

definition sendEmailMessage :: "net \<Rightarrow> process_env \<Rightarrow> string \<Rightarrow> string \<Rightarrow> unit send" where
  "sendEmailMessage N penv to text = post (Mail (smtp_of_env penv) to text) (net_mail N (smtp_of_env penv) to text)"

definition no_recipient :: string where
  "no_recipient = ''No email recipient set. Provide notify.email or set EMAIL_TO on the server.''"

definition nothing_configured :: string where
  "nothing_configured = ''No notifier configured. Set TELEGRAM_BOT_TOKEN/TELEGRAM_CHAT_ID or SMTP_* env vars.''"

text \<open>
  The body of \<open>/notify\<close> after parsing (lines 207 to 251): Telegram when a chat id and
  a bot token are set, else e-mail when the four SMTP variables are set, else 500.
\<close>

definition notify_v2 :: "net \<Rightarrow> process_env \<Rightarrow> notify_payload \<Rightarrow> delivery list \<Rightarrow> delivery list \<times> response" where
  "notify_v2 N penv p out =
     (let nt = np_notify p; text = np_text p;
          userChatId = js_trim (get_or [] (case nt of None \<Rightarrow> None | Some t \<Rightarrow> nt_telegram_chat_id t));
          envChatId = js_trim (get_or [] (env_get penv ''TELEGRAM_CHAT_ID''));
          chatIdToUse = (if userChatId \<noteq> [] then userChatId else envChatId);
          smtpReady = truthy (env_get penv ''SMTP_HOST'') \<and> truthy (env_get penv ''SMTP_USER'') \<and>
                      truthy (env_get penv ''SMTP_PASS'') \<and> truthy (env_get penv ''EMAIL_FROM'')
      in if chatIdToUse \<noteq> [] \<and> truthy (env_get penv ''TELEGRAM_BOT_TOKEN'') then
           (case sendTelegramMessage N penv text chatIdToUse out of
              (out', Inr _) \<Rightarrow> (out', respond 200 (Notified (Via_telegram chatIdToUse)))
            | (out', Inl m) \<Rightarrow> (out', respond 502 (Notify_failed (Error_message m))))
         else if smtpReady then
           (let to = js_trim (get_or [] (js_or (case nt of None \<Rightarrow> None | Some t \<Rightarrow> nt_email t)
                                               (env_get penv ''EMAIL_TO'')))
            in if to = [] then (out, respond 400 (Error_text no_recipient))
               else (case sendEmailMessage N penv to text out of
                       (out', Inr _) \<Rightarrow> (out', respond 200 (Notified (Via_email to)))
                     | (out', Inl m) \<Rightarrow> (out', respond 502 (Notify_failed (Error_message m)))))
         else (out, respond 500 (Error_text nothing_configured)))"

record legacy_server =
  ls_browser :: legacy_browser
  ls_outbox :: "delivery list"

text \<open>The older scanner's portal, the login affordances of its pages, today's date and the
  network.\<close>

record legacy_world =
  lw_portal :: legacy_portal
  lw_auth :: legacy_auth
  lw_today :: string
  lw_net :: net

type_synonym legacy_handler = "legacy_server \<Rightarrow> legacy_server \<times> response"

text \<open>
  \<open>/check_now\<close> (lines 130 to 146): the older \<open>checkAvailability\<close> with the older
  \<open>ensureLoggedIn\<close> as its login; the page it returns is the active page.
\<close>

definition check_now_v2 :: "legacy_world \<Rightarrow> json \<Rightarrow> legacy_handler" where
  "check_now_v2 W body s =
     (case parse_check_now body of
        Inl is \<Rightarrow> (s, respond 400 (Invalid_request (Schema_issues is)))
      | Inr prefs \<Rightarrow>
          (case legacy_checkAvailability (lw_portal W)
                  (abind (legacy_ensureLoggedIn (lw_portal W) (lw_auth W) DEFAULT_BASE_URL) (\<lambda>_. areturn ()))
                  DEFAULT_BASE_URL (lw_today W) prefs
                  (ls_browser s) of
             (b', Inr slots) \<Rightarrow> (s\<lparr>ls_browser := b'\<rparr>, respond 200 (Slots_body slots))
           | (b', Inl e) \<Rightarrow> (s\<lparr>ls_browser := b'\<rparr>, respond 400 (Invalid_request (Portal_failure e)))))"

text \<open>\<open>/notify\<close> (lines 197 to 259).\<close>

definition notify_route_v2 :: "legacy_world \<Rightarrow> process_env \<Rightarrow> json \<Rightarrow> legacy_handler" where
  "notify_route_v2 W penv body s =
     (case parse_notify body of
        Inl is \<Rightarrow> (s, respond 502 (Notify_failed (Schema_issues is)))
      | Inr p \<Rightarrow> (case notify_v2 (lw_net W) penv p (ls_outbox s) of
                   (out', r) \<Rightarrow> (s\<lparr>ls_outbox := out'\<rparr>, r)))"

text \<open>The routes of the older server; it has no \<open>/book\<close>, which Express answers 404.\<close>

definition legacy_handle :: "legacy_world \<Rightarrow> process_env \<Rightarrow> route \<Rightarrow> request \<Rightarrow> legacy_handler" where
  "legacy_handle W penv r rq s =
     (case r of
        Book \<Rightarrow> (s, respond 404 (Error_text ''Cannot POST /book''))
      | _ \<Rightarrow>
          if \<not> require_bearer_env penv (rq_authorization rq) then (s, respond 401 Unauthorized)
          else if r = Check_now then check_now_v2 W (rq_body rq) s
          else notify_route_v2 W penv (rq_body rq) s)"

section \<open>\<open>notifyAny\<close>\<close>

text \<open>
  \<open>sendTelegram\<close> of src/unnamed/part_000 (lines 23 to 34): \<open>false\<close> without a token
  and a chat id; otherwise it posts and returns \<open>true\<close> without reading the answer. A
  rejected \<open>fetch\<close> becomes \<open>false\<close> by the caller's \<open>.catch\<close>.
\<close>

definition sendTelegram_any :: "net \<Rightarrow> process_env \<Rightarrow> string \<Rightarrow> bool send" where
  "sendTelegram_any N penv text =
     (let token = env_get penv ''TELEGRAM_BOT_TOKEN''; chatId = env_get penv ''TELEGRAM_CHAT_ID'' in
      if truthy token \<and> truthy chatId
      then (\<lambda>out. (out @ [Telegram_post (get_or [] token) (get_or [] chatId) text],
                    Inr (case net_telegram N (get_or [] token) (get_or [] chatId) text of
                           Rejected _ \<Rightarrow> False | _ \<Rightarrow> True)))
      else areturn False)"

text \<open>\<open>sendEmail\<close> of part_000 (lines 36 to 53), on the transport of \<open>process.env\<close>.\<close>

definition sendEmail_any :: "net \<Rightarrow> process_env \<Rightarrow> string \<Rightarrow> string \<Rightarrow> unit send" where
  "sendEmail_any N penv to text = post (Mail (smtp_of_env penv) to text) (net_mail N (smtp_of_env penv) to text)"

text \<open>\<open>notifyAny\<close> (lines 55 to 71).\<close>

definition notifyAny :: "net \<Rightarrow> process_env \<Rightarrow> string option \<Rightarrow> string \<Rightarrow> unit send" where
  "notifyAny N penv emailTo text =
     abind (sendTelegram_any N penv text) (\<lambda>teleOK.
       if teleOK then areturn ()
       else if truthy emailTo \<and> truthy (env_get penv ''SMTP_USER'') \<and> truthy (env_get penv ''SMTP_PASS'')
       then sendEmail_any N penv (get_or [] emailTo) text
       else if truthy (env_get penv ''EMAIL_TO'') \<and> truthy (env_get penv ''SMTP_USER'') \<and>
               truthy (env_get penv ''SMTP_PASS'')
       then sendEmail_any N penv (get_or [] (env_get penv ''EMAIL_TO'')) text
       else areturn ())"

section \<open>A sample environment\<close>

definition example_old_penv :: process_env where
  "example_old_penv =
     [(''BOOKER_GPT_TOKEN'', ''0123456789abcdef''), (''UBC_USER'', ''alice''), (''UBC_PASS'', ''pw''),
      (''TELEGRAM_BOT_TOKEN'', ''T0K''), (''TELEGRAM_CHAT_ID'', ''42''),
      (''SMTP_HOST'', ''smtp.example.org''), (''SMTP_USER'', ''bot''), (''SMTP_PASS'', ''pw''),
      (''EMAIL_FROM'', ''bot@example.org''), (''EMAIL_TO'', ''me@example.org'')]"

definition example_old_world :: legacy_world where
  "example_old_world =
     \<lparr>lw_portal = example_legacy_login_portal, lw_auth = example_legacy_auth, lw_today = ''2025-01-01'',
      lw_net = example_net_down\<rparr>"

definition example_old_server :: legacy_server where
  "example_old_server = \<lparr>ls_browser = example_legacy_browser, ls_outbox = []\<rparr>"

section \<open>Lemmas\<close>

lemma require_bearer_env_iff:
  "require_bearer_env penv h \<longleftrightarrow>
     (\<exists>t. t \<noteq> [] \<and> env_get penv ''BOOKER_GPT_TOKEN'' = Some t \<and> h = Some (''Bearer '' @ t))"
  by (cases h) (auto simp: require_bearer_env_def bearer_token_def get_or_def starts_with_iff)

text \<open>The older routes are guarded like the current ones, and fail closed: without a
  \<open>BOOKER_GPT_TOKEN\<close> every request to them is answered 401.\<close>

lemma legacy_handle_unauthorized:
  "r \<noteq> Book \<Longrightarrow> \<not> require_bearer_env penv (rq_authorization rq) \<Longrightarrow>
   legacy_handle W penv r rq s = (s, respond 401 Unauthorized)"
  by (cases r) (simp_all add: legacy_handle_def)

lemma legacy_handle_no_token:
  "r \<noteq> Book \<Longrightarrow> env_get penv ''BOOKER_GPT_TOKEN'' = None \<Longrightarrow>
   legacy_handle W penv r rq s = (s, respond 401 Unauthorized)"
  by (rule legacy_handle_unauthorized) (simp_all add: require_bearer_env_iff)

lemma legacy_checkAvailability_returns:
  assumes "map_of L base = Some pg" "\<And>s. lb_page s = pg \<Longrightarrow> snd (login s) = Inr ()"
  shows "\<exists>xs. snd (legacy_checkAvailability L login base d prefs b) = Inr xs \<and> xs \<noteq> []"
proof -
  let ?b1 = "b\<lparr>lb_open := True, lb_page := legacy_blank\<rparr>"
  obtain b2 where g: "lgoto L base ?b1 = (b2, Inr ())" and p: "lb_page b2 = pg"
    using assms(1) by (simp add: lgoto_def)
  obtain b3 where l: "login b2 = (b3, Inr ())" using assms(2) [OF p] by (cases "login b2") simp
  obtain b4 ys where sc: "legacy_scan L base prefs d b3 = (b4, Inr ys)"
    using legacy_scan_run by blast
  show ?thesis using g l sc
    by (auto simp: legacy_checkAvailability_def llaunch_def lclose_def afinally_def abind_def acatch_def)
qed

text \<open>
  With the older scanner behind it, \<open>/check_now\<close> answers every authorised, valid
  request with 200 and a non-empty list once the court list loads and shows no
  \<open>Login\<close> (the session is authenticated).
\<close>

lemma check_now_v2_200:
  assumes "map_of (lw_portal W) DEFAULT_BASE_URL = Some pg"
    "\<not> la_login_visible (lui_of (lw_auth W) (lp_url pg))" "parse_check_now body = Inr prefs"
  shows "\<exists>xs. snd (check_now_v2 W body s) = respond 200 (Slots_body xs) \<and> xs \<noteq> []"
proof -
  let ?login = "abind (legacy_ensureLoggedIn (lw_portal W) (lw_auth W) DEFAULT_BASE_URL) (\<lambda>_. areturn ())"
  have "snd (?login s') = Inr ()" if "lb_page s' = pg" for s'
    using legacy_ensureLoggedIn_authenticated [where A = "lw_auth W" and b = s' and L = "lw_portal W" and
        base = DEFAULT_BASE_URL] assms(2) that by (simp add: abind_def)
  then obtain xs where x: "snd (legacy_checkAvailability (lw_portal W) ?login DEFAULT_BASE_URL (lw_today W)
      prefs (ls_browser s)) = Inr xs" "xs \<noteq> []"
    using legacy_checkAvailability_returns [where L = "lw_portal W" and login = ?login and
        d = "lw_today W" and prefs = prefs and b = "ls_browser s", OF assms(1)] by blast
  then show ?thesis using assms(3)
    by (cases "legacy_checkAvailability (lw_portal W) ?login DEFAULT_BASE_URL (lw_today W) prefs
        (ls_browser s)") (auto simp: check_now_v2_def)
qed

lemma sendTelegramMessage_posts:
  "sendTelegramMessage N penv text c out = (out', r) \<Longrightarrow> \<exists>ds. out' = out @ ds \<and> length ds \<le> 1"
  by (auto simp: sendTelegramMessage_def Let_def split: if_splits)

lemma notify_v2_posts:
  "notify_v2 N penv p out = (out', r) \<Longrightarrow> \<exists>ds. out' = out @ ds \<and> length ds \<le> 1"
  unfolding notify_v2_def Let_def sendEmailMessage_def
  by (auto split: if_splits prod.splits sum.splits dest!: sendTelegramMessage_posts)

text \<open>The older configuration accepts the same environments as the current one.\<close>

lemma env_issues_v1_Nil: "env_issues_v1 penv = [] \<longleftrightarrow> env_issues penv = []"
  by (simp add: env_issues_v1_def env_issues_def min_issues_Nil)

section \<open>Findings\<close>

text \<open>
  \<open>notifyAny\<close> does not read the Telegram answer: an HTTP error counts as delivered, and
  no e-mail is sent although SMTP and \<open>EMAIL_TO\<close> are set.
\<close>

lemma notifyAny_http_error_delivered:
  "notifyAny example_net_down example_old_penv (Some ''me@example.org'') ''Court 3 free'' [] =
     ([Telegram_post ''T0K'' ''42'' ''Court 3 free''], Inr ())"
  by code_simp

text \<open>
  The sample world end to end: the court list shows \<open>Login\<close>, the older login runs
  through the portal and CWL pages back to the court list, and the scan finds the 19:00
  slot of \<open>Legacy_Scanner\<close>.
\<close>

lemma check_now_v2_example:
  "snd (legacy_handle example_old_world example_old_penv Check_now
          \<lparr>rq_authorization = Some ''Bearer 0123456789abcdef'', rq_body = JObj [(''preferences'', JObj [])]\<rparr> example_old_server) =
   respond 200 (Slots_body [\<lparr>date_iso = ''2025-01-01'', time_24h = ''19:00'', minutes = 60,
      location = ''Indoor Court 1'', deep_link = Some ''https://ubc.perfectmind.com/Fac/1''\<rparr>])"
  by code_simp

text \<open>The older \<open>/notify\<close> reports the Telegram error as 502 and does not fall back either.\<close>

lemma notify_route_v2_telegram_error:
  "snd (legacy_handle example_old_world example_old_penv Notify_route
          \<lparr>rq_authorization = Some ''Bearer 0123456789abcdef'',
           rq_body = JObj [(''text'', JStr ''Court 3 free'')]\<rparr> example_old_server) =
   respond 502 (Notify_failed (Error_message ''Telegram sendMessage failed: 500 down''))"
  by code_simp

text \<open>The older configuration does not fall back to \<open>EMAIL_FROM\<close> as the recipient.\<close>

lemma load_env_v1_no_from_fallback:
  "load_env_v1 [(''BOOKER_GPT_TOKEN'', ''0123456789''), (''UBC_USER'', ''u''), (''UBC_PASS'', ''p''),
                (''SMTP_HOST'', ''h''), (''EMAIL_FROM'', ''bot@example.org'')] =
     Inr \<lparr>cfg_port = ''8080'', cfg_booker_token = ''0123456789'', cfg_ubc_user = ''u'', cfg_ubc_pass = ''p'',
          cfg_ubc_base_url = None,
          cfg_smtp = Some \<lparr>smtp_host = ''h'', smtp_port = ''465'', smtp_user = None, smtp_pass = None,
                           smtp_from = Some ''bot@example.org'', smtp_to = None\<rparr>,
          cfg_telegram = None\<rparr> \<and>
   map_option smtp_to (cfg_smtp (projr (load_env [(''BOOKER_GPT_TOKEN'', ''0123456789''), (''UBC_USER'', ''u''),
       (''UBC_PASS'', ''p''), (''SMTP_HOST'', ''h''), (''EMAIL_FROM'', ''bot@example.org'')]))) =
     Some (Some ''bot@example.org'')"
  by code_simp

end
