(* ===== verification/Draft_Server.thy ===== *)
theory Draft_Server
  imports Legacy_Server
begin

text \<open>
  The first drafts: the first document of src/src/index.ts (lines 1 to 81), the first
  document of src/unnamed/part_000 (its \<open>sendEmail\<close>, the same code as the one of the
  second document, \<open>sendEmail_any\<close>) and the first document of src/unnamed/part_003
  (a \<open>checkAvailability\<close> that logs in and returns the placeholder slot).

  The draft server's \<open>requireBearer\<close> and \<open>PreferencesSchema\<close> are the code of the
  second document and of the current server (\<open>require_bearer_env\<close>,
  \<open>parse_check_now\<close>). Its handlers have no \<open>try\<close>: an error rejects the handler's
  promise and no response is written; what Express then does depends on its version,
  which the repository does not pin. A handler's result is therefore a response or the
  error it rejects with. The draft imports \<open>checkAvailability\<close> from whichever
  \<open>ubc.ts\<close> lies beside it, so \<open>/check_now\<close> takes it as an argument.
\<close>

section \<open>The stub \<open>checkAvailability\<close> of part_003\<close>

text \<open>
  Lines 136 to 168 of the first document: launch, go to \<open>BASE_URL\<close>, log in (the login
  is the \<open>ensureLoggedIn\<close> of that document, the code of src/src/ubc.ts), return the
  placeholder slot, and close the browser.
\<close>

definition stubbed_checkAvailability ::
  "legacy_portal \<Rightarrow> unit lstep \<Rightarrow> url \<Rightarrow> string \<Rightarrow> preferences \<Rightarrow> slot list lstep" where
  "stubbed_checkAvailability L login base todayIso prefs =
     abind llaunch (\<lambda>_.
       afinally
         (abind (lgoto L base) (\<lambda>_.
          abind login (\<lambda>_.
          areturn [placeholder_slot todayIso prefs base])))
         lclose)"

section \<open>The draft server\<close>

datatype draft_error = Portal_error failure | Mail_error string

type_synonym draft_handler = "legacy_server \<Rightarrow> legacy_server \<times> (draft_error + response)"

text \<open>
  Lines 49 to 53: \<open>notify\<close> is required here (its schema, lines 42 to 46, is the one of
  the current server), \<open>text\<close> a string, \<open>priority\<close> an optional enum.
\<close>

definition parse_notify_v0 :: "json \<Rightarrow> notify_payload parsed" where
  "parse_notify_v0 v =
     (case v of
        JObj fs \<Rightarrow>
          zap (zap (zap (Inr (\<lambda>a b c. \<lparr>np_notify = Some a, np_text = b, np_priority = c\<rparr>))
            (z_required ''object'' z_notify_target [Key ''notify''] (json_field fs ''notify'')))
            (z_required ''string'' z_string [Key ''text''] (json_field fs ''text'')))
            (z_optional z_priority [Key ''priority''] (json_field fs ''priority''))
      | _ \<Rightarrow> not_object [] v)"

text \<open>\<open>/check_now\<close> (lines 34 to 39).\<close>

definition check_now_v0 :: "(preferences \<Rightarrow> slot list lstep) \<Rightarrow> json \<Rightarrow> draft_handler" where
  "check_now_v0 ca body s =
     (case parse_check_now body of
        Inl is \<Rightarrow> (s, Inr (respond 400 (Invalid_request (Schema_issues is))))
      | Inr prefs \<Rightarrow>
          (case ca prefs (ls_browser s) of
             (b', Inr slots) \<Rightarrow> (s\<lparr>ls_browser := b'\<rparr>, Inr (respond 200 (Slots_body slots)))
           | (b', Inl e) \<Rightarrow> (s\<lparr>ls_browser := b'\<rparr>, Inl (Portal_error e))))"

text \<open>
  \<open>/notify\<close> (lines 48 to 75): mail \<open>notify.email\<close>, else \<open>EMAIL_TO\<close>, else nothing;
  answer \<open>{ ok: true }\<close> in every case that does not throw.
\<close>

definition notify_route_v0 :: "net \<Rightarrow> process_env \<Rightarrow> json \<Rightarrow> draft_handler" where
  "notify_route_v0 N penv body s =
     (case parse_notify_v0 body of
        Inl is \<Rightarrow> (s, Inr (respond 400 (Invalid_request (Schema_issues is))))
      | Inr p \<Rightarrow>
          (let email = (case np_notify p of Some nt \<Rightarrow> nt_email nt | None \<Rightarrow> None);
               send = (if truthy email then sendEmail_any N penv (get_or [] email) (np_text p)
                       else if truthy (env_get penv ''EMAIL_TO'')
                       then sendEmail_any N penv (get_or [] (env_get penv ''EMAIL_TO'')) (np_text p)
                       else areturn ()) in
           case send (ls_outbox s) of
             (out', Inr ()) \<Rightarrow> (s\<lparr>ls_outbox := out'\<rparr>, Inr (respond 200 Acknowledged))
           | (out', Inl m) \<Rightarrow> (s\<lparr>ls_outbox := out'\<rparr>, Inl (Mail_error m))))"

text \<open>The routes of the draft, behind \<open>requireBearer\<close> (lines 11 to 18); there is no \<open>/book\<close>.\<close>

definition draft_handle ::
  "(preferences \<Rightarrow> slot list lstep) \<Rightarrow> net \<Rightarrow> process_env \<Rightarrow> route \<Rightarrow> request \<Rightarrow> draft_handler" where
  "draft_handle ca N penv r rq s =
     (case r of
        Book \<Rightarrow> (s, Inr (respond 404 (Error_text ''Cannot POST /book'')))
      | _ \<Rightarrow>
          if \<not> require_bearer_env penv (rq_authorization rq) then (s, Inr (respond 401 Unauthorized))
          else if r = Check_now then check_now_v0 ca (rq_body rq) s
          else notify_route_v0 N penv (rq_body rq) s)"

section \<open>Samples\<close>

definition example_draft_ca :: "preferences \<Rightarrow> slot list lstep" where
  "example_draft_ca prefs =
     stubbed_checkAvailability example_legacy_login_portal
       (abind (legacy_ensureLoggedIn example_legacy_login_portal example_legacy_auth DEFAULT_BASE_URL)
              (\<lambda>_. areturn ()))
       DEFAULT_BASE_URL ''2025-01-01'' prefs"

definition example_draft_request :: "json \<Rightarrow> request" where
  "example_draft_request body = \<lparr>rq_authorization = Some ''Bearer 0123456789abcdef'', rq_body = body\<rparr>"

section \<open>Lemmas\<close>

lemma draft_handle_unauthorized:
  "r \<noteq> Book \<Longrightarrow> \<not> require_bearer_env penv (rq_authorization rq) \<Longrightarrow>
   draft_handle ca N penv r rq s = (s, Inr (respond 401 Unauthorized))"
  by (cases r) (simp_all add: draft_handle_def)

text \<open>
  The stub returns the placeholder once the court list loads and the login returns, and
  it closes the browser.
\<close>

lemma stubbed_checkAvailability_returns:
  assumes "map_of L base = Some pg" "\<And>s. lb_page s = pg \<Longrightarrow> snd (login s) = Inr ()"
  shows "\<exists>b'. stubbed_checkAvailability L login base d prefs b = (b', Inr [placeholder_slot d prefs base]) \<and>
    \<not> lb_open b'"
proof -
  let ?b1 = "b\<lparr>lb_open := True, lb_page := legacy_blank\<rparr>"
  obtain b2 where g: "lgoto L base ?b1 = (b2, Inr ())" and p: "lb_page b2 = pg"
    using assms(1) by (simp add: lgoto_def)
  obtain b3 where l: "login b2 = (b3, Inr ())" using assms(2) [OF p] by (cases "login b2") simp
  show ?thesis using g l
    by (auto simp: stubbed_checkAvailability_def llaunch_def lclose_def afinally_def abind_def)
qed

text \<open>
  The draft \<open>/notify\<close> answers \<open>{ ok: true }\<close> without sending anything when the body
  has no e-mail and \<open>EMAIL_TO\<close> is unset.
\<close>

lemma notify_route_v0_silent:
  "draft_handle example_draft_ca example_net_down [(''BOOKER_GPT_TOKEN'', ''0123456789abcdef'')] Notify_route
     (example_draft_request (JObj [(''notify'', JObj []), (''text'', JStr ''Court 3 free'')])) example_old_server =
   (example_old_server, Inr (respond 200 Acknowledged))"
  by code_simp

text \<open>A failed navigation to the court list rejects the draft \<open>/check_now\<close>: no response.\<close>

lemma check_now_v0_rejects:
  "snd (draft_handle (\<lambda>prefs. stubbed_checkAvailability [] (areturn ()) DEFAULT_BASE_URL ''2025-01-01'' prefs)
          example_net_down [(''BOOKER_GPT_TOKEN'', ''0123456789abcdef'')] Check_now
          (example_draft_request (JObj [(''preferences'', JObj [])])) example_old_server) =
   Inl (Portal_error (Navigation_failed DEFAULT_BASE_URL))"
  by code_simp

text \<open>With the older login on the sample portal, the draft \<open>/check_now\<close> answers the placeholder.\<close>

lemma check_now_v0_example:
  "snd (draft_handle example_draft_ca example_net_down [(''BOOKER_GPT_TOKEN'', ''0123456789abcdef'')] Check_now
          (example_draft_request (JObj [(''preferences'', JObj [])])) example_old_server) =
   Inr (respond 200 (Slots_body [placeholder_slot ''2025-01-01'' no_preferences DEFAULT_BASE_URL]))"
  by code_simp

end
