(* ===== verification/Region_Check.thy ===== *)
theory Region_Check
  imports Prelude
begin

text \<open>
  src/unnamed/part_006: \<open>checkRegion\<close>, a fragment of an AWS SDK endpoint module that the
  booker never calls. It keeps a module-level set \<open>validRegions\<close> of the regions it has
  accepted; a region not in the set must pass \<open>check\<close> (by default the library's
  \<open>isValidHostLabel\<close>, here an argument) and is then added. The set is the state: a call
  returns the new set or the message it throws. \<open>cache_reach\<close> is the set of states that
  calls with checks from a given set reach from the empty set.
\<close>

section \<open>The operation\<close>

definition region_error :: "string \<Rightarrow> string" where
  "region_error region =
     ''Region not accepted: region='' @ [CHR 0x22] @ region @ [CHR 0x22] @
     '' is not a valid hostname component.''"

definition checkRegion :: "(string \<Rightarrow> bool) \<Rightarrow> string \<Rightarrow> string set \<Rightarrow> string + string set" where
  "checkRegion check region validRegions =
     (if region \<notin> validRegions \<and> \<not> check region then Inl (region_error region)
      else Inr (insert region validRegions))"

text \<open>The module states reachable by calls whose \<open>check\<close> is one of \<open>checks\<close>.\<close>

inductive cache_reach :: "(string \<Rightarrow> bool) set \<Rightarrow> string set \<Rightarrow> bool" for checks where
  start: "cache_reach checks {}"
| call: "cache_reach checks S \<Longrightarrow> check \<in> checks \<Longrightarrow> checkRegion check r S = Inr S' \<Longrightarrow> cache_reach checks S'"

section \<open>Lemmas\<close>

lemma checkRegion_Inr_iff:
  "checkRegion check r S = Inr S' \<longleftrightarrow> (r \<in> S \<or> check r) \<and> S' = insert r S"
  by (auto simp: checkRegion_def)

lemma checkRegion_Inl_iff:
  "checkRegion check r S = Inl m \<longleftrightarrow> r \<notin> S \<and> \<not> check r \<and> m = region_error r"
  by (auto simp: checkRegion_def)

text \<open>A region once accepted is accepted by every later call, whatever its \<open>check\<close>.\<close>

lemma checkRegion_cached: "r \<in> S \<Longrightarrow> checkRegion check r S = Inr S"
  by (simp add: checkRegion_def insert_absorb)

lemma cache_reach_finite: "cache_reach checks S \<Longrightarrow> finite S"
  by (induction rule: cache_reach.induct) (auto simp: checkRegion_Inr_iff)

text \<open>With the default check alone, the cache holds only regions that pass it.\<close>

lemma cache_reach_single: "cache_reach {check} S \<Longrightarrow> \<forall>r\<in>S. check r"
  by (induction rule: cache_reach.induct) (auto simp: checkRegion_Inr_iff)



text \<open>
  The cache is not keyed by the check: a region a permissive check accepted passes a call
  whose check rejects it.
\<close>

lemma checkRegion_check_bypassed:
  "checkRegion (\<lambda>_. True) ''not a label'' {} = Inr {''not a label''} \<and>
   checkRegion (\<lambda>_. False) ''not a label'' {''not a label''} = Inr {''not a label''} \<and>
   checkRegion (\<lambda>_. False) ''not a label'' {} = Inl (region_error ''not a label'')"
  by (simp add: checkRegion_def)

end
