(* ===== verification/Server_Trace.thy ===== *)
theory Server_Trace
  imports Api
begin

text \<open>
  The current server (src/unnamed/part_001) across a sequence of requests. Each request
  runs one handler of \<open>Api\<close> on the server state: \<open>/check_now\<close> launches and closes a
  browser (\<open>checkAvailability\<close>), \<open>/book\<close> does too (\<open>bookSlot\<close>), and \<open>/notify\<close>
  posts at most one delivery (\<open>notify\<close>). \<open>server_reach W penv cfg rs s\<close> holds when
  the requests whose routes are \<open>rs\<close>, served in this order from the initial state, can
  leave the server in state \<open>s\<close>; the invariant below holds in every such state.
\<close>

section \<open>Runs of the server\<close>

definition initial_server :: server where
  "initial_server =
     \<lparr>srv_browser = \<lparr>br_open = False, br_page = blank_page, br_navs = [], br_clicks = []\<rparr>,
      srv_outbox = []\<rparr>"

inductive server_reach :: "world \<Rightarrow> process_env \<Rightarrow> config \<Rightarrow> route list \<Rightarrow> server \<Rightarrow> bool"
  for W penv cfg where
  start: "server_reach W penv cfg [] initial_server"
| serve: "server_reach W penv cfg rs s \<Longrightarrow> handle W penv cfg r rq s = (s', resp) \<Longrightarrow>
          server_reach W penv cfg (rs @ [r]) s'"

text \<open>
  Between requests no browser is open, the outbox holds at most one delivery per
  \<open>/notify\<close> request, \<open>Place My Order\<close> was clicked at most once per \<open>/book\<close>
  request, and the portal was loaded at most 35 times per \<open>/check_now\<close> and 14 times
  per \<open>/book\<close> request.
\<close>

definition server_inv :: "route list \<Rightarrow> server \<Rightarrow> bool" where
  "server_inv rs s \<longleftrightarrow>
     \<not> br_open (srv_browser s) \<and>
     length (srv_outbox s) \<le> count_list rs Notify_route \<and>
     count_list (br_clicks (srv_browser s)) ''Place My Order'' \<le> count_list rs Book \<and>
     length (br_navs (srv_browser s)) \<le>
       (1 + 4 + 3 * max_courts) * count_list rs Check_now + 14 * count_list rs Book"

definition example_book_rq :: request where
  "example_book_rq = \<lparr>rq_authorization = Some ''Bearer 0123456789abcdef'', rq_body = example_book_body\<rparr>"

section \<open>Lemmas\<close>

text \<open>What one request does to the state, route by route.\<close>

definition step_ok :: "route \<Rightarrow> server \<Rightarrow> server \<Rightarrow> bool" where
  "step_ok r s s' \<longleftrightarrow>
     (\<not> br_open (srv_browser s) \<longrightarrow> \<not> br_open (srv_browser s')) \<and>
     (\<exists>ds. srv_outbox s' = srv_outbox s @ ds \<and> length ds \<le> (if r = Notify_route then 1 else 0)) \<and>
     (\<exists>cs. br_clicks (srv_browser s') = br_clicks (srv_browser s) @ cs \<and>
           count_list cs ''Place My Order'' \<le> (if r = Book then 1 else 0)) \<and>
     (\<exists>ns. br_navs (srv_browser s') = br_navs (srv_browser s) @ ns \<and>
           length ns \<le> (if r = Check_now then 1 + 4 + 3 * max_courts else if r = Book then 14 else 0))"

lemma step_ok_same [simp]: "step_ok r s s"
  by (auto simp: step_ok_def)

lemma check_now_step: "step_ok Check_now s (fst (check_now W penv body s))"
proof (cases "parse_check_now body")
  case (Inr prefs)
  let ?r = "checkAvailability (w_portal W) (ubc_environment penv) (w_today W) prefs (srv_browser s)"
  have "\<not> br_open (fst ?r)" by (simp add: checkAvailability_run split: prod.splits)
  moreover have "br_clicks (fst ?r) = br_clicks (srv_browser s)" by (rule checkAvailability_clicks)
  moreover have "\<exists>ns. br_navs (fst ?r) = br_navs (srv_browser s) @ ns \<and> length ns \<le> 1 + 4 + 3 * max_courts"
    using availability_body_nav_bound [of "w_portal W" "ubc_environment penv" "w_today W" prefs]
    unfolding log_bound_def
    by (auto simp: checkAvailability_run split: prod.splits dest: spec [of _ "srv_browser s\<lparr>br_open := True, br_page := blank_page\<rparr>"])
  ultimately show ?thesis using Inr
    by (cases ?r) (auto simp: step_ok_def check_now_def split: sum.splits)
qed (simp add: check_now_def)

lemma notify_out: "\<exists>ds. fst (notify N cfg p out) = out @ ds \<and> length ds \<le> 1"
proof (cases "telegram_chat cfg (np_notify p)")
  case (Some c)
  then show ?thesis by (rule notify_telegram [where N = N and out = out]) auto
next
  case None
  show ?thesis
  proof (cases "email_to cfg (np_notify p)")
    case (Some to)
    with None show ?thesis by (rule notify_email [where N = N and out = out]) auto
  next
    case None2: None
    with None show ?thesis by (simp add: notify_none)
  qed
qed

lemma notify_route_step: "step_ok Notify_route s (fst (notify_route W cfg body s))"
proof (cases "parse_notify body")
  case (Inr p)
  obtain ds where "fst (notify (w_net W) cfg p (srv_outbox s)) = srv_outbox s @ ds" "length ds \<le> 1"
    using notify_out by blast
  with Inr show ?thesis
    by (cases "notify (w_net W) cfg p (srv_outbox s)") (auto simp: step_ok_def notify_route_def split: sum.splits)
qed (simp add: notify_route_def)

lemma book_step: "step_ok Book s (fst (book W penv body s))"
proof (cases "parse_book body")
  case (Inr req)
  let ?b = "srv_browser s"
  obtain cs where cs: "br_clicks (fst (bookSlot (w_portal W) (ubc_environment penv) req ?b)) = br_clicks ?b @ cs"
      "count_list cs ''Place My Order'' \<le> 1"
    using orders_at_mostD [OF book_body_orders, of "w_portal W" "ubc_environment penv" req
        "?b\<lparr>br_open := True, br_page := blank_page\<rparr>"]
    by (simp add: bookSlot_clicks) (metis prod.collapse)
  have closed: "\<not> br_open (fst (bookSlot (w_portal W) (ubc_environment penv) req ?b))"
    by (simp add: bookSlot_run split: prod.splits)
  obtain ns where "br_navs (fst (bookSlot (w_portal W) (ubc_environment penv) req ?b)) = br_navs ?b @ ns"
      "length ns \<le> 14"
    using bookSlot_nav_bound [of "w_portal W" "ubc_environment penv" req] unfolding log_bound_def by blast
  then show ?thesis using Inr cs closed
    by (cases "bookSlot (w_portal W) (ubc_environment penv) req ?b")
       (auto simp: step_ok_def book_def split: sum.splits)
qed (simp add: book_def)

lemma handle_step: "handle W penv cfg r rq s = (s', resp) \<Longrightarrow> step_ok r s s'"
  using check_now_step [of s W penv "rq_body rq"] notify_route_step [of s W cfg "rq_body rq"]
    book_step [of s W penv "rq_body rq"]
  by (cases r) (auto simp: handle_def split: if_splits)

lemma step_ok_inv: "server_inv rs s \<Longrightarrow> step_ok r s s' \<Longrightarrow> server_inv (rs @ [r]) s'"
  by (cases r) (auto simp: server_inv_def step_ok_def)

text \<open>C19: Across every sequence of requests the current server serves, no browser is
  left open between requests, the outbox holds at most one delivery per \<open>/notify\<close>
  request, \<open>Place My Order\<close> has been clicked at most once per \<open>/book\<close>
  request, and each \<open>/check_now\<close> loads at most 35 pages and each \<open>/book\<close> at most 14:
  \<open>checkAvailability\<close>, \<open>bookSlot\<close> and \<open>notify\<close> composed by the request handler.\<close>

theorem server_reach_inv: "server_reach W penv cfg rs s \<Longrightarrow> server_inv rs s"
proof (induction rule: server_reach.induct)
  case start
  then show ?case by (simp add: server_inv_def initial_server_def)
next
  case (serve rs s r rq s' resp)
  then show ?case by (blast intro: step_ok_inv handle_step)
qed


theorem server_reach_inv_witness:
  "server_reach example_world example_penv example_config [Book]
     (fst (handle example_world example_penv example_config Book example_book_rq initial_server)) \<and>
   server_inv [Book] (fst (handle example_world example_penv example_config Book example_book_rq initial_server))"
proof -
  have r: "server_reach example_world example_penv example_config [Book]
      (fst (handle example_world example_penv example_config Book example_book_rq initial_server))"
    using server_reach.serve [OF server_reach.start, of example_world example_penv example_config Book
        example_book_rq] by (metis append_Nil prod.collapse)
  show ?thesis using server_reach_inv [OF r] r by simp
qed

text \<open>On the sample portal the bound is reached: the booking clicks \<open>Place My Order\<close> once.\<close>

lemma server_example_orders:
  "count_list (br_clicks (srv_browser (fst (handle example_world example_penv example_config Book
     example_book_rq initial_server)))) ''Place My Order'' = 1"
  by code_simp

end
