(* ===== verification/Spec2Isabelle.thy ===== *)
theory Spec2Isabelle
  imports Early_Scanner Draft_Server Region_Check Server_Trace
begin

text \<open>
  \<^bold>\<open>A verification library for facility_booker.\<close>

  The program (TypeScript, src/) drives a headless browser against a third-party
  reservation portal: \<open>checkAvailability\<close> logs in and scans the courts' schedules for
  bookable slots, \<open>bookSlot\<close> walks the five-step reservation UI, an Express layer
  authenticates and validates the requests, and a notifier forwards messages. The
  current \<open>ubc.ts\<close> (with \<open>bookSlot\<close>) is the second document of
  src/unnamed/part_003; src/src/ubc.ts is the older scanner the spec also describes.

  \<^bold>\<open>The portal and the browser.\<close> The code only reads the portal through
  Playwright locators. The model replaces the live site by a value of the record
  \<open>portal\<close> (theory \<open>Portal\<close>): an association list from URL to \<open>page\<close> (the
  elements the scanner reads: headings, court cards, \<open>Book Now\<close> spans with their
  title, class and style, the login button), one from URL to \<open>login_ui\<close> (the
  elements \<open>ensureLoggedIn\<close> reads) and one from URL to \<open>booking_ui\<close> (the
  elements \<open>bookSlot\<close> reads after a click, and the \<open>outcome\<close> of each click:
  stays, loads a URL, or hangs). The browser is the record \<open>browser\<close>: open or
  closed, the current page, the log of navigations and the log of clicks. Every
  asynchronous function of the code is a state-and-exception action
  \<open>browser \<Rightarrow> browser \<times> (failure + 'a)\<close> (\<open>Prelude.act\<close>): \<open>await\<close> is
  \<open>abind\<close>, \<open>throw\<close> is \<open>athrow\<close>, \<open>try/catch\<close> is \<open>acatch\<close>,
  \<open>finally\<close> is \<open>afinally\<close>, an early \<open>return\<close> of a step is
  \<open>Booking.or_return\<close>. Timeouts of \<open>waitFor\<close> and \<open>goto\<close> are the failure
  values of the portal (\<open>Hangs\<close>, a URL with no page).

  \<^bold>\<open>Theories.\<close>
  \<^item> \<open>Prelude\<close>: the JavaScript string and number primitives the code calls
    (\<open>trim\<close>, \<open>startsWith\<close>, \<open>includes\<close>, \<open>padStart\<close>, \<open>parseInt\<close>,
    \<open>toString\<close>), the bind of \<open>'e + 'a\<close>, the actions and their frame
    predicates \<open>keeps\<close> (an action preserves a predicate of the state) and
    \<open>yields\<close> (every normal result satisfies a predicate), and \<open>log_bound\<close> (an action
    appends at most n entries to a log of its state), with their composition lemmas.
  \<^item> \<open>Clock\<close>: \<open>to24h\<close>, \<open>durationMinutes\<close>, the 12-hour label of
    \<open>bookSlot\<close>, the title-range regular expression, \<open>parseTimeFromText\<close>.
    Lemmas: the 12-hour to 24-hour conversion on every clock label (C20), both round trips
    with the 12-hour label (C21, C22), the agreement of string order on \<open>HH:MM\<close>
    with time order, the duration of an interval, that the groups of a title's range are
    substrings of the title, and a finding (out-of-range hours).
  \<^item> \<open>Portal\<close>: the records above, \<open>goto\<close> and \<open>current_page\<close>
    (\<open>page.goto\<close>, \<open>page.url()\<close>), URL resolution, and the invariant
    \<open>nav_bound\<close>, \<open>log_bound\<close> on the navigation log.
  \<^item> \<open>Scheduler\<close>: \<open>extractSlotsFromScheduler\<close> as the verdict of one span
    (\<open>span_verdict\<close>) folded over the spans (\<open>extract_loop\<close>). Lemmas: every
    slot passes the preferences and comes from a visible, available span, with that span's
    own date (C1); conversely every acceptable span yields its slot, spec scenario B being
    an instance (C2); the extraction under preferences is the unfiltered one filtered
    (C3) and is monotone in the preferences (C4); an overnight range is kept with a
    negative duration (C5, a finding).
  \<^item> \<open>Scanner\<close>: \<open>scanCourtsAndSlots\<close> as \<open>scan_court\<close> over at most
    \<open>max_courts\<close> = 10 court cards (the loop bound of the code, so the recursion is
    structural on the card list cut at ten). Lemmas: at most three navigations per
    court, every slot labelled and linked (C6), the exact result on a stable portal (C7),
    and, on every portal, the loss of the slots already found when the return to the
    court list fails (C8, a finding).
  \<^item> \<open>Auth\<close>: \<open>ensureLoggedIn\<close> and its login flow (Login click, CWL button,
    credentials, submit, redirects, return to the list). The spec's authentication
    state machine (section 4.2) is the inductive relation \<open>auth_spec\<close> on a spec
    state and the active page, its transitions stated over the portal's pages, login
    affordances and the credentials, independently of the code's phases (executable by
    \<open>code_pred\<close>); \<open>ensureLoggedIn_refines\<close> (C15) shows every run is a path of it,
    from one simulation lemma per phase. Lemmas: the machine is deterministic,
    idempotence on a logged-in page (C16), the landing page (C17), the need for
    credentials (C18), and the finding that a logged-out page can be returned.
  \<^item> \<open>Availability\<close>: \<open>checkAvailability\<close> (launch, ensureLoggedIn, scan,
    sort, placeholder slot, \<open>finally\<close> close). Lemmas: the browser is always
    closed; on a logged-in portal with a stable court list the result is exactly the
    extracted slots of the first ten courts sorted by \<open>(date_iso, time_24h)\<close>, or
    the placeholder when there are none (C10); every result is non-empty and sorted (C11);
    the placeholder on an empty court list (C12); the navigation bound (C13); and, on
    every portal, the propagation of a scan error (C14, a finding). The sort is a
    permutation (\<open>Multiset\<close>).
  \<^item> \<open>Booking\<close>: \<open>bookSlot\<close> as \<open>open_facility\<close>, \<open>select_slot\<close>
    (step 1), \<open>reserve_step\<close> with \<open>reauth\<close> and \<open>retry_reserve\<close> (step 2),
    \<open>attendee_step\<close> with \<open>you_loop\<close> and \<open>fallback_loop\<close> (step 3),
    \<open>payment_step\<close> (steps 4 and 5) and \<open>classify\<close> (the result page), in the
    \<open>try\<close> block \<open>book_body\<close> and its \<open>catch\<close> \<open>booking_failure\<close>; the
    \<open>returnUrl\<close> decoding (\<open>query_param\<close>, \<open>pct_decode\<close>); and a sample
    portal on which the whole pipeline runs by \<open>code_simp\<close>.
  \<^item> \<open>Booking_Trace\<close>: a Hoare-style logic of click traces (\<open>clicks_within\<close>,
    \<open>orders_at_most\<close>, \<open>early_fail\<close>, \<open>result_shape\<close>) with one rule per
    combinator and one lemma per step, and the direct run of each step on a portal where it
    goes through. Lemmas: \<open>bookSlot\<close> never returns a partially filled result (C23),
    clicks \<open>Place My Order\<close> at most once (C24), a success clicked the steps in order
    (C25), spec scenario C with no click (C26) and scenario D on every portal where the
    steps go through (C27); three findings stated over every portal: a request for 1:mm or
    13:mm selects a marker starting at 11:mm (C28), a disabled \<open>(You)\<close> row is not
    replaced by the fallback attendee (C29), and a failure is reported after the order was
    placed (C30); a booking loads at most 14 pages (six to open the facility with the
    login, six in step 2, one each after \<open>Next\<close> and \<open>Place My Order\<close>); and the
    agreement of the scanner and the pipeline: a request built from an extracted slot
    finds its marker at step 1 (C9); and \<open>reauth\<close>: a re-authentication that
    succeeds with a non-empty \<open>returnUrl\<close> ends on the attendee page or on the decoded
    \<open>returnUrl\<close>, its last navigation (C38).

  \<^item> \<open>Config\<close>: the server's configuration (src/unnamed/part_004, the current
    env.ts): the zod schema over \<open>process.env\<close> (\<open>env_issues\<close>, with zod 3's
    e-mail pattern as \<open>is_email\<close>), the exit on issues (\<open>load_env\<close>) and the
    normalised \<open>env\<close> object (\<open>normalise_env\<close>); \<open>ubc_environment\<close> is what
    \<open>ubc.ts\<close> reads of \<open>process.env\<close> itself. Lemmas: a started server has a token
    of at least ten characters and non-empty UBC credentials, so that its login never fails
    for missing credentials (C39, stated in \<open>Api\<close>), and \<open>ubc.ts\<close> sees the
    same credentials as the configuration.
  \<^item> \<open>Notify\<close>: src/src/notify.ts, \<open>sendTelegram\<close>, \<open>sendEmail\<close> and
    \<open>notify\<close> as actions over an outbox of posts, the network's answers being
    parameters (\<open>net\<close>). Lemmas: the three paths of \<open>notify\<close>, a blank chat id
    falls back to the configured one, \<open>notify\<close> posts at most once and to the channel it
    reports (C33), and a failed Telegram post is not retried by e-mail (a finding).
  \<^item> \<open>Api\<close>: the current src/index.ts (src/unnamed/part_001): JSON bodies
    (\<open>json\<close>), the zod schemas as functions to issues or values (\<open>zap\<close> collects
    the issues of an object's fields), \<open>requireBearer\<close>, and the handlers
    \<open>check_now\<close>, \<open>notify_route\<close>, \<open>book\<close> over a server state (the browser and
    the outbox) dispatched by \<open>handle\<close>, and the unguarded \<open>GET /\<close> and
    \<open>/health\<close> (\<open>get_handle\<close>). Lemmas: the bearer guard and that a 401 changes
    nothing (C31), \<open>/book\<close> runs \<open>bookSlot\<close> with the configured credentials, the
    round trips of the booking-request schema (C32) and of the preferences schema (C34),
    and findings on status codes and configuration.

  \<^item> \<open>Legacy_Scanner\<close>: the older scanner of src/src/ubc.ts over its own page
    model (\<open>Choose\<close> buttons, schedule tables and their rows): \<open>inferCourtName\<close>,
    \<open>row_slot\<close> and \<open>scanSingleCourtPage\<close>, the court loop \<open>legacy_loop\<close> that
    catches each court's errors and stops when the court list does not reload, and
    \<open>legacy_checkAvailability\<close> with the login as a parameter (the properties hold for
    every login action). Lemmas: the loop always returns, after at most twenty
    navigations, with slots that come from table rows (C35); once the court list loads and
    the login returns, the result is never empty (C36) (the placeholder replaces an empty or failed
    scan, as the spec's propagation policy asks and the current code does not).
  \<^item> \<open>Early_Scanner\<close>: the earliest scanner, the first document of
    src/unnamed/part_002, over its own page model: \<open>getDesiredMinutes\<close>, the duration
    radio \<open>set_duration\<close>, the players select \<open>set_players\<close> with its
    \<open>selectOption\<close> fallback, the time-button match \<open>find_time_opt\<close> and
    \<open>label_slot\<close>, the court loop \<open>early_loop\<close> (no \<open>try\<close>) and
    \<open>early_checkAvailability\<close> with the login as a parameter; the stub of the second
    document. Lemmas: the duration and players steps never throw, a slot's hour lies in
    the preference window, at most two navigations per court and \<open>21 + l\<close> in all
    for a login of at most \<open>l\<close>, a non-empty result once the court list loads and
    the login returns, and findings on what it takes as a slot and what one failing court
    discards.
  \<^item> \<open>Legacy_Login\<close>: the older \<open>ensureLoggedIn\<close> of src/src/ubc.ts on the older
    browser, phase by phase as in \<open>Auth\<close> (\<open>legacy_click_login\<close>,
    \<open>legacy_click_cwl\<close>, \<open>legacy_fill\<close>, \<open>legacy_submit\<close>, \<open>legacy_settle\<close>,
    \<open>legacy_return_to_list\<close>), with the login affordances of the older pages described
    by URL. Lemmas: an authenticated session returns at once, at most four navigations,
    and, through a translation of the older portal and browser into the current ones
    (\<open>portal_of\<close>, \<open>browser_of\<close>) and a simulation \<open>lsim\<close> proved phase by phase,
    that with credentials set it does what the current \<open>ensureLoggedIn\<close> does as the
    model observes the pages: the older role-based \<open>Login\<close> probe and its \<open>CWL\<close>
    candidates are given the observations of the current locators.
  \<^item> \<open>Legacy_Server\<close>: the older configuration (src/src/config/env.ts:
    \<open>env_issues_v1\<close>, \<open>normalise_env_v1\<close>, \<open>load_env_v1\<close>), the second document of
    src/src/index.ts (\<open>require_bearer_env\<close> against \<open>process.env\<close>,
    \<open>sendTelegramMessage\<close>, \<open>sendEmailMessage\<close>, the \<open>/notify\<close> body
    \<open>notify_v2\<close>, the handlers \<open>check_now_v2\<close> and \<open>notify_route_v2\<close> dispatched by
    \<open>legacy_handle\<close>, where \<open>/book\<close> does not exist; \<open>/check_now\<close> runs the older
    scanner with the older login) and \<open>notifyAny\<close> of
    src/unnamed/part_000. Lemmas: a request without the token changes nothing,
    \<open>/check_now\<close> answers 200 whenever the court list loads, \<open>/notify\<close> posts to
    Telegram when it is configured, and findings on the Telegram status and the missing
    \<open>EMAIL_FROM\<close> fallback.
  \<^item> \<open>Draft_Server\<close>: the first drafts: the first document of src/src/index.ts
    (\<open>check_now_v0\<close>, \<open>notify_route_v0\<close> with its required \<open>notify\<close> member
    \<open>parse_notify_v0\<close>, dispatched by \<open>draft_handle\<close>; handlers without \<open>try\<close>, whose
    rejections are results of type \<open>draft_error\<close>), its \<open>sendEmail\<close> of
    src/unnamed/part_000 (the code of \<open>sendEmail_any\<close>) and the stub
    \<open>checkAvailability\<close> of the first document of src/unnamed/part_003
    (\<open>stubbed_checkAvailability\<close>). Lemmas: the bearer guard, the stub's result, and
    findings on a silent \<open>{ ok: true }\<close> and on rejections without a response.
  \<^item> \<open>Region_Check\<close>: \<open>checkRegion\<close> of src/unnamed/part_006 (a vendored SDK
    fragment nothing calls) with its module-level cache as explicit state, the check as
    an argument, and the reachable cache states as the inductive \<open>cache_reach\<close>.
    Lemmas: accepted regions stay accepted whatever the check, the cache is finite and
    holds only regions some check passed (rule induction, C40), and a finding that the cache
    is not keyed by the check.
  \<^item> \<open>Server_Trace\<close>: the current server over a sequence of requests: the
    reachable states \<open>server_reach\<close> (an inductive predicate over the routes served) and
    the invariant \<open>server_inv\<close>, proved by rule induction from one lemma per route
    (\<open>step_ok\<close>): no browser is left open between requests, at most one delivery per
    \<open>/notify\<close>, at most one \<open>Place My Order\<close> per \<open>/book\<close>, at most 35 page loads
    per \<open>/check_now\<close> and 14 per \<open>/book\<close> (C19). It composes
    \<open>checkAvailability\<close> (which never clicks a booking button), \<open>bookSlot\<close> and
    \<open>notify\<close> through \<open>handle\<close>.
  \<^item> This theory: properties across components. A slot of the older scanner, with
    preferences the \<open>/check_now\<close> schema accepts, has a \<open>time_24h\<close> that the
    \<open>/book\<close> schema accepts (C37).

  \<^bold>\<open>Bounds and termination.\<close> Every loop of the modelled code runs over a finite
  list the portal provides (spans, court cards cut at ten, CWL candidates, attendee
  rows) or the request carries (array elements), so every definition is structural
  recursion or a fold and every operation is total; no fuel is needed. The older and
  earliest court loops run \<open>min n 10\<close> times, as their code does. The retry of
  step 2 is a single retry, as in the code.

  \<^bold>\<open>Not modelled.\<close> The third document of src/unnamed/part_003 (a copy of the
  second without \<open>bookSlot\<close>, whose functions are modelled once, from the second), the copies of code modelled from
  another document (the login of part_002 and of the first document of part_003, the
  schemas and \<open>GET\<close> routes of the older servers), \<open>debugListClickable\<close> of
  src/src/ubc.ts (it only logs), the Express listener, and the Docker files and
  WARP.md (build and documentation). The libraries are modelled
  only at the interface the code uses: Playwright by the portal record, zod by its
  acceptance and issue paths (not its message texts), the WHATWG URL parser by the
  acceptance of a URL (scheme, host and port syntax), fetch and nodemailer by their
  answers. Within the modelled functions, the browser's launch (\<open>chromium.launch\<close>,
  \<open>newContext\<close>, \<open>newPage\<close>, outside the \<open>try\<close> of both operations) and
  \<open>browser.close()\<close> cannot fail (\<open>launch\<close>, \<open>close_browser\<close>); a click on a
  located element cannot time out; a missing password field during the re-login of step 2
  and an invalid UTF-8 sequence in \<open>returnUrl\<close> are not modelled; a request body
  \<open>express.json()\<close> rejects (answered 400 before the bearer check) cannot be
  represented, the handlers take parsed bodies; \<open>localeCompare\<close> is the character
  order (they agree on ISO dates and zero-padded times). Console logging and fixed waits
  (\<open>waitForTimeout\<close>) have no effect on the state and are omitted; the
  attendee-count widget of step 2 and the overlay removal are folded into the outcome
  of the \<open>Reserve\<close> click.
\<close>

section \<open>Properties across components\<close>

lemma hhmm_format_intro:
  "length hs = 2 \<Longrightarrow> all_digits hs \<Longrightarrow> length mm = 2 \<Longrightarrow> all_digits mm \<Longrightarrow>
   hhmm_format (hs @ CHR '':'' # mm)"
  by (auto simp: hhmm_format_def all_digits_def length_Suc_conv numeral_2_eq_2)

text \<open>C37: A slot of the older scanner can be booked as it is: with preferences that
  \<open>/check_now\<close>'s schema accepts, the \<open>time_24h\<close> of every slot a table row yields
  matches the \<open>/^\d{2}:\d{2}$/\<close> pattern of \<open>/book\<close>'s schema.\<close>

theorem legacy_slot_time_bookable:
  assumes "prefs_ok prefs" "row_slot prefs d c u r = Some s"
  shows "hhmm_format (time_24h s)"
proof -
  obtain h mm where s: "time_24h s = pad2 (show_nat h) @ CHR '':'' # mm" "all_digits mm" "length mm = 2"
      and h: "real h < end_of prefs"
    using row_slot_Some [OF assms(2)] by blast
  have "end_of prefs \<le> 24"
    using assms(1) by (auto simp: prefs_ok_def in_range_def end_of_def split: option.splits)
  with h have "h < 100" by linarith
  then show ?thesis
    using s by (simp add: hhmm_format_intro length_pad2_show_nat all_digits_pad2 all_digits_show_nat)
qed

theorem legacy_slot_time_bookable_witness:
  "prefs_ok no_preferences \<and>
   row_slot no_preferences ''2025-01-01'' ''Indoor Court 1'' ''https://ubc.perfectmind.com/Fac/1''
     \<lparr>lr_first_cell = Some ''7:00 PM'', lr_book_now = 1\<rparr> =
     Some \<lparr>date_iso = ''2025-01-01'', time_24h = ''19:00'', minutes = 60, location = ''Indoor Court 1'',
           deep_link = Some ''https://ubc.perfectmind.com/Fac/1''\<rparr> \<and>
   hhmm_format ''19:00''"
proof -
  have p: "prefs_ok no_preferences" by (simp add: prefs_ok_def no_preferences_def in_range_def)
  have r: "row_slot no_preferences ''2025-01-01'' ''Indoor Court 1'' ''https://ubc.perfectmind.com/Fac/1''
     \<lparr>lr_first_cell = Some ''7:00 PM'', lr_book_now = 1\<rparr> =
     Some \<lparr>date_iso = ''2025-01-01'', time_24h = ''19:00'', minutes = 60, location = ''Indoor Court 1'',
           deep_link = Some ''https://ubc.perfectmind.com/Fac/1''\<rparr>" by code_simp
  show ?thesis using legacy_slot_time_bookable [OF p r] p r by simp
qed

end
